(* ===== verification/Keep_Alive.thy ===== *)
theory Keep_Alive
  imports Main
begin

text \<open>
  The keep-alive goroutine of a connection and the call that stops it (\<open>odbc/odbc.go\<close>,
  \<open>StartKeepAlive\<close> and \<open>StopKeepAlive\<close>), as two threads over the lock \<open>c.mu\<close>, the cancellation of
  \<open>keepAliveCtx\<close> and the channel \<open>keepAliveDone\<close>. A step of the relation is one blocking operation
  or one section between two of them; \<open>select\<close> may take the ticker whenever it has fired, also when
  the context is done, and a writer that waits keeps new readers out, as \<open>sync.RWMutex\<close> does.
\<close>

text \<open>The goroutine: at the \<open>select\<close>, at \<open>c.mu.RLock()\<close>, between \<open>RLock\<close> and \<open>RUnlock\<close>, returned
  (which closes \<open>keepAliveDone\<close>).\<close>

datatype loop_pc = AtSelect | AtRLock | Pinging | Returned

text \<open>The caller of \<open>StopKeepAlive\<close>: not called, at \<open>c.mu.Lock()\<close>, holding the lock, waiting on
  \<open>keepAliveDone\<close> with the lock held, returned with the lock released.\<close>

datatype stop_pc = NotCalled | AtLock | Holding | WaitingDone | Stopped

record keepalive =
  loop :: loop_pc
  stop :: stop_pc
  cancelled :: bool

definition ka_init :: keepalive where
  "ka_init = \<lparr>loop = AtSelect, stop = NotCalled, cancelled = False\<rparr>"

definition read_locked :: "keepalive \<Rightarrow> bool" where
  "read_locked s \<longleftrightarrow> loop s = Pinging"

definition write_locked :: "keepalive \<Rightarrow> bool" where
  "write_locked s \<longleftrightarrow> stop s = Holding \<or> stop s = WaitingDone"

inductive ka_step :: "keepalive \<Rightarrow> keepalive \<Rightarrow> bool" where
  Tick: "loop s = AtSelect \<Longrightarrow> ka_step s (s\<lparr>loop := AtRLock\<rparr>)"
| CtxDone: "loop s = AtSelect \<Longrightarrow> cancelled s \<Longrightarrow> ka_step s (s\<lparr>loop := Returned\<rparr>)"
| RLock: "loop s = AtRLock \<Longrightarrow> stop s = NotCalled \<or> stop s = Stopped \<Longrightarrow> ka_step s (s\<lparr>loop := Pinging\<rparr>)"
| PingOk: "loop s = Pinging \<Longrightarrow> ka_step s (s\<lparr>loop := AtSelect\<rparr>)"
| PingFails: "loop s = Pinging \<Longrightarrow> ka_step s (s\<lparr>loop := Returned\<rparr>)"
| CallStop: "stop s = NotCalled \<Longrightarrow> ka_step s (s\<lparr>stop := AtLock\<rparr>)"
| Lock: "stop s = AtLock \<Longrightarrow> \<not> read_locked s \<Longrightarrow> ka_step s (s\<lparr>stop := Holding\<rparr>)"
| Cancel: "stop s = Holding \<Longrightarrow> ka_step s (s\<lparr>stop := WaitingDone, cancelled := True\<rparr>)"
| Done: "stop s = WaitingDone \<Longrightarrow> loop s = Returned \<Longrightarrow> ka_step s (s\<lparr>stop := Stopped\<rparr>)"

inductive_cases ka_stepE: "ka_step s t"

definition reachable :: "keepalive \<Rightarrow> bool" where
  "reachable s \<longleftrightarrow> ka_step\<^sup>*\<^sup>* ka_init s"

lemma reachable_init: "reachable ka_init"
  by (simp add: reachable_def)

lemma reachable_step: "reachable s \<Longrightarrow> ka_step s t \<Longrightarrow> reachable t"
  by (simp add: reachable_def)

definition ka_inv :: "keepalive \<Rightarrow> bool" where
  "ka_inv s \<longleftrightarrow> \<not> (read_locked s \<and> write_locked s)
     \<and> (cancelled s \<longleftrightarrow> stop s = WaitingDone \<or> stop s = Stopped)
     \<and> (stop s = Stopped \<longrightarrow> loop s = Returned)"

lemma ka_inv_init: "ka_inv ka_init"
  by (simp add: ka_inv_def ka_init_def read_locked_def write_locked_def)

lemma ka_inv_step: "ka_step s t \<Longrightarrow> ka_inv s \<Longrightarrow> ka_inv t"
  by (erule ka_stepE) (auto simp: ka_inv_def read_locked_def write_locked_def)

lemma ka_inv_reachable: "reachable s \<Longrightarrow> ka_inv s"
  unfolding reachable_def
proof (induction rule: rtranclp_induct)
  case base
  show ?case by (rule ka_inv_init)
next
  case (step s t)
  then show ?case using ka_inv_step by blast
qed



text \<open>The deadlock: the ticker has fired and the goroutine waits for the read lock, which the
  stopping call holds while it waits for the goroutine.\<close>

definition deadlocked :: "keepalive \<Rightarrow> bool" where
  "deadlocked s \<longleftrightarrow> loop s = AtRLock \<and> stop s = WaitingDone"

lemma deadlocked_stuck: "deadlocked s \<Longrightarrow> \<not> ka_step s t"
  by (auto simp: deadlocked_def elim!: ka_stepE)

lemma deadlock_reachable:
  "reachable \<lparr>loop = AtRLock, stop = WaitingDone, cancelled = True\<rparr>"
proof -
  let ?s = "\<lambda>l t c. \<lparr>loop = l, stop = t, cancelled = c\<rparr>"
  have "ka_step (?s AtSelect NotCalled False) (?s AtRLock NotCalled False)"
    using ka_step.Tick [of "?s AtSelect NotCalled False"] by simp
  moreover have "ka_step (?s AtRLock NotCalled False) (?s AtRLock AtLock False)"
    using ka_step.CallStop [of "?s AtRLock NotCalled False"] by simp
  moreover have "ka_step (?s AtRLock AtLock False) (?s AtRLock Holding False)"
    using ka_step.Lock [of "?s AtRLock AtLock False"] by (simp add: read_locked_def)
  moreover have "ka_step (?s AtRLock Holding False) (?s AtRLock WaitingDone True)"
    using ka_step.Cancel [of "?s AtRLock Holding False"] by simp
  ultimately show ?thesis
    unfolding reachable_def ka_init_def by (meson rtranclp.rtrancl_refl rtranclp.rtrancl_into_rtrancl)
qed

text \<open>A state that is neither stuck in the deadlock nor finished always has a step.\<close>

lemma progress:
  assumes "ka_inv s" and "\<not> deadlocked s" and "stop s \<noteq> Stopped"
  shows "\<exists>t. ka_step s t"
proof (cases "stop s")
  case NotCalled
  then show ?thesis using ka_step.CallStop by blast
next
  case AtLock
  then show ?thesis using ka_step.Lock [of s] ka_step.PingOk [of s] by (auto simp: read_locked_def)
next
  case Holding
  then show ?thesis using ka_step.Cancel by blast
next
  case WaitingDone
  with assms show ?thesis using ka_step.Tick [of s] ka_step.Done [of s]
    by (cases "loop s") (auto simp: ka_inv_def deadlocked_def read_locked_def write_locked_def)
next
  case Stopped
  with assms(3) show ?thesis by simp
qed

text \<open>C34. \<open>StopKeepAlive\<close> can deadlock, and in one way only: a state is reachable in which it waits
  for the goroutine while the goroutine waits for the lock it holds, and every reachable state
  that has no step is of that kind or has finished stopping.\<close>
theorem keepalive_deadlock:
  "(\<exists>s. reachable s \<and> deadlocked s \<and> (\<forall>t. \<not> ka_step s t)) \<and>
   (\<forall>s. reachable s \<longrightarrow> (\<forall>t. \<not> ka_step s t) \<longrightarrow> deadlocked s \<or> stop s = Stopped)"
proof
  have "deadlocked \<lparr>loop = AtRLock, stop = WaitingDone, cancelled = True\<rparr>"
    by (simp add: deadlocked_def)
  with deadlock_reachable deadlocked_stuck show "\<exists>s. reachable s \<and> deadlocked s \<and> (\<forall>t. \<not> ka_step s t)"
    by blast
  show "\<forall>s. reachable s \<longrightarrow> (\<forall>t. \<not> ka_step s t) \<longrightarrow> deadlocked s \<or> stop s = Stopped"
    using progress ka_inv_reachable by blast
qed

theorem keepalive_deadlock_witness: "\<exists>t. ka_step ka_init t"
proof -
  have "\<not> deadlocked ka_init" "stop ka_init \<noteq> Stopped" by (simp_all add: deadlocked_def ka_init_def)
  then show ?thesis using keepalive_deadlock reachable_init by blast
qed

end
