(* ===== verification/Prelude.thy ===== *)
theory Prelude
  imports Main "HOL-Library.Sublist" "HOL-Library.While_Combinator"
begin

text \<open>
  What every component shares: the string functions of Go's \<open>strings\<close> package that do not
  depend on UTF-8 (\<open>Contains\<close>, \<open>Index\<close>, \<open>ReplaceAll\<close>, \<open>Join\<close>, \<open>Split\<close>, the
  prefix and suffix tests), decimal rendering (\<open>fmt\<close>'s \<open>%d\<close>), 64-bit wrap-around of Go's
  \<open>int\<close> and \<open>int64\<close>, and the collections of rewrite rules the component proofs use.

  A Go \<open>string\<close> is a sequence of bytes, and so is an Isabelle \<open>string\<close> (a \<open>char\<close> is one
  byte): \<open>len\<close> is \<open>length\<close>, an index expression is \<open>!\<close>, and comparison is equality.
\<close>

named_theorems string_defs \<open>definitions of the string functions, for evaluation\<close>
named_theorems go_eval \<open>rules that evaluate the model on literals\<close>
named_theorems contains_rules \<open>when a string does not contain another\<close>

subsection \<open>Substrings\<close>

definition Contains :: "string \<Rightarrow> string \<Rightarrow> bool" where
  "Contains s sub = sublist sub s"

definition HasPrefix :: "string \<Rightarrow> string \<Rightarrow> bool" where
  "HasPrefix s p = prefix p s"

definition HasSuffix :: "string \<Rightarrow> string \<Rightarrow> bool" where
  "HasSuffix s p = suffix p s"

definition TrimPrefix :: "string \<Rightarrow> string \<Rightarrow> string" where
  "TrimPrefix s p = (if prefix p s then drop (length p) s else s)"

definition TrimSuffix :: "string \<Rightarrow> string \<Rightarrow> string" where
  "TrimSuffix s p = (if suffix p s then take (length s - length p) s else s)"

text \<open>\<open>strings.Index\<close>: the first position, \<open>None\<close> for Go's \<open>-1\<close>.\<close>

fun Index :: "string \<Rightarrow> string \<Rightarrow> nat option" where
  "Index [] p = (if p = [] then Some 0 else None)"
| "Index (c # cs) p = (if prefix p (c # cs) then Some 0 else map_option Suc (Index cs p))"

lemma Contains_eval [go_eval]:
  "Contains s [] = True" "Contains [] (c # cs) = False"
  "Contains (d # s) (c # cs) \<longleftrightarrow> prefix (c # cs) (d # s) \<or> Contains s (c # cs)"
  by (simp_all add: Contains_def sublist_code)

declare Contains_def [string_defs] HasPrefix_def [string_defs] HasSuffix_def [string_defs]
  TrimPrefix_def [string_defs] TrimSuffix_def [string_defs]

lemma Contains_iff: "Contains s p \<longleftrightarrow> (\<exists>a b. s = a @ p @ b)"
  by (simp add: Contains_def sublist_def)

lemma Contains_set: "Contains s p \<Longrightarrow> set p \<subseteq> set s"
  by (simp add: Contains_def set_mono_sublist)

lemma not_Contains_char [contains_rules]: "c \<in> set p \<Longrightarrow> c \<notin> set s \<Longrightarrow> \<not> Contains s p"
  using Contains_set by blast

lemma Contains_single: "Contains s [c] \<longleftrightarrow> c \<in> set s"
  by (auto simp: Contains_iff in_set_conv_decomp)

lemma Contains_trans: "Contains s p \<Longrightarrow> Contains p q \<Longrightarrow> Contains s q"
  by (simp add: Contains_def sublist_order.order.trans)

lemma Index_Some: "Index s p = Some i \<Longrightarrow> i + length p \<le> length s \<and> take (length p) (drop i s) = p"
proof (induction s arbitrary: i)
  case Nil
  then show ?case by (simp split: if_splits)
next
  case (Cons c cs)
  show ?case
  proof (cases "prefix p (c # cs)")
    case True
    with Cons.prems show ?thesis using prefix_length_le [OF True] by (auto simp: prefix_def)
  next
    case False
    with Cons.prems obtain j where "Index cs p = Some j" "i = Suc j" by auto
    with Cons.IH show ?thesis by auto
  qed
qed

lemma Index_None: "Index s p = None \<longleftrightarrow> \<not> Contains s p"
proof (induction s)
  case Nil
  then show ?case by (simp add: Contains_def)
next
  case (Cons c cs)
  then show ?case by (simp add: Contains_def sublist_Cons_right)
qed

lemma Index_least: "Index s p = Some i \<Longrightarrow> j < i \<Longrightarrow> \<not> prefix p (drop j s)"
proof (induction s arbitrary: i j)
  case Nil
  then show ?case by (simp split: if_splits)
next
  case (Cons c cs)
  from Cons.prems have np: "\<not> prefix p (c # cs)" by (auto split: if_splits)
  with Cons.prems obtain i' where i': "Index cs p = Some i'" "i = Suc i'" by auto
  show ?case
  proof (cases j)
    case 0
    with np show ?thesis by simp
  next
    case (Suc j')
    with Cons.IH [OF i'(1), of j'] Cons.prems(2) i'(2) show ?thesis by simp
  qed
qed

subsection \<open>Replacing\<close>

text \<open>\<open>strings.ReplaceAll\<close> for a nonempty \<open>old\<close>, the only case the program uses.\<close>

function ReplaceAll :: "string \<Rightarrow> string \<Rightarrow> string \<Rightarrow> string" where
  "ReplaceAll s old new =
     (if s = [] then []
      else if old \<noteq> [] \<and> prefix old s then new @ ReplaceAll (drop (length old) s) old new
      else hd s # ReplaceAll (tl s) old new)"
  by pat_completeness auto
termination
  by (relation "measure (\<lambda>(s, old, new). length s)") auto

declare ReplaceAll.simps [simp del]

lemma ReplaceAll_Nil [simp]: "ReplaceAll [] old new = []"
  by (simp add: ReplaceAll.simps)

lemma ReplaceAll_Cons:
  "ReplaceAll (c # cs) old new =
     (if old \<noteq> [] \<and> prefix old (c # cs) then new @ ReplaceAll (drop (length old) (c # cs)) old new
      else c # ReplaceAll cs old new)"
  by (subst ReplaceAll.simps) simp

lemma set_ReplaceAll: "set (ReplaceAll s old new) \<subseteq> set s \<union> set new"
proof (induction s old new rule: ReplaceAll.induct)
  case (1 s old new)
  show ?case
  proof (cases s)
    case Nil
    then show ?thesis by simp
  next
    case (Cons c cs)
    show ?thesis
    proof (cases "old \<noteq> [] \<and> prefix old s")
      case True
      with "1.IH"(1) Cons have "set (ReplaceAll (drop (length old) s) old new) \<subseteq> set s \<union> set new"
        using set_drop_subset [of "length old" s] by blast
      with True Cons show ?thesis by (auto simp: ReplaceAll_Cons)
    next
      case False
      with "1.IH"(2) Cons show ?thesis by (auto simp: ReplaceAll_Cons)
    qed
  qed
qed

lemma ReplaceAll_not_in: "c \<notin> set s \<Longrightarrow> c \<notin> set new \<Longrightarrow> c \<notin> set (ReplaceAll s old new)"
  using set_ReplaceAll by blast

lemma ReplaceAll_id: "\<not> Contains s old \<Longrightarrow> ReplaceAll s old new = s"
proof (induction s)
  case Nil
  then show ?case by simp
next
  case (Cons c cs)
  then show ?case by (auto simp: ReplaceAll_Cons Contains_def sublist_Cons_right)
qed

subsection \<open>Joining and splitting\<close>

fun Join :: "string list \<Rightarrow> string \<Rightarrow> string" where
  "Join [] sep = []"
| "Join [x] sep = x"
| "Join (x # y # ys) sep = x @ sep @ Join (y # ys) sep"

lemma Join_Cons: "xs \<noteq> [] \<Longrightarrow> Join (x # xs) sep = x @ sep @ Join xs sep"
  by (cases xs) simp_all

lemma set_Join: "set (Join xs sep) \<subseteq> (\<Union>x\<in>set xs. set x) \<union> set sep"
  by (induction xs sep rule: Join.induct) auto

text \<open>\<open>strings.Split\<close> for a one-byte separator: the result is never empty.\<close>

fun Split :: "string \<Rightarrow> char \<Rightarrow> string list" where
  "Split [] sep = [[]]"
| "Split (c # cs) sep =
     (if c = sep then [] # Split cs sep
      else case Split cs sep of [] \<Rightarrow> [[c]] | x # xs \<Rightarrow> (c # x) # xs)"

lemma Split_nonempty [simp]: "Split s sep \<noteq> []"
  by (induction s) (auto split: list.splits)

lemma Split_no_sep: "sep \<notin> set s \<Longrightarrow> Split s sep = [s]"
  by (induction s) auto

lemma set_Split: "x \<in> set (Split s sep) \<Longrightarrow> set x \<subseteq> set s"
proof (induction s arbitrary: x)
  case Nil
  then show ?case by simp
next
  case (Cons c cs)
  show ?case
  proof (cases "Split cs sep")
    case Nil
    then show ?thesis by simp
  next
    case (Cons y ys)
    with Cons.prems Cons.IH [of x] Cons.IH [of y] show ?thesis
      by (auto split: if_splits)
  qed
qed

lemma Join_Split: "Join (Split s sep) [sep] = s"
proof (induction s)
  case Nil
  then show ?case by simp
next
  case (Cons c cs)
  obtain y ys where y: "Split cs sep = y # ys"
    by (cases "Split cs sep") auto
  then show ?case using Cons by (cases ys) auto
qed

subsection \<open>Loops that return the first error\<close>

text \<open>\<open>for _, x := range xs { if err := f(x); err != nil { return err } }\<close>\<close>

fun first_err :: "('a \<Rightarrow> 'e option) \<Rightarrow> 'a list \<Rightarrow> 'e option" where
  "first_err f [] = None"
| "first_err f (x # xs) = (case f x of None \<Rightarrow> first_err f xs | Some e \<Rightarrow> Some e)"

declare first_err.simps(2) [simp del]

lemma first_err_None: "first_err f xs = None \<longleftrightarrow> (\<forall>x\<in>set xs. f x = None)"
  by (induction xs) (auto simp: first_err.simps(2) split: option.splits)

lemma first_err_Some: "first_err f xs = Some e \<Longrightarrow> \<exists>x\<in>set xs. f x = Some e"
  by (induction xs) (auto simp: first_err.simps(2) split: option.splits)

lemma first_err_perm_None:
  "set xs = set ys \<Longrightarrow> first_err f xs = None \<longleftrightarrow> first_err f ys = None"
  by (simp add: first_err_None)

text \<open>A sequence of checks, each returning its error; the first error is the result.
  \<open>err_if\<close> is \<open>if cond { return err }\<close>.\<close>

fun checks :: "'e option list \<Rightarrow> 'e option" where
  "checks [] = None"
| "checks (x # xs) = (case x of None \<Rightarrow> checks xs | Some e \<Rightarrow> Some e)"

definition err_if :: "bool \<Rightarrow> 'e \<Rightarrow> 'e option" where
  "err_if b e = (if b then Some e else None)"

lemma checks_Cons_None [simp]: "checks (x # xs) = None \<longleftrightarrow> x = None \<and> checks xs = None"
  by (cases x) simp_all

lemma checks_None_Cons [simp]: "checks (None # xs) = checks xs"
  by simp

declare checks.simps(2) [simp del]

lemma checks_Some_Cons [simp]: "checks (Some e # xs) = Some e"
  by (simp add: checks.simps(2))

lemma err_if_None [simp]: "err_if b e = None \<longleftrightarrow> \<not> b"
  by (simp add: err_if_def)

lemma err_if_simps [simp]: "err_if True e = Some e" "err_if False e = None"
  by (simp_all add: err_if_def)

lemma first_err_err_if:
  "first_err (\<lambda>x. err_if (P x) (e x)) xs = None \<longleftrightarrow> (\<forall>x\<in>set xs. \<not> P x)"
  by (simp add: first_err_None)

subsection \<open>Decimal rendering\<close>

fun nat_digits :: "nat \<Rightarrow> string" where
  "nat_digits n = (if n < 10 then [char_of (48 + n)]
     else nat_digits (n div 10) @ [char_of (48 + n mod 10)])"

declare nat_digits.simps [simp del]

definition itoa :: "int \<Rightarrow> string" where
  "itoa i = (if i < 0 then CHR ''-'' # nat_digits (nat (- i)) else nat_digits (nat i))"

lemma nat_digits_nonempty: "nat_digits n \<noteq> []"
  by (subst nat_digits.simps) simp

definition is_digit :: "char \<Rightarrow> bool" where
  "is_digit c = (48 \<le> (of_char c :: nat) \<and> (of_char c :: nat) \<le> 57)"

lemma is_digit_char_of: "n < 10 \<Longrightarrow> is_digit (char_of (48 + n :: nat))"
  by (simp add: is_digit_def)

lemma nat_digits_digit: "c \<in> set (nat_digits n) \<Longrightarrow> is_digit c"
proof (induction n rule: nat_digits.induct)
  case (1 n)
  show ?case
  proof (cases "n < 10")
    case True
    with "1.prems" show ?thesis
      by (subst (asm) nat_digits.simps) (simp add: is_digit_char_of)
  next
    case False
    with "1.prems" have "c \<in> set (nat_digits (n div 10)) \<or> c = char_of (48 + n mod 10)"
      by (subst (asm) nat_digits.simps) auto
    with "1.IH" False show ?thesis by (auto simp: is_digit_char_of)
  qed
qed

subsection \<open>64-bit integers\<close>

text \<open>Go's \<open>int\<close>, \<open>int64\<close> and \<open>time.Duration\<close> are 64 bits wide and wrap around.\<close>

definition i64 :: "int \<Rightarrow> int" where
  "i64 x = (x + 2 ^ 63) mod 2 ^ 64 - 2 ^ 63"

definition in_i64 :: "int \<Rightarrow> bool" where
  "in_i64 x \<longleftrightarrow> - (2 ^ 63) \<le> x \<and> x < 2 ^ 63"

lemma i64_id: "in_i64 x \<Longrightarrow> i64 x = x"
  by (simp add: i64_def in_i64_def)

lemma in_i64_i64: "in_i64 (i64 x)"
proof -
  have "0 \<le> (x + 2 ^ 63) mod 2 ^ 64" and "(x + 2 ^ 63) mod 2 ^ 64 < (2 :: int) ^ 64"
    by simp_all
  then show ?thesis by (simp add: i64_def in_i64_def)
qed

end
