(* ===== verification/Go_Strings.thy ===== *)
theory Go_Strings
  imports Prelude
begin

text \<open>
  The part of Go's string library that works on runes: UTF-8 decoding as \<open>for _, r := range s\<close>
  and \<open>[]rune(s)\<close> do it, UTF-8 encoding, \<open>strings.ToUpper\<close>, \<open>strings.ToLower\<close>,
  \<open>strings.TrimSpace\<close> and \<open>strings.ContainsRune\<close>. ASCII is modelled outright; the tables
  that the package \<open>unicode\<close> holds for the runes from 128 on are a parameter of type
  \<open>unicode\<close>, and no theorem of the development assumes anything of them.
\<close>

subsection \<open>UTF-8\<close>

abbreviation byte :: "char \<Rightarrow> nat" where
  "byte c \<equiv> of_char c"

definition RuneError :: nat where
  "RuneError = 65533"

definition in_range :: "nat \<Rightarrow> nat \<Rightarrow> char \<Rightarrow> bool" where
  "in_range lo hi c \<longleftrightarrow> lo \<le> byte c \<and> byte c \<le> hi"

text \<open>\<open>utf8.DecodeRuneInString\<close>: the rune and its width; an invalid byte is \<open>RuneError\<close>
  of width 1.\<close>

definition decode2 :: "nat \<Rightarrow> string \<Rightarrow> nat \<times> nat" where
  "decode2 b cs =
     (case cs of c1 # _ \<Rightarrow>
        if in_range 128 191 c1 then ((b - 192) * 64 + (byte c1 - 128), 2) else (RuneError, 1)
      | [] \<Rightarrow> (RuneError, 1))"

definition decode3 :: "nat \<Rightarrow> string \<Rightarrow> nat \<times> nat" where
  "decode3 b cs =
     (case cs of c1 # c2 # _ \<Rightarrow>
        if in_range (if b = 224 then 160 else 128) (if b = 237 then 159 else 191) c1
           \<and> in_range 128 191 c2
        then ((b - 224) * 4096 + (byte c1 - 128) * 64 + (byte c2 - 128), 3) else (RuneError, 1)
      | _ \<Rightarrow> (RuneError, 1))"

definition decode4 :: "nat \<Rightarrow> string \<Rightarrow> nat \<times> nat" where
  "decode4 b cs =
     (case cs of c1 # c2 # c3 # _ \<Rightarrow>
        if in_range (if b = 240 then 144 else 128) (if b = 244 then 143 else 191) c1
           \<and> in_range 128 191 c2 \<and> in_range 128 191 c3
        then ((b - 240) * 262144 + (byte c1 - 128) * 4096 + (byte c2 - 128) * 64
                + (byte c3 - 128), 4)
        else (RuneError, 1)
      | _ \<Rightarrow> (RuneError, 1))"

fun decode_rune :: "string \<Rightarrow> nat \<times> nat" where
  "decode_rune [] = (RuneError, 0)"
| "decode_rune (c # cs) =
     (let b = byte c in
      if b < 128 then (b, 1)
      else if 194 \<le> b \<and> b \<le> 223 then decode2 b cs
      else if 224 \<le> b \<and> b \<le> 239 then decode3 b cs
      else if 240 \<le> b \<and> b \<le> 244 then decode4 b cs
      else (RuneError, 1))"

lemma decode_rune_width: "1 \<le> snd (decode_rune (c # cs))"
  by (auto simp: decode2_def decode3_def decode4_def Let_def split: list.splits)

lemma decode_rune_ascii: "byte c < 128 \<Longrightarrow> decode_rune (c # cs) = (byte c, 1)"
  by simp

declare decode_rune.simps(2) [simp del]

text \<open>The runes of a string with the bytes each one came from.\<close>

function segs :: "string \<Rightarrow> (nat \<times> string) list" where
  "segs [] = []"
| "segs (c # cs) =
     (let (r, n) = decode_rune (c # cs) in (r, take n (c # cs)) # segs (drop n (c # cs)))"
  by pat_completeness auto
termination
proof (relation "measure length", goal_cases)
  case 1
  then show ?case by simp
next
  case (2 c cs x r n)
  with decode_rune_width [of c cs] have "1 \<le> n" by (metis snd_conv)
  then show ?case by simp
qed

declare segs.simps(2) [simp del]

definition runes :: "string \<Rightarrow> nat list" where
  "runes s = map fst (segs s)"

definition encode_rune :: "nat \<Rightarrow> string" where
  "encode_rune r =
     (if r < 128 then [char_of r]
      else if r < 2048 then [char_of (192 + r div 64), char_of (128 + r mod 64)]
      else if (55296 \<le> r \<and> r \<le> 57343) \<or> 1114111 < r
        then [char_of (239 :: nat), char_of (191 :: nat), char_of (189 :: nat)]
      else if r < 65536
        then [char_of (224 + r div 4096), char_of (128 + r div 64 mod 64), char_of (128 + r mod 64)]
      else [char_of (240 + r div 262144), char_of (128 + r div 4096 mod 64),
            char_of (128 + r div 64 mod 64), char_of (128 + r mod 64)])"

definition ascii :: "string \<Rightarrow> bool" where
  "ascii s = list_all (\<lambda>c. byte c < 128) s"

lemma ascii_simps [simp]:
  "ascii []" "ascii (c # cs) \<longleftrightarrow> byte c < 128 \<and> ascii cs" "ascii (s @ t) \<longleftrightarrow> ascii s \<and> ascii t"
  by (simp_all add: ascii_def)

lemma ascii_set: "ascii s \<longleftrightarrow> (\<forall>c\<in>set s. byte c < 128)"
  by (simp add: ascii_def list_all_iff)

lemma segs_ascii_Cons: "byte c < 128 \<Longrightarrow> segs (c # cs) = (byte c, [c]) # segs cs"
  by (simp add: segs.simps(2) decode_rune_ascii)

lemma segs_ascii: "ascii s \<Longrightarrow> segs s = map (\<lambda>c. (byte c, [c])) s"
  by (induction s) (simp_all add: segs_ascii_Cons)

lemma runes_ascii: "ascii s \<Longrightarrow> runes s = map byte s"
  by (simp add: runes_def segs_ascii o_def)

lemma runes_Nil [simp]: "runes [] = []"
  by (simp add: runes_def)

lemma runes_ascii_Cons: "byte c < 128 \<Longrightarrow> runes (c # cs) = byte c # runes cs"
  by (simp add: runes_def segs_ascii_Cons)

lemma segs_concat: "concat (map snd (segs s)) = s"
proof (induction s rule: segs.induct)
  case 1
  then show ?case by simp
next
  case (2 c cs)
  obtain r n where d: "decode_rune (c # cs) = (r, n)" by (cases "decode_rune (c # cs)")
  with "2" have "concat (map snd (segs (drop n (c # cs)))) = drop n (c # cs)" by simp
  with d show ?case by (simp add: segs.simps(2))
qed

lemma decode2_ge: "194 \<le> b \<Longrightarrow> 128 \<le> fst (decode2 b cs)"
  by (auto simp: decode2_def RuneError_def in_range_def split: list.splits)

lemma decode3_ge: "224 \<le> b \<Longrightarrow> 128 \<le> fst (decode3 b cs)"
proof -
  assume b: "224 \<le> b"
  show ?thesis
  proof (cases "b = 224")
    case True
    then show ?thesis by (auto simp: decode3_def RuneError_def in_range_def split: list.splits)
  next
    case False
    with b have "128 \<le> (b - 224) * 4096" by simp
    then show ?thesis
      by (auto simp: decode3_def RuneError_def split: list.splits intro: trans_le_add1)
  qed
qed

lemma decode4_ge: "240 \<le> b \<Longrightarrow> 128 \<le> fst (decode4 b cs)"
proof -
  assume b: "240 \<le> b"
  show ?thesis
  proof (cases "b = 240")
    case True
    then show ?thesis by (auto simp: decode4_def RuneError_def in_range_def split: list.splits)
  next
    case False
    with b have "128 \<le> (b - 240) * 262144" by simp
    then show ?thesis
      by (auto simp: decode4_def RuneError_def split: list.splits intro: trans_le_add1)
  qed
qed

text \<open>A rune below 128 is always the byte itself: no multi-byte sequence, and no invalid byte,
  decodes to an ASCII rune.\<close>

lemma decode_rune_small: "fst (decode_rune (c # cs)) < 128 \<Longrightarrow> byte c < 128"
  using decode2_ge [of "byte c" cs] decode3_ge [of "byte c" cs] decode4_ge [of "byte c" cs]
  by (simp add: decode_rune.simps Let_def RuneError_def split: if_splits)

lemma runes_small_ascii: "(\<forall>r\<in>set (runes s). r < 128) \<Longrightarrow> ascii s"
proof (induction s rule: segs.induct)
  case 1
  then show ?case by simp
next
  case (2 c cs)
  obtain r n where d: "decode_rune (c # cs) = (r, n)" by (cases "decode_rune (c # cs)")
  from "2.prems" d have r: "r < 128" by (simp add: runes_def segs.simps(2))
  with d decode_rune_small [of c cs] have c: "byte c < 128" by simp
  with d have n: "n = 1" by (simp add: decode_rune_ascii)
  from "2.prems" d n have "\<forall>r\<in>set (runes cs). r < 128" by (simp add: runes_def segs.simps(2))
  with "2.IH" [OF d [symmetric]] n have "ascii cs" by simp
  with c show ?case by simp
qed

subsection \<open>Rune classes and case mapping\<close>

record unicode =
  uc_upper :: "nat \<Rightarrow> nat"
  uc_lower :: "nat \<Rightarrow> nat"
  uc_letter :: "nat \<Rightarrow> bool"
  uc_digit :: "nat \<Rightarrow> bool"

definition ToUpperRune :: "unicode \<Rightarrow> nat \<Rightarrow> nat" where
  "ToUpperRune U r = (if r < 128 then (if 97 \<le> r \<and> r \<le> 122 then r - 32 else r) else uc_upper U r)"

definition ToLowerRune :: "unicode \<Rightarrow> nat \<Rightarrow> nat" where
  "ToLowerRune U r = (if r < 128 then (if 65 \<le> r \<and> r \<le> 90 then r + 32 else r) else uc_lower U r)"

definition IsLetter :: "unicode \<Rightarrow> nat \<Rightarrow> bool" where
  "IsLetter U r = (if r < 128 then (65 \<le> r \<and> r \<le> 90) \<or> (97 \<le> r \<and> r \<le> 122) else uc_letter U r)"

definition IsDigit :: "unicode \<Rightarrow> nat \<Rightarrow> bool" where
  "IsDigit U r = (if r < 128 then 48 \<le> r \<and> r \<le> 57 else uc_digit U r)"

definition IsSpace :: "nat \<Rightarrow> bool" where
  "IsSpace r \<longleftrightarrow> (9 \<le> r \<and> r \<le> 13) \<or> r = 32 \<or> r = 133 \<or> r = 160 \<or> r = 5760
     \<or> (8192 \<le> r \<and> r \<le> 8202) \<or> r = 8232 \<or> r = 8233 \<or> r = 8239 \<or> r = 8287 \<or> r = 12288"

definition ToUpper :: "unicode \<Rightarrow> string \<Rightarrow> string" where
  "ToUpper U s = concat (map (\<lambda>r. encode_rune (ToUpperRune U r)) (runes s))"

definition ToLower :: "unicode \<Rightarrow> string \<Rightarrow> string" where
  "ToLower U s = concat (map (\<lambda>r. encode_rune (ToLowerRune U r)) (runes s))"

definition TrimSpace :: "string \<Rightarrow> string" where
  "TrimSpace s = concat (map snd
     (rev (dropWhile (\<lambda>p. IsSpace (fst p)) (rev (dropWhile (\<lambda>p. IsSpace (fst p)) (segs s))))))"

definition ContainsRune :: "string \<Rightarrow> nat \<Rightarrow> bool" where
  "ContainsRune s r \<longleftrightarrow> r \<in> set (runes s)"

text \<open>On ASCII strings these are maps over the bytes.\<close>

definition upper_char :: "char \<Rightarrow> char" where
  "upper_char c = (if 97 \<le> byte c \<and> byte c \<le> 122 then char_of (byte c - 32) else c)"

definition lower_char :: "char \<Rightarrow> char" where
  "lower_char c = (if 65 \<le> byte c \<and> byte c \<le> 90 then char_of (byte c + 32) else c)"

definition space_char :: "char \<Rightarrow> bool" where
  "space_char c = IsSpace (byte c)"

lemma ToUpper_Nil [simp]: "ToUpper U [] = []"
  by (simp add: ToUpper_def)

lemma ToLower_Nil [simp]: "ToLower U [] = []"
  by (simp add: ToLower_def)

lemma encode_ToUpperRune: "byte c < 128 \<Longrightarrow> encode_rune (ToUpperRune U (byte c)) = [upper_char c]"
  by (auto simp: ToUpperRune_def encode_rune_def upper_char_def)

lemma encode_ToLowerRune: "byte c < 128 \<Longrightarrow> encode_rune (ToLowerRune U (byte c)) = [lower_char c]"
  by (auto simp: ToLowerRune_def encode_rune_def lower_char_def)

lemma ToUpper_Cons: "byte c < 128 \<Longrightarrow> ToUpper U (c # cs) = upper_char c # ToUpper U cs"
  by (simp add: ToUpper_def runes_ascii_Cons encode_ToUpperRune)

lemma ToLower_Cons: "byte c < 128 \<Longrightarrow> ToLower U (c # cs) = lower_char c # ToLower U cs"
  by (simp add: ToLower_def runes_ascii_Cons encode_ToLowerRune)

lemmas [go_eval] = ToUpper_Cons ToLower_Cons upper_char_def lower_char_def char_of_def bit_0

lemma ToUpper_ascii: "ascii s \<Longrightarrow> ToUpper U s = map upper_char s"
  by (induction s) (simp_all add: ToUpper_Cons)

lemma ToLower_ascii: "ascii s \<Longrightarrow> ToLower U s = map lower_char s"
  by (induction s) (simp_all add: ToLower_Cons)

lemma TrimSpace_ascii:
  "ascii s \<Longrightarrow> TrimSpace s = rev (dropWhile space_char (rev (dropWhile space_char s)))"
proof -
  let ?f = "\<lambda>c. (byte c, [c])"
  have drop: "dropWhile (\<lambda>p. IsSpace (fst p)) (map ?f t) = map ?f (dropWhile space_char t)" for t
    by (induction t) (simp_all add: space_char_def)
  have out: "concat (map snd (map ?f t)) = t" for t
    by (induction t) simp_all
  assume "ascii s"
  then show ?thesis
    by (simp only: TrimSpace_def segs_ascii drop rev_map out)
qed

lemmas [go_eval] = TrimSpace_ascii space_char_def IsSpace_def IsLetter_def IsDigit_def
  HasPrefix_def HasSuffix_def TrimPrefix_def TrimSuffix_def runes_ascii_Cons

lemma TrimSpace_sublist: "sublist (TrimSpace s) s"
proof -
  let ?P = "\<lambda>p. IsSpace (fst p)"
  have "suffix (dropWhile ?P (segs s)) (segs s)" by (rule suffix_dropWhile)
  then obtain a where a: "segs s = a @ dropWhile ?P (segs s)" by (auto simp: suffix_def)
  have "suffix (dropWhile ?P (rev (dropWhile ?P (segs s)))) (rev (dropWhile ?P (segs s)))"
    by (rule suffix_dropWhile)
  then obtain b where "dropWhile ?P (segs s) = rev (dropWhile ?P (rev (dropWhile ?P (segs s)))) @ b"
    by (auto simp: suffix_to_prefix prefix_def)
  with a have "segs s = a @ rev (dropWhile ?P (rev (dropWhile ?P (segs s)))) @ b" by simp
  then have "concat (map snd (segs s)) = concat (map snd a) @ TrimSpace s @ concat (map snd b)"
    by (metis TrimSpace_def concat_append map_append)
  then have "s = concat (map snd a) @ TrimSpace s @ concat (map snd b)"
    by (simp add: segs_concat)
  then show ?thesis by (metis sublist_appendI)
qed

lemma set_TrimSpace: "set (TrimSpace s) \<subseteq> set s"
  using TrimSpace_sublist set_mono_sublist by blast

lemma TrimSpace_Nil [simp]: "TrimSpace [] = []"
  by (simp add: TrimSpace_def)

lemma TrimSpace_id:
  assumes "ascii s" "s \<noteq> []" "\<not> space_char (hd s)" "\<not> space_char (last s)"
  shows "TrimSpace s = s"
proof -
  have "dropWhile space_char s = s" using assms by (cases s) simp_all
  moreover have "dropWhile space_char (rev s) = rev s"
    using assms(2,4) by (cases "rev s") (auto simp: last_rev [of "rev s", simplified])
  ultimately show ?thesis using assms(1) by (simp add: TrimSpace_ascii)
qed

text \<open>Every letter of an upper-cased ASCII string is upper case.\<close>

lemma upper_char_not_lower: "upper_char c = d \<Longrightarrow> byte d < 97 \<or> 122 < byte d"
  by (auto simp: upper_char_def)

lemma ToUpper_no_lower:
  assumes "ascii s" and "c \<in> set (ToUpper U s)"
  shows "byte c < 97 \<or> 122 < byte c"
  using assms upper_char_not_lower by (auto simp: ToUpper_ascii)

lemma length_ToUpper_ascii: "ascii s \<Longrightarrow> length (ToUpper U s) = length s"
  by (simp add: ToUpper_ascii)

text \<open>A character that case mapping does not touch stays, in any string.\<close>

lemma ToUpper_keeps:
  assumes "c \<in> set s" and "byte c < 97"
  shows "c \<in> set (ToUpper U s)"
  using assms(1)
proof (induction s rule: segs.induct)
  case 1
  then show ?case by simp
next
  case (2 d ds)
  obtain r n where d: "decode_rune (d # ds) = (r, n)" by (cases "decode_rune (d # ds)")
  have cons: "ToUpper U (d # ds) = encode_rune (ToUpperRune U r) @ ToUpper U (drop n (d # ds))"
    using d by (simp add: ToUpper_def runes_def segs.simps(2))
  show ?case
  proof (cases "c \<in> set (take n (d # ds))")
    case True
    have "byte d < 128 \<or> (\<forall>e\<in>set (take n (d # ds)). 128 \<le> byte e)"
      using d by (auto simp: decode_rune.simps Let_def decode2_def decode3_def decode4_def in_range_def RuneError_def
          split: if_splits list.splits)
    with True assms(2) have "byte d < 128" by auto
    with d have rn: "r = byte d" "n = 1" by (simp_all add: decode_rune_ascii)
    with True assms(2) have "c = d" "r < 97" by simp_all
    with rn have "encode_rune (ToUpperRune U r) = [c]"
      by (simp add: ToUpperRune_def encode_rune_def)
    with cons show ?thesis by simp
  next
    case False
    with "2.prems" have "c \<in> set (drop n (d # ds))"
      by (metis Un_iff append_take_drop_id set_append)
    with "2.IH" [OF d [symmetric]] cons show ?thesis by simp
  qed
qed

lemma ContainsRune_ascii: "ascii s \<Longrightarrow> ContainsRune s r \<longleftrightarrow> r \<in> byte ` set s"
  by (simp add: ContainsRune_def runes_ascii)

lemma byte_image_iff: "byte c \<in> byte ` S \<longleftrightarrow> c \<in> S"
  by (auto simp: inj_image_mem_iff inj_of_char)

text \<open>A loop that accepts every rune of a string, where only ASCII runes are accepted, accepts
  every byte of an ASCII string.\<close>

lemma rune_loop_ascii:
  assumes "\<And>r. f r = None \<Longrightarrow> r < 128"
  shows "first_err f (runes s) = None \<longleftrightarrow> ascii s \<and> (\<forall>c\<in>set s. f (byte c) = None)"
proof
  assume "first_err f (runes s) = None"
  then have all: "\<forall>r\<in>set (runes s). f r = None" by (simp add: first_err_None)
  with assms have "ascii s" by (blast intro: runes_small_ascii)
  with all show "ascii s \<and> (\<forall>c\<in>set s. f (byte c) = None)" by (simp add: runes_ascii)
next
  assume "ascii s \<and> (\<forall>c\<in>set s. f (byte c) = None)"
  then show "first_err f (runes s) = None" by (auto simp: first_err_None runes_ascii)
qed

lemma alphabet_runes:
  assumes "ascii abc"
  shows "(\<forall>r\<in>set (runes s). ContainsRune abc r) \<longleftrightarrow> set s \<subseteq> set abc"
proof -
  let ?f = "\<lambda>r. err_if (\<not> ContainsRune abc r) ()"
  have *: "r < 128" if "?f r = None" for r
    using that assms by (auto simp: ContainsRune_ascii ascii_set)
  have "ascii s" if "set s \<subseteq> set abc" using that assms by (auto simp: ascii_set)
  with assms have "first_err ?f (runes s) = None \<longleftrightarrow> set s \<subseteq> set abc"
    by (subst rune_loop_ascii [OF *]) (auto simp: ContainsRune_ascii byte_image_iff)
  then show ?thesis by (simp add: first_err_None)
qed

lemma ToUpper_no_lower_Contains:
  assumes "ascii s" and "c \<in> set p" and "97 \<le> byte c" and "byte c \<le> 122"
  shows "\<not> Contains (ToUpper U s) p"
  using assms ToUpper_no_lower [OF assms(1), of c U] not_Contains_char by fastforce

subsection \<open>Concrete tables for evaluation\<close>

text \<open>Tables that map every rune from 128 on to itself and class it as neither a letter nor a
  digit: what the witnesses evaluate with, where the strings are ASCII.\<close>

definition plain_tables :: unicode where
  "plain_tables = \<lparr>uc_upper = (\<lambda>r. r), uc_lower = (\<lambda>r. r),
     uc_letter = (\<lambda>_. False), uc_digit = (\<lambda>_. False)\<rparr>"

end
