(* ===== verification/Go_Monad.thy ===== *)
theory Go_Monad
  imports Go_Strings Complex_Main
begin

text \<open>
  The effects of the program. A handler is a function from the world to its result and the world
  it leaves: \<open>Ret v\<close> when it returns \<open>v\<close>, \<open>Panic msg\<close> when the goroutine panics, \<open>Block\<close> when
  it waits on a channel that nothing will ever close. The world holds the clock, the random source, the database behind the ODBC driver, the plugin's storage
  and a log of the SQL statements sent, which the program does not see and the theorems read.

  Errors are values. \<open>go_err\<close> keeps what the program looks at: the identity of the sentinels it
  compares with \<open>==\<close>, the text it searches, the wrapping, and the two interfaces it asserts.
  The clock only moves forward; \<open>w_ticks\<close> says how much time passes before each reading and each
  call of the driver. A context is the moment of its deadline and the moment of its cancellation.
\<close>

named_theorems wp_rules \<open>weakest preconditions of the combinators and the effects\<close>
named_theorems keeps_rules \<open>what the combinators and the effects preserve\<close>
named_theorems returns_rules \<open>what the values of combined actions satisfy\<close>

subsection \<open>Errors\<close>

datatype go_err =
    Sentinel string
  | Errorf string
  | Wrapf string go_err string
  | Transient bool go_err
  | UrlError bool bool string
  | Canceled
  | DeadlineExceeded

fun err_text :: "go_err \<Rightarrow> string" where
  "err_text (Sentinel s) = s"
| "err_text (Errorf s) = s"
| "err_text (Wrapf pre e post) = pre @ err_text e @ post"
| "err_text (Transient t e) = err_text e"
| "err_text (UrlError temp tmo s) = s"
| "err_text Canceled = ''context canceled''"
| "err_text DeadlineExceeded = ''context deadline exceeded''"

subsection \<open>Contexts\<close>

record ctx =
  ctx_deadline :: "int option"
  ctx_cancel :: "int option"

definition Background :: ctx where
  "Background = \<lparr>ctx_deadline = None, ctx_cancel = None\<rparr>"

definition opt_min :: "int option \<Rightarrow> int option \<Rightarrow> int option" where
  "opt_min a b = (case a of None \<Rightarrow> b | Some x \<Rightarrow>
     (case b of None \<Rightarrow> Some x | Some y \<Rightarrow> Some (min x y)))"

text \<open>The moment at which the context is done, and its error at a moment.\<close>

definition ctx_done_at :: "ctx \<Rightarrow> int option" where
  "ctx_done_at c = opt_min (ctx_deadline c) (ctx_cancel c)"

definition ctx_err :: "ctx \<Rightarrow> int \<Rightarrow> go_err option" where
  "ctx_err c t =
     (case ctx_done_at c of None \<Rightarrow> None
      | Some d \<Rightarrow> if t < d then None
                 else Some (if ctx_cancel c = Some d then Canceled else DeadlineExceeded))"

definition WithTimeout :: "ctx \<Rightarrow> int \<Rightarrow> int \<Rightarrow> ctx" where
  "WithTimeout c now d = c\<lparr>ctx_deadline := opt_min (ctx_deadline c) (Some (now + d))\<rparr>"

lemma ctx_err_mono: "ctx_err c t = Some e \<Longrightarrow> t \<le> t' \<Longrightarrow> ctx_err c t' = Some e"
  by (auto simp: ctx_err_def split: option.splits if_splits)

lemma ctx_err_Background [simp]: "ctx_err Background t = None"
  by (simp add: ctx_err_def ctx_done_at_def Background_def opt_min_def)

subsection \<open>The world\<close>

record ('d, 's) world =
  w_now :: int
  w_ticks :: "nat \<Rightarrow> nat"
  w_tickpos :: nat
  w_rand :: "nat \<Rightarrow> nat"
  w_randpos :: nat
  w_db :: 'd
  w_sql :: "(string \<times> string) list"
  w_st :: 's

datatype 'a res = Ret 'a | Panic string | Block

type_synonym ('w, 'a) act = "'w \<Rightarrow> 'a res \<times> 'w"

definition ret :: "'a \<Rightarrow> ('w, 'a) act" where
  "ret a w = (Ret a, w)"

definition panic :: "string \<Rightarrow> ('w, 'a) act" where
  "panic s w = (Panic s, w)"

definition block :: "('w, 'a) act" where
  "block w = (Block, w)"

definition bnd :: "('w, 'a) act \<Rightarrow> ('a \<Rightarrow> ('w, 'b) act) \<Rightarrow> ('w, 'b) act" where
  "bnd m k w = (case m w of (Ret a, w') \<Rightarrow> k a w' | (Panic s, w') \<Rightarrow> (Panic s, w')
     | (Block, w') \<Rightarrow> (Block, w'))"

definition seq :: "('w, 'a) act \<Rightarrow> ('w, 'b) act \<Rightarrow> ('w, 'b) act" where
  "seq m k = bnd m (\<lambda>_. k)"

text \<open>\<open>v, err := m(); if err != nil { return wrap(err) }\<close>\<close>

definition bndE :: "('w, 'e + 'a) act \<Rightarrow> ('e \<Rightarrow> 'f) \<Rightarrow> ('a \<Rightarrow> ('w, 'f + 'b) act) \<Rightarrow> ('w, 'f + 'b) act" where
  "bndE m wrap k = bnd m (\<lambda>r. case r of Inl e \<Rightarrow> ret (Inl (wrap e)) | Inr a \<Rightarrow> k a)"

definition gets :: "('w \<Rightarrow> 'a) \<Rightarrow> ('w, 'a) act" where
  "gets f w = (Ret (f w), w)"

definition modify :: "('w \<Rightarrow> 'w) \<Rightarrow> ('w, unit) act" where
  "modify f w = (Ret (), f w)"

text \<open>\<open>for _, x := range xs { f(x) }\<close>, and the loop with an accumulator.\<close>

fun for_each :: "'a list \<Rightarrow> ('a \<Rightarrow> ('w, unit) act) \<Rightarrow> ('w, unit) act" where
  "for_each [] f = ret ()"
| "for_each (x # xs) f = seq (f x) (for_each xs f)"

fun fold_act :: "('b \<Rightarrow> 'a \<Rightarrow> ('w, 'b) act) \<Rightarrow> 'b \<Rightarrow> 'a list \<Rightarrow> ('w, 'b) act" where
  "fold_act f b [] = ret b"
| "fold_act f b (x # xs) = bnd (f b x) (\<lambda>b'. fold_act f b' xs)"

text \<open>The loop that returns the first error: \<open>for _, x := range xs { if err := f(x); err != nil
  { return err } }\<close>, on actions whose value is the error or none.\<close>

fun for_err :: "'a list \<Rightarrow> ('a \<Rightarrow> ('w, 'e option) act) \<Rightarrow> ('w, 'e option) act" where
  "for_err [] f = ret None"
| "for_err (x # xs) f = bnd (f x) (\<lambda>r. case r of None \<Rightarrow> for_err xs f | Some e \<Rightarrow> ret (Some e))"

text \<open>\<open>defer fin()\<close>: \<open>fin\<close> runs when the function returns and when it panics.\<close>

definition with_defer :: "('w, unit) act \<Rightarrow> ('w, 'a) act \<Rightarrow> ('w, 'a) act" where
  "with_defer fin m w = (case m w of
       (Block, w') \<Rightarrow> (Block, w')
     | (r, w') \<Rightarrow> (case fin w' of (Ret _, w'') \<Rightarrow> (r, w'') | (Panic s, w'') \<Rightarrow> (Panic s, w'')
         | (Block, w'') \<Rightarrow> (Block, w'')))"

subsection \<open>Effects\<close>

definition tick :: "(('d, 's, 'z) world_scheme, unit) act" where
  "tick = modify (\<lambda>w. w\<lparr>w_now := w_now w + int (w_ticks w (w_tickpos w)),
                         w_tickpos := Suc (w_tickpos w)\<rparr>)"

definition time_Now :: "(('d, 's, 'z) world_scheme, int) act" where
  "time_Now = seq tick (gets w_now)"

definition draw :: "(('d, 's, 'z) world_scheme, nat) act" where
  "draw w = (Ret (w_rand w (w_randpos w)), w\<lparr>w_randpos := Suc (w_randpos w)\<rparr>)"

text \<open>\<open>rand.Float64\<close>: a multiple of \<open>2 ^ -53\<close> in \<open>[0, 1)\<close>.\<close>

definition rand_Float64 :: "(('d, 's, 'z) world_scheme, rat) act" where
  "rand_Float64 = bnd draw (\<lambda>n. ret (of_nat (n mod 2 ^ 53) / 2 ^ 53))"

definition ctx_poll :: "ctx \<Rightarrow> (('d, 's, 'z) world_scheme, go_err option) act" where
  "ctx_poll c = seq tick (gets (\<lambda>w. ctx_err c (w_now w)))"

text \<open>\<open>sleepCtx, cancel := context.WithTimeout(ctx, d); <-sleepCtx.Done()\<close>: the clock moves to
  the moment the derived context is done, and the value is its error.\<close>

definition sleep_ctx :: "ctx \<Rightarrow> int \<Rightarrow> (('d, 's, 'z) world_scheme, go_err option) act" where
  "sleep_ctx c d w =
     (let sc = WithTimeout c (w_now w) d;
          t = (case ctx_done_at sc of None \<Rightarrow> w_now w | Some x \<Rightarrow> max (w_now w) x)
      in (Ret (ctx_err sc t), w\<lparr>w_now := t\<rparr>))"

definition time_Sleep :: "int \<Rightarrow> (('d, 's, 'z) world_scheme, unit) act" where
  "time_Sleep d = modify (\<lambda>w. w\<lparr>w_now := max (w_now w) (w_now w + d)\<rparr>)"

subsection \<open>The database driver\<close>

text \<open>The ODBC driver and the database behind it are not part of the repository. \<open>D\<close> gives what
  each call of \<open>database/sql\<close> answers, from the connection string and the statement; \<open>'d\<close> is the
  database's own state. Every call takes time, and every statement executed is logged.\<close>

record DBStats =
  ds_MaxOpen :: int
  ds_Open :: int
  ds_InUse :: int
  ds_Idle :: int
  ds_WaitCount :: int
  ds_WaitDuration :: int
  ds_MaxIdleClosed :: int
  ds_MaxLifetimeClosed :: int

record 'd driver =
  drv_open :: "string \<Rightarrow> 'd \<Rightarrow> go_err option \<times> 'd"
  drv_ping :: "string \<Rightarrow> 'd \<Rightarrow> go_err option \<times> 'd"
  drv_exec :: "string \<Rightarrow> string \<Rightarrow> 'd \<Rightarrow> go_err option \<times> 'd"
  drv_query :: "string \<Rightarrow> string \<Rightarrow> 'd \<Rightarrow> (go_err + string) \<times> 'd"
  drv_close :: "string \<Rightarrow> 'd \<Rightarrow> go_err option \<times> 'd"
  drv_conn :: "string \<Rightarrow> 'd \<Rightarrow> go_err option \<times> 'd"
  drv_stats :: "string \<Rightarrow> 'd \<Rightarrow> DBStats"

definition on_db :: "('d \<Rightarrow> 'a \<times> 'd) \<Rightarrow> (('d, 's, 'z) world_scheme, 'a) act" where
  "on_db f = seq tick (\<lambda>w. case f (w_db w) of (a, d) \<Rightarrow> (Ret a, w\<lparr>w_db := d\<rparr>))"

definition sql_Open :: "'d driver \<Rightarrow> string \<Rightarrow> (('d, 's, 'z) world_scheme, go_err option) act" where
  "sql_Open D cs = on_db (drv_open D cs)"

definition db_Ping :: "'d driver \<Rightarrow> string \<Rightarrow> (('d, 's, 'z) world_scheme, go_err option) act" where
  "db_Ping D cs = on_db (drv_ping D cs)"

definition db_Close :: "'d driver \<Rightarrow> string \<Rightarrow> (('d, 's, 'z) world_scheme, go_err option) act" where
  "db_Close D cs = on_db (drv_close D cs)"

definition db_Exec ::
  "'d driver \<Rightarrow> string \<Rightarrow> string \<Rightarrow> (('d, 's, 'z) world_scheme, go_err option) act" where
  "db_Exec D cs q = seq (modify (\<lambda>w. w\<lparr>w_sql := w_sql w @ [(cs, q)]\<rparr>)) (on_db (drv_exec D cs q))"

definition db_QueryRow ::
  "'d driver \<Rightarrow> string \<Rightarrow> string \<Rightarrow> (('d, 's, 'z) world_scheme, go_err + string) act" where
  "db_QueryRow D cs q = seq (modify (\<lambda>w. w\<lparr>w_sql := w_sql w @ [(cs, q)]\<rparr>)) (on_db (drv_query D cs q))"

text \<open>\<open>conn, err := db.Conn(ctx)\<close> followed by \<open>conn.Close()\<close> when it succeeds, and \<open>db.Stats()\<close>.\<close>

definition db_Conn :: "'d driver \<Rightarrow> string \<Rightarrow> (('d, 's, 'z) world_scheme, go_err option) act" where
  "db_Conn D cs = on_db (drv_conn D cs)"

definition db_Stats :: "'d driver \<Rightarrow> string \<Rightarrow> (('d, 's, 'z) world_scheme, DBStats) act" where
  "db_Stats D cs = gets (\<lambda>w. drv_stats D cs (w_db w))"

text \<open>A local variable that a closure assigns: it lives beside the process state while the body
  runs, and its last value is returned with the body's.\<close>

definition with_var_in :: "'x \<Rightarrow> ('d, 's, 'z) world_scheme \<Rightarrow> ('d, 's, 'z \<times> 'x) world_scheme" where
  "with_var_in x w = world.extend (world.truncate w) (world.more w, x)"

definition with_var_out :: "('d, 's, 'z \<times> 'x) world_scheme \<Rightarrow> ('d, 's, 'z) world_scheme" where
  "with_var_out w = world.extend (world.truncate w) (fst (world.more w))"

definition local_var :: "'x \<Rightarrow> (('d, 's, 'z \<times> 'x) world_scheme, 'a) act
    \<Rightarrow> (('d, 's, 'z) world_scheme, 'a \<times> 'x) act" where
  "local_var x m w = (case m (with_var_in x w) of
       (Ret a, w') \<Rightarrow> (Ret (a, snd (world.more w')), with_var_out w')
     | (Panic s, w') \<Rightarrow> (Panic s, with_var_out w')
     | (Block, w') \<Rightarrow> (Block, with_var_out w'))"

definition set_var :: "'x \<Rightarrow> (('d, 's, 'z \<times> 'x) world_scheme, unit) act" where
  "set_var x = modify (world.more_update (\<lambda>m. (fst m, x)))"

subsection \<open>Weakest preconditions\<close>

text \<open>\<open>wp m Q w\<close>: from \<open>w\<close> the action returns, without a panic, and \<open>Q\<close> holds of its value and
  the world it leaves.\<close>

definition wp :: "('w, 'a) act \<Rightarrow> ('a \<Rightarrow> 'w \<Rightarrow> bool) \<Rightarrow> 'w \<Rightarrow> bool" where
  "wp m Q w = (case m w of (Ret a, w') \<Rightarrow> Q a w' | (_, w') \<Rightarrow> False)"

lemma wp_ret [wp_rules]: "wp (ret a) Q w = Q a w"
  by (simp add: wp_def ret_def)

lemma wp_panic [wp_rules]: "wp (panic s) Q w = False"
  by (simp add: wp_def panic_def)

lemma wp_block [wp_rules]: "wp block Q w = False"
  by (simp add: wp_def block_def)

lemma wp_bnd [wp_rules]: "wp (bnd m k) Q w = wp m (\<lambda>a. wp (k a) Q) w"
  by (simp add: wp_def bnd_def split: prod.splits res.splits)

lemma wp_seq [wp_rules]: "wp (seq m k) Q w = wp m (\<lambda>_. wp k Q) w"
  by (simp add: seq_def wp_bnd)

lemma wp_gets [wp_rules]: "wp (gets f) Q w = Q (f w) w"
  by (simp add: wp_def gets_def)

lemma wp_modify [wp_rules]: "wp (modify f) Q w = Q () (f w)"
  by (simp add: wp_def modify_def)

lemma wp_bndE [wp_rules]:
  "wp (bndE m wrap k) Q w = wp m (\<lambda>r w'. case r of Inl e \<Rightarrow> Q (Inl (wrap e)) w' | Inr a \<Rightarrow> wp (k a) Q w') w"
  unfolding bndE_def wp_bnd by (rule arg_cong [of _ _ "\<lambda>Q. wp m Q w"]) (auto simp: wp_ret fun_eq_iff split: sum.splits)

lemma wp_with_defer: "wp m (\<lambda>a w'. wp fin (\<lambda>_ w''. Q a w'') w') w \<Longrightarrow> wp (with_defer fin m) Q w"
proof -
  assume h: "wp m (\<lambda>a w'. wp fin (\<lambda>_ w''. Q a w'') w') w"
  obtain r w1 where m: "m w = (r, w1)" by (cases "m w")
  obtain q w2 where f: "fin w1 = (q, w2)" by (cases "fin w1")
  from h m f show ?thesis by (cases r; cases q) (simp_all add: wp_def with_defer_def)
qed

lemma wp_case_option [wp_rules]:
  "wp (case x of None \<Rightarrow> m | Some a \<Rightarrow> k a) Q w = (case x of None \<Rightarrow> wp m Q w | Some a \<Rightarrow> wp (k a) Q w)"
  by (cases x) simp_all

lemma wp_case_sum [wp_rules]:
  "wp (case x of Inl a \<Rightarrow> m a | Inr b \<Rightarrow> k b) Q w = (case x of Inl a \<Rightarrow> wp (m a) Q w | Inr b \<Rightarrow> wp (k b) Q w)"
  by (cases x) simp_all

lemma wp_mono: "wp m P w \<Longrightarrow> (\<And>a w'. P a w' \<Longrightarrow> Q a w') \<Longrightarrow> wp m Q w"
  by (auto simp: wp_def split: prod.splits res.splits)

lemma wp_if [wp_rules]: "wp (if b then m else m') Q w = (if b then wp m Q w else wp m' Q w)"
  by simp

lemma wp_run: "wp m Q w \<Longrightarrow> m w = (Ret a, w') \<Longrightarrow> Q a w'"
  by (simp add: wp_def)

lemma wp_returns: "wp m Q w \<longleftrightarrow> (\<exists>a w'. m w = (Ret a, w') \<and> Q a w')"
  by (auto simp: wp_def split: prod.splits res.splits)

subsection \<open>Preserved predicates\<close>

text \<open>\<open>keeps I m\<close>: whenever \<open>I\<close> holds before, it holds after, a panic included.\<close>

definition keeps :: "('w \<Rightarrow> bool) \<Rightarrow> ('w, 'a) act \<Rightarrow> bool" where
  "keeps I m \<longleftrightarrow> (\<forall>w. I w \<longrightarrow> I (snd (m w)))"

lemma keeps_ret [keeps_rules]: "keeps I (ret a)"
  by (simp add: keeps_def ret_def)

lemma keeps_panic [keeps_rules]: "keeps I (panic s)"
  by (simp add: keeps_def panic_def)

lemma keeps_block [keeps_rules]: "keeps I block"
  by (simp add: keeps_def block_def)

lemma keeps_gets [keeps_rules]: "keeps I (gets f)"
  by (simp add: keeps_def gets_def)

lemma keeps_bnd [keeps_rules]:
  assumes m: "keeps I m" and k: "\<And>a. keeps I (k a)"
  shows "keeps I (bnd m k)"
  unfolding keeps_def
proof (intro allI impI)
  fix w assume "I w"
  obtain r w' where r: "m w = (r, w')" by (cases "m w")
  with m \<open>I w\<close> have "I w'" unfolding keeps_def by (metis snd_conv)
  with k r show "I (snd (bnd m k w))" by (cases r) (simp_all add: bnd_def keeps_def)
qed

lemma keeps_seq [keeps_rules]: "keeps I m \<Longrightarrow> keeps I k \<Longrightarrow> keeps I (seq m k)"
  by (simp add: seq_def keeps_bnd)

lemma keeps_bndE [keeps_rules]:
  "keeps I m \<Longrightarrow> (\<And>a. keeps I (k a)) \<Longrightarrow> keeps I (bndE m wrap k)"
  unfolding bndE_def by (rule keeps_bnd) (auto split: sum.splits intro: keeps_ret)

lemma keeps_modify: "(\<And>w. I w \<Longrightarrow> I (f w)) \<Longrightarrow> keeps I (modify f)"
  by (simp add: keeps_def modify_def)

lemma keeps_if [keeps_rules]: "(b \<Longrightarrow> keeps I m) \<Longrightarrow> (\<not> b \<Longrightarrow> keeps I m') \<Longrightarrow> keeps I (if b then m else m')"
  by simp

lemma keeps_case_option [keeps_rules]:
  "(x = None \<Longrightarrow> keeps I m) \<Longrightarrow> (\<And>a. x = Some a \<Longrightarrow> keeps I (k a)) \<Longrightarrow> keeps I (case x of None \<Rightarrow> m | Some a \<Rightarrow> k a)"
  by (cases x) simp_all

lemma keeps_case_sum [keeps_rules]:
  "(\<And>a. x = Inl a \<Longrightarrow> keeps I (m a)) \<Longrightarrow> (\<And>a. x = Inr a \<Longrightarrow> keeps I (k a)) \<Longrightarrow> keeps I (case x of Inl a \<Rightarrow> m a | Inr a \<Rightarrow> k a)"
  by (cases x) simp_all

lemma keeps_case_prod [keeps_rules]:
  "(\<And>a b. x = (a, b) \<Longrightarrow> keeps I (k a b)) \<Longrightarrow> keeps I (case x of (a, b) \<Rightarrow> k a b)"
  by (cases x) simp_all

lemma keeps_for_each [keeps_rules]:
  "(\<And>x. x \<in> set xs \<Longrightarrow> keeps I (f x)) \<Longrightarrow> keeps I (for_each xs f)"
  by (induction xs) (simp_all add: keeps_ret keeps_seq)

lemma keeps_fold_act [keeps_rules]:
  "(\<And>b x. x \<in> set xs \<Longrightarrow> keeps I (f b x)) \<Longrightarrow> keeps I (fold_act f b xs)"
  by (induction xs arbitrary: b) (simp_all add: keeps_ret keeps_bnd)

lemma keeps_for_err [keeps_rules]:
  "(\<And>x. x \<in> set xs \<Longrightarrow> keeps I (f x)) \<Longrightarrow> keeps I (for_err xs f)"
  by (induction xs) (auto intro!: keeps_rules)

lemma keeps_with_defer [keeps_rules]: "keeps I fin \<Longrightarrow> keeps I m \<Longrightarrow> keeps I (with_defer fin m)"
proof -
  assume fin: "keeps I fin" and m: "keeps I m"
  have "I (snd (with_defer fin m w))" if "I w" for w
  proof -
    obtain r w1 where r: "m w = (r, w1)" by (cases "m w")
    obtain q w2 where q: "fin w1 = (q, w2)" by (cases "fin w1")
    have "I w1" using m that r unfolding keeps_def by (metis snd_conv)
    moreover from this have "I w2" using fin q unfolding keeps_def by (metis snd_conv)
    ultimately show ?thesis using r q by (cases r; cases q) (simp_all add: with_defer_def)
  qed
  then show ?thesis by (simp add: keeps_def)
qed

lemma keepsD: "keeps I m \<Longrightarrow> I w \<Longrightarrow> I (snd (m w))"
  by (simp add: keeps_def)

text \<open>The effects change the parts of the world they name: a predicate that does not look at
  them is kept.\<close>

lemma keeps_tick:
  "(\<And>w t n. I w \<Longrightarrow> I (w\<lparr>w_now := t, w_tickpos := n\<rparr>)) \<Longrightarrow> keeps I tick"
  by (simp add: tick_def keeps_modify)

lemma keeps_draw: "(\<And>w n. I w \<Longrightarrow> I (w\<lparr>w_randpos := n\<rparr>)) \<Longrightarrow> keeps I draw"
  by (simp add: keeps_def draw_def)

lemma keeps_sleep: "(\<And>w t. I w \<Longrightarrow> I (w\<lparr>w_now := t\<rparr>)) \<Longrightarrow> keeps I (sleep_ctx c d)"
  by (simp add: keeps_def sleep_ctx_def Let_def)

lemma keeps_time_Sleep: "(\<And>w t. I w \<Longrightarrow> I (w\<lparr>w_now := t\<rparr>)) \<Longrightarrow> keeps I (time_Sleep d)"
  by (simp add: time_Sleep_def keeps_modify)

subsection \<open>Properties of the value\<close>

text \<open>\<open>returns P m\<close>: whatever the world, a value the action returns satisfies \<open>P\<close>.\<close>

definition returns :: "('a \<Rightarrow> bool) \<Rightarrow> ('w, 'a) act \<Rightarrow> bool" where
  "returns P m \<longleftrightarrow> (\<forall>w a. fst (m w) = Ret a \<longrightarrow> P a)"

lemma returnsD: "returns P m \<Longrightarrow> m w = (Ret a, w') \<Longrightarrow> P a"
  unfolding returns_def by (metis fst_conv)

lemma returns_any: "returns (\<lambda>_. True) m"
  by (simp add: returns_def)

lemma returns_ret [returns_rules]: "P a \<Longrightarrow> returns P (ret a)"
  by (simp add: returns_def ret_def)

lemma returns_panic [returns_rules]: "returns P (panic s)" "returns P block"
  by (simp_all add: returns_def panic_def block_def)

lemma returns_bnd:
  assumes m: "returns R m" and k: "\<And>a. R a \<Longrightarrow> returns P (k a)"
  shows "returns P (bnd m k)"
  unfolding returns_def
proof (intro allI impI)
  fix w a assume a: "fst (bnd m k w) = Ret a"
  obtain r w' where r: "m w = (r, w')" by (cases "m w")
  show "P a"
  proof (cases r)
    case (Ret x)
    with m r have "R x" unfolding returns_def by (metis fst_conv)
    with k a r Ret show ?thesis by (simp add: bnd_def returns_def)
  qed (use a r in \<open>simp_all add: bnd_def\<close>)
qed

lemma returns_bind [returns_rules]: "(\<And>a. returns P (k a)) \<Longrightarrow> returns P (bnd m k)"
  by (rule returns_bnd [OF returns_any])

lemma returns_seq [returns_rules]: "returns P k \<Longrightarrow> returns P (seq m k)"
  by (simp add: seq_def returns_bind)

lemma returns_if [returns_rules]:
  "(b \<Longrightarrow> returns P m) \<Longrightarrow> (\<not> b \<Longrightarrow> returns P m') \<Longrightarrow> returns P (if b then m else m')"
  by simp

lemma returns_case_option [returns_rules]:
  "(x = None \<Longrightarrow> returns P m) \<Longrightarrow> (\<And>a. x = Some a \<Longrightarrow> returns P (k a)) \<Longrightarrow> returns P (case x of None \<Rightarrow> m | Some a \<Rightarrow> k a)"
  by (cases x) simp_all

lemma returns_case_prod [returns_rules]:
  "(\<And>a b. x = (a, b) \<Longrightarrow> returns P (k a b)) \<Longrightarrow> returns P (case x of (a, b) \<Rightarrow> k a b)"
  by (cases x) simp_all

lemma returns_mono: "returns P m \<Longrightarrow> (\<And>a. P a \<Longrightarrow> Q a) \<Longrightarrow> returns Q m"
  by (auto simp: returns_def)

text \<open>What the program's own state depends on: everything but the clock, the random source, the
  database and the statement log. \<open>same_store\<close> relates two worlds whose storage and whose
  process state are equal.\<close>

definition store_is :: "'s \<Rightarrow> 'z \<Rightarrow> ('d, 's, 'z) world_scheme \<Rightarrow> bool" where
  "store_is s z w \<longleftrightarrow> w_st w = s \<and> world.more w = z"

lemma store_is_updates [simp]:
  "store_is s z (w\<lparr>w_now := t\<rparr>) = store_is s z w"
  "store_is s z (w\<lparr>w_tickpos := n\<rparr>) = store_is s z w"
  "store_is s z (w\<lparr>w_randpos := n\<rparr>) = store_is s z w"
  "store_is s z (w\<lparr>w_db := d\<rparr>) = store_is s z w"
  "store_is s z (w\<lparr>w_sql := l\<rparr>) = store_is s z w"
  by (simp_all add: store_is_def)

lemma keeps_store_tick [keeps_rules]: "keeps (store_is s z) tick"
  by (rule keeps_tick) simp

lemma keeps_store_draw [keeps_rules]: "keeps (store_is s z) draw"
  by (rule keeps_draw) simp

lemma keeps_store_on_db [keeps_rules]: "keeps (store_is s z) (on_db f)"
  unfolding on_db_def
  by (rule keeps_seq [OF keeps_store_tick]) (simp add: keeps_def split: prod.splits)

lemma keeps_store_sql [keeps_rules]:
  "keeps (store_is s z) (modify (\<lambda>w. w\<lparr>w_sql := w_sql w @ l\<rparr>))"
  by (rule keeps_modify) simp

lemma keeps_store_effects [keeps_rules]:
  "keeps (store_is s z) time_Now" "keeps (store_is s z) (ctx_poll c)"
  "keeps (store_is s z) rand_Float64"
  "keeps (store_is s z) (sleep_ctx c d)" "keeps (store_is s z) (time_Sleep d)"
  "keeps (store_is s z) (sql_Open D cs)"
  "keeps (store_is s z) (db_Ping D cs)" "keeps (store_is s z) (db_Close D cs)"
  "keeps (store_is s z) (db_Exec D cs q)" "keeps (store_is s z) (db_QueryRow D cs q)"
  unfolding time_Now_def ctx_poll_def rand_Float64_def sql_Open_def db_Ping_def db_Close_def
    db_Exec_def db_QueryRow_def
  by (auto intro!: keeps_rules keeps_sleep keeps_time_Sleep)

subsection \<open>A driver and a world to evaluate with\<close>

text \<open>Every call succeeds and the clock advances by one at each reading.\<close>

definition steady_driver :: "unit driver" where
  "steady_driver = \<lparr>drv_open = (\<lambda>_ d. (None, d)), drv_ping = (\<lambda>_ d. (None, d)),
     drv_exec = (\<lambda>_ _ d. (None, d)), drv_query = (\<lambda>_ _ d. (Inr [], d)), drv_close = (\<lambda>_ d. (None, d)),
     drv_conn = (\<lambda>_ d. (None, d)),
     drv_stats = (\<lambda>_ _. \<lparr>ds_MaxOpen = 0, ds_Open = 0, ds_InUse = 0, ds_Idle = 0, ds_WaitCount = 0,
       ds_WaitDuration = 0, ds_MaxIdleClosed = 0, ds_MaxLifetimeClosed = 0\<rparr>)\<rparr>"

definition start_world :: "'s \<Rightarrow> (unit, 's) world" where
  "start_world s = \<lparr>w_now = 0, w_ticks = (\<lambda>_. 1), w_tickpos = 0, w_rand = (\<lambda>n. n), w_randpos = 0,
     w_db = (), w_sql = [], w_st = s\<rparr>"

end
