(* ===== verification/Sql_Validation.thy ===== *)
theory Sql_Validation
  imports Go_Strings "HOL-Library.Multiset"
begin

text \<open>
  The package \<open>security\<close>, file \<open>security/sql_validation.go\<close>: the validators of passwords,
  user names, SQL statement templates and session variables, and the escaping of SQL literals.
  A validator returns \<open>None\<close> where the code returns a nil error. Every validator takes the
  Unicode tables \<open>U\<close>, because the code upper-cases its input before it searches it.
\<close>

subsection \<open>Errors, limits and the pattern tables\<close>

datatype sec_error =
    ErrEmptyStatement
  | ErrStatementTooLong
  | ErrCommentDetected
  | DangerousPattern string
  | KeywordInUserStatement string
  | KeywordInCallStatement string
  | ErrInvalidPassword
  | ErrPasswordTooLong
  | EmptyUsername
  | UsernameTooLong
  | UsernameBadChar nat
  | UsernameKeyword string
  | CreationInvalid sec_error
  | RevocationInvalid sec_error
  | RollbackInvalid sec_error
  | RenewalInvalid sec_error
  | TooManySessionVars
  | SessionNameTooLong string
  | SessionValueTooLong string
  | SessionNameBadChar string nat
  | SessionValuePattern string string
  | SessionValueKeyword string string

definition MaxStatementLength :: nat where "MaxStatementLength = 10000"
definition MaxPasswordLength :: nat where "MaxPasswordLength = 256"
definition MaxSessionVarNameLen :: nat where "MaxSessionVarNameLen = 128"
definition MaxSessionVarValueLen :: nat where "MaxSessionVarValueLen = 1024"
definition MaxSessionVars :: nat where "MaxSessionVars = 50"

lemmas sec_limits = MaxStatementLength_def MaxPasswordLength_def MaxSessionVarNameLen_def
  MaxSessionVarValueLen_def MaxSessionVars_def

definition sqlInjectionPatterns :: "string list" where
  "sqlInjectionPatterns =
     [''--'', ''/*'', ''*/'', ''xp_'', ''sp_'', ''sys.'', ''sysobjects'', ''syscolumns'',
      ''waitfor'', ''delay'', ''0x'', ''char('', ''nchar('', ''varchar('', ''nvarchar('',
      ''exec('', ''execute('', ''eval('']"

definition dangerousStatementKeywords :: "string list" where
  "dangerousStatementKeywords =
     [''SELECT'', ''INSERT'', ''UPDATE'', ''DELETE'', ''DROP'', ''CREATE'', ''ALTER'',
      ''TRUNCATE'', ''EXEC'', ''EXECUTE'', ''CALL'', ''DECLARE'', ''MERGE'', ''UNION'',
      ''INTO'', ''FROM'', ''WHERE'', ''JOIN'', ''GROUP BY'', ''ORDER BY'']"

definition commentPatterns :: "string list" where
  "commentPatterns = [''--'', ''/*'']"

definition dangerousPatterns :: "string list" where
  "dangerousPatterns = ['';'']"

datatype StatementType = StatementTypeUnknown | StatementTypeGRANT | StatementTypeREVOKE
  | StatementTypeCALL

definition detectStatementType :: "unicode \<Rightarrow> string \<Rightarrow> StatementType" where
  "detectStatementType U stmt =
     (let upper = ToUpper U (TrimSpace stmt) in
      if HasPrefix upper ''GRANT'' then StatementTypeGRANT
      else if HasPrefix upper ''REVOKE'' then StatementTypeREVOKE
      else if HasPrefix upper ''CALL'' then StatementTypeCALL
      else StatementTypeUnknown)"

subsection \<open>Passwords\<close>

text \<open>\<open>unicode.IsPrint\<close> is only asked about runes from 32 to 126, all printable.\<close>

definition IsPrint :: "nat \<Rightarrow> bool" where
  "IsPrint r \<longleftrightarrow> 32 \<le> r \<and> r \<le> 126"

definition password_rune_err :: "nat \<Rightarrow> sec_error option" where
  "password_rune_err r =
     (if r < 32 \<or> 126 < r then Some ErrInvalidPassword
      else if \<not> IsPrint r then Some ErrInvalidPassword
      else None)"

definition ValidatePassword :: "string \<Rightarrow> sec_error option" where
  "ValidatePassword password = checks
     [err_if (password = []) ErrInvalidPassword,
      err_if (MaxPasswordLength < length password) ErrPasswordTooLong,
      first_err password_rune_err (runes password),
      first_err (\<lambda>c. err_if (Contains password c) ErrInvalidPassword)
        [[CHR 0x27], [CHR 0x22], [CHR 0x5C], [CHR 0x00]],
      err_if (Contains password '' '') ErrInvalidPassword]"

subsection \<open>SQL statements\<close>

text \<open>
  The test for a keyword on a word boundary, written out four times in the code. It looks at the
  first occurrence of the keyword only; the bytes on both sides are read as runes
  (\<open>string(upper[idx-1])\<close>), and \<open>extra\<close> holds the bytes that, like a letter, end the match
  when they follow it.
\<close>

definition keyword_hit :: "unicode \<Rightarrow> string \<Rightarrow> string \<Rightarrow> string \<Rightarrow> bool" where
  "keyword_hit U extra upper keyword =
     (case Index upper keyword of
        None \<Rightarrow> False
      | Some idx \<Rightarrow>
          (let before = (if 0 < idx then Some (upper ! (idx - 1)) else None);
               after = (if idx + length keyword < length upper
                        then Some (upper ! (idx + length keyword)) else None)
           in (case before of None \<Rightarrow> True | Some b \<Rightarrow> \<not> IsLetter U (byte b))
            \<and> (case after of None \<Rightarrow> True
                | Some a \<Rightarrow> \<not> IsLetter U (byte a) \<and> a \<notin> set extra)))"

definition pattern_err :: "unicode \<Rightarrow> string \<Rightarrow> string list \<Rightarrow> sec_error option" where
  "pattern_err U upper pats =
     first_err (\<lambda>p. err_if (Contains upper (ToUpper U p)) (DangerousPattern p)) pats"

definition skipKeywords :: "string list" where
  "skipKeywords = [''SELECT'', ''INSERT'', ''UPDATE'', ''DELETE'', ''EXECUTE'', ''FROM'',
     ''ON'', ''TO'', ''BY'', ''WITH'', ''GRANT'', ''REVOKE'']"

definition callSkipKeywords :: "string list" where
  "callSkipKeywords = [''CALL'', ''EXECUTE'', ''ON'', ''WITH'']"

definition grant_keyword_err :: "unicode \<Rightarrow> string \<Rightarrow> sec_error option" where
  "grant_keyword_err U upper =
     first_err (\<lambda>k. err_if (k \<notin> set skipKeywords \<and> keyword_hit U ''_(,'' upper k)
       (KeywordInUserStatement k)) dangerousStatementKeywords"

definition call_keyword_err :: "unicode \<Rightarrow> string \<Rightarrow> sec_error option" where
  "call_keyword_err U upper =
     first_err (\<lambda>k. err_if (k \<notin> set callSkipKeywords \<and> keyword_hit U ''_('' upper k)
       (KeywordInCallStatement k)) dangerousStatementKeywords"

definition other_keyword_err :: "unicode \<Rightarrow> string \<Rightarrow> sec_error option" where
  "other_keyword_err U upper =
     first_err (\<lambda>k. err_if (keyword_hit U ''_('' upper k) (KeywordInUserStatement k))
       dangerousStatementKeywords"

definition ValidateSQLStatement :: "unicode \<Rightarrow> string \<Rightarrow> sec_error option" where
  "ValidateSQLStatement U statement =
     (let upper = ToUpper U statement; stmtType = detectStatementType U statement in checks
       [err_if (TrimSpace statement = []) ErrEmptyStatement,
        err_if (MaxStatementLength < length statement) ErrStatementTooLong,
        first_err (\<lambda>p. err_if (Contains statement p) ErrCommentDetected) commentPatterns,
        pattern_err U upper sqlInjectionPatterns,
        pattern_err U upper dangerousPatterns,
        (if stmtType = StatementTypeGRANT \<or> stmtType = StatementTypeREVOKE
         then grant_keyword_err U upper
         else if stmtType = StatementTypeCALL then call_keyword_err U upper
         else other_keyword_err U upper)])"

definition ValidateStatementTemplates ::
  "unicode \<Rightarrow> string \<Rightarrow> string \<Rightarrow> string \<Rightarrow> string \<Rightarrow> sec_error option" where
  "ValidateStatementTemplates U creation revocation rollback renewal = checks
     [if creation \<noteq> [] then map_option CreationInvalid (ValidateSQLStatement U creation) else None,
      if revocation \<noteq> [] then map_option RevocationInvalid (ValidateSQLStatement U revocation) else None,
      if rollback \<noteq> [] then map_option RollbackInvalid (ValidateSQLStatement U rollback) else None,
      if renewal \<noteq> [] then map_option RenewalInvalid (ValidateSQLStatement U renewal) else None]"

subsection \<open>User names\<close>

definition usernameChars :: string where
  "usernameChars =
     ''abcdefghijklmnopqrstuvwxyzABCDEFGHIJKLMNOPQRSTUVWXYZ0123456789_$''"

definition dangerousUsernameKeywords :: "string list" where
  "dangerousUsernameKeywords =
     [''SELECT'', ''INSERT'', ''UPDATE'', ''DELETE'', ''DROP'', ''CREATE'', ''ALTER'',
      ''TRUNCATE'', ''GRANT'', ''REVOKE'', ''EXEC'', ''EXECUTE'', ''CALL'', ''DECLARE'',
      ''MERGE'', ''UNION'', ''INTO'', ''FROM'', ''WHERE'', ''JOIN'', ''GROUP BY'', ''ORDER BY'']"

definition ValidateUsername :: "unicode \<Rightarrow> string \<Rightarrow> sec_error option" where
  "ValidateUsername U username =
     (let upper = ToUpper U username in checks
       [err_if (username = []) EmptyUsername,
        err_if (30 < length username) UsernameTooLong,
        first_err (\<lambda>r. err_if (\<not> ContainsRune usernameChars r) (UsernameBadChar r)) (runes username),
        pattern_err U upper sqlInjectionPatterns,
        first_err (\<lambda>k. err_if (Contains upper k) (UsernameKeyword k)) dangerousUsernameKeywords])"

subsection \<open>Session variables\<close>

text \<open>
  Go iterates over a map in an unspecified order; \<open>vars\<close> lists the map's entries in the order
  of one run, each key once.
\<close>

definition sessionNameChars :: string where
  "sessionNameChars = ''abcdefghijklmnopqrstuvwxyzABCDEFGHIJKLMNOPQRSTUVWXYZ0123456789_''"

definition sessionPatterns :: "string list" where
  "sessionPatterns = [''--'', ''/*'', ''*/'', '';'', [CHR 0x27], [CHR 0x22], [CHR 0x5C],
     [CHR 0x00], ''0x'', ''char('', ''nchar('', ''varchar('']"

definition sessionKeywords :: "string list" where
  "sessionKeywords = [''SELECT'', ''INSERT'', ''UPDATE'', ''DELETE'', ''DROP'', ''CREATE'',
     ''ALTER'', ''GRANT'', ''REVOKE'', ''EXEC'', ''EXECUTE'']"

definition session_var_err :: "unicode \<Rightarrow> string \<times> string \<Rightarrow> sec_error option" where
  "session_var_err U nv =
     (case nv of (name, value) \<Rightarrow>
      let upper = ToUpper U value in checks
       [err_if (MaxSessionVarNameLen < length name) (SessionNameTooLong name),
        err_if (MaxSessionVarValueLen < length value) (SessionValueTooLong name),
        first_err (\<lambda>r. err_if (\<not> ContainsRune sessionNameChars r) (SessionNameBadChar name r))
          (runes name),
        first_err (\<lambda>p. err_if (Contains upper p) (SessionValuePattern name p)) sessionPatterns,
        first_err (\<lambda>k. err_if (keyword_hit U ''_('' upper k) (SessionValueKeyword name k))
          sessionKeywords])"

definition ValidateSessionVariables ::
  "unicode \<Rightarrow> (string \<times> string) list \<Rightarrow> sec_error option" where
  "ValidateSessionVariables U vars = checks
     [err_if (MaxSessionVars < length vars) TooManySessionVars,
      first_err (session_var_err U) vars]"

subsection \<open>Escaping\<close>

definition sanitize_rune :: "nat \<Rightarrow> string" where
  "sanitize_rune r =
     (if r = 39 then [CHR 0x27, CHR 0x27]
      else if r = 34 then [CHR 0x22, CHR 0x22]
      else if r = 92 then [CHR 0x5C, CHR 0x5C]
      else encode_rune r)"

definition SanitizeStringForSQL :: "string \<Rightarrow> string" where
  "SanitizeStringForSQL input = concat (map sanitize_rune (runes input))"

lemma ascii_literals [simp]:
  "ascii usernameChars" "ascii sessionNameChars"
  by (simp_all add: usernameChars_def sessionNameChars_def)

subsection \<open>What the validators accept\<close>

lemma password_loop:
  "first_err password_rune_err (runes p) = None \<longleftrightarrow> (\<forall>c\<in>set p. 32 \<le> byte c \<and> byte c \<le> 126)"
proof -
  have *: "r < 128" if "password_rune_err r = None" for r
    using that by (auto simp: password_rune_err_def split: if_splits)
  have "ascii p" if "\<forall>c\<in>set p. 32 \<le> byte c \<and> byte c \<le> 126"
    using that by (auto simp: ascii_set)
  then show ?thesis
    by (subst rune_loop_ascii [OF *]) (auto simp: password_rune_err_def IsPrint_def)
qed

lemma ValidatePassword_None:
  "ValidatePassword p = None \<longleftrightarrow>
     p \<noteq> [] \<and> length p \<le> 256 \<and>
     (\<forall>c\<in>set p. 33 \<le> byte c \<and> byte c \<le> 126 \<and> c \<noteq> CHR 0x27 \<and> c \<noteq> CHR 0x22 \<and> c \<noteq> CHR 0x5C)"
proof -
  have blank: "32 \<le> byte c \<and> c \<noteq> CHR '' '' \<longleftrightarrow> 33 \<le> byte c" for c
  proof
    assume a: "32 \<le> byte c \<and> c \<noteq> CHR '' ''"
    have "byte c \<noteq> 32"
    proof
      assume "byte c = 32"
      then have "byte c = byte (CHR '' '')" by simp
      then have "c = CHR '' ''" by (simp only: of_char_eq_iff)
      with a show False by simp
    qed
    with a show "33 \<le> byte c" by simp
  qed auto
  have "ValidatePassword p = None \<longleftrightarrow>
     p \<noteq> [] \<and> length p \<le> 256 \<and> (\<forall>c\<in>set p. 32 \<le> byte c \<and> byte c \<le> 126) \<and>
     CHR 0x27 \<notin> set p \<and> CHR 0x22 \<notin> set p \<and> CHR 0x5C \<notin> set p \<and> CHR 0x00 \<notin> set p \<and>
     CHR '' '' \<notin> set p"
    by (simp add: ValidatePassword_def password_loop Contains_single sec_limits first_err_err_if not_less
        split: option.splits)
  also have "\<dots> \<longleftrightarrow> p \<noteq> [] \<and> length p \<le> 256 \<and>
     (\<forall>c\<in>set p. 33 \<le> byte c \<and> byte c \<le> 126 \<and> c \<noteq> CHR 0x27 \<and> c \<noteq> CHR 0x22 \<and> c \<noteq> CHR 0x5C)"
    (is "?l \<longleftrightarrow> ?r")
  proof
    assume ?l
    then show ?r by (metis blank)
  next
    assume r: ?r
    then have "CHR 0x00 \<notin> set p" "CHR '' '' \<notin> set p" by fastforce+
    with r show ?l by (metis blank)
  qed
  finally show ?thesis .
qed

text \<open>C25. \<open>security.ValidatePassword\<close> accepts exactly the passwords of 1 to 256 bytes in which every
  byte is a printable ASCII character other than the blank, the two quotes and the backslash.\<close>
theorem ValidatePassword_accepts:
  "ValidatePassword p = None \<longleftrightarrow>
     p \<noteq> [] \<and> length p \<le> 256 \<and>
     (\<forall>c\<in>set p. 33 \<le> byte c \<and> byte c \<le> 126 \<and> c \<noteq> CHR 0x27 \<and> c \<noteq> CHR 0x22 \<and> c \<noteq> CHR 0x5C)"
  by (rule ValidatePassword_None)

lemma ValidatePassword_accepts_witness:
  "ValidatePassword ''Abc1!'' = None \<and> ValidatePassword ''a b'' \<noteq> None"
  using ValidatePassword_accepts [of "''Abc1!''"] ValidatePassword_accepts [of "''a b''"] by simp

lemma pattern_err_None:
  "pattern_err U upper pats = None \<longleftrightarrow> (\<forall>p\<in>set pats. \<not> Contains upper (ToUpper U p))"
  by (auto simp: pattern_err_def first_err_None)

lemma ascii_username: "set s \<subseteq> set usernameChars \<Longrightarrow> ascii s"
  by (metis ascii_literals(1) ascii_set subset_eq)

lemma ValidateUsername_None:
  "ValidateUsername U s = None \<longleftrightarrow>
     s \<noteq> [] \<and> length s \<le> 30 \<and> set s \<subseteq> set usernameChars \<and>
     (\<forall>p\<in>set sqlInjectionPatterns. \<not> Contains (map upper_char s) (map upper_char p)) \<and>
     (\<forall>k\<in>set dangerousUsernameKeywords. \<not> Contains (map upper_char s) k)"
proof -
  have pats: "\<forall>p\<in>set sqlInjectionPatterns. ToUpper U p = map upper_char p"
    by (simp add: sqlInjectionPatterns_def ToUpper_ascii)
  show ?thesis
  proof (cases "set s \<subseteq> set usernameChars")
    case True
    then have "ToUpper U s = map upper_char s" by (simp add: ToUpper_ascii ascii_username)
    with True pats show ?thesis
      by (simp add: ValidateUsername_def alphabet_runes first_err_err_if pattern_err_None Let_def not_less)
  next
    case False
    then show ?thesis
      by (simp add: ValidateUsername_def alphabet_runes first_err_err_if Let_def)
  qed
qed

text \<open>C26. \<open>security.ValidateUsername\<close> accepts exactly the names of 1 to 30 letters, digits,
  underscores and dollar signs whose upper-cased form contains none of the injection patterns and
  none of the SQL keywords, whatever the Unicode tables are.\<close>
theorem ValidateUsername_accepts:
  "ValidateUsername U s = None \<longleftrightarrow>
     s \<noteq> [] \<and> length s \<le> 30 \<and> set s \<subseteq> set usernameChars \<and>
     (\<forall>p\<in>set sqlInjectionPatterns. \<not> Contains (map upper_char s) (map upper_char p)) \<and>
     (\<forall>k\<in>set dangerousUsernameKeywords. \<not> Contains (map upper_char s) k)"
  by (rule ValidateUsername_None)

lemma ValidateUsername_accepts_witness:
  "ValidateUsername plain_tables ''vault_1a'' = None \<and> ValidateUsername plain_tables ''drop_1'' \<noteq> None"
  using ValidateUsername_accepts [of plain_tables "''vault_1a''"]
    ValidateUsername_accepts [of plain_tables "''drop_1''"]
  by (simp add: usernameChars_def sqlInjectionPatterns_def dangerousUsernameKeywords_def go_eval)


lemma ValidateSQLStatement_parts:
  assumes "ValidateSQLStatement U s = None"
  shows "TrimSpace s \<noteq> []" and "length s \<le> 10000"
    and "\<forall>p\<in>set commentPatterns. \<not> Contains s p"
    and "pattern_err U (ToUpper U s) sqlInjectionPatterns = None"
    and "pattern_err U (ToUpper U s) dangerousPatterns = None"
  using assms
  by (simp_all add: ValidateSQLStatement_def Let_def sec_limits first_err_err_if)

lemma accepted_no_semicolon:
  assumes "ValidateSQLStatement U s = None"
  shows "CHR '';'' \<notin> set s"
proof
  assume "CHR '';'' \<in> set s"
  then have "CHR '';'' \<in> set (ToUpper U s)" by (rule ToUpper_keeps) simp
  moreover have "ToUpper U '';'' = '';''" by (simp add: ToUpper_Cons upper_char_def)
  ultimately show False using ValidateSQLStatement_parts(5) [OF assms]
    by (simp add: pattern_err_None dangerousPatterns_def Contains_single)
qed

text \<open>C18. A statement that \<open>security.ValidateSQLStatement\<close> accepts is not blank, has at most 10000
  bytes, holds no semicolon, opens no comment and contains none of the injection patterns in any
  case.\<close>
theorem ValidateSQLStatement_safe:
  assumes "ValidateSQLStatement U s = None"
  shows "TrimSpace s \<noteq> [] \<and> length s \<le> 10000 \<and> CHR '';'' \<notin> set s
    \<and> \<not> Contains s ''--'' \<and> \<not> Contains s ''/*''
    \<and> (\<forall>p\<in>set sqlInjectionPatterns. \<not> Contains (ToUpper U s) (ToUpper U p))"
  using ValidateSQLStatement_parts [OF assms] accepted_no_semicolon [OF assms]
  by (auto simp: commentPatterns_def pattern_err_None)

lemma ValidateSQLStatement_safe_witness:
  "ValidateSQLStatement plain_tables ''GRANT SELECT ON db TO u'' = None \<and>
   CHR '';'' \<notin> set ''GRANT SELECT ON db TO u''"
proof -
  have h: "ValidateSQLStatement plain_tables ''GRANT SELECT ON db TO u'' = None"
    by (simp add: ValidateSQLStatement_def Let_def sec_limits commentPatterns_def pattern_err_def
        sqlInjectionPatterns_def dangerousPatterns_def detectStatementType_def
        grant_keyword_err_def dangerousStatementKeywords_def skipKeywords_def keyword_hit_def
        first_err_None go_eval)
  with ValidateSQLStatement_safe [OF h] show ?thesis by blast
qed

definition occurs_as_word :: "string \<Rightarrow> string \<Rightarrow> bool" where
  "occurs_as_word s w \<longleftrightarrow> (\<exists>a b. s = a @ w @ b
     \<and> (a = [] \<or> last a = CHR '' '') \<and> (b = [] \<or> hd b = CHR '' ''))"

definition masked_drop :: string where
  "masked_drop = ''GRANT SELECT ON XDROPS TO U DROP TABLE T''"

text \<open>The keyword check of \<open>ValidateSQLStatement\<close> looks at the first occurrence of a keyword only:
  a GRANT statement in which DROP first occurs inside a longer word and then as a word of its own
  is accepted, although DROP is one of the keywords that the validator rejects.\<close>
theorem keyword_check_first_only:
  "ValidateSQLStatement plain_tables masked_drop = None \<and> ''DROP'' \<in> set dangerousStatementKeywords
     \<and> occurs_as_word masked_drop ''DROP''"
proof (intro conjI)
  show "ValidateSQLStatement plain_tables masked_drop = None"
    by (simp add: ValidateSQLStatement_def masked_drop_def Let_def sec_limits commentPatterns_def
        pattern_err_def sqlInjectionPatterns_def dangerousPatterns_def detectStatementType_def
        grant_keyword_err_def dangerousStatementKeywords_def skipKeywords_def keyword_hit_def
        first_err_None go_eval)
  show "''DROP'' \<in> set dangerousStatementKeywords" by (simp add: dangerousStatementKeywords_def)
  have "masked_drop = ''GRANT SELECT ON XDROPS TO U '' @ ''DROP'' @ '' TABLE T''"
    by (simp add: masked_drop_def)
  then show "occurs_as_word masked_drop ''DROP''"
    unfolding occurs_as_word_def by fastforce
qed

text \<open>Whether \<open>ValidateSessionVariables\<close> accepts a map does not depend on the order in which Go
  iterates over it (only the error it reports can).\<close>
theorem session_vars_order_irrelevant:
  assumes "mset vars = mset vars'"
  shows "ValidateSessionVariables U vars = None \<longleftrightarrow> ValidateSessionVariables U vars' = None"
proof -
  from assms have "set vars = set vars'" and "length vars = length vars'"
    by (metis set_mset_mset) (metis size_mset assms)
  then show ?thesis
    by (simp add: ValidateSessionVariables_def first_err_perm_None [of vars vars'])
qed

lemma session_vars_order_irrelevant_witness:
  "mset [(''a'', ''1''), (''b'', ''2'')] = mset [(''b'', ''2''), (''a'', ''1'')] \<and>
   (ValidateSessionVariables plain_tables [(''a'', ''1''), (''b'', ''2'')] = None \<longleftrightarrow>
    ValidateSessionVariables plain_tables [(''b'', ''2''), (''a'', ''1'')] = None)"
proof -
  have h: "mset [(''a'', ''1''), (''b'', ''2'')] = mset [(''b'', ''2''), (''a'', ''1'')]"
    by (simp add: add_mset_commute)
  show ?thesis using session_vars_order_irrelevant [OF h] h by blast
qed

text \<open>The patterns 0x, char(, nchar( and varchar( of \<open>ValidateSessionVariables\<close> are searched in
  the upper-cased value, where no ASCII value can contain them, so the value char(65) is
  accepted.\<close>
theorem session_lowercase_patterns_dead:
  "(\<forall>p\<in>{''0x'', ''char('', ''nchar('', ''varchar(''}.
      p \<in> set sessionPatterns \<and> (\<forall>v. ascii v \<longrightarrow> \<not> Contains (ToUpper U v) p))
   \<and> ValidateSessionVariables U [(''x'', ''char(65)'')] = None"
proof
  show "\<forall>p\<in>{''0x'', ''char('', ''nchar('', ''varchar(''}.
      p \<in> set sessionPatterns \<and> (\<forall>v. ascii v \<longrightarrow> \<not> Contains (ToUpper U v) p)"
    using ToUpper_no_lower_Contains [of _ "CHR ''x''"] ToUpper_no_lower_Contains [of _ "CHR ''c''"]
    by (simp add: sessionPatterns_def)
  show "ValidateSessionVariables U [(''x'', ''char(65)'')] = None"
    by (simp add: ValidateSessionVariables_def session_var_err_def Let_def sec_limits first_err_None
        sessionPatterns_def sessionKeywords_def sessionNameChars_def ContainsRune_ascii
        keyword_hit_def go_eval)
qed

lemma session_lowercase_patterns_dead_witness:
  "ascii ''char(65)'' \<and> \<not> Contains (ToUpper plain_tables ''char(65)'') ''char(''"
  using session_lowercase_patterns_dead [of plain_tables] by simp

subsection \<open>Escaping is undone by reading the literal back\<close>

definition sql_special :: "char \<Rightarrow> bool" where
  "sql_special c \<longleftrightarrow> c = CHR 0x27 \<or> c = CHR 0x22 \<or> c = CHR 0x5C"

fun unescape_sql :: "string \<Rightarrow> string" where
  "unescape_sql [] = []"
| "unescape_sql [c] = [c]"
| "unescape_sql (c # d # cs) =
     (if sql_special c \<and> d = c then c # unescape_sql cs else c # unescape_sql (d # cs))"

lemma sanitize_rune_ascii:
  assumes "byte c < 128"
  shows "sanitize_rune (byte c) = (if sql_special c then [c, c] else [c])"
proof -
  have "byte c = 39 \<longleftrightarrow> c = CHR 0x27" "byte c = 34 \<longleftrightarrow> c = CHR 0x22" "byte c = 92 \<longleftrightarrow> c = CHR 0x5C"
    using of_char_eq_iff [of c "CHR 0x27", where ?'a = nat]
      of_char_eq_iff [of c "CHR 0x22", where ?'a = nat]
      of_char_eq_iff [of c "CHR 0x5C", where ?'a = nat] by simp_all
  with assms show ?thesis by (auto simp: sanitize_rune_def sql_special_def encode_rune_def)
qed

lemma Sanitize_ascii:
  "ascii s \<Longrightarrow> SanitizeStringForSQL s = concat (map (\<lambda>c. if sql_special c then [c, c] else [c]) s)"
  by (induction s)
    (simp_all add: SanitizeStringForSQL_def runes_ascii_Cons sanitize_rune_ascii)

lemma unescape_plain: "\<not> sql_special c \<Longrightarrow> unescape_sql (c # cs) = c # unescape_sql cs"
  by (cases cs) simp_all

text \<open>Reading back an ASCII string that \<open>SanitizeStringForSQL\<close> escaped (a doubled quote or
  backslash stands for one) gives the original string.\<close>
theorem Sanitize_roundtrip:
  assumes "ascii s"
  shows "unescape_sql (SanitizeStringForSQL s) = s"
proof -
  have "unescape_sql (concat (map (\<lambda>c. if sql_special c then [c, c] else [c]) s)) = s"
    by (induction s) (simp_all add: unescape_plain)
  with assms show ?thesis by (simp add: Sanitize_ascii)
qed

lemma Sanitize_roundtrip_witness:
  "ascii (''O'' @ [CHR 0x27] @ ''Hara'') \<and>
   unescape_sql (SanitizeStringForSQL (''O'' @ [CHR 0x27] @ ''Hara'')) = ''O'' @ [CHR 0x27] @ ''Hara'' \<and>
   SanitizeStringForSQL (''O'' @ [CHR 0x27] @ ''Hara'') = ''O'' @ [CHR 0x27, CHR 0x27] @ ''Hara''"
  using Sanitize_roundtrip [of "''O'' @ [CHR 0x27] @ ''Hara''"]
  by (simp add: Sanitize_ascii sql_special_def)

end
