(* ===== verification/Connection_String.thy ===== *)
theory Connection_String
  imports Go_Strings "HOL-Library.AList"
begin

text \<open>
  The package \<open>security\<close>, file \<open>security/connection.go\<close>: parsing, validating and masking ODBC
  connection strings. The parser is the code's loop over the runes of the string, one recursion
  step per rune, with the loop's variables in a record. A Go map is an association list in which
  every key occurs once (\<open>AList.update\<close> is the assignment); where the code ranges over a map,
  \<open>ord\<close> gives the order in which this run visits the keys.
\<close>

subsection \<open>Errors and keyword tables\<close>

datatype conn_error =
    ErrEmptyConnectionString
  | ErrInvalidFormat
  | ErrMissingDSN
  | ErrInvalidKeyValue
  | KeyWithSpaces string
  | KeyBadChar string nat

definition sensitiveKeywords :: "string list" where
  "sensitiveKeywords = [''password'', ''pwd'', ''pass'', ''secret'', ''token'', ''auth'',
     ''credential'', ''key'', ''private'', ''ssl_key_password'', ''sslkeypassword'',
     ''keypassword'']"

definition requiredKeywords :: "string list" where
  "requiredKeywords = [''dsn'', ''server'', ''servers'']"

subsection \<open>The parser\<close>

record parser =
  pairs :: "(string \<times> string) list"
  currentKey :: string
  currentValue :: string
  inValue :: bool
  inQuote :: bool
  escaped :: bool

definition parser_init :: parser where
  "parser_init = \<lparr>pairs = [], currentKey = [], currentValue = [], inValue = False,
     inQuote = False, escaped = False\<rparr>"

definition store_pair :: "unicode \<Rightarrow> parser \<Rightarrow> (string \<times> string) list" where
  "store_pair U st =
     (let key = TrimSpace (currentKey st); val = TrimSpace (currentValue st) in
      if key \<noteq> [] then AList.update (ToLower U key) val (pairs st) else pairs st)"

text \<open>The loop; a backslash escapes only if a byte follows it (\<open>i+1 < len(connString)\<close>).
  \<open>None\<close> is \<open>ErrInvalidFormat\<close>.\<close>

fun parse_loop :: "unicode \<Rightarrow> parser \<Rightarrow> nat list \<Rightarrow> parser option" where
  "parse_loop U st [] = Some st"
| "parse_loop U st (ch # rest) =
     (if escaped st then
        parse_loop U
          (st\<lparr>currentValue := (if inValue st then currentValue st @ encode_rune ch
                               else currentValue st), escaped := False\<rparr>) rest
      else if ch = 92 \<and> rest \<noteq> [] then parse_loop U (st\<lparr>escaped := True\<rparr>) rest
      else if ch = 34 then
        (if \<not> inQuote st \<and> \<not> inValue st then None
         else parse_loop U (st\<lparr>inQuote := \<not> inQuote st\<rparr>) rest)
      else if ch = 61 \<and> \<not> inQuote st \<and> \<not> inValue st then
        parse_loop U (st\<lparr>inValue := True\<rparr>) rest
      else if (ch = 59 \<or> ch = 10 \<or> ch = 13) \<and> \<not> inQuote st \<and> inValue st then
        parse_loop U (st\<lparr>pairs := store_pair U st, currentKey := [], currentValue := [],
          inValue := False\<rparr>) rest
      else if IsSpace ch \<and> \<not> inQuote st \<and> \<not> inValue st then parse_loop U st rest
      else if inValue st then
        parse_loop U (st\<lparr>currentValue := currentValue st @ encode_rune ch\<rparr>) rest
      else parse_loop U (st\<lparr>currentKey := currentKey st @ encode_rune ch\<rparr>) rest)"

declare parse_loop.simps(2) [simp del]

definition parseConnectionString ::
  "unicode \<Rightarrow> string \<Rightarrow> (string \<times> string) list option" where
  "parseConnectionString U connString =
     (case parse_loop U parser_init (runes connString) of
        None \<Rightarrow> None
      | Some st \<Rightarrow> Some (if 0 < length (currentKey st) then store_pair U st else pairs st))"

subsection \<open>Validation\<close>

definition validateKeyValuePair :: "unicode \<Rightarrow> string \<times> string \<Rightarrow> conn_error option" where
  "validateKeyValuePair U kv =
     (case kv of (key, val) \<Rightarrow> checks
       [err_if (key = []) ErrInvalidKeyValue,
        err_if (Contains key '' '') (KeyWithSpaces key),
        first_err (\<lambda>r. err_if (\<not> IsLetter U r \<and> \<not> IsDigit U r \<and> r \<noteq> 95 \<and> r \<noteq> 45) (KeyBadChar key r))
          (runes key)])"

text \<open>The entries of a map in the order in which this run visits its keys.\<close>

definition map_entries :: "(string list \<Rightarrow> string list) \<Rightarrow> (string \<times> string) list
    \<Rightarrow> (string \<times> string) list" where
  "map_entries ord m =
     concat (map (\<lambda>k. case map_of m k of None \<Rightarrow> [] | Some v \<Rightarrow> [(k, v)]) (ord (map fst m)))"

definition ValidateConnectionString ::
  "unicode \<Rightarrow> (string list \<Rightarrow> string list) \<Rightarrow> string \<Rightarrow> conn_error option" where
  "ValidateConnectionString U ord connString0 =
     (if TrimSpace connString0 = [] then Some ErrEmptyConnectionString
      else
        let connString = TrimSpace connString0;
            hasRequired = list_ex (\<lambda>req. Contains (ToLower U connString) (req @ ''='')) requiredKeywords
        in if \<not> hasRequired then Some ErrMissingDSN
           else case parseConnectionString U connString of
             None \<Rightarrow> Some ErrInvalidFormat
           | Some ps \<Rightarrow> checks
               [err_if (length ps = 0) ErrInvalidFormat,
                first_err (validateKeyValuePair U) (map_entries ord ps)])"

subsection \<open>Masking\<close>

definition isSensitiveKey :: "unicode \<Rightarrow> string \<Rightarrow> bool" where
  "isSensitiveKey U key =
     (let lowerKey = ToLower U key in list_ex (\<lambda>s. Contains lowerKey s) sensitiveKeywords)"

definition mask_entry :: "unicode \<Rightarrow> string \<times> string \<Rightarrow> string" where
  "mask_entry U kv =
     (case kv of (key, val) \<Rightarrow>
      if isSensitiveKey U key then key @ ''=***''
      else if val \<noteq> [] then key @ ''='' @ val
      else key)"

definition MaskConnectionString ::
  "unicode \<Rightarrow> (string list \<Rightarrow> string list) \<Rightarrow> string \<Rightarrow> string" where
  "MaskConnectionString U ord connString =
     (if connString = [] then []
      else case parseConnectionString U connString of
        None \<Rightarrow> ''***''
      | Some ps \<Rightarrow> Join (map (mask_entry U) (map_entries ord ps)) '';'')"

definition GetConnectionStringInfo :: "unicode \<Rightarrow> string \<Rightarrow> conn_error + bool \<times> bool" where
  "GetConnectionStringInfo U connString =
     (if connString = [] then Inr (False, False)
      else case parseConnectionString U connString of
        None \<Rightarrow> Inl ErrInvalidFormat
      | Some ps \<Rightarrow>
          Inr (list_ex (\<lambda>kv. isSensitiveKey U (fst kv)) ps,
               list_ex (\<lambda>kv. fst kv \<in> {''server'', ''servers'', ''dsn''}) ps))"

subsection \<open>Parsing well-formed strings\<close>

text \<open>A string the parser copies as it is: ASCII, not empty, without the parser's special
  characters, and neither starting nor ending with white space.\<close>

definition plain_value :: "string \<Rightarrow> bool" where
  "plain_value v \<longleftrightarrow> v \<noteq> [] \<and> ascii v \<and> \<not> space_char (hd v) \<and> \<not> space_char (last v)
     \<and> set v \<inter> {CHR 0x5C, CHR 0x22, CHR '';'', CHR 0x0A, CHR 0x0D} = {}"

definition plain_key :: "string \<Rightarrow> bool" where
  "plain_key k \<longleftrightarrow> k \<noteq> [] \<and> (\<forall>c\<in>set k. 65 \<le> byte c \<and> byte c \<le> 90)"

lemma encode_byte: "byte c < 128 \<Longrightarrow> encode_rune (byte c) = [c]"
  by (simp add: encode_rune_def)

lemma byte_numeral:
  "byte c = 92 \<longleftrightarrow> c = CHR 0x5C" "byte c = 34 \<longleftrightarrow> c = CHR 0x22" "byte c = 61 \<longleftrightarrow> c = CHR ''=''"
  "byte c = 59 \<longleftrightarrow> c = CHR '';''" "byte c = 10 \<longleftrightarrow> c = CHR 0x0A" "byte c = 13 \<longleftrightarrow> c = CHR 0x0D"
  using of_char_eq_iff [of c "CHR 0x5C", where ?'a = nat] of_char_eq_iff [of c "CHR 0x22", where ?'a = nat]
    of_char_eq_iff [of c "CHR ''=''", where ?'a = nat] of_char_eq_iff [of c "CHR '';''", where ?'a = nat]
    of_char_eq_iff [of c "CHR 0x0A", where ?'a = nat] of_char_eq_iff [of c "CHR 0x0D", where ?'a = nat]
  by simp_all

lemma parse_key:
  assumes "\<forall>c\<in>set k. 65 \<le> byte c \<and> byte c \<le> 90"
    and "\<not> inValue st" "\<not> inQuote st" "\<not> escaped st"
  shows "parse_loop U st (map byte k @ rest) = parse_loop U (st\<lparr>currentKey := currentKey st @ k\<rparr>) rest"
  using assms
proof (induction k arbitrary: st)
  case Nil
  then show ?case by simp
next
  case (Cons c k)
  then have c: "65 \<le> byte c" "byte c \<le> 90" by simp_all
  then have "\<not> IsSpace (byte c)" by (simp add: IsSpace_def)
  with Cons.prems c have "parse_loop U st (map byte (c # k) @ rest)
      = parse_loop U (st\<lparr>currentKey := currentKey st @ [c]\<rparr>) (map byte k @ rest)"
    by (simp add: parse_loop.simps(2) encode_byte)
  with Cons show ?case by simp
qed

lemma parse_value:
  assumes "ascii v" and "set v \<inter> {CHR 0x5C, CHR 0x22, CHR '';'', CHR 0x0A, CHR 0x0D} = {}"
    and "inValue st" "\<not> inQuote st" "\<not> escaped st"
  shows "parse_loop U st (map byte v @ rest) = parse_loop U (st\<lparr>currentValue := currentValue st @ v\<rparr>) rest"
  using assms
proof (induction v arbitrary: st)
  case Nil
  then show ?case by simp
next
  case (Cons c v)
  then have "c \<noteq> CHR 0x5C" "c \<noteq> CHR 0x22" "c \<noteq> CHR '';''" "c \<noteq> CHR 0x0A" "c \<noteq> CHR 0x0D" by auto
  with Cons.prems have "parse_loop U st (map byte (c # v) @ rest)
      = parse_loop U (st\<lparr>currentValue := currentValue st @ [c]\<rparr>) (map byte v @ rest)"
    by (simp add: parse_loop.simps(2) encode_byte byte_numeral)
  with Cons show ?case by simp
qed

lemma plain_key_ascii: "plain_key k \<Longrightarrow> ascii k"
  by (auto simp: plain_key_def ascii_set)

lemma plain_key_trim:
  assumes "plain_key k"
  shows "TrimSpace k = k"
proof (rule TrimSpace_id)
  have ne: "k \<noteq> []" using assms by (simp add: plain_key_def)
  with assms have hd: "65 \<le> byte (hd k)" "byte (hd k) \<le> 90" and last: "65 \<le> byte (last k)" "byte (last k) \<le> 90"
    by (simp_all add: plain_key_def)
  show "ascii k" by (rule plain_key_ascii [OF assms])
  show "k \<noteq> []" by (rule ne)
  show "\<not> space_char (hd k)" using hd by (simp add: space_char_def IsSpace_def)
  show "\<not> space_char (last k)" using last by (simp add: space_char_def IsSpace_def)
qed

lemma plain_value_trim: "plain_value v \<Longrightarrow> TrimSpace v = v"
  by (rule TrimSpace_id) (simp_all add: plain_value_def)

text \<open>One \<open>KEY=value\<close> entry takes the parser from one pair boundary to the end of the value.\<close>

definition at_boundary :: "(string \<times> string) list \<Rightarrow> parser" where
  "at_boundary ps = \<lparr>pairs = ps, currentKey = [], currentValue = [], inValue = False,
     inQuote = False, escaped = False\<rparr>"

definition in_entry :: "(string \<times> string) list \<Rightarrow> string \<Rightarrow> string \<Rightarrow> parser" where
  "in_entry ps k v = \<lparr>pairs = ps, currentKey = k, currentValue = v, inValue = True,
     inQuote = False, escaped = False\<rparr>"

lemma parse_entry:
  assumes "plain_key k" "plain_value v"
  shows "parse_loop U (at_boundary ps) (map byte (k @ ''='' @ v) @ rest)
    = parse_loop U (in_entry ps k v) rest"
proof -
  have "parse_loop U (at_boundary ps) (map byte k @ (61 # (map byte v @ rest)))
      = parse_loop U (at_boundary ps\<lparr>currentKey := k\<rparr>) (61 # (map byte v @ rest))"
    using assms(1) by (subst parse_key) (simp_all add: plain_key_def at_boundary_def)
  also have "\<dots> = parse_loop U (in_entry ps k []) (map byte v @ rest)"
    by (simp add: parse_loop.simps(2) at_boundary_def in_entry_def)
  also have "\<dots> = parse_loop U (in_entry ps k v) rest"
    using assms(2) by (subst parse_value) (simp_all add: plain_value_def in_entry_def)
  finally show ?thesis by simp
qed

lemma store_in_entry:
  assumes "plain_key k" "plain_value v"
  shows "store_pair U (in_entry ps k v) = AList.update (map lower_char k) v ps"
  using assms plain_key_trim [OF assms(1)] plain_value_trim [OF assms(2)]
  by (simp add: store_pair_def in_entry_def plain_key_def [of k] ToLower_ascii
      plain_key_ascii [OF assms(1)])

definition render_pairs :: "(string \<times> string) list \<Rightarrow> string" where
  "render_pairs kvs = Join (map (\<lambda>(k, v). k @ ''='' @ v) kvs) '';''"

definition plain_pairs :: "(string \<times> string) list \<Rightarrow> bool" where
  "plain_pairs kvs \<longleftrightarrow> (\<forall>(k, v)\<in>set kvs. plain_key k \<and> plain_value v)"

fun lower_pairs :: "(string \<times> string) list \<Rightarrow> (string \<times> string) list \<Rightarrow> (string \<times> string) list" where
  "lower_pairs ps [] = ps"
| "lower_pairs ps ((k, v) # kvs) = lower_pairs (AList.update (map lower_char k) v ps) kvs"

lemma parse_rendered:
  assumes "plain_pairs kvs" "kvs \<noteq> []"
  shows "\<exists>st. parse_loop U (at_boundary ps) (map byte (render_pairs kvs)) = Some st
    \<and> currentKey st \<noteq> [] \<and> store_pair U st = lower_pairs ps kvs"
  using assms
proof (induction kvs arbitrary: ps)
  case Nil
  then show ?case by simp
next
  case (Cons kv kvs)
  obtain k v where kv: "kv = (k, v)" by (cases kv)
  with Cons.prems have p: "plain_key k" "plain_value v" and ps: "plain_pairs kvs"
    by (simp_all add: plain_pairs_def)
  from p(1) have "k \<noteq> []" by (simp add: plain_key_def)
  show ?case
  proof (cases "kvs = []")
    case True
    then have "parse_loop U (at_boundary ps) (map byte (render_pairs (kv # kvs)))
        = Some (in_entry ps k v)"
      using parse_entry [OF p, of U ps "[]"] kv by (simp add: render_pairs_def)
    with True kv p \<open>k \<noteq> []\<close> show ?thesis
      by (simp add: store_in_entry) (simp add: in_entry_def)
  next
    case False
    then have "render_pairs (kv # kvs) = (k @ ''='' @ v) @ '';'' @ render_pairs kvs"
      by (simp add: render_pairs_def kv Join_Cons)
    then have "parse_loop U (at_boundary ps) (map byte (render_pairs (kv # kvs)))
        = parse_loop U (in_entry ps k v) (59 # map byte (render_pairs kvs))"
      using parse_entry [OF p, of U ps "59 # map byte (render_pairs kvs)"] by simp
    also have "\<dots> = parse_loop U (at_boundary (store_pair U (in_entry ps k v)))
        (map byte (render_pairs kvs))"
      by (simp add: parse_loop.simps(2) in_entry_def at_boundary_def)
    finally show ?thesis
      using Cons.IH [OF ps False, of "AList.update (map lower_char k) v ps"] kv p
      by (simp add: store_in_entry)
  qed
qed

lemma ascii_render: "plain_pairs kvs \<Longrightarrow> ascii (render_pairs kvs)"
  using set_Join [of "map (\<lambda>(k, v). k @ ''='' @ v) kvs" "'';''"]
  by (fastforce simp: ascii_set render_pairs_def plain_pairs_def plain_value_def
      dest: plain_key_ascii)

text \<open>Parsing a rendered list of plain entries gives the list with its keys in lower case, the last
  value winning where a key repeats.\<close>

lemma parse_render_pairs:
  assumes "plain_pairs kvs" "kvs \<noteq> []"
  shows "parseConnectionString U (render_pairs kvs) = Some (lower_pairs [] kvs)"
proof -
  have "parser_init = at_boundary []" by (simp add: parser_init_def at_boundary_def)
  moreover have "runes (render_pairs kvs) = map byte (render_pairs kvs)"
    by (rule runes_ascii) (rule ascii_render [OF assms(1)])
  ultimately show ?thesis
    using parse_rendered [OF assms, of U "[]"] by (auto simp: parseConnectionString_def)
qed

subsection \<open>Masking hides the sensitive values\<close>

text \<open>C27. Masking is independent of the values of sensitive keys: two connection strings that parse
  to the same keys, with the same value for every key that is not sensitive, mask to the same
  text. So nothing of a password or a key can be read from a masked string.\<close>
theorem mask_hides_sensitive_values:
  assumes "parseConnectionString U c1 = Some m1" and "parseConnectionString U c2 = Some m2"
    and "map fst m1 = map fst m2"
    and "\<And>k. \<not> isSensitiveKey U k \<Longrightarrow> map_of m1 k = map_of m2 k"
    and "c1 \<noteq> []" and "c2 \<noteq> []"
  shows "MaskConnectionString U ord c1 = MaskConnectionString U ord c2"
proof -
  have dom: "map_of m1 k = None \<longleftrightarrow> map_of m2 k = None" for k
    using assms(3) by (metis map_of_eq_None_iff set_map)
  have "map (mask_entry U) (case map_of m1 k of None \<Rightarrow> [] | Some v \<Rightarrow> [(k, v)])
      = map (mask_entry U) (case map_of m2 k of None \<Rightarrow> [] | Some v \<Rightarrow> [(k, v)])" for k
    using dom [of k] assms(4) [of k]
    by (cases "isSensitiveKey U k") (auto simp: mask_entry_def split: option.splits)
  then have "map (mask_entry U) (map_entries ord m1) = map (mask_entry U) (map_entries ord m2)"
    by (simp add: map_entries_def map_concat o_def assms(3))
  with assms show ?thesis by (simp add: MaskConnectionString_def)
qed

lemma parse_dsn_pwd:
  assumes "plain_value p"
  shows "parseConnectionString U (''DSN=a;PWD='' @ p) = Some [(''dsn'', ''a''), (''pwd'', p)]"
proof -
  have "plain_pairs [(''DSN'', ''a''), (''PWD'', p)]"
    using assms by (simp add: plain_pairs_def plain_key_def plain_value_def space_char_def IsSpace_def)
  from parse_render_pairs [OF this, of U] show ?thesis
    by (simp add: render_pairs_def lower_char_def char_of_def bit_0)
qed

theorem mask_hides_sensitive_values_witness:
  "MaskConnectionString plain_tables id (''DSN=a;PWD='' @ ''x'')
     = MaskConnectionString plain_tables id (''DSN=a;PWD='' @ ''yy'')"
proof (rule mask_hides_sensitive_values
    [OF parse_dsn_pwd [of "''x''" plain_tables] parse_dsn_pwd [of "''yy''" plain_tables]])
  have "isSensitiveKey plain_tables ''pwd''"
    by (simp add: isSensitiveKey_def sensitiveKeywords_def go_eval)
  then show "map_of [(''dsn'', ''a''), (''pwd'', ''x'')] k = map_of [(''dsn'', ''a''), (''pwd'', ''yy'')] k"
    if "\<not> isSensitiveKey plain_tables k" for k
    using that by auto
qed (simp_all add: plain_value_def space_char_def IsSpace_def)

text \<open>The test for a required keyword looks for \<open>dsn=\<close> anywhere in the text, not for a parsed
  key: any plain connection string with one password entry whose value ends in \<open>dsn=x\<close> passes
  validation although it names neither a DSN nor a server.\<close>
theorem required_keyword_inside_value:
  assumes "plain_value (p @ ''dsn=x'')"
  shows "ValidateConnectionString U id (''PWD='' @ p @ ''dsn=x'') = None
    \<and> parseConnectionString U (''PWD='' @ p @ ''dsn=x'') = Some [(''pwd'', p @ ''dsn=x'')]
    \<and> GetConnectionStringInfo U (''PWD='' @ p @ ''dsn=x'') = Inr (True, False)"
proof -
  let ?c = "''PWD='' @ p @ ''dsn=x''"
  have "plain_pairs [(''PWD'', p @ ''dsn=x'')]"
    using assms by (simp add: plain_pairs_def plain_key_def)
  from parse_render_pairs [OF this, of U] have parsed: "parseConnectionString U ?c = Some [(''pwd'', p @ ''dsn=x'')]"
    by (simp add: render_pairs_def lower_char_def char_of_def bit_0)
  have asc: "ascii ?c" using assms by (simp add: plain_value_def)
  have trim: "TrimSpace ?c = ?c"
    by (rule TrimSpace_id [OF asc]) (simp_all add: space_char_def IsSpace_def)
  have "ToLower U ?c = map lower_char (''PWD='' @ p) @ ''dsn='' @ ''x''"
    using asc by (simp add: ToLower_ascii lower_char_def)
  then have "Contains (ToLower U ?c) ''dsn=''" by (metis Contains_iff)
  then have req: "list_ex (\<lambda>req. Contains (ToLower U ?c) (req @ ''='')) requiredKeywords"
    by (simp add: requiredKeywords_def)
  have key: "validateKeyValuePair U (''pwd'', p @ ''dsn=x'') = None"
    by (simp add: validateKeyValuePair_def go_eval first_err_None)
  from req key have "ValidateConnectionString U id ?c = None"
    using parsed by (simp add: ValidateConnectionString_def trim [simplified] map_entries_def first_err_None)
  moreover have "isSensitiveKey U ''pwd''"
    by (simp add: isSensitiveKey_def sensitiveKeywords_def go_eval)
  then have "GetConnectionStringInfo U ?c = Inr (True, False)"
    using parsed by (simp add: GetConnectionStringInfo_def)
  ultimately show ?thesis using parsed by simp
qed

theorem required_keyword_inside_value_witness:
  "ValidateConnectionString plain_tables id (''PWD='' @ ''a'' @ ''dsn=x'') = None"
  using required_keyword_inside_value [of "''a''" plain_tables]
  by (simp add: plain_value_def space_char_def IsSpace_def)

end
