(* ===== verification/Odbc_Strings.thy ===== *)
theory Odbc_Strings
  imports Go_Monad Sql_Validation Connection_String
begin

text \<open>
  The string side of the package \<open>odbc\<close> (\<open>odbc/odbc.go\<close>): the builders of connection strings,
  the username check, the splitting of multi-statement SQL, and the row limit added to a query.
  \<open>odbc_ValidateUsername\<close> is \<open>odbc.ValidateUsername\<close>; the function of that name in
  \<open>Sql_Validation\<close> is the one of the package \<open>security\<close>.
\<close>

subsection \<open>Sentinels and tables\<close>

definition ErrNotConnected :: go_err where
  "ErrNotConnected = Sentinel ''not connected''"

definition ErrEmptyUsername :: go_err where
  "ErrEmptyUsername = Sentinel ''username cannot be empty''"

definition ErrInvalidUsername :: go_err where
  "ErrInvalidUsername = Sentinel ''username contains invalid characters''"

definition ErrUsernameTooLong :: go_err where
  "ErrUsernameTooLong = Sentinel ''username cannot exceed 30 characters''"

definition ErrSQLInjection :: go_err where
  "ErrSQLInjection = Sentinel ''potential SQL injection attempt detected''"

definition odbc_sqlKeywords :: "string list" where
  "odbc_sqlKeywords = [''SELECT'', ''INSERT'', ''UPDATE'', ''DELETE'', ''DROP'', ''CREATE'', ''ALTER'',
     ''TRUNCATE'', ''GRANT'', ''REVOKE'', ''EXEC'', ''EXECUTE'', ''CALL'', ''DECLARE'', ''MERGE'',
     ''UNION'', ''INTO'', ''FROM'', ''WHERE'', ''JOIN'', ''GROUP BY'', ''ORDER BY'']"

definition odbc_sqlInjectionPatterns :: "string list" where
  "odbc_sqlInjectionPatterns = ['';'', ''--'', ''/*'', ''*/'', ''xp_'', ''sp_'', ''sys.'', ''sysobjects'',
     ''waitfor'', ''delay'', ''0x'', ''char('', ''nchar('', ''varchar('']"

subsection \<open>Connection strings\<close>

record SSLConfig =
  sslMode :: string
  sslCert :: string
  sslKey :: string
  sslRootCert :: string
  sslKeyPassword :: string
  sslCipherSuites :: string
  sslSecure :: bool
  sslVersion :: string

record TeradataConnectionConfig =
  tc_DSN :: string
  tc_Server :: string
  tc_Servers :: string
  tc_Port :: int
  tc_Database :: string
  tc_Username :: string
  tc_Password :: string
  tc_ConnectionTimeout :: int
  tc_QueryTimeout :: int
  tc_MaxResultRows :: int
  tc_SessionMode :: string
  tc_Account :: string
  tc_SSLMode :: string
  tc_SSLCert :: string
  tc_SSLKey :: string
  tc_SSLRootCert :: string
  tc_SSLKeyPassword :: string
  tc_SSLCipherSuites :: string
  tc_SSLSecure :: bool
  tc_SSLVersion :: string

text \<open>\<open>if s != "" { params = append(params, "KEY=" + s) }\<close>, and the same for \<open>n > 0\<close>.\<close>

definition str_param :: "string \<Rightarrow> string \<Rightarrow> (string \<times> string) list" where
  "str_param key v = (if v \<noteq> [] then [(key, v)] else [])"

definition int_param :: "string \<Rightarrow> int \<Rightarrow> (string \<times> string) list" where
  "int_param key n = (if 0 < n then [(key, itoa n)] else [])"

definition bool_param :: "string \<Rightarrow> bool \<Rightarrow> (string \<times> string) list" where
  "bool_param key b = (if b then [(key, ''1'')] else [])"

definition teradata_params :: "TeradataConnectionConfig \<Rightarrow> (string \<times> string) list" where
  "teradata_params cfg =
     str_param ''DSN'' (tc_DSN cfg) @ str_param ''SERVER'' (tc_Server cfg)
     @ str_param ''SERVERS'' (tc_Servers cfg) @ int_param ''PORT'' (tc_Port cfg)
     @ str_param ''DATABASE'' (tc_Database cfg) @ str_param ''UID'' (tc_Username cfg)
     @ str_param ''PWD'' (tc_Password cfg)
     @ int_param ''CONNTIMEOUT'' (tc_ConnectionTimeout cfg)
     @ int_param ''QUERYTIMEOUT'' (tc_QueryTimeout cfg)
     @ str_param ''SESSIONMODE'' (tc_SessionMode cfg) @ str_param ''ACCOUNT'' (tc_Account cfg)
     @ str_param ''SSLMODE'' (tc_SSLMode cfg) @ bool_param ''SSL'' (tc_SSLSecure cfg)
     @ str_param ''SSLCERT'' (tc_SSLCert cfg) @ str_param ''SSLKEY'' (tc_SSLKey cfg)
     @ str_param ''SSLROOTCERT'' (tc_SSLRootCert cfg)
     @ str_param ''SSLKEYPASSWORD'' (tc_SSLKeyPassword cfg)
     @ str_param ''SSLCIPHERSUITE'' (tc_SSLCipherSuites cfg)
     @ str_param ''SSLVERSION'' (tc_SSLVersion cfg)"

definition BuildTeradataConnectionString :: "TeradataConnectionConfig \<Rightarrow> string" where
  "BuildTeradataConnectionString cfg =
     Join (map (\<lambda>(k, v). k @ ''='' @ v) (teradata_params cfg)) '';''"

definition ssl_params :: "SSLConfig \<Rightarrow> (string \<times> string) list" where
  "ssl_params ssl =
     str_param ''SSLMODE'' (sslMode ssl) @ bool_param ''SSL'' (sslSecure ssl)
     @ str_param ''SSLCERT'' (sslCert ssl) @ str_param ''SSLKEY'' (sslKey ssl)
     @ str_param ''SSLROOTCERT'' (sslRootCert ssl) @ str_param ''SSLKEYPASSWORD'' (sslKeyPassword ssl)
     @ str_param ''SSLCIPHERSUITE'' (sslCipherSuites ssl) @ str_param ''SSLVERSION'' (sslVersion ssl)"

definition BuildConnectionString :: "string \<Rightarrow> SSLConfig option \<Rightarrow> string" where
  "BuildConnectionString baseConnString ssl =
     (case ssl of None \<Rightarrow> baseConnString
      | Some s \<Rightarrow>
          let sslParams = map (\<lambda>(k, v). k @ ''='' @ v) (ssl_params s) in
          if length sslParams = 0 then baseConnString
          else if TrimSpace baseConnString = [] then Join sslParams '';''
          else baseConnString @ '';'' @ Join sslParams '';'')"

definition append_param :: "string \<Rightarrow> string \<Rightarrow> string" where
  "append_param baseConnString param =
     (if TrimSpace baseConnString = [] then param else baseConnString @ '';'' @ param)"

definition AppendQueryTimeout :: "string \<Rightarrow> int \<Rightarrow> string" where
  "AppendQueryTimeout baseConnString queryTimeout =
     (if queryTimeout \<le> 0 then baseConnString
      else append_param baseConnString (''QUERYTIMEOUT='' @ itoa queryTimeout))"

definition AppendSessionTimeout :: "string \<Rightarrow> int \<Rightarrow> string" where
  "AppendSessionTimeout baseConnString sessionTimeout =
     (if sessionTimeout \<le> 0 then baseConnString
      else append_param baseConnString (''SESSIONTIMEOUT='' @ itoa sessionTimeout))"

definition AppendTimeZone :: "string \<Rightarrow> string \<Rightarrow> string" where
  "AppendTimeZone baseConnString timeZone =
     (if timeZone = [] then baseConnString else append_param baseConnString (''TIMEZONE='' @ timeZone))"

definition AppendCharacterSet :: "string \<Rightarrow> string \<Rightarrow> string" where
  "AppendCharacterSet baseConnString characterSet =
     (if characterSet = [] then baseConnString
      else append_param baseConnString (''CHARSET='' @ characterSet))"

text \<open>The parameters are visited in the order this run iterates the map.\<close>

definition BuildConnectionStringFromTemplate :: "string \<Rightarrow> (string \<times> string) list \<Rightarrow> string" where
  "BuildConnectionStringFromTemplate template params =
     foldl (\<lambda>result kv. ReplaceAll result (''{'' @ fst kv @ ''}'') (snd kv)) template params"

subsection \<open>Retryable errors\<close>

definition retryableIndicators :: "string list" where
  "retryableIndicators = [''ECONNREFUSED'', ''ECONNRESET'', ''ETIMEDOUT'', ''ENETUNREACH'',
     ''EHOSTUNREACH'', ''connection refused'', ''connection reset'', ''timeout'',
     ''temporary failure'', ''server declined'', ''unable to connect'', ''deadlock'',
     ''lock contention'', ''resource unavailable'', ''table is busy'']"

definition isRetryableError :: "go_err option \<Rightarrow> bool" where
  "isRetryableError err =
     (case err of None \<Rightarrow> False
      | Some e \<Rightarrow> list_ex (\<lambda>indicator. Contains (err_text e) indicator) retryableIndicators)"

subsection \<open>The username check\<close>

definition odbc_ValidateUsername :: "unicode \<Rightarrow> string \<Rightarrow> go_err option" where
  "odbc_ValidateUsername U username =
     (let upperUsername = ToUpper U username in checks
       [err_if (username = []) ErrEmptyUsername,
        err_if (length username > 30) ErrUsernameTooLong,
        first_err (\<lambda>pattern. err_if (Contains upperUsername (ToUpper U pattern))
            (Wrapf [] ErrSQLInjection ('': found pattern '' @ [CHR 0x27] @ pattern @ [CHR 0x27])))
          odbc_sqlInjectionPatterns,
        first_err (\<lambda>keyword. err_if (Contains upperUsername keyword)
            (Wrapf [] ErrSQLInjection ('': found SQL keyword '' @ [CHR 0x27] @ keyword @ [CHR 0x27])))
          odbc_sqlKeywords,
        first_err (\<lambda>c. err_if (\<not> ContainsRune usernameChars c)
            (Wrapf [] ErrInvalidUsername ('': invalid character '' @ [CHR 0x27] @ encode_rune c @ [CHR 0x27])))
          (runes username)])"

subsection \<open>Multi-statement SQL\<close>

text \<open>The loop over the lines: \<open>current\<close> is the string builder, \<open>statements\<close> the result so far.\<close>

fun parse_lines :: "string list \<Rightarrow> string \<Rightarrow> string list \<Rightarrow> string list" where
  "parse_lines statements current [] =
     (if 0 < length current then statements @ [current] else statements)"
| "parse_lines statements current (line # lines) =
     (let trimmed = TrimSpace line in
      if trimmed = [] then parse_lines statements current lines
      else let current' = current @ line @ [CHR 0x0A] in
        if HasSuffix trimmed '';'' then parse_lines (statements @ [current']) [] lines
        else parse_lines statements current' lines)"

definition parseSQLStatements :: "string \<Rightarrow> string list" where
  "parseSQLStatements sql = parse_lines [] [] (Split sql (CHR 0x0A))"

definition normalizeGrantStatement :: "unicode \<Rightarrow> string \<Rightarrow> string" where
  "normalizeGrantStatement U stmt0 =
     (let stmt = TrimSpace stmt0;
          upperStmt = TrimSpace (ToUpper U stmt)
      in if \<not> HasPrefix upperStmt ''GRANT'' then [] else stmt)"

text \<open>What the two execution loops send for each statement; \<open>None\<close> is the \<open>continue\<close>.\<close>

definition grant_to_send :: "unicode \<Rightarrow> string \<Rightarrow> string option" where
  "grant_to_send U stmt0 =
     (let stmt = TrimSpace stmt0 in
      if stmt = [] then None
      else let g = normalizeGrantStatement U stmt in
        if g = [] then None else Some g)"

definition stmt_to_send :: "string \<Rightarrow> string option" where
  "stmt_to_send stmt0 =
     (let stmt = TrimSpace stmt0 in
      if stmt = [] then None
      else let s = TrimSpace (TrimSuffix stmt '';'') in
        if s = [] then None else Some s)"

subsection \<open>The row limit\<close>

definition applyResultLimit :: "unicode \<Rightarrow> string \<Rightarrow> int \<Rightarrow> string" where
  "applyResultLimit U query limit =
     (let upperQuery = ToUpper U (TrimSpace query) in
      if \<not> HasPrefix upperQuery ''SELECT'' then query
      else if Contains upperQuery '' TOP '' \<or> Contains upperQuery '' SAMPLE '' then query
      else let sampleClause = '' TOP '' @ itoa limit @ '' '' in
        case Index upperQuery ''SELECT'' of
          None \<Rightarrow> query
        | Some selIdx \<Rightarrow>
            let selectStart = selIdx + length ''SELECT'' in
            take selectStart query @ sampleClause @ drop selectStart query)"

subsection \<open>SQL text\<close>

definition quoted :: "string \<Rightarrow> string" where
  "quoted s = [CHR 0x27] @ s @ [CHR 0x27]"

definition create_user_sql :: "string \<Rightarrow> string \<Rightarrow> string \<Rightarrow> int \<Rightarrow> string" where
  "create_user_sql username password defaultDB permSpace =
     ''CREATE USER '' @ username @ '' FROM DBC AS PASSWORD = '' @ quoted password
       @ '' DEFAULT DATABASE = '' @ defaultDB @ '' PERM = '' @ itoa permSpace"

definition drop_user_sql :: "string \<Rightarrow> string" where
  "drop_user_sql username = ''DROP USER '' @ username"

definition grant_sql :: "string \<Rightarrow> string \<Rightarrow> string \<Rightarrow> string" where
  "grant_sql priv database username = ''GRANT '' @ priv @ '' ON '' @ database @ '' TO '' @ username"

definition revoke_sql :: "string \<Rightarrow> string \<Rightarrow> string \<Rightarrow> string" where
  "revoke_sql priv database username = ''REVOKE '' @ priv @ '' ON '' @ database @ '' FROM '' @ username"

definition alter_password_sql :: "string \<Rightarrow> string \<Rightarrow> string" where
  "alter_password_sql username newPassword =
     ''MODIFY USER '' @ username @ '' AS PASSWORD = '' @ quoted newPassword"

subsection \<open>The two username checks\<close>

lemma odbc_ValidateUsername_None:
  "odbc_ValidateUsername U s = None \<longleftrightarrow>
     s \<noteq> [] \<and> length s \<le> 30 \<and> set s \<subseteq> set usernameChars \<and>
     (\<forall>p\<in>set odbc_sqlInjectionPatterns. \<not> Contains (map upper_char s) (map upper_char p)) \<and>
     (\<forall>k\<in>set odbc_sqlKeywords. \<not> Contains (map upper_char s) k)"
proof -
  have pats: "\<forall>p\<in>set odbc_sqlInjectionPatterns. ToUpper U p = map upper_char p"
    by (simp add: odbc_sqlInjectionPatterns_def ToUpper_ascii)
  show ?thesis
  proof (cases "set s \<subseteq> set usernameChars")
    case True
    then have "ToUpper U s = map upper_char s" by (simp add: ToUpper_ascii ascii_username)
    with True pats show ?thesis
      by (auto simp: odbc_ValidateUsername_def alphabet_runes first_err_err_if Let_def not_less)
  next
    case False
    then show ?thesis
      by (simp add: odbc_ValidateUsername_def alphabet_runes first_err_err_if Let_def)
  qed
qed

lemma username_upper_no:
  assumes "set s \<subseteq> set usernameChars" and "c \<in> set p" and "c \<notin> set (map upper_char usernameChars)"
  shows "\<not> Contains (map upper_char s) p"
proof
  assume "Contains (map upper_char s) p"
  with assms(2) have "c \<in> upper_char ` set s" using Contains_set by fastforce
  with assms(1,3) show False by auto
qed

text \<open>The two username checks of the program differ in one pattern: \<open>security.ValidateUsername\<close>
  accepts a name exactly when \<open>odbc.ValidateUsername\<close> accepts it and it does not contain
  SYSCOLUMNS in any case.\<close>
theorem username_checks_agree:
  "ValidateUsername U s = None \<longleftrightarrow>
     odbc_ValidateUsername U s = None \<and> \<not> Contains (map upper_char s) ''SYSCOLUMNS''"
proof (cases "set s \<subseteq> set usernameChars")
  case True
  have kw: "dangerousUsernameKeywords = odbc_sqlKeywords"
    by (simp add: dangerousUsernameKeywords_def odbc_sqlKeywords_def)
  have sec: "set sqlInjectionPatterns = (set odbc_sqlInjectionPatterns - {'';''})
      \<union> {''syscolumns'', ''nvarchar('', ''exec('', ''execute('', ''eval(''}"
    unfolding sqlInjectionPatterns_def odbc_sqlInjectionPatterns_def list.set by auto
  have no: "\<not> Contains (map upper_char s) (map upper_char p)" if "c \<in> set p" "c = CHR ''('' \<or> c = CHR '';''" for c p
  proof (rule username_upper_no [OF True, of c])
    have "upper_char c = c" using that(2) by (auto simp: upper_char_def)
    with that(1) show "c \<in> set (map upper_char p)" by (metis image_eqI list.set_map)
    show "c \<notin> set (map upper_char usernameChars)"
      using that(2) by (auto simp: usernameChars_def upper_char_def char_of_def bit_0)
  qed
  have paren: "\<not> Contains (map upper_char s) (map upper_char ''nvarchar('')"
    "\<not> Contains (map upper_char s) (map upper_char ''exec('')"
    "\<not> Contains (map upper_char s) (map upper_char ''execute('')"
    "\<not> Contains (map upper_char s) (map upper_char ''eval('')"
    "\<not> Contains (map upper_char s) (map upper_char '';'')"
    using no [of "CHR ''(''"] no [of "CHR '';''"] by (simp_all del: list.map)
  have "map upper_char ''syscolumns'' = ''SYSCOLUMNS''"
    by (simp add: upper_char_def char_of_def bit_0)
  then show ?thesis
    unfolding ValidateUsername_None odbc_ValidateUsername_None kw sec
    using paren by (auto simp del: list.map)
next
  case False
  then show ?thesis by (simp add: ValidateUsername_None odbc_ValidateUsername_None)
qed

subsection \<open>Building and parsing\<close>

lemma lower_pairs_distinct:
  assumes "distinct (map fst ps @ map (\<lambda>kv. map lower_char (fst kv)) kvs)"
  shows "lower_pairs ps kvs = ps @ map (\<lambda>(k, v). (map lower_char k, v)) kvs"
  using assms
proof (induction kvs arbitrary: ps)
  case Nil
  then show ?case by simp
next
  case (Cons kv kvs)
  obtain k v where kv: "kv = (k, v)" by (cases kv)
  have upd: "AList.update k' v ps = ps @ [(k', v)]" if "k' \<notin> fst ` set ps" for k'
    using that by (induction ps) auto
  from Cons.prems kv have "AList.update (map lower_char k) v ps = ps @ [(map lower_char k, v)]"
    by (intro upd) auto
  with Cons kv show ?case by simp
qed

text \<open>A field the builder can write so that the parser reads it back: empty, or plain.\<close>

definition plain_field :: "string \<Rightarrow> bool" where
  "plain_field s \<longleftrightarrow> s = [] \<or> plain_value s"

definition plain_config :: "TeradataConnectionConfig \<Rightarrow> bool" where
  "plain_config cfg \<longleftrightarrow> list_all plain_field
     [tc_DSN cfg, tc_Server cfg, tc_Servers cfg, tc_Database cfg, tc_Username cfg, tc_Password cfg,
      tc_SessionMode cfg, tc_Account cfg, tc_SSLMode cfg, tc_SSLCert cfg, tc_SSLKey cfg,
      tc_SSLRootCert cfg, tc_SSLKeyPassword cfg, tc_SSLCipherSuites cfg, tc_SSLVersion cfg]"

lemma digits_plain: "plain_value (nat_digits n)"
proof -
  have d: "is_digit c" if "c \<in> set (nat_digits n)" for c
    using that by (rule nat_digits_digit)
  have ne: "nat_digits n \<noteq> []" by (rule nat_digits_nonempty)
  have sp: "\<not> space_char c" if "is_digit c" for c
    using that by (auto simp: is_digit_def space_char_def IsSpace_def)
  have "is_digit (hd (nat_digits n))" "is_digit (last (nat_digits n))"
    using d ne by simp_all
  moreover have "set (nat_digits n) \<inter> {CHR 0x5C, CHR 0x22, CHR '';'', CHR 0x0A, CHR 0x0D} = {}"
    using d by (fastforce simp: is_digit_def)
  moreover have "ascii (nat_digits n)"
    using d by (fastforce simp: ascii_set is_digit_def)
  ultimately show ?thesis using ne sp by (simp add: plain_value_def)
qed

lemma plain_params:
  "plain_key k \<Longrightarrow> plain_field v \<Longrightarrow> plain_pairs (str_param k v)"
  "plain_key k \<Longrightarrow> plain_pairs (int_param k n)"
  "plain_key k \<Longrightarrow> plain_pairs (bool_param k b)"
  using digits_plain [of "nat n"]
  by (auto simp: str_param_def int_param_def bool_param_def plain_pairs_def plain_field_def itoa_def
      plain_value_def space_char_def IsSpace_def)

lemma plain_pairs_append [simp]: "plain_pairs (a @ b) \<longleftrightarrow> plain_pairs a \<and> plain_pairs b"
  by (auto simp: plain_pairs_def)

lemma teradata_params_plain: "plain_config cfg \<Longrightarrow> plain_pairs (teradata_params cfg)"
  by (simp add: teradata_params_def plain_params plain_config_def plain_key_def)

lemma param_keys:
  "map fst (str_param k v) = (if v \<noteq> [] then [k] else [])"
  "map fst (int_param k n) = (if 0 < n then [k] else [])"
  "map fst (bool_param k b) = (if b then [k] else [])"
  by (simp_all add: str_param_def int_param_def bool_param_def)

definition teradata_keys :: "string list" where
  "teradata_keys = [''DSN''] @ [''SERVER''] @ [''SERVERS''] @ [''PORT''] @ [''DATABASE''] @ [''UID'']
     @ [''PWD''] @ [''CONNTIMEOUT''] @ [''QUERYTIMEOUT''] @ [''SESSIONMODE''] @ [''ACCOUNT'']
     @ [''SSLMODE''] @ [''SSL''] @ [''SSLCERT''] @ [''SSLKEY''] @ [''SSLROOTCERT'']
     @ [''SSLKEYPASSWORD''] @ [''SSLCIPHERSUITE''] @ [''SSLVERSION'']"

lemma subseq_param:
  "subseq (map fst (str_param k v)) [k]" "subseq (map fst (int_param k n)) [k]"
  "subseq (map fst (bool_param k b)) [k]"
  by (simp_all add: param_keys)

lemma teradata_params_keys: "subseq (map fst (teradata_params cfg)) teradata_keys"
  unfolding teradata_params_def map_append teradata_keys_def
  by (intro list_emb_append_mono subseq_param)

lemma subseq_set: "subseq xs ys \<Longrightarrow> set xs \<subseteq> set ys"
  by (induction rule: list_emb.induct) auto

lemma subseq_imp_distinct: "subseq xs ys \<Longrightarrow> distinct ys \<Longrightarrow> distinct xs"
  by (induction rule: list_emb.induct) (auto dest: subseq_set)

lemma teradata_params_distinct:
  "distinct (map (\<lambda>kv. map lower_char (fst kv)) (teradata_params cfg))"
proof -
  have "subseq (map (map lower_char) (map fst (teradata_params cfg))) (map (map lower_char) teradata_keys)"
    by (rule subseq_map [OF teradata_params_keys])
  moreover have "distinct (map (map lower_char) teradata_keys)"
    by code_simp
  ultimately have "distinct (map (map lower_char) (map fst (teradata_params cfg)))"
    by (rule subseq_imp_distinct)
  then show ?thesis by (simp add: o_def)
qed


definition sample_tc :: TeradataConnectionConfig where
  "sample_tc = \<lparr>tc_DSN = ''prod'', tc_Server = [], tc_Servers = [], tc_Port = 1025, tc_Database = ''db'',
     tc_Username = ''admin'', tc_Password = ''p=1'', tc_ConnectionTimeout = 0, tc_QueryTimeout = 30,
     tc_MaxResultRows = 0, tc_SessionMode = [], tc_Account = [], tc_SSLMode = [], tc_SSLCert = [],
     tc_SSLKey = [], tc_SSLRootCert = [], tc_SSLKeyPassword = [], tc_SSLCipherSuites = [],
     tc_SSLSecure = True, tc_SSLVersion = []\<rparr>"


subsection \<open>Splitting statements\<close>

definition blank_line :: "string \<Rightarrow> bool" where
  "blank_line l \<longleftrightarrow> TrimSpace l = []"

lemma concat_parse_lines:
  "concat (parse_lines sts cur lines)
     = concat sts @ cur @ concat (map (\<lambda>l. l @ [CHR 0x0A]) (filter (\<lambda>l. \<not> blank_line l) lines))"
  by (induction lines arbitrary: sts cur) (auto simp: Let_def blank_line_def)

lemma Split_filter_nonblank: "blank_line []"
  by (simp add: blank_line_def)

text \<open>Splitting a multi-statement text keeps every line that is not blank, in order, and drops
  nothing else: the statements put end to end are the text without its blank lines.\<close>
theorem parseSQLStatements_content:
  "concat (parseSQLStatements sql)
     = concat (map (\<lambda>l. l @ [CHR 0x0A]) (filter (\<lambda>l. TrimSpace l \<noteq> []) (Split sql (CHR 0x0A))))"
  by (simp add: parseSQLStatements_def concat_parse_lines blank_line_def)

text \<open>A text on one line is one statement, however many semicolons it has inside: the splitting
  looks at the ends of lines only, so two statements on a line reach the database as one.\<close>
theorem one_line_is_one_statement:
  assumes "CHR 0x0A \<notin> set s" and "TrimSpace s \<noteq> []"
  shows "parseSQLStatements s = [s @ [CHR 0x0A]]"
  using assms by (simp add: parseSQLStatements_def Split_no_sep Let_def)

theorem one_line_is_one_statement_witness:
  "parseSQLStatements ''GRANT R ON D TO U; DROP USER V;''
     = [''GRANT R ON D TO U; DROP USER V;'' @ [CHR 0x0A]]"
  by (rule one_line_is_one_statement) (simp_all add: go_eval)

subsection \<open>The row limit\<close>

lemma applyResultLimit_other:
  "\<not> HasPrefix (ToUpper U (TrimSpace q)) ''SELECT'' \<Longrightarrow> applyResultLimit U q n = q"
  by (simp add: applyResultLimit_def)

lemma Index_prefix: "p \<noteq> [] \<Longrightarrow> prefix p s \<Longrightarrow> Index s p = Some 0"
  by (cases s) auto

lemma applyResultLimit_select:
  assumes "HasPrefix (ToUpper U (TrimSpace q)) ''SELECT''"
    and "\<not> Contains (ToUpper U (TrimSpace q)) '' TOP ''"
    and "\<not> Contains (ToUpper U (TrimSpace q)) '' SAMPLE ''"
  shows "applyResultLimit U q n = take 6 q @ '' TOP '' @ itoa n @ '' '' @ drop 6 q"
  using assms by (simp add: applyResultLimit_def Let_def HasPrefix_def Index_prefix eval_nat_numeral)

text \<open>The row limit is put after the sixth byte of the query as it was passed, while the
  position was found in the trimmed query: it is right for a query that starts with SELECT, and
  splits the keyword when white space comes first.\<close>
theorem row_limit_splits_keyword:
  assumes "ascii q" and "q \<noteq> []" and "\<not> space_char (last q)" and "\<not> Contains (map upper_char q) ''TOP''"
    and "\<not> Contains (map upper_char q) ''SAMPLE''"
  shows "applyResultLimit U (''SELECT '' @ q) n = ''SELECT TOP '' @ itoa n @ ''  '' @ q
    \<and> applyResultLimit U ('' SELECT '' @ q) n = '' SELEC TOP '' @ itoa n @ '' T '' @ q"
proof -
  let ?s = "''SELECT '' @ q"
  have asc: "ascii ?s" using assms(1) by simp
  have last: "last ?s = last q" using assms(2) by simp
  have t1: "TrimSpace ?s = ?s"
    using assms(3) last by (intro TrimSpace_id [OF asc]) (simp_all add: space_char_def IsSpace_def)
  have "TrimSpace ('' '' @ ?s) = TrimSpace ?s"
    using asc by (simp add: TrimSpace_ascii space_char_def IsSpace_def)
  then have t2: "TrimSpace ('' SELECT '' @ q) = ?s" using t1 by simp
  have up: "ToUpper U ?s = ''SELECT '' @ map upper_char q"
    using asc by (simp add: ToUpper_ascii upper_char_def)
  have no: "\<not> Contains (map upper_char q) (CHR '' '' # w @ '' '')" "\<not> prefix (w @ '' '') (map upper_char q)"
    if "\<not> Contains (map upper_char q) w" for w
    using that by (auto simp: Contains_iff prefix_def) (metis append.assoc append_Cons append_Nil)+
  have top: "\<not> Contains (''SELECT '' @ map upper_char q) '' TOP ''"
    "\<not> Contains (''SELECT '' @ map upper_char q) '' SAMPLE ''"
    using no [OF assms(4)] no [OF assms(5)] by (simp_all add: Contains_eval)
  have sel: "HasPrefix (''SELECT '' @ map upper_char q) ''SELECT''" by (simp add: HasPrefix_def)
  have "applyResultLimit U ?s n = take 6 ?s @ '' TOP '' @ itoa n @ '' '' @ drop 6 ?s"
    by (rule applyResultLimit_select) (simp_all only: t1 up top sel not_False_eq_True)
  moreover have "applyResultLimit U ('' SELECT '' @ q) n
      = take 6 ('' SELECT '' @ q) @ '' TOP '' @ itoa n @ '' '' @ drop 6 ('' SELECT '' @ q)"
    by (rule applyResultLimit_select) (simp_all only: t2 up top sel not_False_eq_True)
  ultimately show ?thesis by simp
qed

theorem row_limit_splits_keyword_witness:
  "applyResultLimit plain_tables '' SELECT * FROM t'' 5 = '' SELEC TOP 5 T * FROM t''"
  using row_limit_splits_keyword [of "''* FROM t''" plain_tables 5]
  by (simp add: Contains_eval upper_char_def char_of_def bit_0 space_char_def IsSpace_def itoa_def nat_digits.simps)

end
