(* ===== verification/Retry_Contract.thy ===== *)
theory Retry_Contract
  imports Go_Monad
begin

text \<open>
  The contract of a retry loop, which the loops of the packages \<open>odbc\<close> and \<open>retry\<close> keep and their
  clients rely on. A loop is a function on operations; the locale states what holds of the looped
  operation when something holds of one run of it: a pre- and postcondition, a preserved
  predicate, and a bound on a cost. The cost the clients count is the number of statements sent
  to the database.
\<close>

named_theorems cost_rules \<open>costs of the combinators and the effects\<close>

subsection \<open>Costs\<close>

text \<open>\<open>costs m k act\<close>: one run of the action raises the measure \<open>m\<close> by at most \<open>k\<close>.\<close>

definition costs :: "('w \<Rightarrow> nat) \<Rightarrow> nat \<Rightarrow> ('w, 'a) act \<Rightarrow> bool" where
  "costs m k act \<longleftrightarrow> (\<forall>w. m (snd (act w)) \<le> m w + k)"

lemma costsD: "costs m k act \<Longrightarrow> m (snd (act w)) \<le> m w + k"
  by (simp add: costs_def)

lemma costs_mono: "costs m k act \<Longrightarrow> k \<le> l \<Longrightarrow> costs m l act"
  by (meson costs_def add_le_cancel_left le_trans)

lemma costs_ret: "costs m k (ret a)"
  by (simp add: costs_def ret_def)

lemma costs_panic: "costs m k (panic s)" "costs m k block"
  by (simp_all add: costs_def panic_def block_def)

lemma costs_bnd:
  assumes "costs m a act" and "\<And>x. costs m b (k x)"
  shows "costs m (a + b) (bnd act k)"
  unfolding costs_def
proof
  fix w
  obtain r w' where r: "act w = (r, w')" by (cases "act w")
  with assms(1) have a: "m w' \<le> m w + a" using costsD [of m a act w] by simp
  show "m (snd (bnd act k w)) \<le> m w + (a + b)"
  proof (cases r)
    case (Ret x)
    with r a costsD [OF assms(2) [of x], of w'] show ?thesis by (simp add: bnd_def)
  qed (use r a in \<open>simp_all add: bnd_def\<close>)
qed

lemma costs_seq: "costs m a act \<Longrightarrow> costs m b k \<Longrightarrow> costs m (a + b) (seq act k)"
  by (simp add: seq_def costs_bnd)

lemma costs_with_defer:
  assumes "costs m a fin" and "costs m b act"
  shows "costs m (b + a) (with_defer fin act)"
  unfolding costs_def
proof
  fix w
  obtain r w1 where r: "act w = (r, w1)" by (cases "act w")
  obtain q w2 where q: "fin w1 = (q, w2)" by (cases "fin w1")
  from r q costsD [OF assms(2), of w] costsD [OF assms(1), of w1]
  show "m (snd (with_defer fin act w)) \<le> m w + (b + a)"
    by (cases r; cases q) (simp_all add: with_defer_def)
qed

lemma costs_for_err:
  assumes "\<And>x. x \<in> set xs \<Longrightarrow> costs m k (f x)"
  shows "costs m (length xs * k) (for_err xs f)"
  using assms
proof (induction xs)
  case Nil
  then show ?case by (simp add: costs_ret)
next
  case (Cons x xs)
  have "costs m (case e of None \<Rightarrow> length xs * k | Some e \<Rightarrow> 0)
      (case e of None \<Rightarrow> for_err xs f | Some e \<Rightarrow> ret (Some e))" for e
    using Cons by (cases e) (simp_all add: costs_ret)
  then have "costs m (length xs * k) (case e of None \<Rightarrow> for_err xs f | Some e \<Rightarrow> ret (Some e))" for e
    by (rule costs_mono) (cases e, simp_all)
  with Cons.prems show ?case by (simp add: costs_bnd)
qed

text \<open>An action that keeps the measure costs nothing.\<close>

lemma costs_kept: "(\<And>n. keeps (\<lambda>w. m w = n) act) \<Longrightarrow> costs m 0 act"
  by (simp add: costs_def keeps_def)

subsection \<open>What the clock and the random source do not touch\<close>

definition clock_blind :: "(('d, 's, 'z) world_scheme \<Rightarrow> 'b) \<Rightarrow> bool" where
  "clock_blind f \<longleftrightarrow> (\<forall>w t. f (w\<lparr>w_now := t\<rparr>) = f w) \<and> (\<forall>w n. f (w\<lparr>w_tickpos := n\<rparr>) = f w)
     \<and> (\<forall>w n. f (w\<lparr>w_randpos := n\<rparr>) = f w)"

lemma clock_blindD:
  "clock_blind f \<Longrightarrow> f (w\<lparr>w_now := t\<rparr>) = f w" "clock_blind f \<Longrightarrow> f (w\<lparr>w_tickpos := n\<rparr>) = f w"
  "clock_blind f \<Longrightarrow> f (w\<lparr>w_randpos := n\<rparr>) = f w"
  by (simp_all add: clock_blind_def)

lemma clock_blind_fields: "clock_blind w_sql" "clock_blind w_db" "clock_blind w_st"
  by (simp_all add: clock_blind_def)

lemma clock_blind_comp: "clock_blind f \<Longrightarrow> clock_blind (\<lambda>w. g (f w))"
  by (simp add: clock_blind_def)

lemma blind_tick: "clock_blind f \<Longrightarrow> f (snd (tick w)) = f w"
  by (simp add: tick_def modify_def clock_blindD)

lemma blind_ctx_poll: "clock_blind f \<Longrightarrow> f (snd (ctx_poll c w)) = f w"
  by (simp add: ctx_poll_def tick_def modify_def seq_def bnd_def gets_def clock_blindD)

lemma blind_rand_Float64: "clock_blind f \<Longrightarrow> f (snd (rand_Float64 w)) = f w"
  by (simp add: rand_Float64_def bnd_def draw_def ret_def clock_blindD)

lemma blind_sleep_ctx: "clock_blind f \<Longrightarrow> f (snd (sleep_ctx c d w)) = f w"
  by (simp add: sleep_ctx_def Let_def clock_blindD)

lemma blind_time_Sleep: "clock_blind f \<Longrightarrow> f (snd (time_Sleep d w)) = f w"
  by (simp add: time_Sleep_def modify_def clock_blindD)

lemma keeps_blind:
  assumes "clock_blind I"
  shows "keeps I tick" "keeps I (ctx_poll c)" "keeps I rand_Float64" "keeps I (sleep_ctx c d)"
    "keeps I (time_Sleep d)"
  using assms by (simp_all add: keeps_def blind_tick blind_ctx_poll blind_rand_Float64 blind_sleep_ctx
      blind_time_Sleep)

lemma costs_blind:
  assumes "clock_blind m"
  shows "costs m 0 tick" "costs m 0 (ctx_poll c)" "costs m 0 rand_Float64" "costs m 0 (sleep_ctx c d)"
    "costs m 0 (time_Sleep d)"
  using assms by (simp_all add: costs_def blind_tick blind_ctx_poll blind_rand_Float64 blind_sleep_ctx
      blind_time_Sleep)

text \<open>Waiting does not fail: the clock effects return, and leave everything else.\<close>

lemma wp_ctx_poll: "clock_blind I \<Longrightarrow> I w \<Longrightarrow>
    (\<And>r w'. I w' \<Longrightarrow> r = None \<or> r = Some Canceled \<or> r = Some DeadlineExceeded \<Longrightarrow> Q r w') \<Longrightarrow> wp (ctx_poll c) Q w"
  by (simp add: ctx_poll_def tick_def wp_rules clock_blindD)
    (auto simp: ctx_err_def clock_blindD split: option.splits)

lemma wp_sleep_ctx: "clock_blind I \<Longrightarrow> I w \<Longrightarrow>
    (\<And>r w'. I w' \<Longrightarrow> r = None \<or> r = Some Canceled \<or> r = Some DeadlineExceeded \<Longrightarrow> Q r w') \<Longrightarrow> wp (sleep_ctx c d) Q w"
  by (simp add: sleep_ctx_def wp_def Let_def clock_blindD)
    (auto simp: ctx_err_def clock_blindD split: option.splits)

lemma wp_rand_Float64: "clock_blind I \<Longrightarrow> I w \<Longrightarrow>
    (\<And>r w'. I w' \<Longrightarrow> 0 \<le> r \<Longrightarrow> r < 1 \<Longrightarrow> Q r w') \<Longrightarrow> wp rand_Float64 Q w"
proof -
  assume b: "clock_blind I" and w: "I w" and Q: "\<And>r w'. I w' \<Longrightarrow> 0 \<le> r \<Longrightarrow> r < 1 \<Longrightarrow> Q r w'"
  let ?n = "w_rand w (w_randpos w) mod 2 ^ 53"
  have "?n < 2 ^ 53" by simp
  then have "(of_nat ?n :: rat) < of_nat (2 ^ 53)" by (simp only: of_nat_less_iff)
  then have "(of_nat ?n :: rat) / 2 ^ 53 < 1" by simp
  with w b Q show ?thesis
    by (simp add: rand_Float64_def wp_bnd wp_ret) (simp add: wp_def draw_def ret_def clock_blindD)
qed

subsection \<open>The contract\<close>

definition op_spec :: "('w \<Rightarrow> bool) \<Rightarrow> ('w, go_err option) act \<Rightarrow> (go_err \<Rightarrow> bool) \<Rightarrow> ('w \<Rightarrow> bool) \<Rightarrow> bool" where
  "op_spec I op E Q \<longleftrightarrow>
     (\<forall>w. I w \<longrightarrow> wp op (\<lambda>r w'. case r of None \<Rightarrow> Q w' | Some e \<Rightarrow> E e \<and> I w') w)"

locale retry_runner =
  fixes run :: "(('d, 's, 'z) world_scheme, go_err option) act \<Rightarrow> (('d, 's, 'z) world_scheme, go_err option) act"
    and budget :: nat
  assumes run_spec: "clock_blind I \<Longrightarrow> op_spec I op E Q
      \<Longrightarrow> op_spec I (run op) (\<lambda>e. E e \<or> e = Canceled \<or> e = DeadlineExceeded) Q"
    and run_keeps: "clock_blind I \<Longrightarrow> keeps I op \<Longrightarrow> keeps I (run op)"
    and run_costs: "clock_blind m \<Longrightarrow> costs m k op \<Longrightarrow> costs m (budget * k) (run op)"
begin

text \<open>The statements a retried operation sends: at most its own number for each attempt, and none
  that the operation would not send.\<close>

lemma statements_bound:
  assumes "costs (\<lambda>w. length (w_sql w)) k op"
  shows "length (w_sql (snd (run op w))) \<le> length (w_sql w) + budget * k"
  using run_costs [OF clock_blind_comp [OF clock_blind_fields(1), of length] assms] by (rule costsD)

lemma statements_only:
  assumes "keeps (\<lambda>w. \<forall>q\<in>set (w_sql w). P q) op" and "\<forall>q\<in>set (w_sql w). P q"
  shows "\<forall>q\<in>set (w_sql (snd (run op w))). P q"
  using run_keeps [OF clock_blind_comp [OF clock_blind_fields(1), of "\<lambda>l. \<forall>q\<in>set l. P q"] assms(1)] assms(2)
  by (rule keepsD)

text \<open>A retried operation leaves the program's storage alone when one run does.\<close>

lemma store_kept:
  assumes "\<And>s. keeps (\<lambda>w. w_st w = s) op"
  shows "w_st (snd (run op w)) = w_st w"
  using keepsD [OF run_keeps [OF clock_blind_comp [OF clock_blind_fields(3), of "\<lambda>s. s = w_st w"]
      assms [of "w_st w"]], of w] by simp

text \<open>The error of the loop is an error of the operation or of the context.\<close>

lemma run_returns:
  assumes "clock_blind I" and "op_spec I op E Q" and "I w"
  obtains w' where "run op w = (Ret None, w')" "Q w'"
  | e w' where "run op w = (Ret (Some e), w')" "E e \<or> e = Canceled \<or> e = DeadlineExceeded" "I w'"
proof -
  from run_spec [OF assms(1,2)] assms(3) have
    "wp (run op) (\<lambda>r w'. case r of None \<Rightarrow> Q w'
       | Some e \<Rightarrow> (E e \<or> e = Canceled \<or> e = DeadlineExceeded) \<and> I w') w"
    by (simp add: op_spec_def)
  then obtain r w' where "run op w = (Ret r, w')" and "case r of None \<Rightarrow> Q w'
       | Some e \<Rightarrow> (E e \<or> e = Canceled \<or> e = DeadlineExceeded) \<and> I w'"
    by (auto simp: wp_returns)
  with that show thesis by (cases r) auto
qed

end

end
