(* ===== verification/Odbc_Conn.thy ===== *)
theory Odbc_Conn
  imports Odbc_Strings Retry_Contract
begin

text \<open>
  The connection of the package \<open>odbc\<close> (\<open>odbc/odbc.go\<close>): connecting with retries, the state of a
  connection, executing statements with retries, and the statements that manage users. The
  driver behind \<open>database/sql\<close> is the parameter \<open>D\<close>. A \<open>*sql.DB\<close> is the connection string it
  was opened with; a \<open>Connection\<close> is a value that the methods return updated. Floating-point
  numbers are rational numbers: the rounding of \<open>float64\<close> is left out.
\<close>

subsection \<open>Configurations and backoff\<close>

definition millisecond :: int where "millisecond = 1000000"
definition second :: int where "second = 1000 * millisecond"

definition odbc_DefaultMaxRetries :: int where "odbc_DefaultMaxRetries = 3"
definition odbc_DefaultRetryInterval :: int where "odbc_DefaultRetryInterval = 100 * millisecond"
definition odbc_DefaultMaxRetryInterval :: int where "odbc_DefaultMaxRetryInterval = 5 * second"
definition odbc_DefaultRetryMultiplier :: rat where "odbc_DefaultRetryMultiplier = 2"

record ConnectConfig =
  cc_MaxRetries :: int
  cc_RetryInterval :: int
  cc_MaxInterval :: int
  cc_Multiplier :: rat

definition DefaultConnectConfig :: ConnectConfig where
  "DefaultConnectConfig = \<lparr>cc_MaxRetries = odbc_DefaultMaxRetries,
     cc_RetryInterval = odbc_DefaultRetryInterval, cc_MaxInterval = odbc_DefaultMaxRetryInterval,
     cc_Multiplier = odbc_DefaultRetryMultiplier\<rparr>"

record QueryRetryConfig =
  qr_MaxRetries :: int
  qr_RetryInterval :: int
  qr_MaxInterval :: int
  qr_Multiplier :: rat

definition DefaultQueryRetryConfig :: QueryRetryConfig where
  "DefaultQueryRetryConfig = \<lparr>qr_MaxRetries = odbc_DefaultMaxRetries,
     qr_RetryInterval = odbc_DefaultRetryInterval, qr_MaxInterval = odbc_DefaultMaxRetryInterval,
     qr_Multiplier = odbc_DefaultRetryMultiplier\<rparr>"

text \<open>\<open>time.Duration(x)\<close> of a float truncates towards zero.\<close>

definition trunc_rat :: "rat \<Rightarrow> int" where
  "trunc_rat q = (if q < 0 then \<lceil>q\<rceil> else \<lfloor>q\<rfloor>)"

definition backoff :: "int \<Rightarrow> int \<Rightarrow> rat \<Rightarrow> int \<Rightarrow> rat \<Rightarrow> int" where
  "backoff initial maxi factor attempt rnd =
     (let interval = min (of_int initial * factor ^ nat (attempt - 1)) (of_int maxi);
          jitter = rnd * (3 / 10) * interval
      in trunc_rat (interval + jitter))"

definition calculateConnectBackoff ::
  "int \<Rightarrow> ConnectConfig \<Rightarrow> (('d, 's, 'z) world_scheme, int) act" where
  "calculateConnectBackoff attempt cfg = bnd rand_Float64 (\<lambda>r.
     ret (backoff (cc_RetryInterval cfg) (cc_MaxInterval cfg) (cc_Multiplier cfg) attempt r))"

definition calculateQueryBackoff ::
  "int \<Rightarrow> QueryRetryConfig \<Rightarrow> (('d, 's, 'z) world_scheme, int) act" where
  "calculateQueryBackoff attempt cfg = bnd rand_Float64 (\<lambda>r.
     ret (backoff (qr_RetryInterval cfg) (qr_MaxInterval cfg) (qr_Multiplier cfg) attempt r))"

subsection \<open>Connecting\<close>

record Connection =
  co_connString :: string
  co_connected :: bool
  co_db :: "string option"
  co_lastValidated :: int
  co_keepAliveInt :: int
  co_maxResultRows :: int
  co_retryConfig :: "QueryRetryConfig option"

definition new_connection :: "string \<Rightarrow> Connection" where
  "new_connection connString = \<lparr>co_connString = connString, co_connected = True,
     co_db = Some connString, co_lastValidated = 0, co_keepAliveInt = 0, co_maxResultRows = 0,
     co_retryConfig = None\<rparr>"

definition connect_defaults :: "ConnectConfig option \<Rightarrow> ConnectConfig" where
  "connect_defaults cfg0 =
     (let cfg = (case cfg0 of None \<Rightarrow> DefaultConnectConfig | Some c \<Rightarrow> c);
          cfg = (if cc_MaxRetries cfg \<le> 0 then cfg\<lparr>cc_MaxRetries := odbc_DefaultMaxRetries\<rparr> else cfg);
          cfg = (if cc_RetryInterval cfg \<le> 0 then cfg\<lparr>cc_RetryInterval := odbc_DefaultRetryInterval\<rparr> else cfg);
          cfg = (if cc_MaxInterval cfg \<le> 0 then cfg\<lparr>cc_MaxInterval := odbc_DefaultMaxRetryInterval\<rparr> else cfg)
      in if cc_Multiplier cfg \<le> 0 then cfg\<lparr>cc_Multiplier := odbc_DefaultRetryMultiplier\<rparr> else cfg)"

text \<open>One attempt: open, then ping; a failed ping closes the handle.\<close>

definition connect_once :: "'d driver \<Rightarrow> string \<Rightarrow> (('d, 's, 'z) world_scheme, go_err option) act" where
  "connect_once D connString =
     bnd (sql_Open D connString) (\<lambda>e. case e of
       Some err \<Rightarrow> ret (Some (Wrapf ''failed to open ODBC connection: '' err []))
     | None \<Rightarrow> bnd (db_Ping D connString) (\<lambda>p. case p of
           Some err \<Rightarrow> seq (db_Close D connString)
             (ret (Some (Wrapf ''failed to ping ODBC connection: '' err [])))
         | None \<Rightarrow> ret None))"

text \<open>The loop; \<open>left\<close> attempts are left, \<open>attempt\<close> is the number of the next one.\<close>

fun connect_loop :: "'d driver \<Rightarrow> string \<Rightarrow> ConnectConfig \<Rightarrow> nat \<Rightarrow> int \<Rightarrow> go_err option
    \<Rightarrow> (('d, 's, 'z) world_scheme, go_err + Connection) act" where
  "connect_loop D connString cfg left attempt lastErr =
     (let give_up = (\<lambda>e. ret (Inl (Wrapf
            (''connect with retry failed after '' @ itoa (cc_MaxRetries cfg) @ '' attempts: '') e [])))
      in case left of
        0 \<Rightarrow> (case lastErr of None \<Rightarrow> panic ''nil pointer dereference'' | Some e \<Rightarrow> give_up e)
      | Suc left' \<Rightarrow> bnd (connect_once D connString) (\<lambda>r. case r of
            None \<Rightarrow> ret (Inr (new_connection connString))
          | Some e \<Rightarrow>
              if \<not> isRetryableError (Some e) then give_up e
              else seq (if attempt < cc_MaxRetries cfg
                        then bnd (calculateConnectBackoff attempt cfg) time_Sleep else ret ())
                       (connect_loop D connString cfg left' (attempt + 1) (Some e))))"

declare connect_loop.simps [simp del]

definition odbc_ConnectWithRetry :: "'d driver \<Rightarrow> string \<Rightarrow> ConnectConfig option
    \<Rightarrow> (('d, 's, 'z) world_scheme, go_err + Connection) act" where
  "odbc_ConnectWithRetry D connString cfg0 =
     (let cfg = connect_defaults cfg0 in connect_loop D connString cfg (nat (cc_MaxRetries cfg)) 1 None)"

definition Connect :: "'d driver \<Rightarrow> string \<Rightarrow> (('d, 's, 'z) world_scheme, go_err + Connection) act" where
  "Connect D connString = odbc_ConnectWithRetry D connString None"

subsection \<open>The state of a connection\<close>

definition IsHealthy :: "Connection \<Rightarrow> bool" where
  "IsHealthy c \<longleftrightarrow> co_connected c \<and> co_db c \<noteq> None"

definition SetMaxResultRows :: "int \<Rightarrow> Connection \<Rightarrow> Connection" where
  "SetMaxResultRows limit c = c\<lparr>co_maxResultRows := limit\<rparr>"

definition SetKeepAliveInterval :: "int \<Rightarrow> Connection \<Rightarrow> Connection" where
  "SetKeepAliveInterval interval c = c\<lparr>co_keepAliveInt := interval\<rparr>"

definition GetDriverName :: "Connection \<Rightarrow> string" where
  "GetDriverName c = (if \<not> IsHealthy c then [] else ''odbc'')"

text \<open>\<open>Close\<close> without a keep-alive goroutine running; the goroutine is modelled apart, below.\<close>

definition CloseConn :: "'d driver \<Rightarrow> Connection
    \<Rightarrow> (('d, 's, 'z) world_scheme, go_err option \<times> Connection) act" where
  "CloseConn D c =
     (case co_db c of
        Some db \<Rightarrow>
          if \<not> co_connected c then ret (Some ErrNotConnected, c)
          else bnd (db_Close D db) (\<lambda>err. ret (err, c\<lparr>co_connected := False, co_db := None\<rparr>))
      | None \<Rightarrow> ret (Some ErrNotConnected, c))"

definition PingConn :: "'d driver \<Rightarrow> Connection \<Rightarrow> (('d, 's, 'z) world_scheme, go_err option) act" where
  "PingConn D c =
     (case co_db c of
        Some db \<Rightarrow> if \<not> co_connected c then ret (Some ErrNotConnected) else db_Ping D db
      | None \<Rightarrow> ret (Some ErrNotConnected))"

definition ValidateConn :: "'d driver \<Rightarrow> Connection
    \<Rightarrow> (('d, 's, 'z) world_scheme, go_err option \<times> Connection) act" where
  "ValidateConn D c =
     (case co_db c of
        Some db \<Rightarrow>
          if \<not> co_connected c then ret (Some ErrNotConnected, c)
          else bnd (db_Ping D db) (\<lambda>err. case err of
              Some e \<Rightarrow> ret (Some (Wrapf ''connection validation failed: '' e []), c\<lparr>co_connected := False\<rparr>)
            | None \<Rightarrow> bnd time_Now (\<lambda>t. ret (None, c\<lparr>co_lastValidated := t\<rparr>)))
      | None \<Rightarrow> ret (Some ErrNotConnected, c))"

subsection \<open>Statements with retries\<close>

definition query_config :: "Connection \<Rightarrow> QueryRetryConfig" where
  "query_config c = (case co_retryConfig c of None \<Rightarrow> DefaultQueryRetryConfig | Some cfg \<Rightarrow> cfg)"

text \<open>The retry loop that \<open>Execute\<close>, \<open>Query\<close>, \<open>ExecuteGrantStatements\<close> and
  \<open>ExecuteMultipleStatements\<close> each spell out: poll the context, run, stop on success and on an
  error that is not retryable, else sleep and go on. \<open>finish\<close> is what follows the loop.\<close>

fun odbc_retry :: "ctx \<Rightarrow> QueryRetryConfig \<Rightarrow> (('d, 's, 'z) world_scheme, go_err + 'a) act
    \<Rightarrow> (go_err option \<Rightarrow> (('d, 's, 'z) world_scheme, go_err + 'a) act)
    \<Rightarrow> nat \<Rightarrow> int \<Rightarrow> go_err option \<Rightarrow> (('d, 's, 'z) world_scheme, go_err + 'a) act" where
  "odbc_retry c cfg op finish left attempt lastErr =
     (case left of
        0 \<Rightarrow> finish lastErr
      | Suc left' \<Rightarrow> bnd (ctx_poll c) (\<lambda>d. case d of
            Some e \<Rightarrow> ret (Inl e)
          | None \<Rightarrow> bnd op (\<lambda>r. case r of
                Inr v \<Rightarrow> ret (Inr v)
              | Inl e \<Rightarrow>
                  if \<not> isRetryableError (Some e) then ret (Inl e)
                  else if attempt < qr_MaxRetries cfg
                  then bnd (calculateQueryBackoff attempt cfg) (\<lambda>b.
                       bnd (sleep_ctx c b) (\<lambda>se.
                       if se \<noteq> None \<and> se \<noteq> Some DeadlineExceeded then ret (Inl (the se))
                       else odbc_retry c cfg op finish left' (attempt + 1) (Some e)))
                  else odbc_retry c cfg op finish left' (attempt + 1) (Some e))))"

declare odbc_retry.simps [simp del]

text \<open>After the loop: \<open>span.SetStatus(tracing.Error, lastErr.Error())\<close> panics on a nil error;
  the two multi-statement functions return \<open>lastErr\<close>, nil included.\<close>

definition finish_traced :: "go_err option \<Rightarrow> (('d, 's, 'z) world_scheme, go_err + 'a) act" where
  "finish_traced lastErr =
     (case lastErr of None \<Rightarrow> panic ''nil pointer dereference'' | Some e \<Rightarrow> ret (Inl e))"

definition finish_plain :: "go_err option \<Rightarrow> (('d, 's, 'z) world_scheme, go_err + unit) act" where
  "finish_plain lastErr = (case lastErr of None \<Rightarrow> ret (Inr ()) | Some e \<Rightarrow> ret (Inl e))"

definition err_to_sum :: "go_err option \<Rightarrow> go_err + unit" where
  "err_to_sum e = (case e of None \<Rightarrow> Inr () | Some x \<Rightarrow> Inl x)"

definition sum_to_err :: "go_err + 'a \<Rightarrow> go_err option" where
  "sum_to_err r = (case r of Inl e \<Rightarrow> Some e | Inr _ \<Rightarrow> None)"

definition Execute :: "'d driver \<Rightarrow> ctx \<Rightarrow> Connection \<Rightarrow> string
    \<Rightarrow> (('d, 's, 'z) world_scheme, go_err + unit) act" where
  "Execute D ctx c query =
     (case co_db c of
        None \<Rightarrow> ret (Inl ErrNotConnected)
      | Some db \<Rightarrow>
          if \<not> co_connected c then ret (Inl ErrNotConnected)
          else let cfg = query_config c in
            odbc_retry ctx cfg (bnd (db_Exec D db query) (\<lambda>e. ret (err_to_sum e))) finish_traced
              (nat (qr_MaxRetries cfg)) 1 None)"

definition limited_query :: "unicode \<Rightarrow> Connection \<Rightarrow> string \<Rightarrow> string" where
  "limited_query U c query =
     (if 0 < co_maxResultRows c then applyResultLimit U query (co_maxResultRows c) else query)"

definition Query :: "unicode \<Rightarrow> 'd driver \<Rightarrow> ctx \<Rightarrow> Connection \<Rightarrow> string
    \<Rightarrow> (('d, 's, 'z) world_scheme, go_err + string) act" where
  "Query U D ctx c query =
     (case co_db c of
        None \<Rightarrow> ret (Inl ErrNotConnected)
      | Some db \<Rightarrow>
          if \<not> co_connected c then ret (Inl ErrNotConnected)
          else let cfg = query_config c in
            odbc_retry ctx cfg (db_QueryRow D db (limited_query U c query)) finish_traced
              (nat (qr_MaxRetries cfg)) 1 None)"

text \<open>The statements of one text, up to the first error.\<close>

definition exec_each :: "'d driver \<Rightarrow> string \<Rightarrow> string list
    \<Rightarrow> (('d, 's, 'z) world_scheme, go_err option) act" where
  "exec_each D db stmts = for_err stmts (db_Exec D db)"

definition executeGrantStatementsOnce :: "unicode \<Rightarrow> 'd driver \<Rightarrow> string \<Rightarrow> string
    \<Rightarrow> (('d, 's, 'z) world_scheme, go_err option) act" where
  "executeGrantStatementsOnce U D db grantStatements =
     exec_each D db (List.map_filter (grant_to_send U) (parseSQLStatements grantStatements))"

definition executeMultipleStatementsOnce :: "'d driver \<Rightarrow> string \<Rightarrow> string
    \<Rightarrow> (('d, 's, 'z) world_scheme, go_err option) act" where
  "executeMultipleStatementsOnce D db sqlStatements =
     exec_each D db (List.map_filter stmt_to_send (parseSQLStatements sqlStatements))"

definition retry_statements :: "ctx \<Rightarrow> QueryRetryConfig \<Rightarrow> (('d, 's, 'z) world_scheme, go_err option) act
    \<Rightarrow> (('d, 's, 'z) world_scheme, go_err option) act" where
  "retry_statements ctx cfg op =
     bnd (odbc_retry ctx cfg (bnd op (\<lambda>e. ret (err_to_sum e))) finish_plain
            (nat (qr_MaxRetries cfg)) 1 None)
         (\<lambda>r. ret (sum_to_err r))"

text \<open>Both check \<open>connected\<close> only; a connected value without a handle would panic in
  \<open>database/sql\<close>.\<close>

definition with_handle :: "Connection \<Rightarrow> (string \<Rightarrow> (('d, 's, 'z) world_scheme, 'a) act)
    \<Rightarrow> (('d, 's, 'z) world_scheme, 'a) act" where
  "with_handle c k = (case co_db c of None \<Rightarrow> panic ''nil pointer dereference'' | Some db \<Rightarrow> k db)"

definition ExecuteGrantStatements :: "unicode \<Rightarrow> 'd driver \<Rightarrow> ctx \<Rightarrow> Connection \<Rightarrow> string
    \<Rightarrow> (('d, 's, 'z) world_scheme, go_err option) act" where
  "ExecuteGrantStatements U D ctx c grantStatements =
     (if \<not> co_connected c then ret (Some (Errorf ''not connected''))
      else if TrimSpace grantStatements = [] then ret None
      else retry_statements ctx (query_config c)
        (with_handle c (\<lambda>db. executeGrantStatementsOnce U D db grantStatements)))"

definition ExecuteMultipleStatements :: "'d driver \<Rightarrow> ctx \<Rightarrow> Connection \<Rightarrow> string
    \<Rightarrow> (('d, 's, 'z) world_scheme, go_err option) act" where
  "ExecuteMultipleStatements D ctx c sqlStatements =
     (if \<not> co_connected c then ret (Some (Errorf ''not connected''))
      else if TrimSpace sqlStatements = [] then ret None
      else retry_statements ctx (query_config c)
        (with_handle c (\<lambda>db. executeMultipleStatementsOnce D db sqlStatements)))"

subsection \<open>Users and privileges\<close>

definition exec_wrapped :: "'d driver \<Rightarrow> string \<Rightarrow> string \<Rightarrow> string
    \<Rightarrow> (('d, 's, 'z) world_scheme, go_err option) act" where
  "exec_wrapped D db query what =
     bnd (db_Exec D db query) (\<lambda>e. ret (map_option (\<lambda>err. Wrapf (what @ '': '') err []) e))"

definition CreateUser :: "'d driver \<Rightarrow> string \<Rightarrow> string \<Rightarrow> string \<Rightarrow> string \<Rightarrow> int
    \<Rightarrow> (('d, 's, 'z) world_scheme, go_err option) act" where
  "CreateUser D db username password defaultDB permSpace =
     exec_wrapped D db (create_user_sql username password defaultDB permSpace)
       (''failed to create user '' @ username)"

definition DropUser :: "'d driver \<Rightarrow> string \<Rightarrow> string
    \<Rightarrow> (('d, 's, 'z) world_scheme, go_err option) act" where
  "DropUser D db username = exec_wrapped D db (drop_user_sql username) (''failed to drop user '' @ username)"

definition GrantPrivileges :: "'d driver \<Rightarrow> string \<Rightarrow> string \<Rightarrow> string \<Rightarrow> string list
    \<Rightarrow> (('d, 's, 'z) world_scheme, go_err option) act" where
  "GrantPrivileges D db username database privileges =
     for_err privileges (\<lambda>priv. exec_wrapped D db (grant_sql priv database username)
       (''failed to grant '' @ priv @ '' on '' @ database @ '' to '' @ username))"

definition RevokePrivileges :: "'d driver \<Rightarrow> string \<Rightarrow> string \<Rightarrow> string \<Rightarrow> string list
    \<Rightarrow> (('d, 's, 'z) world_scheme, go_err option) act" where
  "RevokePrivileges D db username database privileges =
     for_err privileges (\<lambda>priv. exec_wrapped D db (revoke_sql priv database username)
       (''failed to revoke '' @ priv @ '' on '' @ database @ '' from '' @ username))"

definition AlterUserPassword :: "'d driver \<Rightarrow> string \<Rightarrow> string \<Rightarrow> string
    \<Rightarrow> (('d, 's, 'z) world_scheme, go_err option) act" where
  "AlterUserPassword D db username newPassword =
     exec_wrapped D db (alter_password_sql username newPassword)
       (''failed to alter user password for '' @ username)"

subsection \<open>Rows and information\<close>

text \<open>\<open>QueryRow\<close>: a nil row when not connected or when the context is done, the row of the first
  attempt that is not a retryable error, and one more query after the last attempt.\<close>

fun query_row_loop :: "'d driver \<Rightarrow> ctx \<Rightarrow> QueryRetryConfig \<Rightarrow> string \<Rightarrow> string \<Rightarrow> nat \<Rightarrow> int
    \<Rightarrow> (('d, 's, 'z) world_scheme, (go_err + string) option) act" where
  "query_row_loop D ctx cfg db query left attempt =
     (case left of
        0 \<Rightarrow> bnd (db_QueryRow D db query) (\<lambda>row. ret (Some row))
      | Suc left' \<Rightarrow> bnd (ctx_poll ctx) (\<lambda>d. case d of
            Some e \<Rightarrow> ret None
          | None \<Rightarrow> bnd (db_QueryRow D db query) (\<lambda>row.
              if \<not> isRetryableError (sum_to_err row) then ret (Some row)
              else if attempt < qr_MaxRetries cfg
              then bnd (calculateQueryBackoff attempt cfg) (\<lambda>b.
                   bnd (sleep_ctx ctx b) (\<lambda>se.
                   if se \<noteq> None \<and> se \<noteq> Some DeadlineExceeded then ret None
                   else query_row_loop D ctx cfg db query left' (attempt + 1)))
              else query_row_loop D ctx cfg db query left' (attempt + 1))))"

declare query_row_loop.simps [simp del]

definition QueryRow :: "unicode \<Rightarrow> 'd driver \<Rightarrow> ctx \<Rightarrow> Connection \<Rightarrow> string
    \<Rightarrow> (('d, 's, 'z) world_scheme, (go_err + string) option) act" where
  "QueryRow U D ctx c query =
     (case co_db c of
        None \<Rightarrow> ret None
      | Some db \<Rightarrow>
          if \<not> co_connected c then ret None
          else let cfg = query_config c in
            query_row_loop D ctx cfg db (limited_query U c query) (nat (qr_MaxRetries cfg)) 1)"

record DatabaseInfo =
  di_DriverName :: string
  di_DriverVersion :: string
  di_DBVersion :: string
  di_DBName :: string

definition version_queries :: "string list" where
  "version_queries = [''SELECT InfoData FROM DBC.Info WHERE InfoKey = '' @ quoted ''Version'',
     ''SELECT TRIM(SoftwareRelease) FROM DBC.DatabasesV WHERE DatabaseName = '' @ quoted ''DBC'',
     ''SELECT TOP 1 '' @ quoted ''Teradata'' @ '' || '' @ quoted '' '' @ '' || TRIM(Release) FROM DBC.SessionInfo'']"

definition name_queries :: "string list" where
  "name_queries = [''SELECT InfoData FROM DBC.Info WHERE InfoKey = '' @ quoted ''DatabaseName'',
     ''SELECT TOP 1 TRIM(DatabaseName) FROM DBC.DatabasesV'']"

text \<open>The queries are tried in order until one succeeds; a failed scan leaves the empty string.\<close>

fun first_answer :: "'d driver \<Rightarrow> string \<Rightarrow> string list \<Rightarrow> (('d, 's, 'z) world_scheme, string) act" where
  "first_answer D db [] = ret []"
| "first_answer D db (q # qs) = bnd (db_QueryRow D db q) (\<lambda>r. case r of
      Inr v \<Rightarrow> ret v
    | Inl e \<Rightarrow> first_answer D db qs)"

definition GetDatabaseInfo :: "'d driver \<Rightarrow> Connection
    \<Rightarrow> (('d, 's, 'z) world_scheme, go_err + DatabaseInfo) act" where
  "GetDatabaseInfo D c =
     (case co_db c of
        None \<Rightarrow> ret (Inl ErrNotConnected)
      | Some db \<Rightarrow>
          if \<not> co_connected c then ret (Inl ErrNotConnected)
          else bnd (first_answer D db version_queries) (\<lambda>ver.
               bnd (first_answer D db name_queries) (\<lambda>nm.
               ret (Inr \<lparr>di_DriverName = ''odbc'', di_DriverVersion = [], di_DBVersion = ver,
                         di_DBName = nm\<rparr>))))"

subsection \<open>The retry loop keeps its contract\<close>

lemma wp_calculateQueryBackoff:
  "clock_blind I \<Longrightarrow> I w \<Longrightarrow> (\<And>b w'. I w' \<Longrightarrow> Q b w') \<Longrightarrow> wp (calculateQueryBackoff attempt cfg) Q w"
  unfolding calculateQueryBackoff_def wp_bnd
  by (rule wp_rand_Float64 [of I]) (simp_all add: wp_ret)

lemma odbc_retry_spec:
  assumes blind: "clock_blind I"
    and op: "\<And>w. I w \<Longrightarrow> wp op (\<lambda>r w'. case r of Inr v \<Rightarrow> Q v w' | Inl e \<Rightarrow> E e \<and> I w') w"
    and start: "0 < left \<or> lastErr \<noteq> None" "\<And>e. lastErr = Some e \<Longrightarrow> E e"
    and finish: "\<And>e. finish (Some e) = ret (Inl e)"
    and "I w"
  shows "wp (odbc_retry c cfg op finish left attempt lastErr)
    (\<lambda>r w'. case r of Inr v \<Rightarrow> Q v w' | Inl e \<Rightarrow> (E e \<or> e = Canceled \<or> e = DeadlineExceeded) \<and> I w') w"
  using start \<open>I w\<close>
proof (induction left arbitrary: attempt lastErr w)
  case 0
  then obtain e where "lastErr = Some e" by auto
  with 0 finish show ?case by (simp add: odbc_retry.simps wp_ret)
next
  case (Suc left)
  let ?Post = "\<lambda>r w'. case r of Inr v \<Rightarrow> Q v w' | Inl e \<Rightarrow> (E e \<or> e = Canceled \<or> e = DeadlineExceeded) \<and> I w'"
  have again: "wp (odbc_retry c cfg op finish left (attempt + 1) (Some e)) ?Post w'" if "E e" "I w'" for e w'
    using Suc.IH [of "Some e" w' "attempt + 1"] that by simp
  have after: "wp (if attempt < qr_MaxRetries cfg
      then bnd (calculateQueryBackoff attempt cfg) (\<lambda>b. bnd (sleep_ctx c b) (\<lambda>se.
           if se \<noteq> None \<and> se \<noteq> Some DeadlineExceeded then ret (Inl (the se))
           else odbc_retry c cfg op finish left (attempt + 1) (Some e)))
      else odbc_retry c cfg op finish left (attempt + 1) (Some e)) ?Post w'" if "E e" "I w'" for e w'
  proof -
    have "wp (bnd (sleep_ctx c b) (\<lambda>se.
           if se \<noteq> None \<and> se \<noteq> Some DeadlineExceeded then ret (Inl (the se))
           else odbc_retry c cfg op finish left (attempt + 1) (Some e))) ?Post w''" if "I w''" for b w''
      unfolding wp_bnd by (rule wp_sleep_ctx [OF blind that]) (auto simp: wp_rules again [OF \<open>E e\<close>])
    with that again [OF that] show ?thesis
      by (auto simp: wp_bnd intro!: wp_calculateQueryBackoff [OF blind])
  qed
  have run: "wp (bnd op (\<lambda>r. case r of Inr v \<Rightarrow> ret (Inr v)
      | Inl e \<Rightarrow> if \<not> isRetryableError (Some e) then ret (Inl e)
          else if attempt < qr_MaxRetries cfg
          then bnd (calculateQueryBackoff attempt cfg) (\<lambda>b. bnd (sleep_ctx c b) (\<lambda>se.
               if se \<noteq> None \<and> se \<noteq> Some DeadlineExceeded then ret (Inl (the se))
               else odbc_retry c cfg op finish left (attempt + 1) (Some e)))
          else odbc_retry c cfg op finish left (attempt + 1) (Some e))) ?Post w'" if "I w'" for w'
    unfolding wp_bnd
    apply (rule wp_mono [OF op [OF that]])
    subgoal for r w''
      using after [of _ w''] by (cases r) (simp_all add: wp_ret)
    done
  show ?case
    unfolding odbc_retry.simps [of _ _ _ _ "Suc left"] nat.case wp_bnd [of "ctx_poll c"]
    by (rule wp_ctx_poll [OF blind Suc.prems(3)]) (use run in \<open>auto simp: wp_ret\<close>)
qed

lemma odbc_retry_keeps:
  assumes blind: "clock_blind I" and op: "keeps I op" and fin: "\<And>e. keeps I (finish e)"
  shows "keeps I (odbc_retry c cfg op finish left attempt lastErr)"
proof (induction left arbitrary: attempt lastErr)
  case 0
  then show ?case using fin by (simp add: odbc_retry.simps)
next
  case (Suc left)
  then show ?case
    unfolding odbc_retry.simps [of _ _ _ _ "Suc left"] nat.case calculateQueryBackoff_def
    by (intro keeps_rules keeps_blind [OF blind] op)
qed

lemma odbc_retry_costs:
  assumes blind: "clock_blind m" and op: "costs m k op" and fin: "\<And>e. costs m 0 (finish e)"
  shows "costs m (left * k) (odbc_retry c cfg op finish left attempt lastErr)"
proof (induction left arbitrary: attempt lastErr)
  case 0
  then show ?case using fin by (simp add: odbc_retry.simps)
next
  case (Suc left)
  have "costs m (0 + (0 + (left * k))) (bnd (calculateQueryBackoff attempt cfg) (\<lambda>b. bnd (sleep_ctx c b) (\<lambda>se.
        if se \<noteq> None \<and> se \<noteq> Some DeadlineExceeded then ret (Inl (the se))
        else odbc_retry c cfg op finish left (attempt + 1) (Some e))))" for e
  proof (intro costs_bnd)
    show "costs m 0 (calculateQueryBackoff attempt cfg)"
      using costs_bnd [OF costs_blind(3) [OF blind] costs_ret] by (simp add: calculateQueryBackoff_def)
    show "costs m 0 (sleep_ctx c b)" for b by (rule costs_blind(4) [OF blind])
    show "costs m (left * k) (if se \<noteq> None \<and> se \<noteq> Some DeadlineExceeded then ret (Inl (the se))
        else odbc_retry c cfg op finish left (attempt + 1) (Some e))" for se
      using Suc.IH by (simp add: costs_ret)
  qed
  then have "costs m (left * k) (case r of Inr v \<Rightarrow> ret (Inr v)
      | Inl e \<Rightarrow> if \<not> isRetryableError (Some e) then ret (Inl e)
          else if attempt < qr_MaxRetries cfg
          then bnd (calculateQueryBackoff attempt cfg) (\<lambda>b. bnd (sleep_ctx c b) (\<lambda>se.
               if se \<noteq> None \<and> se \<noteq> Some DeadlineExceeded then ret (Inl (the se))
               else odbc_retry c cfg op finish left (attempt + 1) (Some e)))
          else odbc_retry c cfg op finish left (attempt + 1) (Some e))" for r
    using Suc.IH by (cases r) (simp_all add: costs_ret)
  from costs_bnd [OF op this] have step: "costs m (k + left * k) (bnd op (\<lambda>r. case r of Inr v \<Rightarrow> ret (Inr v)
      | Inl e \<Rightarrow> if \<not> isRetryableError (Some e) then ret (Inl e)
          else if attempt < qr_MaxRetries cfg
          then bnd (calculateQueryBackoff attempt cfg) (\<lambda>b. bnd (sleep_ctx c b) (\<lambda>se.
               if se \<noteq> None \<and> se \<noteq> Some DeadlineExceeded then ret (Inl (the se))
               else odbc_retry c cfg op finish left (attempt + 1) (Some e)))
          else odbc_retry c cfg op finish left (attempt + 1) (Some e)))" .
  have "costs m (0 + (k + left * k)) (odbc_retry c cfg op finish (Suc left) attempt lastErr)"
    unfolding odbc_retry.simps [of _ _ _ _ "Suc left"] nat.case
    using step by (intro costs_bnd costs_blind(2) [OF blind]) (simp add: costs_ret split: option.split)
  then show ?case by simp
qed

definition retries_of :: "QueryRetryConfig \<Rightarrow> QueryRetryConfig" where
  "retries_of cfg = (if 0 < qr_MaxRetries cfg then cfg else DefaultQueryRetryConfig)"

lemma retries_of_pos: "0 < qr_MaxRetries (retries_of cfg)"
  by (simp add: retries_of_def DefaultQueryRetryConfig_def odbc_DefaultMaxRetries_def)

text \<open>The only configuration the program ever gives a connection is the default one, which makes
  three attempts. The contract holds for every configuration with at least one.\<close>

interpretation odbc_run: retry_runner "retry_statements c (retries_of cfg)"
  "nat (qr_MaxRetries (retries_of cfg))" for c cfg
proof
  fix I :: "('a, 'b, 'c) world_scheme \<Rightarrow> bool" and op E Q
  assume blind: "clock_blind I" and op: "op_spec I op E Q"
  let ?op = "bnd op (\<lambda>e. ret (err_to_sum e))"
  have op': "wp ?op (\<lambda>r w'. case r of Inr v \<Rightarrow> Q w' | Inl e \<Rightarrow> E e \<and> I w') w" if "I w" for w
  proof -
    from op that have "wp op (\<lambda>r w'. case r of None \<Rightarrow> Q w' | Some e \<Rightarrow> E e \<and> I w') w"
      by (simp add: op_spec_def)
    then show ?thesis unfolding wp_bnd
    proof (rule wp_mono)
      show "wp (ret (err_to_sum r)) (\<lambda>r w'. case r of Inr v \<Rightarrow> Q w' | Inl e \<Rightarrow> E e \<and> I w') w'"
        if "case r of None \<Rightarrow> Q w' | Some e \<Rightarrow> E e \<and> I w'" for r w'
        using that by (cases r) (simp_all add: wp_ret err_to_sum_def)
    qed
  qed
  show "op_spec I (retry_statements c (retries_of cfg) op) (\<lambda>e. E e \<or> e = Canceled \<or> e = DeadlineExceeded) Q"
    unfolding op_spec_def retry_statements_def wp_bnd
  proof (intro allI impI)
    fix w assume "I w"
    have "wp (odbc_retry c (retries_of cfg) ?op finish_plain (nat (qr_MaxRetries (retries_of cfg))) 1 None)
      (\<lambda>r w'. case r of Inr v \<Rightarrow> Q w' | Inl e \<Rightarrow> (E e \<or> e = Canceled \<or> e = DeadlineExceeded) \<and> I w') w"
      by (rule odbc_retry_spec [OF blind op' _ _ _ \<open>I w\<close>])
        (use retries_of_pos [of cfg] in \<open>simp_all add: finish_plain_def\<close>)
    then show "wp (odbc_retry c (retries_of cfg) ?op finish_plain (nat (qr_MaxRetries (retries_of cfg))) 1 None)
      (\<lambda>a. wp (ret (sum_to_err a)) (\<lambda>r w'. case r of None \<Rightarrow> Q w'
          | Some e \<Rightarrow> (E e \<or> e = Canceled \<or> e = DeadlineExceeded) \<and> I w')) w"
      by (rule wp_mono) (auto simp: wp_ret sum_to_err_def split: sum.splits)
  qed
next
  fix I :: "('a, 'b, 'c) world_scheme \<Rightarrow> bool" and op :: "(('a, 'b, 'c) world_scheme, go_err option) act"
  assume blind: "clock_blind I" and op: "keeps I op"
  then show "keeps I (retry_statements c (retries_of cfg) op)"
    unfolding retry_statements_def
    by (intro keeps_rules odbc_retry_keeps) (auto simp: finish_plain_def intro!: keeps_rules)
next
  fix m :: "('a, 'b, 'c) world_scheme \<Rightarrow> nat" and k
    and op :: "(('a, 'b, 'c) world_scheme, go_err option) act"
  assume blind: "clock_blind m" and op: "costs m k op"
  from costs_bnd [OF op costs_ret [of _ 0]] have "costs m k (bnd op (\<lambda>e. ret (err_to_sum e)))" by simp
  moreover have "costs m 0 (finish_plain e)" for e
    by (cases e) (simp_all add: finish_plain_def costs_ret)
  ultimately have "costs m (nat (qr_MaxRetries (retries_of cfg)) * k + 0) (retry_statements c (retries_of cfg) op)"
    unfolding retry_statements_def by (intro costs_bnd odbc_retry_costs blind costs_ret)
  then show "costs m (nat (qr_MaxRetries (retries_of cfg)) * k) (retry_statements c (retries_of cfg) op)"
    by simp
qed

subsection \<open>What reaches the database\<close>

text \<open>The statements a text stands for, and the log entries of sending them to a database.\<close>

definition statements_of :: "string \<Rightarrow> string list" where
  "statements_of sql = List.map_filter stmt_to_send (parseSQLStatements sql)"

lemma wp_db_Exec:
  assumes "\<And>e w'. w_sql w' = w_sql w @ [(db, q)] \<Longrightarrow> w_st w' = w_st w \<Longrightarrow> world.more w' = world.more w \<Longrightarrow> Q e w'"
  shows "wp (db_Exec D db q) Q w"
proof -
  let ?w1 = "w\<lparr>w_sql := w_sql w @ [(db, q)], w_now := w_now w + int (w_ticks w (w_tickpos w)),
      w_tickpos := Suc (w_tickpos w)\<rparr>"
  obtain e d where "drv_exec D db q (w_db w) = (e, d)" by (cases "drv_exec D db q (w_db w)")
  then have "db_Exec D db q w = (Ret e, ?w1\<lparr>w_db := d\<rparr>)"
    by (simp add: db_Exec_def on_db_def tick_def modify_def seq_def bnd_def)
  with assms [of "?w1\<lparr>w_db := d\<rparr>" e] show ?thesis by (simp add: wp_def)
qed

text \<open>One pass over the statements logs all of them when it succeeds, and a nonempty front part
  ending in the failed one when it does not.\<close>

definition sent :: "string \<Rightarrow> string list \<Rightarrow> ('d, 's, 'z) world_scheme \<Rightarrow> go_err option
    \<Rightarrow> ('d, 's, 'z) world_scheme \<Rightarrow> bool" where
  "sent db stmts w r w' \<longleftrightarrow> (case r of
       None \<Rightarrow> w_sql w' = w_sql w @ map (Pair db) stmts
     | Some e \<Rightarrow> \<exists>k < length stmts. w_sql w' = w_sql w @ map (Pair db) (take (Suc k) stmts))"

lemma sent_Cons:
  "sent db stmts w1 r w' \<Longrightarrow> w_sql w1 = w_sql w @ [(db, s)] \<Longrightarrow> sent db (s # stmts) w r w'"
  by (cases r) (auto simp: sent_def)

lemma wp_exec_each: "wp (exec_each D db stmts) (sent db stmts w) w"
  unfolding exec_each_def
proof (induction stmts arbitrary: w)
  case Nil
  then show ?case by (simp add: wp_ret sent_def)
next
  case (Cons s stmts)
  have rest: "wp (case e of None \<Rightarrow> for_err stmts (db_Exec D db) | Some e \<Rightarrow> ret (Some e)) (sent db (s # stmts) w) w1"
    if "w_sql w1 = w_sql w @ [(db, s)]" for e w1
  proof (cases e)
    case None
    then show ?thesis using wp_mono [OF Cons.IH [of w1] sent_Cons [OF _ that]] by simp
  next
    case (Some a)
    with that show ?thesis by (auto simp: wp_ret sent_def intro!: exI [of _ 0])
  qed
  show ?case unfolding for_err.simps wp_bnd by (rule wp_db_Exec) (rule rest)
qed

lemma costs_db_Exec: "costs (\<lambda>w. length (w_sql w)) 1 (db_Exec D db q)"
  unfolding costs_def
proof
  fix w
  have "wp (db_Exec D db q) (\<lambda>_ w'. length (w_sql w') \<le> length (w_sql w) + 1) w"
    by (rule wp_db_Exec) simp
  then obtain r w' where "db_Exec D db q w = (Ret r, w')" "length (w_sql w') \<le> length (w_sql w) + 1"
    by (auto simp: wp_returns)
  then show "length (w_sql (snd (db_Exec D db q w))) \<le> length (w_sql w) + 1" by simp
qed

lemma costs_exec_each: "costs (\<lambda>w. length (w_sql w)) (length stmts) (exec_each D db stmts)"
  unfolding exec_each_def using costs_for_err [OF costs_db_Exec, of stmts] by simp

lemma new_connection_config:
  "query_config (new_connection cs) = retries_of DefaultQueryRetryConfig"
  "with_handle (new_connection cs) k = k cs" "co_connected (new_connection cs)"
  "nat (qr_MaxRetries (retries_of DefaultQueryRetryConfig)) = 3"
  by (simp_all add: query_config_def new_connection_def with_handle_def retries_of_def
      DefaultQueryRetryConfig_def odbc_DefaultMaxRetries_def)

lemma ExecuteMultiple_eq:
  "ExecuteMultipleStatements D ctx (new_connection cs) sql =
     (if TrimSpace sql = [] then ret None
      else retry_statements ctx (retries_of DefaultQueryRetryConfig) (exec_each D cs (statements_of sql)))"
  by (simp add: ExecuteMultipleStatements_def new_connection_config executeMultipleStatementsOnce_def
      statements_of_def)

lemma wp_ExecuteMultiple:
  "wp (ExecuteMultipleStatements D ctx (new_connection cs) sql)
     (\<lambda>r w'. (r = None \<longrightarrow> TrimSpace sql \<noteq> [] \<longrightarrow> suffix (map (Pair cs) (statements_of sql)) (w_sql w'))
        \<and> length (w_sql w') \<le> length (w_sql w) + 3 * length (statements_of sql)) w"
proof (cases "TrimSpace sql = []")
  case True
  then show ?thesis by (simp add: ExecuteMultiple_eq wp_ret)
next
  case False
  let ?op = "exec_each D cs (statements_of sql)"
  let ?run = "retry_statements ctx (retries_of DefaultQueryRetryConfig) ?op"
  have op: "op_spec (\<lambda>_. True) ?op (\<lambda>_. True) (\<lambda>w'. suffix (map (Pair cs) (statements_of sql)) (w_sql w'))"
    unfolding op_spec_def
    by (auto intro!: wp_mono [OF wp_exec_each] simp: sent_def suffix_def split: option.splits)
  have bound: "length (w_sql (snd (?run w))) \<le> length (w_sql w) + 3 * length (statements_of sql)"
    using odbc_run.statements_bound [OF costs_exec_each, where c = ctx and cfg = DefaultQueryRetryConfig and w = w]
    by (simp add: new_connection_config)
  have blind: "clock_blind (\<lambda>_. True)" by (simp add: clock_blind_def)
  show ?thesis
    by (cases rule: odbc_run.run_returns [OF blind op, where w = w and c = ctx and cfg = DefaultQueryRetryConfig])
      (use bound False in \<open>simp_all add: ExecuteMultiple_eq wp_def\<close>)
qed

text \<open>C21. Running a multi-statement text on a fresh connection always returns, without a panic, whatever
  the driver answers. When it reports success, the last statements the database received are
  exactly the statements of the text, in order; and however it ends, at most three times as many
  statements were sent as the text has.\<close>
theorem ExecuteMultipleStatements_sends_all:
  "\<exists>r w'. ExecuteMultipleStatements D ctx (new_connection cs) sql w = (Ret r, w') \<and>
     (r = None \<longrightarrow> TrimSpace sql \<noteq> [] \<longrightarrow> suffix (map (Pair cs) (statements_of sql)) (w_sql w')) \<and>
     length (w_sql w') \<le> length (w_sql w) + 3 * length (statements_of sql)"
  using wp_ExecuteMultiple [of D ctx cs sql w] by (auto simp: wp_returns)

theorem ExecuteMultipleStatements_sends_all_witness:
  "\<exists>r w'. ExecuteMultipleStatements steady_driver Background (new_connection ''DSN=x'') ''DROP USER a'' (start_world ()) = (Ret r, w')
     \<and> length (w_sql w') \<le> 3"
proof -
  have "length (statements_of ''DROP USER a'') = 1" 
    by (simp add: statements_of_def parseSQLStatements_def stmt_to_send_def List.map_filter_def Let_def suffix_to_prefix go_eval)
  with ExecuteMultipleStatements_sends_all [of steady_driver Background "''DSN=x''" "''DROP USER a''" "start_world ()"]
  show ?thesis by (auto simp: start_world_def)
qed

end
