(* ===== verification/Retry.thy ===== *)
theory Retry
  imports Odbc_Conn
begin

text \<open>
  The package \<open>retry\<close> (\<open>retry/retry.go\<close>): which errors are transient, the backoff, and the two
  retry loops. An operation is an action whose value is its error, or none. The clients of a retry
  loop rely on one contract, the locale \<open>retry_runner\<close>: the loop runs the operation at most a fixed
  number of times and keeps what the operation keeps.
\<close>

subsection \<open>Configuration\<close>

definition DefaultMaxAttempts :: int where "DefaultMaxAttempts = 3"
definition DefaultInitialInterval :: int where "DefaultInitialInterval = 100 * millisecond"
definition DefaultMaxInterval :: int where "DefaultMaxInterval = 5 * second"
definition DefaultMultiplier :: rat where "DefaultMultiplier = 2"

record 'w RetryConfig =
  rc_MaxAttempts :: int
  rc_InitialInterval :: int
  rc_MaxInterval :: int
  rc_Multiplier :: rat
  rc_OnRetry :: "(int \<Rightarrow> go_err \<Rightarrow> ('w, unit) act) option"

definition DefaultConfig :: "'w RetryConfig" where
  "DefaultConfig = \<lparr>rc_MaxAttempts = DefaultMaxAttempts, rc_InitialInterval = DefaultInitialInterval,
     rc_MaxInterval = DefaultMaxInterval, rc_Multiplier = DefaultMultiplier, rc_OnRetry = None\<rparr>"

subsection \<open>Transient errors\<close>

definition NewTransientError :: "go_err \<Rightarrow> go_err" where
  "NewTransientError e = Transient True e"

definition transientIndicators :: "string list" where
  "transientIndicators = [''ECONNREFUSED'', ''ECONNRESET'', ''ETIMEDOUT'', ''ENETUNREACH'',
     ''EHOSTUNREACH'', ''connection refused'', ''connection reset'', ''timeout'',
     ''temporary failure'', ''server declined'', ''unable to connect'', ''deadlock'',
     ''lock contention'', ''resource unavailable'', ''table is busy'', ''transaction was deadlocked'']"

text \<open>The type assertions look at the error itself, not at what it wraps.\<close>

definition IsTransientError :: "go_err option \<Rightarrow> bool" where
  "IsTransientError err =
     (case err of
        None \<Rightarrow> False
      | Some e \<Rightarrow> (case e of
            Transient t _ \<Rightarrow> t
          | UrlError temporary tmo _ \<Rightarrow> temporary \<or> tmo
          | _ \<Rightarrow> list_ex (\<lambda>s. Contains (err_text e) s) transientIndicators))"

definition IsRetryableError :: "go_err option \<Rightarrow> bool" where
  "IsRetryableError err =
     (case err of
        None \<Rightarrow> False
      | Some e \<Rightarrow> if e = ErrNotConnected then True else IsTransientError (Some e))"

definition calculateBackoff :: "int \<Rightarrow> 'w RetryConfig \<Rightarrow> (('d, 's, 'z) world_scheme, int) act" where
  "calculateBackoff attempt cfg = bnd rand_Float64 (\<lambda>r.
     ret (backoff (rc_InitialInterval cfg) (rc_MaxInterval cfg) (rc_Multiplier cfg) attempt r))"

subsection \<open>The loops\<close>

text \<open>What happens between two attempts: the callback, then the sleep. The value is the error with
  which the loop stops, if the context was cancelled meanwhile.\<close>

definition between_attempts :: "ctx \<Rightarrow> ('d, 's, 'z) world_scheme RetryConfig \<Rightarrow> int \<Rightarrow> go_err
    \<Rightarrow> (('d, 's, 'z) world_scheme, go_err option) act" where
  "between_attempts c cfg attempt e =
     bnd (calculateBackoff attempt cfg) (\<lambda>b.
     seq (case rc_OnRetry cfg of None \<Rightarrow> ret () | Some f \<Rightarrow> f attempt e)
     (bnd (sleep_ctx c b) (\<lambda>se.
      ret (if se \<noteq> None \<and> se \<noteq> Some DeadlineExceeded then se else None))))"

fun do_loop :: "ctx \<Rightarrow> ('d, 's, 'z) world_scheme RetryConfig
    \<Rightarrow> (('d, 's, 'z) world_scheme, go_err option) act \<Rightarrow> nat \<Rightarrow> int \<Rightarrow> go_err option
    \<Rightarrow> (('d, 's, 'z) world_scheme, go_err option) act" where
  "do_loop c cfg op left attempt lastErr =
     (case left of
        0 \<Rightarrow> (case lastErr of None \<Rightarrow> panic ''nil pointer dereference'' | Some e \<Rightarrow> ret (Some e))
      | Suc left' \<Rightarrow> bnd (ctx_poll c) (\<lambda>d. case d of
            Some e \<Rightarrow> ret (Some e)
          | None \<Rightarrow> bnd op (\<lambda>r. case r of
                None \<Rightarrow> ret None
              | Some e \<Rightarrow>
                  if \<not> IsRetryableError (Some e) then ret (Some e)
                  else if attempt < rc_MaxAttempts cfg
                  then bnd (between_attempts c cfg attempt e) (\<lambda>stop. case stop of
                         Some e' \<Rightarrow> ret (Some e')
                       | None \<Rightarrow> do_loop c cfg op left' (attempt + 1) (Some e))
                  else do_loop c cfg op left' (attempt + 1) (Some e))))"

declare do_loop.simps [simp del]

text \<open>\<open>Do\<close> reads \<open>cfg.MaxAttempts\<close> for its span before the test \<open>cfg == nil\<close>.\<close>

definition Do :: "ctx \<Rightarrow> ('d, 's, 'z) world_scheme RetryConfig option
    \<Rightarrow> (('d, 's, 'z) world_scheme, go_err option) act
    \<Rightarrow> (('d, 's, 'z) world_scheme, go_err option) act" where
  "Do c cfg0 op =
     (case cfg0 of
        None \<Rightarrow> panic ''nil pointer dereference''
      | Some cfg1 \<Rightarrow>
          let cfg = (if rc_MaxAttempts cfg1 \<le> 0 then cfg1\<lparr>rc_MaxAttempts := DefaultMaxAttempts\<rparr> else cfg1)
          in do_loop c cfg op (nat (rc_MaxAttempts cfg)) 1 None)"

text \<open>\<open>DoWithResult\<close> returns a result and an error; both are nil when the loop does not run.\<close>

fun do_result_loop :: "ctx \<Rightarrow> ('d, 's, 'z) world_scheme RetryConfig
    \<Rightarrow> (('d, 's, 'z) world_scheme, go_err + 'r) act \<Rightarrow> nat \<Rightarrow> int \<Rightarrow> go_err option
    \<Rightarrow> (('d, 's, 'z) world_scheme, 'r option \<times> go_err option) act" where
  "do_result_loop c cfg op left attempt lastErr =
     (case left of
        0 \<Rightarrow> ret (None, lastErr)
      | Suc left' \<Rightarrow> bnd (ctx_poll c) (\<lambda>d. case d of
            Some e \<Rightarrow> ret (None, Some e)
          | None \<Rightarrow> bnd op (\<lambda>r. case r of
                Inr v \<Rightarrow> ret (Some v, None)
              | Inl e \<Rightarrow>
                  if \<not> IsRetryableError (Some e) then ret (None, Some e)
                  else if attempt < rc_MaxAttempts cfg
                  then bnd (between_attempts c cfg attempt e) (\<lambda>stop. case stop of
                         Some e' \<Rightarrow> ret (None, Some e')
                       | None \<Rightarrow> do_result_loop c cfg op left' (attempt + 1) (Some e))
                  else do_result_loop c cfg op left' (attempt + 1) (Some e))))"

declare do_result_loop.simps [simp del]

definition DoWithResult :: "ctx \<Rightarrow> ('d, 's, 'z) world_scheme RetryConfig option
    \<Rightarrow> (('d, 's, 'z) world_scheme, go_err + 'r) act
    \<Rightarrow> (('d, 's, 'z) world_scheme, 'r option \<times> go_err option) act" where
  "DoWithResult c cfg0 op =
     (let cfg = (case cfg0 of None \<Rightarrow> DefaultConfig | Some cfg1 \<Rightarrow> cfg1)
      in do_result_loop c cfg op (nat (rc_MaxAttempts cfg)) 1 None)"

definition UntilSuccess :: "ctx \<Rightarrow> int \<Rightarrow> (('d, 's, 'z) world_scheme, go_err option) act
    \<Rightarrow> (('d, 's, 'z) world_scheme, go_err option) act" where
  "UntilSuccess c maxAttempts fn =
     Do c (Some \<lparr>rc_MaxAttempts = maxAttempts, rc_InitialInterval = 0, rc_MaxInterval = 0,
                 rc_Multiplier = 0, rc_OnRetry = None\<rparr>) fn"

text \<open>The two wrappers pass a nil configuration. \<open>conn\<close> is the variable the closure assigns; it is
  the connection of the last attempt.\<close>

definition connect_op :: "'d driver \<Rightarrow> string
    \<Rightarrow> (('d, 's, 'z) world_scheme, go_err option) act" where
  "connect_op D connString = bnd (Connect D connString) (\<lambda>r. ret (sum_to_err r))"

definition retry_ConnectWithRetry :: "'d driver \<Rightarrow> ctx \<Rightarrow> string
    \<Rightarrow> (('d, 's, 'z) world_scheme, go_err + Connection) act" where
  "retry_ConnectWithRetry D c connString =
     bnd (Do c None (connect_op D connString)) (\<lambda>err. case err of
       Some e \<Rightarrow> ret (Inl (Wrapf ''connect with retry failed: '' e []))
     | None \<Rightarrow> ret (Inr (new_connection connString)))"

text \<open>Connect, run, and close the connection however the run ends. It is the operation of
  \<open>ExecuteWithRetry\<close>, and with other bodies that of the plugin's \<open>executeSQL\<close>.\<close>

definition with_connection :: "'d driver \<Rightarrow> string
    \<Rightarrow> (Connection \<Rightarrow> (('d, 's, 'z) world_scheme, go_err option) act)
    \<Rightarrow> (('d, 's, 'z) world_scheme, go_err option) act" where
  "with_connection D connString body =
     bnd (Connect D connString) (\<lambda>r. case r of
       Inl e \<Rightarrow> ret (Some e)
     | Inr conn \<Rightarrow> with_defer (bnd (CloseConn D conn) (\<lambda>_. ret ())) (body conn))"

definition ExecuteWithRetry :: "'d driver \<Rightarrow> ctx \<Rightarrow> string \<Rightarrow> string
    \<Rightarrow> (('d, 's, 'z) world_scheme, go_err option) act" where
  "ExecuteWithRetry D c connString sql =
     bnd (Do c None (with_connection D connString (\<lambda>conn. ExecuteMultipleStatements D c conn sql)))
       (\<lambda>err. ret (map_option (\<lambda>e. Wrapf ''execute with retry failed: '' e []) err))"

subsection \<open>Transient errors\<close>

text \<open>For an error that is neither marked nor a URL error, the two packages agree on what may be
  retried: \<open>odbc.isRetryableError\<close> and \<open>retry.IsRetryableError\<close> give the same answer, except that
  \<open>retry\<close> also retries \<open>odbc.ErrNotConnected\<close>.\<close>
theorem retryable_checks_agree:
  "IsRetryableError (Some e) \<longleftrightarrow>
     e = ErrNotConnected \<or>
     (case e of Transient t _ \<Rightarrow> t | UrlError temporary tmo _ \<Rightarrow> temporary \<or> tmo
      | _ \<Rightarrow> isRetryableError (Some e))"
proof -
  have "Contains s ''transaction was deadlocked'' \<Longrightarrow> Contains s ''deadlock''" for s
    by (erule Contains_trans) (simp add: Contains_eval)
  then have "list_ex (Contains s) transientIndicators \<longleftrightarrow> list_ex (Contains s) retryableIndicators" for s
    unfolding transientIndicators_def retryableIndicators_def list_ex_iff by auto
  then show ?thesis
    by (simp add: IsRetryableError_def IsTransientError_def isRetryableError_def split: go_err.split)
qed

subsection \<open>The loop keeps the contract\<close>

lemma wp_between_attempts:
  assumes "clock_blind I" "I w" "rc_OnRetry cfg = None"
    and "\<And>w'. I w' \<Longrightarrow> Q None w'" "\<And>w'. I w' \<Longrightarrow> Q (Some Canceled) w'"
  shows "wp (between_attempts c cfg attempt e) Q w"
  unfolding between_attempts_def calculateBackoff_def wp_bnd
proof (rule wp_rand_Float64 [OF assms(1,2)])
  fix r w' assume "I w'"
  then have "wp (sleep_ctx c b) (\<lambda>se. wp (ret (if se \<noteq> None \<and> se \<noteq> Some DeadlineExceeded then se else None)) Q) w'" for b
    by (rule wp_sleep_ctx [OF assms(1)]) (auto simp: wp_ret assms(4,5))
  then show "wp (ret (backoff (rc_InitialInterval cfg) (rc_MaxInterval cfg) (rc_Multiplier cfg) attempt r))
      (\<lambda>b. wp (seq (case rc_OnRetry cfg of None \<Rightarrow> ret () | Some f \<Rightarrow> f attempt e)
        (bnd (sleep_ctx c b) (\<lambda>se. ret (if se \<noteq> None \<and> se \<noteq> Some DeadlineExceeded then se else None)))) Q) w'"
    by (simp add: wp_ret wp_seq wp_bnd assms(3))
qed

lemma do_loop_spec:
  assumes blind: "clock_blind I" and op: "op_spec I op E Q" and cfg: "rc_OnRetry cfg = None"
    and start: "0 < left \<or> lastErr \<noteq> None" "\<And>e. lastErr = Some e \<Longrightarrow> E e" and "I w"
  shows "wp (do_loop c cfg op left attempt lastErr)
    (\<lambda>r w'. case r of None \<Rightarrow> Q w' | Some e \<Rightarrow> (E e \<or> e = Canceled \<or> e = DeadlineExceeded) \<and> I w') w"
  using start \<open>I w\<close>
proof (induction left arbitrary: attempt lastErr w)
  case 0
  then obtain e where "lastErr = Some e" by auto
  with 0 show ?case by (simp add: do_loop.simps wp_ret)
next
  case (Suc left)
  let ?Post = "\<lambda>r w'. case r of None \<Rightarrow> Q w' | Some e \<Rightarrow> (E e \<or> e = Canceled \<or> e = DeadlineExceeded) \<and> I w'"
  have again: "wp (do_loop c cfg op left (attempt + 1) (Some e)) ?Post w'" if "E e" "I w'" for e w'
    using Suc.IH [of "Some e" w' "attempt + 1"] that by simp
  have after: "wp (case r of None \<Rightarrow> ret None
      | Some e \<Rightarrow> if \<not> IsRetryableError (Some e) then ret (Some e)
          else if attempt < rc_MaxAttempts cfg
          then bnd (between_attempts c cfg attempt e) (\<lambda>stop. case stop of
                 Some e' \<Rightarrow> ret (Some e')
               | None \<Rightarrow> do_loop c cfg op left (attempt + 1) (Some e))
          else do_loop c cfg op left (attempt + 1) (Some e)) ?Post w'"
    if "case r of None \<Rightarrow> Q w' | Some e \<Rightarrow> E e \<and> I w'" for r w'
  proof (cases r)
    case None
    with that show ?thesis by (simp add: wp_ret)
  next
    case (Some e)
    with that have e: "E e" "I w'" by simp_all
    then have "wp (bnd (between_attempts c cfg attempt e) (\<lambda>stop. case stop of
                 Some e' \<Rightarrow> ret (Some e')
               | None \<Rightarrow> do_loop c cfg op left (attempt + 1) (Some e))) ?Post w'"
      unfolding wp_bnd by (intro wp_between_attempts [OF blind _ cfg]) (simp_all add: wp_ret again)
    with Some e again [OF e] show ?thesis by (simp add: wp_ret)
  qed
  have run: "wp (bnd op (\<lambda>r. case r of None \<Rightarrow> ret None
      | Some e \<Rightarrow> if \<not> IsRetryableError (Some e) then ret (Some e)
          else if attempt < rc_MaxAttempts cfg
          then bnd (between_attempts c cfg attempt e) (\<lambda>stop. case stop of
                 Some e' \<Rightarrow> ret (Some e')
               | None \<Rightarrow> do_loop c cfg op left (attempt + 1) (Some e))
          else do_loop c cfg op left (attempt + 1) (Some e))) ?Post w'" if "I w'" for w'
  proof -
    from op that have "wp op (\<lambda>r w'. case r of None \<Rightarrow> Q w' | Some e \<Rightarrow> E e \<and> I w') w'"
      by (simp add: op_spec_def)
    then show ?thesis unfolding wp_bnd by (rule wp_mono) (rule after)
  qed
  show ?case
    unfolding do_loop.simps [of _ _ _ "Suc left"] nat.case wp_bnd [of "ctx_poll c"]
    by (rule wp_ctx_poll [OF blind Suc.prems(3)]) (use run in \<open>auto simp: wp_ret\<close>)
qed

lemma keeps_between:
  "clock_blind I \<Longrightarrow> rc_OnRetry cfg = None \<Longrightarrow> keeps I (between_attempts c cfg attempt e)"
  unfolding between_attempts_def calculateBackoff_def
  by (intro keeps_rules keeps_blind) simp_all

lemma do_loop_keeps:
  assumes blind: "clock_blind I" and op: "keeps I op" and cfg: "rc_OnRetry cfg = None"
  shows "keeps I (do_loop c cfg op left attempt lastErr)"
proof (induction left arbitrary: attempt lastErr)
  case 0
  then show ?case by (auto simp: do_loop.simps intro!: keeps_rules)
next
  case (Suc left)
  then show ?case
    unfolding do_loop.simps [of _ _ _ "Suc left"] nat.case
    by (intro keeps_rules keeps_blind [OF blind] keeps_between [OF blind cfg] op)
qed

lemma costs_between:
  "clock_blind m \<Longrightarrow> rc_OnRetry cfg = None \<Longrightarrow> costs m 0 (between_attempts c cfg attempt e)"
  by (rule costs_kept, rule keeps_between) (simp_all add: clock_blind_def)

lemma do_loop_costs:
  assumes blind: "clock_blind m" and op: "costs m k op" and cfg: "rc_OnRetry cfg = None"
  shows "costs m (left * k) (do_loop c cfg op left attempt lastErr)"
proof (induction left arbitrary: attempt lastErr)
  case 0
  then show ?case by (auto simp: do_loop.simps costs_ret costs_panic split: option.split)
next
  case (Suc left)
  have "costs m (left * k) (case stop of Some e' \<Rightarrow> ret (Some e')
      | None \<Rightarrow> do_loop c cfg op left (attempt + 1) (Some e))" for stop e
    using Suc.IH by (cases stop) (simp_all add: costs_ret)
  from costs_bnd [OF costs_between [OF blind cfg] this]
  have "costs m (left * k) (case r of None \<Rightarrow> ret None
      | Some e \<Rightarrow> if \<not> IsRetryableError (Some e) then ret (Some e)
          else if attempt < rc_MaxAttempts cfg
          then bnd (between_attempts c cfg attempt e) (\<lambda>stop. case stop of
                 Some e' \<Rightarrow> ret (Some e')
               | None \<Rightarrow> do_loop c cfg op left (attempt + 1) (Some e))
          else do_loop c cfg op left (attempt + 1) (Some e))" for r
    using Suc.IH by (cases r) (simp_all add: costs_ret)
  from costs_bnd [OF op this] have "costs m (0 + (k + left * k)) (do_loop c cfg op (Suc left) attempt lastErr)"
    unfolding do_loop.simps [of _ _ _ "Suc left"] nat.case
    by (intro costs_bnd costs_blind(2) [OF blind]) (simp add: costs_ret split: option.split)
  then show ?case by simp
qed

text \<open>The number of attempts \<open>Do\<close> makes, for a configuration without a callback (no caller sets
  one).\<close>

definition plain_retry :: "int \<Rightarrow> int \<Rightarrow> int \<Rightarrow> rat \<Rightarrow> 'w RetryConfig" where
  "plain_retry n i mx f = \<lparr>rc_MaxAttempts = n, rc_InitialInterval = i, rc_MaxInterval = mx,
     rc_Multiplier = f, rc_OnRetry = None\<rparr>"

definition attempts_of :: "int \<Rightarrow> nat" where
  "attempts_of n = nat (if n \<le> 0 then DefaultMaxAttempts else n)"

lemma attempts_of_pos: "0 < attempts_of n"
  by (simp add: attempts_of_def DefaultMaxAttempts_def)

lemma Do_plain: "Do c (Some (plain_retry n i mx f)) op
    = do_loop c (plain_retry (int (attempts_of n)) i mx f) op (attempts_of n) 1 None"
  by (simp add: Do_def plain_retry_def attempts_of_def DefaultMaxAttempts_def Let_def)

interpretation do_run: retry_runner "Do c (Some (plain_retry n i mx f))" "attempts_of n" for c n i mx f
proof
  fix I :: "('a, 'b, 'c) world_scheme \<Rightarrow> bool" and op E Q
  assume "clock_blind I" and "op_spec I op E Q"
  then show "op_spec I (Do c (Some (plain_retry n i mx f)) op)
      (\<lambda>e. E e \<or> e = Canceled \<or> e = DeadlineExceeded) Q"
    unfolding Do_plain op_spec_def [where op = "do_loop a b d e g h" for a b d e g h]
    by (intro allI impI do_loop_spec) (simp_all add: attempts_of_pos plain_retry_def)
next
  fix I :: "('a, 'b, 'c) world_scheme \<Rightarrow> bool" and op :: "(('a, 'b, 'c) world_scheme, go_err option) act"
  assume "clock_blind I" and "keeps I op"
  then show "keeps I (Do c (Some (plain_retry n i mx f)) op)"
    unfolding Do_plain by (rule do_loop_keeps) (simp add: plain_retry_def)
next
  fix m :: "('a, 'b, 'c) world_scheme \<Rightarrow> nat" and k
    and op :: "(('a, 'b, 'c) world_scheme, go_err option) act"
  assume "clock_blind m" and "costs m k op"
  then show "costs m (attempts_of n * k) (Do c (Some (plain_retry n i mx f)) op)"
    unfolding Do_plain by (rule do_loop_costs) (simp add: plain_retry_def)
qed

subsection \<open>What a retried operation does\<close>

text \<open>\<open>Do\<close> with a nil configuration panics before the operation runs, for every operation and every
  context: the configuration is read for the tracing span before it is compared with nil.\<close>
theorem Do_nil_config_panics:
  "Do c None op w = (Panic ''nil pointer dereference'', w)"
  by (simp add: Do_def panic_def)

text \<open>C36. An error that is not retryable ends the loop at once: it is returned as it is, and the
  operation has run exactly once, in the world after the context was polled.\<close>
theorem Do_stops_on_fatal_error:
  assumes "ctx_err c (w_now (snd (tick w))) = None"
    and "op (snd (tick w)) = (Ret (Some e), w')" and "\<not> IsRetryableError (Some e)"
  shows "Do c (Some (plain_retry n i mx f)) op w = (Ret (Some e), w')"
proof -
  obtain left where left: "attempts_of n = Suc left" using attempts_of_pos [of n] by (cases "attempts_of n") auto
  have poll: "ctx_poll c w = (Ret None, snd (tick w))"
    using assms(1) by (simp add: ctx_poll_def seq_def bnd_def tick_def modify_def gets_def)
  show ?thesis
    unfolding Do_plain left do_loop.simps [of _ _ _ "Suc left"]
    using assms by (simp add: bnd_def poll ret_def)
qed

text \<open>\<open>DoWithResult\<close> with a maximum of zero attempts or less never runs the operation and
  returns neither a result nor an error, where \<open>Do\<close> falls back to the default number of attempts.\<close>
theorem DoWithResult_no_attempts:
  assumes "rc_MaxAttempts cfg \<le> 0"
  shows "DoWithResult c (Some cfg) op w = (Ret (None, None), w)"
  using assms by (simp add: DoWithResult_def do_result_loop.simps ret_def)



theorem Do_stops_on_fatal_error_witness:
  "\<exists>w'. Do Background (Some (plain_retry 5 0 0 1)) (ret (Some (Errorf ''denied''))) (start_world ())
     = (Ret (Some (Errorf ''denied'')), w')"
proof -
  have "\<not> IsRetryableError (Some (Errorf ''denied''))"
    by (simp add: IsRetryableError_def IsTransientError_def transientIndicators_def ErrNotConnected_def go_eval)
  from Do_stops_on_fatal_error [OF ctx_err_Background _ this,
      of "ret (Some (Errorf ''denied''))" "start_world ()" "snd (tick (start_world ()))" 5 0 0 1]
  show ?thesis by (simp add: ret_def)
qed

theorem DoWithResult_no_attempts_witness:
  "DoWithResult Background (Some (plain_retry 0 0 0 1)) (ret (Inr (3 :: int))) (start_world ()) = (Ret (None, None), start_world ())"
  using DoWithResult_no_attempts [of "plain_retry 0 0 0 1"] by (simp add: plain_retry_def)

end
