(* ===== verification/Db_Registry.thy ===== *)
theory Db_Registry
  imports Retry
begin

text \<open>
  The package \<open>storage\<close> (\<open>storage/db_registry.go\<close>): the named connection pools, their health state
  and the registry's background jobs. A pool's \<open>*sql.DB\<close> is the connection string it was opened
  with, \<open>None\<close> for nil; the settings of the pool and the metrics and log lines about it are left
  out. A pool records whether its warm-up goroutine was started, and the registry which of its
  jobs were, because receiving from the channel such a goroutine closes returns only then.
\<close>

datatype EvictionPolicy = EvictionPolicyLIFO | EvictionPolicyFIFO | EvictionPolicyUnset | EvictionPolicyOther string

record DBConfig =
  db_Name :: string
  db_ConnectionString :: string
  db_MinConnections :: int
  db_MaxOpenConnections :: int
  db_MaxIdleConnections :: int
  db_ConnectionTimeout :: int
  db_MaxConnectionLifetime :: int
  db_IdleTimeout :: int
  db_HealthCheckInterval :: int
  db_HealthCheckTimeout :: int
  db_EvictionPolicy :: EvictionPolicy
  db_EvictionBatchSize :: int
  db_EvictionGracePeriod :: int
  db_MinEvictableIdleTime :: int
  db_SSLMode :: string
  db_SSLCert :: string
  db_SSLKey :: string
  db_SSLRootCert :: string
  db_SSLKeyPassword :: string
  db_SSLCipherSuites :: string
  db_SSLSecure :: bool
  db_SSLVersion :: string
  db_MaxRetries :: int
  db_InitialRetryInterval :: int
  db_MaxRetryInterval :: int
  db_RetryMultiplier :: rat
  db_MaxResultRows :: int

datatype ConnectionState = StateUnknown | StateHealthy | StateUnhealthy | StateClosed

record DBConnection =
  dc_Config :: DBConfig
  dc_Database :: "string option"
  dc_state :: ConnectionState
  dc_lastHealthCheck :: int
  dc_lastUsed :: int
  dc_healthCheckErr :: "go_err option"
  dc_minConnections :: int
  dc_warmupStarted :: bool

record DBRegistry =
  rg_connections :: "(string \<times> DBConnection) list"
  rg_healthStarted :: bool
  rg_cleanupStarted :: bool
  rg_minConnsStarted :: bool
  rg_cancelled :: bool

definition NewDBRegistry :: DBRegistry where
  "NewDBRegistry = \<lparr>rg_connections = [], rg_healthStarted = False, rg_cleanupStarted = False,
     rg_minConnsStarted = False, rg_cancelled = False\<rparr>"

definition StartHealthChecks :: "DBRegistry \<Rightarrow> DBRegistry" where
  "StartHealthChecks r = r\<lparr>rg_healthStarted := True\<rparr>"

definition StartCleanupJob :: "DBRegistry \<Rightarrow> DBRegistry" where
  "StartCleanupJob r = r\<lparr>rg_cleanupStarted := True\<rparr>"

definition StartMinConnectionsJob :: "DBRegistry \<Rightarrow> DBRegistry" where
  "StartMinConnectionsJob r = (if rg_cancelled r then r else r\<lparr>rg_minConnsStarted := True\<rparr>)"

subsection \<open>Configurations\<close>

definition default_if :: "bool \<Rightarrow> 'a \<Rightarrow> 'a \<Rightarrow> 'a" where
  "default_if b d x = (if b then d else x)"

text \<open>The block of defaults that \<open>AddConnection\<close> and \<open>UpdateConnection\<close> both apply; first the bounds
  on the minimum, then those on the idle connections.\<close>

definition clamp_min :: "DBConfig \<Rightarrow> int" where
  "clamp_min c =
     (let mn = (if db_MinConnections c < 0 then 0 else db_MinConnections c) in
      if mn > db_MaxOpenConnections c then db_MaxOpenConnections c else mn)"

definition clamp_idle :: "DBConfig \<Rightarrow> int" where
  "clamp_idle c =
     (let idle = (if db_MaxIdleConnections c > db_MaxOpenConnections c then db_MaxOpenConnections c
                  else db_MaxIdleConnections c)
      in if clamp_min c > idle then clamp_min c else idle)"

definition normalize_config :: "DBConfig \<Rightarrow> DBConfig" where
  "normalize_config c =
     c\<lparr>db_HealthCheckInterval := default_if (db_HealthCheckInterval c = 0) (30 * second) (db_HealthCheckInterval c),
       db_HealthCheckTimeout := default_if (db_HealthCheckTimeout c = 0) (5 * second) (db_HealthCheckTimeout c),
       db_ConnectionTimeout := default_if (db_ConnectionTimeout c = 0) (10 * second) (db_ConnectionTimeout c),
       db_IdleTimeout := default_if (db_IdleTimeout c = 0) (300 * second) (db_IdleTimeout c),
       db_MaxConnectionLifetime := default_if (db_MaxConnectionLifetime c = 0) (3600 * second) (db_MaxConnectionLifetime c),
       db_MinConnections := clamp_min c,
       db_MaxIdleConnections := clamp_idle c,
       db_MaxRetries := default_if (db_MaxRetries c = 0) 3 (db_MaxRetries c),
       db_InitialRetryInterval := default_if (db_InitialRetryInterval c = 0) (100 * millisecond) (db_InitialRetryInterval c),
       db_MaxRetryInterval := default_if (db_MaxRetryInterval c = 0) (5 * second) (db_MaxRetryInterval c),
       db_RetryMultiplier := default_if (db_RetryMultiplier c = 0) 2 (db_RetryMultiplier c),
       db_EvictionPolicy := default_if (db_EvictionPolicy c = EvictionPolicyUnset) EvictionPolicyLIFO (db_EvictionPolicy c),
       db_EvictionBatchSize := default_if (db_EvictionBatchSize c \<le> 0) 1 (db_EvictionBatchSize c),
       db_EvictionGracePeriod := default_if (db_EvictionGracePeriod c \<le> 0) (30 * second) (db_EvictionGracePeriod c)\<rparr>"

subsection \<open>Adding, replacing and removing pools\<close>

definition new_dbc :: "DBConfig \<Rightarrow> int \<Rightarrow> int \<Rightarrow> DBConnection" where
  "new_dbc config t1 t2 = \<lparr>dc_Config = config, dc_Database = Some (db_ConnectionString config),
     dc_state = StateUnknown, dc_lastHealthCheck = t1, dc_lastUsed = t2, dc_healthCheckErr = None,
     dc_minConnections = db_MinConnections config, dc_warmupStarted = (0 < db_MinConnections config)\<rparr>"

definition put_conn :: "string \<Rightarrow> DBConnection \<Rightarrow> DBRegistry \<Rightarrow> DBRegistry" where
  "put_conn name c r = r\<lparr>rg_connections := AList.update name c (rg_connections r)\<rparr>"

text \<open>\<open>%w\<close> of a nil error prints \<open>%!w(<nil>)\<close>.\<close>

definition wrap_nil :: "string \<Rightarrow> go_err option \<Rightarrow> go_err" where
  "wrap_nil pre e = (case e of Some x \<Rightarrow> Wrapf pre x [] | None \<Rightarrow> Errorf (pre @ ''%!w(<nil>)''))"

definition AddConnection :: "'d driver \<Rightarrow> string \<Rightarrow> DBConfig \<Rightarrow> DBRegistry
    \<Rightarrow> (('d, 's, 'z) world_scheme, (go_err + DBConnection) \<times> DBRegistry) act" where
  "AddConnection D name config0 r =
     (case map_of (rg_connections r) name of
        Some conn \<Rightarrow> ret (Inr conn, r)
      | None \<Rightarrow>
          let config = normalize_config config0; cs = db_ConnectionString config in
          bnd (sql_Open D cs) (\<lambda>e. case e of
            Some err \<Rightarrow> ret (Inl (Wrapf ''failed to open database: '' err []), r)
          | None \<Rightarrow>
              bnd time_Now (\<lambda>t0.
              let ctx = WithTimeout Background t0 (db_ConnectionTimeout config);
                  cfg = plain_retry (db_MaxRetries config) (db_InitialRetryInterval config)
                          (db_MaxRetryInterval config) (db_RetryMultiplier config)
              in bnd (local_var None (Do ctx (Some cfg)
                        (bnd (db_Ping D cs) (\<lambda>p. seq (set_var p) (ret p))))) (\<lambda>(err, pingErr).
                 case err of
                   Some _ \<Rightarrow> seq (bnd (db_Close D cs) (\<lambda>_. ret ()))
                     (ret (Inl (wrap_nil (''failed to connect to database after ''
                        @ itoa (db_MaxRetries config)
                        @ '' attempts: '') pingErr), r))
                 | None \<Rightarrow> bnd time_Now (\<lambda>t1. bnd time_Now (\<lambda>t2.
                     let dbc = new_dbc config t1 t2 in ret (Inr dbc, put_conn name dbc r)))))))"

definition RemoveConnection :: "'d driver \<Rightarrow> string \<Rightarrow> DBRegistry
    \<Rightarrow> (('d, 's, 'z) world_scheme, DBRegistry) act" where
  "RemoveConnection D name r =
     (let r' = r\<lparr>rg_connections := AList.delete name (rg_connections r)\<rparr> in
      case map_of (rg_connections r) name of
        Some conn \<Rightarrow> (case dc_Database conn of
            Some db \<Rightarrow> bnd (db_Close D db) (\<lambda>_. ret r')
          | None \<Rightarrow> ret r')
      | None \<Rightarrow> ret r')"

definition UpdateConnection :: "'d driver \<Rightarrow> string \<Rightarrow> DBConfig \<Rightarrow> DBRegistry
    \<Rightarrow> (('d, 's, 'z) world_scheme, (go_err + DBConnection) \<times> DBRegistry) act" where
  "UpdateConnection D name config0 r0 =
     bnd (RemoveConnection D name r0) (\<lambda>r.
     let config = normalize_config config0 in
     bnd (sql_Open D (db_ConnectionString config)) (\<lambda>e. case e of
       Some err \<Rightarrow> ret (Inl (Wrapf ''failed to open database: '' err []), r)
     | None \<Rightarrow> bnd time_Now (\<lambda>t1. bnd time_Now (\<lambda>t2.
         let dbc = new_dbc config t1 t2 in ret (Inr dbc, put_conn name dbc r)))))"

definition WaitForWarmup :: "DBConnection \<Rightarrow> (('d, 's, 'z) world_scheme, unit) act" where
  "WaitForWarmup c = (if dc_warmupStarted c then ret () else block)"

text \<open>The warm-up goroutine: it opens and releases connections until it has tried \<open>minConnections\<close>
  times or its context is done.\<close>

fun warmup_loop :: "'d driver \<Rightarrow> ctx \<Rightarrow> string \<Rightarrow> nat \<Rightarrow> (('d, 's, 'z) world_scheme, unit) act" where
  "warmup_loop D ctx db 0 = ret ()"
| "warmup_loop D ctx db (Suc n) = bnd (ctx_poll ctx) (\<lambda>d. case d of
      Some _ \<Rightarrow> ret ()
    | None \<Rightarrow> bnd (db_Conn D db) (\<lambda>_. warmup_loop D ctx db n))"

definition warmupPool :: "'d driver \<Rightarrow> ctx \<Rightarrow> DBConnection \<Rightarrow> (('d, 's, 'z) world_scheme, unit) act" where
  "warmupPool D ctx c =
     (case dc_Database c of
        None \<Rightarrow> ret ()
      | Some db \<Rightarrow>
          if dc_minConnections c \<le> 0 then ret ()
          else bnd (gets w_now) (\<lambda>t.
            warmup_loop D (WithTimeout ctx t (db_ConnectionTimeout (dc_Config c))) db (nat (dc_minConnections c))))"

subsection \<open>Health\<close>

definition CheckHealth :: "'d driver \<Rightarrow> DBConnection
    \<Rightarrow> (('d, 's, 'z) world_scheme, go_err option \<times> DBConnection) act" where
  "CheckHealth D c =
     (case dc_Database c of
        None \<Rightarrow> let e = Some (Errorf ''database connection is nil'') in
          ret (e, c\<lparr>dc_state := StateClosed, dc_healthCheckErr := e\<rparr>)
      | Some db \<Rightarrow> bnd (db_Ping D db) (\<lambda>err.
          let e = map_option (\<lambda>x. Wrapf ''health check failed: '' x []) err;
              st = (case err of None \<Rightarrow> StateHealthy | Some _ \<Rightarrow> StateUnhealthy)
          in bnd time_Now (\<lambda>t.
             ret (e, c\<lparr>dc_state := st, dc_healthCheckErr := e, dc_lastHealthCheck := t\<rparr>))))"

text \<open>A job that runs over all pools, in the order this run visits the map.\<close>

fun over_pools :: "(DBConnection \<Rightarrow> ('w, DBConnection) act) \<Rightarrow> (string \<times> DBConnection) list
    \<Rightarrow> ('w, (string \<times> DBConnection) list) act" where
  "over_pools f [] = ret []"
| "over_pools f ((name, c) # rest) = bnd (f c) (\<lambda>c'. bnd (over_pools f rest) (\<lambda>rest'. ret ((name, c') # rest')))"

definition runHealthChecks :: "'d driver \<Rightarrow> DBRegistry \<Rightarrow> (('d, 's, 'z) world_scheme, DBRegistry) act" where
  "runHealthChecks D r = bnd (over_pools (\<lambda>c. bnd (CheckHealth D c) (\<lambda>(_, c'). ret c')) (rg_connections r))
     (\<lambda>cs. ret (r\<lparr>rg_connections := cs\<rparr>))"

definition GetState :: "DBConnection \<Rightarrow> ConnectionState \<times> go_err option" where
  "GetState c = (dc_state c, dc_healthCheckErr c)"

definition GetConnection :: "string \<Rightarrow> DBRegistry \<Rightarrow> DBConnection option" where
  "GetConnection name r = map_of (rg_connections r) name"

definition ListConnections :: "DBRegistry \<Rightarrow> string list" where
  "ListConnections r = map fst (rg_connections r)"

subsection \<open>Eviction of idle pools\<close>

text \<open>The loop over the batch: every round that finds the pool idle long enough closes the whole
  \<open>*sql.DB\<close>, again if it must.\<close>

fun evict_loop :: "'d driver \<Rightarrow> DBConnection \<Rightarrow> string \<Rightarrow> int \<Rightarrow> int \<Rightarrow> nat \<Rightarrow> int
    \<Rightarrow> (('d, 's, 'z) world_scheme, int) act" where
  "evict_loop D c db idle minEvictable 0 evicted = ret evicted"
| "evict_loop D c db idle minEvictable (Suc n) evicted =
     (if idle - evicted > 0 then
        bnd time_Now (\<lambda>now.
        let idleDuration = now - dc_lastUsed c in
        if idleDuration > minEvictable \<and> idleDuration - db_EvictionGracePeriod (dc_Config c) > minEvictable
        then bnd (db_Close D db) (\<lambda>_. evict_loop D c db idle minEvictable n (evicted + 1))
        else evict_loop D c db idle minEvictable n evicted)
      else ret evicted)"

definition cleanupIdleConnections :: "'d driver \<Rightarrow> DBConnection
    \<Rightarrow> (('d, 's, 'z) world_scheme, DBConnection) act" where
  "cleanupIdleConnections D c =
     (case dc_Database c of
        None \<Rightarrow> ret c
      | Some db \<Rightarrow>
          let cfg = dc_Config c in
          if db_IdleTimeout cfg \<le> 0 \<and> db_MinEvictableIdleTime cfg \<le> 0 then ret c
          else bnd (db_Stats D db) (\<lambda>stats.
            if ds_Idle stats \<le> 0 then ret c
            else
              let b0 = (if db_EvictionBatchSize cfg \<le> 0 then ds_Idle stats else db_EvictionBatchSize cfg);
                  batchSize = (if b0 > ds_Idle stats then ds_Idle stats else b0);
                  minEvictable = (if db_MinEvictableIdleTime cfg \<le> 0 then db_IdleTimeout cfg
                                  else db_MinEvictableIdleTime cfg)
              in bnd (evict_loop D c db (ds_Idle stats) minEvictable (nat batchSize) 0) (\<lambda>evicted.
                 ret (if evicted > 0 then c\<lparr>dc_state := StateClosed\<rparr> else c))))"

definition runCleanup :: "'d driver \<Rightarrow> DBRegistry \<Rightarrow> (('d, 's, 'z) world_scheme, DBRegistry) act" where
  "runCleanup D r = bnd (over_pools (cleanupIdleConnections D) (rg_connections r))
     (\<lambda>cs. ret (r\<lparr>rg_connections := cs\<rparr>))"

definition TouchLastUsed :: "DBConnection \<Rightarrow> (('d, 's, 'z) world_scheme, DBConnection) act" where
  "TouchLastUsed c = bnd time_Now (\<lambda>t. ret (c\<lparr>dc_lastUsed := t\<rparr>))"

subsection \<open>The minimum of idle connections\<close>

definition pingAndTrackConnection :: "'d driver \<Rightarrow> string \<Rightarrow> DBConnection
    \<Rightarrow> (('d, 's, 'z) world_scheme, go_err option \<times> DBConnection) act" where
  "pingAndTrackConnection D db c = bnd (db_Ping D db) (\<lambda>e. case e of
       Some err \<Rightarrow> ret (Some (Wrapf ''failed to open min connection: '' err []), c)
     | None \<Rightarrow> bnd time_Now (\<lambda>t. ret (None, c\<lparr>dc_lastUsed := t\<rparr>)))"

fun ping_loop :: "'d driver \<Rightarrow> string \<Rightarrow> nat \<Rightarrow> DBConnection
    \<Rightarrow> (('d, 's, 'z) world_scheme, go_err option \<times> DBConnection) act" where
  "ping_loop D db 0 c = ret (None, c)"
| "ping_loop D db (Suc n) c = bnd (pingAndTrackConnection D db c) (\<lambda>(e, c'). case e of
      Some err \<Rightarrow> ret (Some err, c')
    | None \<Rightarrow> ping_loop D db n c')"

definition ensureMinConnections :: "'d driver \<Rightarrow> DBConnection
    \<Rightarrow> (('d, 's, 'z) world_scheme, go_err option \<times> DBConnection) act" where
  "ensureMinConnections D c =
     (let cfg = dc_Config c in
      if db_MinConnections cfg \<le> 0 then ret (None, c)
      else case dc_Database c of
        None \<Rightarrow> ret (Some (Errorf ''database connection is nil''), c)
      | Some db \<Rightarrow> bnd (db_Stats D db) (\<lambda>stats.
          if ds_Idle stats \<ge> db_MinConnections cfg then ret (None, c)
          else if ds_Open stats < db_MaxOpenConnections cfg
          then let needed = db_MinConnections cfg - ds_Idle stats;
                   canOpen = db_MaxOpenConnections cfg - ds_Open stats;
                   toOpen = (if needed > canOpen then canOpen else needed)
               in ping_loop D db (nat toOpen) c
          else ret (None, c)))"

text \<open>\<open>EnsureMinConnections\<close> stops at the first pool that fails.\<close>

fun ensure_pools :: "'d driver \<Rightarrow> (string \<times> DBConnection) list
    \<Rightarrow> (('d, 's, 'z) world_scheme, go_err option \<times> (string \<times> DBConnection) list) act" where
  "ensure_pools D [] = ret (None, [])"
| "ensure_pools D ((name, c) # rest) = bnd (ensureMinConnections D c) (\<lambda>(e, c'). case e of
      Some err \<Rightarrow> ret (Some err, (name, c') # rest)
    | None \<Rightarrow> bnd (ensure_pools D rest) (\<lambda>(e', rest'). ret (e', (name, c') # rest')))"

definition EnsureMinConnections :: "'d driver \<Rightarrow> DBRegistry
    \<Rightarrow> (('d, 's, 'z) world_scheme, go_err option \<times> DBRegistry) act" where
  "EnsureMinConnections D r = bnd (ensure_pools D (rg_connections r))
     (\<lambda>(e, cs). ret (e, r\<lparr>rg_connections := cs\<rparr>))"

subsection \<open>Statistics\<close>

definition GetConnectionStats :: "'d driver \<Rightarrow> string \<Rightarrow> DBRegistry
    \<Rightarrow> (('d, 's, 'z) world_scheme, ConnectionState \<times> int \<times> int \<times> go_err option) act" where
  "GetConnectionStats D name r =
     (case map_of (rg_connections r) name of
        None \<Rightarrow> ret (StateUnknown, 0, 0, Some (Errorf (''connection not found: '' @ name)))
      | Some conn \<Rightarrow> (case dc_Database conn of
          None \<Rightarrow> panic ''nil pointer dereference''
        | Some db \<Rightarrow> bnd (db_Stats D db) (\<lambda>s.
            ret (dc_state conn, ds_Open s, ds_Idle s, dc_healthCheckErr conn))))"

record PoolStats =
  ps_State :: ConnectionState
  ps_OpenConnections :: int
  ps_InUse :: int
  ps_Idle :: int
  ps_MaxOpen :: int
  ps_MinConnections :: int
  ps_WaitCount :: int
  ps_WaitDurationNanos :: int
  ps_MaxIdleClosed :: int
  ps_MaxLifetimeClosed :: int
  ps_LastHealthCheck :: int
  ps_HealthError :: "go_err option"

definition GetDetailedConnectionStats :: "'d driver \<Rightarrow> string \<Rightarrow> DBRegistry
    \<Rightarrow> (('d, 's, 'z) world_scheme, go_err + PoolStats) act" where
  "GetDetailedConnectionStats D name r =
     (case map_of (rg_connections r) name of
        None \<Rightarrow> ret (Inl (Errorf (''connection not found: '' @ name)))
      | Some conn \<Rightarrow> (case dc_Database conn of
          None \<Rightarrow> panic ''nil pointer dereference''
        | Some db \<Rightarrow> bnd (db_Stats D db) (\<lambda>s.
            ret (Inr \<lparr>ps_State = dc_state conn, ps_OpenConnections = ds_Open s, ps_InUse = ds_InUse s,
              ps_Idle = ds_Idle s, ps_MaxOpen = ds_MaxOpen s,
              ps_MinConnections = db_MinConnections (dc_Config conn), ps_WaitCount = ds_WaitCount s,
              ps_WaitDurationNanos = ds_WaitDuration s, ps_MaxIdleClosed = ds_MaxIdleClosed s,
              ps_MaxLifetimeClosed = ds_MaxLifetimeClosed s,
              ps_LastHealthCheck = dc_lastHealthCheck conn, ps_HealthError = dc_healthCheckErr conn\<rparr>))))"

subsection \<open>Stopping\<close>

text \<open>Each stop cancels a context and waits for the goroutine that was started under it.\<close>

definition StopHealthChecks :: "DBRegistry \<Rightarrow> (('d, 's, 'z) world_scheme, DBRegistry) act" where
  "StopHealthChecks r = (if rg_healthStarted r then ret r else block)"

definition StopCleanupJob :: "DBRegistry \<Rightarrow> (('d, 's, 'z) world_scheme, DBRegistry) act" where
  "StopCleanupJob r = (if rg_cleanupStarted r then ret r else block)"

definition StopMinConnectionsJob :: "DBRegistry \<Rightarrow> (('d, 's, 'z) world_scheme, DBRegistry) act" where
  "StopMinConnectionsJob r = (if rg_minConnsStarted r then ret (r\<lparr>rg_cancelled := True\<rparr>) else block)"

definition close_pool :: "'d driver \<Rightarrow> string \<times> DBConnection \<Rightarrow> (('d, 's, 'z) world_scheme, unit) act" where
  "close_pool D nc = (case dc_Database (snd nc) of
       Some db \<Rightarrow> bnd (db_Close D db) (\<lambda>_. ret ())
     | None \<Rightarrow> ret ())"

definition Shutdown :: "'d driver \<Rightarrow> DBRegistry \<Rightarrow> (('d, 's, 'z) world_scheme, DBRegistry) act" where
  "Shutdown D r =
     seq (if rg_healthStarted r then ret () else block)
     (seq (if rg_cleanupStarted r then ret () else block)
     (seq (if rg_minConnsStarted r then ret () else block)
     (seq (for_each (rg_connections r) (close_pool D))
      (ret (r\<lparr>rg_connections := [], rg_cancelled := True\<rparr>)))))"

subsection \<open>Normalised configurations\<close>

definition config_ok :: "DBConfig \<Rightarrow> bool" where
  "config_ok c \<longleftrightarrow> db_MinConnections c \<le> db_MaxIdleConnections c
     \<and> db_MaxIdleConnections c \<le> db_MaxOpenConnections c
     \<and> (0 \<le> db_MaxOpenConnections c \<longrightarrow> 0 \<le> db_MinConnections c)
     \<and> db_HealthCheckInterval c \<noteq> 0 \<and> db_HealthCheckTimeout c \<noteq> 0 \<and> db_ConnectionTimeout c \<noteq> 0
     \<and> db_IdleTimeout c \<noteq> 0 \<and> db_MaxConnectionLifetime c \<noteq> 0 \<and> db_MaxRetries c \<noteq> 0
     \<and> db_InitialRetryInterval c \<noteq> 0 \<and> db_MaxRetryInterval c \<noteq> 0 \<and> db_RetryMultiplier c \<noteq> 0
     \<and> db_EvictionPolicy c \<noteq> EvictionPolicyUnset \<and> 0 < db_EvictionBatchSize c
     \<and> 0 < db_EvictionGracePeriod c"

lemma clamp_bounds:
  "clamp_min c \<le> clamp_idle c" "clamp_idle c \<le> db_MaxOpenConnections c"
  "0 \<le> db_MaxOpenConnections c \<Longrightarrow> 0 \<le> clamp_min c"
  by (simp_all add: clamp_min_def clamp_idle_def Let_def)

lemma clamp_same:
  assumes "db_MinConnections c \<le> db_MaxIdleConnections c" "db_MaxIdleConnections c \<le> db_MaxOpenConnections c"
    and "0 \<le> db_MinConnections c"
  shows "clamp_min c = db_MinConnections c" "clamp_idle c = db_MaxIdleConnections c"
  using assms by (simp_all add: clamp_min_def clamp_idle_def Let_def)

lemma default_if_simps [simp]: "default_if True d x = d" "default_if False d x = x"
  by (simp_all add: default_if_def)

lemma default_if_zero [simp]:
  "default_if (x = z) d x = z \<longleftrightarrow> x = z \<and> d = z"
  by (auto simp: default_if_def)

lemma default_if_pos [simp]: "0 < d \<Longrightarrow> 0 < default_if (x \<le> 0) d (x :: int)"
  by (simp add: default_if_def)

lemma normalize_ok: "config_ok (normalize_config c)"
  using clamp_bounds [of c] by (simp add: config_ok_def normalize_config_def second_def millisecond_def not_less)

lemma normalize_fixed:
  assumes "config_ok c" and "0 \<le> db_MaxOpenConnections c"
  shows "normalize_config c = c"
proof -
  have "clamp_min c = db_MinConnections c" "clamp_idle c = db_MaxIdleConnections c"
    using assms by (auto simp: config_ok_def intro!: clamp_same)
  then show ?thesis using assms(1) by (simp add: config_ok_def normalize_config_def)
qed

lemma normalize_same [simp]:
  "db_ConnectionString (normalize_config c) = db_ConnectionString c"
  "db_Name (normalize_config c) = db_Name c"
  "db_MaxOpenConnections (normalize_config c) = db_MaxOpenConnections c"
  by (simp_all add: normalize_config_def)

text \<open>C38. The configuration a pool is opened with is ordered, minimum \<open>\<le>\<close> idle \<open>\<le>\<close> open, with no timeout,
  interval, retry count or factor left at zero, whatever was passed; normalising again changes
  nothing.\<close>
theorem normalize_config_ordered:
  "config_ok (normalize_config c)
   \<and> (0 \<le> db_MaxOpenConnections c \<longrightarrow> normalize_config (normalize_config c) = normalize_config c)"
  using normalize_ok [of c] normalize_fixed [OF normalize_ok, of c] by simp

subsection \<open>The registry's invariant\<close>

definition dbc_ok :: "DBConnection \<Rightarrow> bool" where
  "dbc_ok c \<longleftrightarrow> config_ok (dc_Config c) \<and> dc_Database c = Some (db_ConnectionString (dc_Config c))
     \<and> dc_minConnections c = db_MinConnections (dc_Config c)
     \<and> (dc_warmupStarted c \<longleftrightarrow> 0 < dc_minConnections c)
     \<and> (dc_state c = StateHealthy \<longrightarrow> dc_healthCheckErr c = None)"

definition registry_ok :: "DBRegistry \<Rightarrow> bool" where
  "registry_ok r \<longleftrightarrow> distinct (map fst (rg_connections r)) \<and> (\<forall>nc\<in>set (rg_connections r). dbc_ok (snd nc))"

lemma new_dbc_ok: "config_ok c \<Longrightarrow> dbc_ok (new_dbc c t1 t2)"
  by (simp add: dbc_ok_def new_dbc_def)

lemma set_update_conn: "nc \<in> set (AList.update k c xs) \<Longrightarrow> nc \<in> set xs \<or> snd nc = c"
  by (induction xs) (auto split: if_splits)

lemma put_conn_ok:
  assumes "registry_ok r" and "dbc_ok c"
  shows "registry_ok (put_conn name c r)"
  using assms set_update_conn [of _ name c "rg_connections r"]
  by (auto simp: registry_ok_def put_conn_def distinct_update)

lemma delete_conn_ok:
  assumes "registry_ok r"
  shows "registry_ok (r\<lparr>rg_connections := AList.delete name (rg_connections r)\<rparr>)"
proof -
  have "set (AList.delete name (rg_connections r)) \<subseteq> set (rg_connections r)" by (auto simp: AList.delete_eq)
  with assms show ?thesis by (auto simp: registry_ok_def distinct_delete)
qed

lemma RemoveConnection_ok: "registry_ok r \<Longrightarrow> returns registry_ok (RemoveConnection D name r)"
  unfolding RemoveConnection_def Let_def
  by (intro returns_rules) (simp_all add: delete_conn_ok)

definition added_ok :: "(go_err + DBConnection) \<times> DBRegistry \<Rightarrow> bool" where
  "added_ok p \<longleftrightarrow> registry_ok (snd p) \<and> (\<forall>c. fst p = Inr c \<longrightarrow> dbc_ok c)"

lemma added_new: "registry_ok r \<Longrightarrow> added_ok (Inr (new_dbc (normalize_config cfg) t1 t2), put_conn name (new_dbc (normalize_config cfg) t1 t2) r)"
  by (simp add: added_ok_def put_conn_ok new_dbc_ok normalize_ok)

lemma AddConnection_ok: "registry_ok r \<Longrightarrow> returns added_ok (AddConnection D name cfg r)"
  unfolding AddConnection_def Let_def
  by (intro returns_rules) (auto simp: added_new, auto simp: added_ok_def registry_ok_def dest: map_of_SomeD)

lemma UpdateConnection_ok: "registry_ok r \<Longrightarrow> returns added_ok (UpdateConnection D name cfg r)"
  unfolding UpdateConnection_def Let_def
  by (rule returns_bnd [OF RemoveConnection_ok], assumption, intro returns_rules)
    (auto simp: added_new, auto simp: added_ok_def)

lemma over_pools_ok:
  assumes "\<And>c. dbc_ok c \<Longrightarrow> returns dbc_ok (f c)" and "\<forall>nc\<in>set cs. dbc_ok (snd nc)"
  shows "returns (\<lambda>cs'. map fst cs' = map fst cs \<and> (\<forall>nc\<in>set cs'. dbc_ok (snd nc))) (over_pools f cs)"
  using assms(2)
proof (induction cs)
  case Nil
  then show ?case by (simp add: returns_rules)
next
  case (Cons nc cs)
  obtain name c where nc: "nc = (name, c)" by (cases nc)
  with Cons.prems have c: "dbc_ok c" and cs: "\<forall>nc\<in>set cs. dbc_ok (snd nc)" by simp_all
  show ?case
    unfolding nc over_pools.simps
    by (rule returns_bnd [OF assms(1) [OF c]], rule returns_bnd [OF Cons.IH [OF cs]], rule returns_ret) auto
qed

lemma CheckHealth_ok: "dbc_ok c \<Longrightarrow> returns (\<lambda>(e, c'). dbc_ok c') (CheckHealth D c)"
  unfolding CheckHealth_def Let_def
  by (intro returns_rules) (auto simp: dbc_ok_def split: option.splits)

lemma runHealthChecks_ok: "registry_ok r \<Longrightarrow> returns registry_ok (runHealthChecks D r)"
proof -
  assume r: "registry_ok r"
  have "returns dbc_ok (bnd (CheckHealth D c) (\<lambda>(_, c'). ret c'))" if "dbc_ok c" for c
    by (rule returns_bnd [OF CheckHealth_ok [OF that]]) (auto intro: returns_ret split: prod.splits)
  from over_pools_ok [OF this, where cs = "rg_connections r"] r show ?thesis
    unfolding runHealthChecks_def
    by (intro returns_bnd [where R = "\<lambda>cs'. map fst cs' = map fst (rg_connections r) \<and> (\<forall>nc\<in>set cs'. dbc_ok (snd nc))"])
      (auto simp: registry_ok_def intro: returns_ret)
qed

lemma cleanup_ok: "dbc_ok c \<Longrightarrow> returns dbc_ok (cleanupIdleConnections D c)"
  unfolding cleanupIdleConnections_def Let_def
  by (intro returns_rules) (auto simp: dbc_ok_def)

lemma runCleanup_ok: "registry_ok r \<Longrightarrow> returns registry_ok (runCleanup D r)"
  using over_pools_ok [OF cleanup_ok, where cs = "rg_connections r"]
  unfolding runCleanup_def
  by (intro returns_bnd [where R = "\<lambda>cs'. map fst cs' = map fst (rg_connections r) \<and> (\<forall>nc\<in>set cs'. dbc_ok (snd nc))"])
    (auto simp: registry_ok_def intro: returns_ret)

text \<open>C19. The registry keeps its invariant: pool names are unique, and every pool has a normalised
  configuration, the handle of its own connection string and a warm-up exactly when it has a
  minimum of connections, and counts as healthy only without a health error. It holds of the
  empty registry and is kept by adding, replacing and removing a pool, by the health checks and
  by the eviction of idle pools, whatever the driver answers.\<close>
theorem registry_invariant:
  "registry_ok NewDBRegistry \<and>
   (registry_ok r \<longrightarrow>
      returns added_ok (AddConnection D name cfg r) \<and> returns added_ok (UpdateConnection D name cfg r)
      \<and> returns registry_ok (RemoveConnection D name r) \<and> returns registry_ok (runHealthChecks D r)
      \<and> returns registry_ok (runCleanup D r))"
  by (intro conjI impI AddConnection_ok UpdateConnection_ok RemoveConnection_ok runHealthChecks_ok runCleanup_ok)
    (simp_all add: registry_ok_def NewDBRegistry_def)

theorem registry_invariant_witness:
  "returns registry_ok (runHealthChecks steady_driver NewDBRegistry)"
  using registry_invariant [of NewDBRegistry steady_driver] by blast

subsection \<open>Waiting for goroutines that were never started\<close>


lemma new_dbc_warmup: "dc_warmupStarted (new_dbc c t1 t2) \<longleftrightarrow> 0 < db_MinConnections c"
  by (simp add: new_dbc_def)

text \<open>Waiting for the warm-up of a new pool blocks for ever exactly when the pool has no minimum of
  connections: then no warm-up goroutine is started, and nothing closes the channel.\<close>
theorem WaitForWarmup_blocks:
  assumes "map_of (rg_connections r) name = None"
    and "AddConnection D name cfg r w = (Ret (Inr conn, r'), w')"
  shows "fst (WaitForWarmup conn w') = Block \<longleftrightarrow> db_MinConnections cfg \<le> 0 \<or> db_MaxOpenConnections cfg \<le> 0"
proof -
  let ?new = "\<lambda>p. \<forall>c. fst p = Inr c \<longrightarrow> (\<exists>t1 t2. c = new_dbc (normalize_config cfg) t1 t2)"
  have "returns ?new (AddConnection D name cfg r)"
    unfolding AddConnection_def Let_def
    using assms(1) by (simp, intro returns_rules) auto
  from returnsD [OF this assms(2)] obtain t1 t2 where "conn = new_dbc (normalize_config cfg) t1 t2" by auto
  then have "dc_warmupStarted conn \<longleftrightarrow> 0 < clamp_min cfg"
    by (simp add: new_dbc_warmup normalize_config_def)
  then show ?thesis
    by (auto simp: WaitForWarmup_def ret_def block_def clamp_min_def Let_def)
qed

definition sample_db_config :: DBConfig where
  "sample_db_config = \<lparr>db_Name = ''p'', db_ConnectionString = ''DSN=a'', db_MinConnections = 0,
     db_MaxOpenConnections = 10, db_MaxIdleConnections = 5, db_ConnectionTimeout = 0,
     db_MaxConnectionLifetime = 0, db_IdleTimeout = 0, db_HealthCheckInterval = 0, db_HealthCheckTimeout = 0,
     db_EvictionPolicy = EvictionPolicyUnset, db_EvictionBatchSize = 0, db_EvictionGracePeriod = 0,
     db_MinEvictableIdleTime = 0, db_SSLMode = [], db_SSLCert = [], db_SSLKey = [], db_SSLRootCert = [],
     db_SSLKeyPassword = [], db_SSLCipherSuites = [], db_SSLSecure = False, db_SSLVersion = [],
     db_MaxRetries = 0, db_InitialRetryInterval = 0, db_MaxRetryInterval = 0, db_RetryMultiplier = 0,
     db_MaxResultRows = 0\<rparr>"

theorem normalize_config_ordered_witness:
  "config_ok (normalize_config sample_db_config)
   \<and> normalize_config (normalize_config sample_db_config) = normalize_config sample_db_config"
  using normalize_config_ordered [of sample_db_config] by (simp add: sample_db_config_def)


lemma AddConnection_steady:
  "\<exists>conn r' w'. AddConnection steady_driver ''p'' sample_db_config NewDBRegistry (start_world ()) = (Ret (Inr conn, r'), w')"
  by (simp add: AddConnection_def NewDBRegistry_def Let_def bnd_def seq_def ret_def sql_Open_def on_db_def tick_def
     modify_def steady_driver_def start_world_def time_Now_def gets_def local_var_def with_var_in_def with_var_out_def
     Do_plain attempts_of_def do_loop.simps ctx_poll_def ctx_err_def WithTimeout_def Background_def ctx_done_at_def
     opt_min_def db_Ping_def set_var_def normalize_config_def sample_db_config_def DefaultMaxAttempts_def
     world.extend_def world.truncate_def default_if_def second_def millisecond_def split: nat.splits)

theorem WaitForWarmup_blocks_witness:
  "\<exists>conn r' w'. AddConnection steady_driver ''p'' sample_db_config NewDBRegistry (start_world ()) = (Ret (Inr conn, r'), w')
     \<and> fst (WaitForWarmup conn w') = Block"
proof -
  from AddConnection_steady obtain conn r' w' where
    a: "AddConnection steady_driver ''p'' sample_db_config NewDBRegistry (start_world ()) = (Ret (Inr conn, r'), w')" by blast
  have "fst (WaitForWarmup conn w') = Block \<longleftrightarrow> db_MinConnections sample_db_config \<le> 0 \<or> db_MaxOpenConnections sample_db_config \<le> 0"
    by (rule WaitForWarmup_blocks [OF _ a]) (simp add: NewDBRegistry_def)
  with a show ?thesis by (simp add: sample_db_config_def)
qed

end
