(* ===== verification/Models.thy ===== *)
theory Models
  imports Go_Monad
begin

text \<open>
  The package \<open>models\<close>: the data the plugin stores. A Go map is an association list with every key
  once, and an option where the program tells a nil map from an empty one; a \<open>time.Time\<close> is its Unix time in nanoseconds; \<open>float64\<close> is a rational number.
\<close>

record Config =
  cf_Name :: string
  cf_PluginName :: string
  cf_PluginVersion :: string
  cf_VerifyConnection :: bool
  cf_AllowedRoles :: "string list"
  cf_RootRotationStatements :: "string list"
  cf_PasswordPolicy :: string
  cf_ConnectionURL :: string
  cf_ConnectionString :: string
  cf_Username :: string
  cf_Password :: string
  cf_DisableEscaping :: bool
  cf_MinConnections :: int
  cf_MaxOpenConnections :: int
  cf_MaxIdleConnections :: int
  cf_ConnectionTimeout :: int
  cf_QueryTimeout :: int
  cf_SessionTimeout :: int
  cf_MaxConnectionLifetime :: int
  cf_IdleTimeout :: int
  cf_SSLMode :: string
  cf_SSLCert :: string
  cf_SSLKey :: string
  cf_SSLRootCert :: string
  cf_SSLKeyPassword :: string
  cf_SSLCipherSuites :: string
  cf_SSLSecure :: bool
  cf_SSLVersion :: string
  cf_SessionVariables :: "(string \<times> string) list option"
  cf_MaxRetries :: int
  cf_InitialRetryInterval :: int
  cf_MaxRetryInterval :: int
  cf_RetryMultiplier :: rat
  cf_ConnectionStringTemplate :: string
  cf_Server :: string
  cf_Servers :: "string list"
  cf_Port :: int
  cf_Database :: string
  cf_GracefulDegradationMode :: bool
  cf_MaxResultRows :: int
  cf_EvictionPolicy :: string
  cf_EvictionBatchSize :: int
  cf_EvictionGracePeriod :: int
  cf_MinEvictableIdleTime :: int
  cf_TimeZone :: string
  cf_CharacterSet :: string
  cf_Version :: int

record Role =
  ro_Name :: string
  ro_Version :: int
  ro_CredentialType :: string
  ro_CredentialConfig :: "(string \<times> string) list"
  ro_DBUser :: string
  ro_UsernamePrefix :: string
  ro_UsernameSuffix :: string
  ro_DBPassword :: string
  ro_DefaultTTL :: int
  ro_MaxTTL :: int
  ro_RenewalPeriod :: int
  ro_StatementTemplate :: string
  ro_CreationStatement :: string
  ro_RevocationStatement :: string
  ro_RollbackStatement :: string
  ro_RenewalStatement :: string
  ro_DefaultDatabase :: string
  ro_PermSpace :: int
  ro_SpoolSpace :: int
  ro_Account :: string
  ro_Fallback :: bool
  ro_BatchSize :: int
  ro_MaxCredentials :: int
  ro_SessionVariables :: "(string \<times> string) list option"
  ro_AllowedRoles :: "string list"
  ro_PasswordPolicy :: string

definition RoleVersion :: int where
  "RoleVersion = 4"

record Statement =
  sm_Name :: string
  sm_CreationStatement :: string
  sm_RevocationStatement :: string
  sm_RollbackStatement :: string
  sm_RenewalStatement :: string

record Credential =
  cr_LeaseID :: string
  cr_Username :: string
  cr_RoleName :: string
  cr_Region :: string
  cr_CreatedAt :: int
  cr_ExpiresAt :: int
  cr_LastRenewed :: int

text \<open>\<open>IsExpired\<close> at the moment \<open>now\<close> its clock reading returns.\<close>

definition IsExpired :: "int \<Rightarrow> Credential \<Rightarrow> bool" where
  "IsExpired now c \<longleftrightarrow> cr_ExpiresAt c < now"

record StaticRole =
  sr_Name :: string
  sr_Username :: string
  sr_DBName :: string
  sr_RotationPeriod :: int
  sr_RotationSchedule :: string
  sr_RotationWindow :: int
  sr_RotationStatements :: "string list"
  sr_LastRotation :: int
  sr_RotationCount :: int
  sr_Version :: int

definition StaticRoleVersion :: int where
  "StaticRoleVersion = 1"

record StaticCredential =
  sc_Username :: string
  sc_Password :: string
  sc_RoleName :: string
  sc_DBName :: string
  sc_LastRotated :: int
  sc_NextRotation :: int

text \<open>The values \<open>json\<close> decodes into when a field is absent.\<close>

definition zero_config :: Config where
  "zero_config = \<lparr>cf_Name = [], cf_PluginName = [], cf_PluginVersion = [], cf_VerifyConnection = False,
     cf_AllowedRoles = [], cf_RootRotationStatements = [], cf_PasswordPolicy = [], cf_ConnectionURL = [],
     cf_ConnectionString = [], cf_Username = [], cf_Password = [], cf_DisableEscaping = False,
     cf_MinConnections = 0, cf_MaxOpenConnections = 0, cf_MaxIdleConnections = 0,
     cf_ConnectionTimeout = 0, cf_QueryTimeout = 0, cf_SessionTimeout = 0, cf_MaxConnectionLifetime = 0,
     cf_IdleTimeout = 0, cf_SSLMode = [], cf_SSLCert = [], cf_SSLKey = [], cf_SSLRootCert = [],
     cf_SSLKeyPassword = [], cf_SSLCipherSuites = [], cf_SSLSecure = False, cf_SSLVersion = [],
     cf_SessionVariables = None, cf_MaxRetries = 0, cf_InitialRetryInterval = 0, cf_MaxRetryInterval = 0,
     cf_RetryMultiplier = 0, cf_ConnectionStringTemplate = [], cf_Server = [], cf_Servers = [], cf_Port = 0,
     cf_Database = [], cf_GracefulDegradationMode = False, cf_MaxResultRows = 0, cf_EvictionPolicy = [],
     cf_EvictionBatchSize = 0, cf_EvictionGracePeriod = 0, cf_MinEvictableIdleTime = 0, cf_TimeZone = [],
     cf_CharacterSet = [], cf_Version = 0\<rparr>"

definition zero_role :: Role where
  "zero_role = \<lparr>ro_Name = [], ro_Version = 0, ro_CredentialType = [], ro_CredentialConfig = [],
     ro_DBUser = [], ro_UsernamePrefix = [], ro_UsernameSuffix = [], ro_DBPassword = [], ro_DefaultTTL = 0,
     ro_MaxTTL = 0, ro_RenewalPeriod = 0, ro_StatementTemplate = [], ro_CreationStatement = [],
     ro_RevocationStatement = [], ro_RollbackStatement = [], ro_RenewalStatement = [],
     ro_DefaultDatabase = [], ro_PermSpace = 0, ro_SpoolSpace = 0, ro_Account = [], ro_Fallback = False,
     ro_BatchSize = 0, ro_MaxCredentials = 0, ro_SessionVariables = None, ro_AllowedRoles = [],
     ro_PasswordPolicy = []\<rparr>"

end
