(* ===== verification/Cache_Interface.thy ===== *)
theory Cache_Interface
  imports Main
begin

text \<open>
  What the plugin relies on in its two in-memory caches. A cache is a bounded, forgetful copy of a
  slower store: its contents are a partial map, a lookup only ever returns what the contents say,
  storing adds one entry and may forget others, deleting forgets one. The client lemma is that a
  cache whose contents agree with the store never answers anything the store would not, and stays
  so as long as whoever changes the store deletes the key he changes.
\<close>

locale forgetful_cache =
  fixes view :: "'c \<Rightarrow> 'k \<Rightarrow> 'v option"
    and lookup :: "int \<Rightarrow> int \<Rightarrow> 'k \<Rightarrow> 'c \<Rightarrow> 'v option \<times> 'c"
    and store :: "int \<Rightarrow> int \<Rightarrow> int \<Rightarrow> 'k \<Rightarrow> 'v \<Rightarrow> 'c \<Rightarrow> 'c"
    and forget :: "'k \<Rightarrow> 'c \<Rightarrow> 'c"
  assumes lookup_view: "fst (lookup t1 t2 k c) = Some v \<Longrightarrow> view c k = Some v"
    and lookup_keeps: "view (snd (lookup t1 t2 k c)) j = Some v \<Longrightarrow> view c j = Some v"
    and store_view: "view (store t1 t2 t3 k v c) j = Some u \<Longrightarrow> (if j = k then u = v else view c j = Some u)"
    and store_added: "view (store t1 t2 t3 k v c) k = Some v"
    and forget_view: "view (forget k c) j = (if j = k then None else view c j)"
begin

text \<open>Every entry of the cache is the entry of the backing store \<open>m\<close>.\<close>

definition coherent :: "('k \<Rightarrow> 'v option) \<Rightarrow> 'c \<Rightarrow> bool" where
  "coherent m c \<longleftrightarrow> (\<forall>k v. view c k = Some v \<longrightarrow> m k = Some v)"

lemma coherent_lookup: "coherent m c \<Longrightarrow> coherent m (snd (lookup t1 t2 k c))"
  unfolding coherent_def by (blast dest: lookup_keeps)

lemma coherent_store: "coherent m c \<Longrightarrow> m k = Some v \<Longrightarrow> coherent m (store t1 t2 t3 k v c)"
  unfolding coherent_def by (metis store_view)

lemma coherent_forget: "coherent m c \<Longrightarrow> coherent m (forget k c)"
  by (auto simp: coherent_def forget_view split: if_splits)

text \<open>Changing the store at \<open>k\<close> and forgetting \<open>k\<close> keeps the cache coherent; so does storing the new
  value.\<close>

lemma coherent_update_forget: "coherent m c \<Longrightarrow> coherent (m(k := x)) (forget k c)"
  by (auto simp: coherent_def forget_view split: if_splits)

lemma coherent_update_store: "coherent m c \<Longrightarrow> coherent (m(k := Some v)) (store t1 t2 t3 k v c)"
  unfolding coherent_def fun_upd_def by (metis store_view)

text \<open>Reading through the cache: the cache's answer if it has one, else the store's, which is then
  cached.\<close>

definition read_through ::
  "int \<Rightarrow> int \<Rightarrow> int \<Rightarrow> int \<Rightarrow> int \<Rightarrow> ('k \<Rightarrow> 'v option) \<Rightarrow> 'k \<Rightarrow> 'c \<Rightarrow> 'v option \<times> 'c" where
  "read_through t1 t2 t3 t4 t5 m k c =
     (case lookup t1 t2 k c of
        (Some v, c') \<Rightarrow> (Some v, c')
      | (None, c') \<Rightarrow> (case m k of None \<Rightarrow> (None, c') | Some v \<Rightarrow> (Some v, store t3 t4 t5 k v c')))"

lemma read_through_correct:
  assumes "coherent m c"
  shows "fst (read_through t1 t2 t3 t4 t5 m k c) = m k \<and> coherent m (snd (read_through t1 t2 t3 t4 t5 m k c))"
proof -
  obtain r c' where l: "lookup t1 t2 k c = (r, c')" by (cases "lookup t1 t2 k c")
  with coherent_lookup [OF assms, of t1 t2 k] have c': "coherent m c'" by simp
  show ?thesis
  proof (cases r)
    case (Some v)
    with l lookup_view [of t1 t2 k c v] assms have "m k = Some v" by (simp add: coherent_def)
    with l Some c' show ?thesis by (simp add: read_through_def)
  next
    case None
    with l c' coherent_store [OF c', of k] show ?thesis
      by (cases "m k") (simp_all add: read_through_def)
  qed
qed

end

end
