(* ===== verification/Cred_Cache.thy ===== *)
theory Cred_Cache
  imports Models Cache_Interface Prelude "HOL-Library.AList"
begin

text \<open>
  The credential cache (\<open>plugin/credential_cache.go\<close>). The methods are functions on the cache; where
  one reads the clock, the readings are its first arguments, in the order it takes them. \<open>ord\<close> is the
  order in which a run visits the entries of the map. The mutex is not modelled: a method runs
  without interruption.
\<close>

record cacheEntry =
  ce_credential :: Credential
  ce_expiresAt :: int
  ce_createdAt :: int

record credentialCache =
  cc_entries :: "(string \<times> cacheEntry) list"
  cc_ttl :: int
  cc_maxSize :: int
  cc_hitCount :: int
  cc_missCount :: int
  cc_evictCount :: int
  cc_closed :: bool

definition newCredentialCache :: "int \<Rightarrow> int \<Rightarrow> credentialCache" where
  "newCredentialCache ttl maxSize = \<lparr>cc_entries = [], cc_ttl = ttl, cc_maxSize = maxSize,
     cc_hitCount = 0, cc_missCount = 0, cc_evictCount = 0, cc_closed = False\<rparr>"

definition cred_Delete :: "string \<Rightarrow> credentialCache \<Rightarrow> credentialCache" where
  "cred_Delete username c = c\<lparr>cc_entries := AList.delete username (cc_entries c)\<rparr>"

definition cred_Get :: "int \<Rightarrow> string \<Rightarrow> credentialCache \<Rightarrow> Credential option \<times> credentialCache" where
  "cred_Get now username c =
     (case map_of (cc_entries c) username of
        None \<Rightarrow> (None, c\<lparr>cc_missCount := cc_missCount c + 1\<rparr>)
      | Some entry \<Rightarrow>
          if ce_expiresAt entry < now
          then (None, (cred_Delete username c)\<lparr>cc_missCount := cc_missCount c + 1\<rparr>)
          else (Some (ce_credential entry), c\<lparr>cc_hitCount := cc_hitCount c + 1\<rparr>))"

text \<open>The scan for the entry created first; \<open>None\<close> is the zero time.\<close>

fun oldest :: "(string \<times> cacheEntry) list \<Rightarrow> (string \<times> int) option \<Rightarrow> (string \<times> int) option" where
  "oldest [] best = best"
| "oldest ((key, entry) # rest) best =
     oldest rest (case best of
        None \<Rightarrow> Some (key, ce_createdAt entry)
      | Some (_, t) \<Rightarrow> if ce_createdAt entry < t then Some (key, ce_createdAt entry) else best)"

definition cred_evictOldest :: "((string \<times> cacheEntry) list \<Rightarrow> (string \<times> cacheEntry) list)
    \<Rightarrow> int \<Rightarrow> credentialCache \<Rightarrow> credentialCache" where
  "cred_evictOldest ord now c =
     (case oldest (ord (cc_entries c)) None of
        None \<Rightarrow> c
      | Some (oldestKey, oldestTime) \<Rightarrow>
          if oldestKey \<noteq> [] \<and> now - oldestTime > cc_ttl c
          then c\<lparr>cc_entries := AList.delete oldestKey (cc_entries c), cc_evictCount := cc_evictCount c + 1\<rparr>
          else c)"

definition cred_Set :: "((string \<times> cacheEntry) list \<Rightarrow> (string \<times> cacheEntry) list)
    \<Rightarrow> int \<Rightarrow> int \<Rightarrow> int \<Rightarrow> string \<Rightarrow> Credential \<Rightarrow> credentialCache \<Rightarrow> credentialCache" where
  "cred_Set ord t1 t2 t3 username cred c0 =
     (let c = (if int (length (cc_entries c0)) \<ge> cc_maxSize c0 then cred_evictOldest ord t1 c0 else c0);
          entry = \<lparr>ce_credential = cred, ce_expiresAt = t2 + cc_ttl c, ce_createdAt = t3\<rparr>
      in c\<lparr>cc_entries := AList.update username entry (cc_entries c)\<rparr>)"

definition cred_DeleteByRole :: "string \<Rightarrow> credentialCache \<Rightarrow> string list \<times> credentialCache" where
  "cred_DeleteByRole roleName c =
     (map fst (filter (\<lambda>(_, e). cr_RoleName (ce_credential e) = roleName) (cc_entries c)),
      c\<lparr>cc_entries := filter (\<lambda>(_, e). cr_RoleName (ce_credential e) \<noteq> roleName) (cc_entries c)\<rparr>)"

definition cred_Invalidate :: "string \<Rightarrow> credentialCache \<Rightarrow> credentialCache" where
  "cred_Invalidate username c = cred_Delete username c"

definition cred_Clear :: "credentialCache \<Rightarrow> credentialCache" where
  "cred_Clear c = c\<lparr>cc_entries := []\<rparr>"

definition cred_Stats :: "credentialCache \<Rightarrow> int \<times> int \<times> int \<times> int" where
  "cred_Stats c = (cc_hitCount c, cc_missCount c, cc_evictCount c, int (length (cc_entries c)))"

definition cred_cleanupExpired :: "int \<Rightarrow> credentialCache \<Rightarrow> credentialCache" where
  "cred_cleanupExpired now c =
     (let dead = filter (\<lambda>(_, e). ce_expiresAt e < now) (cc_entries c) in
      c\<lparr>cc_entries := filter (\<lambda>(_, e). \<not> ce_expiresAt e < now) (cc_entries c),
        cc_evictCount := cc_evictCount c + int (length dead)\<rparr>)"

text \<open>\<open>Close\<close> closes a channel; closing it a second time panics.\<close>

definition cred_Close :: "credentialCache \<Rightarrow> credentialCache res" where
  "cred_Close c = (if cc_closed c then Panic ''close of closed channel'' else Ret (c\<lparr>cc_closed := True\<rparr>))"

text \<open>Warming: the names not yet cached are read from storage (\<open>get\<close>, with the storage state threaded
  through) and added without a size check.\<close>

fun cred_warmCache :: "('s \<Rightarrow> string \<Rightarrow> (go_err + Credential option) \<times> 's) \<Rightarrow> (nat \<Rightarrow> int) \<Rightarrow> nat \<Rightarrow> string list
    \<Rightarrow> credentialCache \<Rightarrow> 's \<Rightarrow> credentialCache \<times> 's" where
  "cred_warmCache get clock n [] c s = (c, s)"
| "cred_warmCache get clock n (username # rest) c s =
     (if map_of (cc_entries c) username \<noteq> None then cred_warmCache get clock n rest c s
      else case get s username of
        (Inr (Some cred), s') \<Rightarrow>
          cred_warmCache get clock (n + 2) rest
            (c\<lparr>cc_entries := AList.update username
                \<lparr>ce_credential = cred, ce_expiresAt = clock n + cc_ttl c, ce_createdAt = clock (n + 1)\<rparr>
                (cc_entries c)\<rparr>) s'
      | (_, s') \<Rightarrow> cred_warmCache get clock n rest c s')"

subsection \<open>The cache as a map\<close>

definition cred_view :: "credentialCache \<Rightarrow> string \<Rightarrow> Credential option" where
  "cred_view c k = map_option ce_credential (map_of (cc_entries c) k)"

definition cred_wf :: "credentialCache \<Rightarrow> bool" where
  "cred_wf c \<longleftrightarrow> distinct (map fst (cc_entries c))"

lemma map_of_delete: "map_of (AList.delete k xs) j = (if j = k then None else map_of xs j)"
  by (simp add: delete_conv)

lemma map_of_update: "map_of (AList.update k v xs) j = (if j = k then Some v else map_of xs j)"
  by (simp add: update_conv)

lemma cred_evict_view: "cred_view (cred_evictOldest ord t c) j = Some v \<Longrightarrow> cred_view c j = Some v"
  by (auto simp: cred_evictOldest_def cred_view_def map_of_delete split: option.splits if_splits prod.splits)

lemma cred_evict_ttl [simp]: "cc_ttl (cred_evictOldest ord t c) = cc_ttl c"
  "cc_maxSize (cred_evictOldest ord t c) = cc_maxSize c"
  by (auto simp: cred_evictOldest_def split: option.splits prod.splits)

interpretation cred_cache: forgetful_cache cred_view "\<lambda>t _. cred_Get t" "cred_Set ord" cred_Delete for ord
proof
  show "fst (cred_Get t1 k c) = Some v \<Longrightarrow> cred_view c k = Some v" for t1 k c v
    by (auto simp: cred_Get_def cred_view_def split: option.splits if_splits)
  show "cred_view (snd (cred_Get t1 k c)) j = Some v \<Longrightarrow> cred_view c j = Some v" for t1 k c j v
    by (auto simp: cred_Get_def cred_view_def cred_Delete_def map_of_delete split: option.splits if_splits)
  show "cred_view (cred_Set ord t1 t2 t3 k v c) j = Some u \<Longrightarrow> (if j = k then u = v else cred_view c j = Some u)"
    for t1 t2 t3 k v c j u
    using cred_evict_view [of ord t1 c j u]
    by (auto simp: cred_Set_def cred_view_def map_of_update Let_def split: if_splits)
  show "cred_view (cred_Set ord t1 t2 t3 k v c) k = Some v" for t1 t2 t3 k v c
    by (simp add: cred_Set_def cred_view_def map_of_update Let_def)
  show "cred_view (cred_Delete k c) j = (if j = k then None else cred_view c j)" for k c j
    by (simp add: cred_Delete_def cred_view_def map_of_delete)
qed

text \<open>Names occur once in the list of entries, and every operation keeps it so.\<close>

lemma cred_wf_ops:
  "cred_wf (newCredentialCache ttl n)" "cred_wf c \<Longrightarrow> cred_wf (cred_Delete u c)"
  "cred_wf c \<Longrightarrow> cred_wf (snd (cred_Get t u c))" "cred_wf c \<Longrightarrow> cred_wf (cred_Set ord t1 t2 t3 u v c)"
proof -
  show "cred_wf (newCredentialCache ttl n)" by (simp add: cred_wf_def newCredentialCache_def)
  show del: "cred_wf (cred_Delete u c)" if "cred_wf c" for c
    using that by (simp add: cred_wf_def cred_Delete_def distinct_delete)
  show "cred_wf (snd (cred_Get t u c))" if "cred_wf c"
    using that del [OF that] by (auto simp: cred_wf_def cred_Get_def split: option.splits)
  have "cred_wf (cred_evictOldest ord t1 c)" if "cred_wf c"
    using that by (auto simp: cred_wf_def cred_evictOldest_def distinct_delete split: option.splits)
  then show "cred_wf (cred_Set ord t1 t2 t3 u v c)" if "cred_wf c"
    using that by (simp add: cred_wf_def cred_Set_def distinct_update Let_def)
qed

lemma cred_cleanupExpired_wf: "cred_wf c \<Longrightarrow> cred_wf (cred_cleanupExpired t c)"
  by (simp add: cred_wf_def cred_cleanupExpired_def distinct_map_filter Let_def)

lemma cred_cleanupExpired_view:
  assumes "cred_wf c" and "cred_view (cred_cleanupExpired t c) k = Some v"
  shows "cred_view c k = Some v"
proof -
  from assms(2) obtain e where "(k, e) \<in> set (cc_entries c)" and "v = ce_credential e"
    by (auto simp: cred_view_def cred_cleanupExpired_def Let_def dest!: map_of_SomeD)
  with assms(1) show ?thesis by (simp add: cred_wf_def cred_view_def)
qed

subsection \<open>Lookups, expiry and size\<close>

text \<open>A lookup returns the credential stored last under the name, up to the moment its time to live
  has passed; after that it misses and drops the entry. Whatever was evicted to make room.\<close>
theorem cred_Get_after_Set:
  "fst (cred_Get now k (cred_Set ord t1 t2 t3 k v c)) = (if t2 + cc_ttl c < now then None else Some v)"
  by (auto simp: cred_Get_def cred_Set_def map_of_update Let_def)

lemma length_update: "length (AList.update k v xs) = (if k \<in> fst ` set xs then length xs else Suc (length xs))"
  by (induction xs) auto

lemma length_delete:
  "distinct (map fst xs) \<Longrightarrow> k \<in> fst ` set xs \<Longrightarrow> Suc (length (AList.delete k xs)) = length xs"
proof (induction xs)
  case Nil
  then show ?case by simp
next
  case (Cons x xs)
  have "AList.delete k xs = xs" if "k \<notin> fst ` set xs" using that by (simp add: delete_id image_iff)
  with Cons show ?case by (auto simp: AList.delete_eq)
qed

lemma oldest_none: "oldest xs None = None \<longleftrightarrow> xs = []"
proof -
  have "oldest ys (Some p) \<noteq> None" for ys p
    by (induction ys "Some p" arbitrary: p rule: oldest.induct) (auto split: prod.splits)
  then show ?thesis by (cases xs) auto
qed

lemma oldest_le:
  "oldest xs best = Some (k, t) \<Longrightarrow> (\<forall>e\<in>set xs. t \<le> ce_createdAt (snd e))
     \<and> (\<forall>b u. best = Some (b, u) \<longrightarrow> t \<le> u)"
proof (induction xs best rule: oldest.induct)
  case (1 best)
  then show ?case by simp
next
  case (2 key entry rest best)
  then show ?case by (cases best) (auto split: if_splits)
qed

text \<open>A cache whose entries are all within their time to live is not made smaller by a \<open>Set\<close>: the
  eviction only removes an entry that has expired already.\<close>

lemma cred_evict_fresh:
  assumes "\<forall>(k, e)\<in>set (ord (cc_entries c)). t - ce_createdAt e \<le> cc_ttl c"
  shows "cred_evictOldest ord t c = c"
proof -
  have "False" if o: "oldest xs best = Some (k, u)" and "\<forall>(k, e)\<in>set xs. t - ce_createdAt e \<le> cc_ttl c"
    and "\<forall>b v. best = Some (b, v) \<longrightarrow> t - v \<le> cc_ttl c" and "t - u > cc_ttl c" for xs best k u
    using that
  proof (induction xs best rule: oldest.induct)
    case (1 best)
    then show ?case by simp
  next
    case (2 key entry rest best)
    show ?case
    proof (rule "2.IH")
      show "oldest rest (case best of None \<Rightarrow> Some (key, ce_createdAt entry)
          | Some (_, t) \<Rightarrow> if ce_createdAt entry < t then Some (key, ce_createdAt entry) else best) = Some (k, u)"
        using "2.prems"(1) by simp
      show "\<forall>b v. (case best of None \<Rightarrow> Some (key, ce_createdAt entry)
          | Some (_, t) \<Rightarrow> if ce_createdAt entry < t then Some (key, ce_createdAt entry) else best) = Some (b, v)
          \<longrightarrow> t - v \<le> cc_ttl c"
        using "2.prems"(2,3) by (auto split: option.splits if_splits)
    qed (use "2.prems" in auto)
  qed
  from this [of "ord (cc_entries c)" None] assms show ?thesis
    by (auto simp: cred_evictOldest_def split: option.splits)
qed

text \<open>C40. The size limit does not hold: a \<open>Set\<close> of a new name on a cache in which no entry has outlived
  its time to live adds an entry, however full the cache is, because only an expired entry is
  ever evicted.\<close>
theorem cred_Set_exceeds_limit:
  assumes "\<forall>(k, e)\<in>set (ord (cc_entries c)). t1 - ce_createdAt e \<le> cc_ttl c"
    and "k \<notin> fst ` set (cc_entries c)"
  shows "length (cc_entries (cred_Set ord t1 t2 t3 k v c)) = Suc (length (cc_entries c))"
  using assms by (simp add: cred_Set_def cred_evict_fresh length_update Let_def)

definition sample_cred :: Credential where
  "sample_cred = \<lparr>cr_LeaseID = ''l'', cr_Username = ''u'', cr_RoleName = ''r'', cr_Region = [],
     cr_CreatedAt = 0, cr_ExpiresAt = 60, cr_LastRenewed = 0\<rparr>"

theorem cred_Set_exceeds_limit_witness:
  "cc_maxSize (newCredentialCache 100 1) = 1 \<and>
   length (cc_entries (cred_Set id 2 3 4 ''b'' sample_cred (cred_Set id 0 0 0 ''a'' sample_cred (newCredentialCache 100 1)))) = 2"
proof -
  let ?c = "cred_Set id 0 0 0 ''a'' sample_cred (newCredentialCache 100 1)"
  have c: "cc_entries ?c = [(''a'', \<lparr>ce_credential = sample_cred, ce_expiresAt = 100, ce_createdAt = 0\<rparr>)]"
    "cc_ttl ?c = 100"
    by (simp_all add: cred_Set_def newCredentialCache_def Let_def)
  show ?thesis
    using cred_Set_exceeds_limit [of id ?c 2 "''b''" 3 4 sample_cred] c
    by (simp add: newCredentialCache_def)
qed

end
