(* ===== verification/Query_Cache.thy ===== *)
theory Query_Cache
  imports Cred_Cache
begin

text \<open>
  The query result cache (\<open>plugin/query_cache.go\<close>), with the same conventions as the credential
  cache: clock readings are arguments, \<open>ord\<close> is the order in which a run visits the map. It keeps the
  contract of \<open>Cache_Interface\<close>, and unlike the credential cache it never grows past its limit.
\<close>

record QueryResult =
  res_Columns :: "string list"
  res_Rows :: "string list list"
  res_Metadata :: "(string \<times> string) list"

datatype CacheValue = VConfig Config | VRole Role | VStatement Statement | VQuery QueryResult

record queryCacheEntry =
  qe_Key :: string
  qe_Value :: CacheValue
  qe_ExpiresAt :: int
  qe_CreatedAt :: int
  qe_AccessTime :: int

record queryResultCache =
  qc_entries :: "(string \<times> queryCacheEntry) list"
  qc_ttl :: int
  qc_maxSize :: int
  qc_hitCount :: int
  qc_missCount :: int
  qc_evictCount :: int
  qc_closed :: bool

definition DefaultQueryCacheTTL :: int where "DefaultQueryCacheTTL = 300 * 1000000000"
definition DefaultQueryCacheMaxSize :: int where "DefaultQueryCacheMaxSize = 1000"

definition newQueryResultCache :: "int \<Rightarrow> int \<Rightarrow> queryResultCache" where
  "newQueryResultCache ttl maxSize = \<lparr>qc_entries = [],
     qc_ttl = (if ttl \<le> 0 then DefaultQueryCacheTTL else ttl),
     qc_maxSize = (if maxSize \<le> 0 then DefaultQueryCacheMaxSize else maxSize),
     qc_hitCount = 0, qc_missCount = 0, qc_evictCount = 0, qc_closed = False\<rparr>"

definition query_deleteEntry :: "string \<Rightarrow> queryResultCache \<Rightarrow> queryResultCache" where
  "query_deleteEntry key c =
     c\<lparr>qc_entries := AList.delete key (qc_entries c), qc_evictCount := qc_evictCount c + 1\<rparr>"

definition query_Get :: "int \<Rightarrow> int \<Rightarrow> string \<Rightarrow> queryResultCache \<Rightarrow> CacheValue option \<times> queryResultCache" where
  "query_Get t1 t2 key c =
     (case map_of (qc_entries c) key of
        None \<Rightarrow> (None, c\<lparr>qc_missCount := qc_missCount c + 1\<rparr>)
      | Some entry \<Rightarrow>
          if qe_ExpiresAt entry < t1
          then (None, (query_deleteEntry key c)\<lparr>qc_missCount := qc_missCount c + 1\<rparr>)
          else (Some (qe_Value entry),
            c\<lparr>qc_entries := AList.update key (entry\<lparr>qe_AccessTime := t2\<rparr>) (qc_entries c),
              qc_hitCount := qc_hitCount c + 1\<rparr>))"

text \<open>The scan for the entry used longest ago; \<open>None\<close> is the zero time.\<close>

fun least_used :: "(string \<times> queryCacheEntry) list \<Rightarrow> (string \<times> int) option \<Rightarrow> (string \<times> int) option" where
  "least_used [] best = best"
| "least_used ((key, entry) # rest) best =
     least_used rest (case best of
        None \<Rightarrow> Some (key, qe_AccessTime entry)
      | Some (_, t) \<Rightarrow> if qe_AccessTime entry < t then Some (key, qe_AccessTime entry) else best)"

definition query_evictLRU :: "((string \<times> queryCacheEntry) list \<Rightarrow> (string \<times> queryCacheEntry) list)
    \<Rightarrow> queryResultCache \<Rightarrow> queryResultCache" where
  "query_evictLRU ord c =
     (case least_used (ord (qc_entries c)) None of
        None \<Rightarrow> c
      | Some (oldestKey, _) \<Rightarrow>
          if oldestKey \<noteq> []
          then c\<lparr>qc_entries := AList.delete oldestKey (qc_entries c), qc_evictCount := qc_evictCount c + 1\<rparr>
          else c)"

definition query_Set :: "((string \<times> queryCacheEntry) list \<Rightarrow> (string \<times> queryCacheEntry) list)
    \<Rightarrow> int \<Rightarrow> int \<Rightarrow> int \<Rightarrow> string \<Rightarrow> CacheValue \<Rightarrow> queryResultCache \<Rightarrow> queryResultCache" where
  "query_Set ord t1 t2 t3 key v c0 =
     (case map_of (qc_entries c0) key of
        Some entry \<Rightarrow>
          c0\<lparr>qc_entries := AList.update key
               (entry\<lparr>qe_Value := v, qe_ExpiresAt := t1 + qc_ttl c0, qe_AccessTime := t2\<rparr>) (qc_entries c0)\<rparr>
      | None \<Rightarrow>
          let c = (if int (length (qc_entries c0)) \<ge> qc_maxSize c0 then query_evictLRU ord c0 else c0);
              entry = \<lparr>qe_Key = key, qe_Value = v, qe_ExpiresAt = t1 + qc_ttl c, qe_CreatedAt = t2,
                       qe_AccessTime = t3\<rparr>
          in c\<lparr>qc_entries := AList.update key entry (qc_entries c)\<rparr>)"

definition query_Delete :: "string \<Rightarrow> queryResultCache \<Rightarrow> queryResultCache" where
  "query_Delete key c =
     (if map_of (qc_entries c) key \<noteq> None then query_deleteEntry key c else c)"

definition query_DeleteByPrefix :: "string \<Rightarrow> queryResultCache \<Rightarrow> string list \<times> queryResultCache" where
  "query_DeleteByPrefix p c =
     (let keys = filter (\<lambda>k. HasPrefix k p) (map fst (qc_entries c))
      in (keys, foldl (\<lambda>c k. query_deleteEntry k c) c keys))"

definition query_Clear :: "queryResultCache \<Rightarrow> queryResultCache" where
  "query_Clear c = c\<lparr>qc_entries := []\<rparr>"

record queryCacheStats =
  qs_Hits :: int
  qs_Misses :: int
  qs_Evictions :: int
  qs_Size :: int
  qs_MaxSize :: int
  qs_TTL :: int

definition query_Stats :: "queryResultCache \<Rightarrow> queryCacheStats" where
  "query_Stats c = \<lparr>qs_Hits = qc_hitCount c, qs_Misses = qc_missCount c, qs_Evictions = qc_evictCount c,
     qs_Size = int (length (qc_entries c)), qs_MaxSize = qc_maxSize c, qs_TTL = qc_ttl c\<rparr>"

definition query_cleanupExpired :: "int \<Rightarrow> queryResultCache \<Rightarrow> queryResultCache" where
  "query_cleanupExpired now c =
     (let dead = filter (\<lambda>(_, e). qe_ExpiresAt e < now) (qc_entries c) in
      c\<lparr>qc_entries := filter (\<lambda>(_, e). \<not> qe_ExpiresAt e < now) (qc_entries c),
        qc_evictCount := qc_evictCount c + int (length dead)\<rparr>)"

text \<open>\<open>Close\<close> may be called again.\<close>

definition query_Close :: "queryResultCache \<Rightarrow> queryResultCache" where
  "query_Close c = c\<lparr>qc_closed := True\<rparr>"

subsection \<open>Keys\<close>

definition ConfigKey :: "string \<Rightarrow> string" where
  "ConfigKey region = (if region = [] then ''config:default'' else ''config:'' @ region)"

definition RoleKey :: "string \<Rightarrow> string" where
  "RoleKey name = ''role:'' @ name"

definition StatementKey :: "string \<Rightarrow> string" where
  "StatementKey name = ''statement:'' @ name"

text \<open>\<open>sha\<close> is the hexadecimal SHA-256 digest of the bytes written, the query and its arguments one
  after the other.\<close>

definition QueryKey :: "(string \<Rightarrow> string) \<Rightarrow> string \<Rightarrow> string list \<Rightarrow> string" where
  "QueryKey sha query args = ''query:'' @ take 16 (sha (query @ concat args))"

subsection \<open>The cache as a map\<close>

definition query_view :: "queryResultCache \<Rightarrow> string \<Rightarrow> CacheValue option" where
  "query_view c k = map_option qe_Value (map_of (qc_entries c) k)"

lemma query_evict_view: "query_view (query_evictLRU ord c) j = Some v \<Longrightarrow> query_view c j = Some v"
  by (auto simp: query_evictLRU_def query_view_def map_of_delete split: option.splits if_splits prod.splits)

lemma query_evict_params [simp]: "qc_ttl (query_evictLRU ord c) = qc_ttl c"
  "qc_maxSize (query_evictLRU ord c) = qc_maxSize c"
  by (auto simp: query_evictLRU_def split: option.splits prod.splits)

interpretation query_cache: forgetful_cache query_view query_Get "query_Set ord" query_Delete for ord
proof
  show "fst (query_Get t1 t2 k c) = Some v \<Longrightarrow> query_view c k = Some v" for t1 t2 k c v
    by (auto simp: query_Get_def query_view_def split: option.splits if_splits)
  show "query_view (snd (query_Get t1 t2 k c)) j = Some v \<Longrightarrow> query_view c j = Some v" for t1 t2 k c j v
    by (auto simp: query_Get_def query_view_def query_deleteEntry_def map_of_delete map_of_update
        split: option.splits if_splits)
  show "query_view (query_Set ord t1 t2 t3 k v c) j = Some u \<Longrightarrow> (if j = k then u = v else query_view c j = Some u)"
    for t1 t2 t3 k v c j u
    using query_evict_view [of ord c j u]
    by (auto simp: query_Set_def query_view_def map_of_update Let_def split: if_splits option.splits)
  show "query_view (query_Set ord t1 t2 t3 k v c) k = Some v" for t1 t2 t3 k v c
    by (simp add: query_Set_def query_view_def map_of_update Let_def split: option.splits)
  show "query_view (query_Delete k c) j = (if j = k then None else query_view c j)" for k c j
    by (simp add: query_Delete_def query_deleteEntry_def query_view_def map_of_delete)
qed

text \<open>Reading through either cache is transparent: when every cached value is the stored one, the
  value read is the stored one, hit or miss, expired or not, and the cache stays that way.\<close>
theorem caches_transparent:
  assumes "cred_cache.coherent m c" and "query_cache.coherent m' c'"
  shows "fst (cred_cache.read_through ord t1 t2 t3 t4 t5 m k c) = m k
    \<and> cred_cache.coherent m (snd (cred_cache.read_through ord t1 t2 t3 t4 t5 m k c))
    \<and> fst (query_cache.read_through ord' t1 t2 t3 t4 t5 m' k c') = m' k
    \<and> query_cache.coherent m' (snd (query_cache.read_through ord' t1 t2 t3 t4 t5 m' k c'))"
  using cred_cache.read_through_correct [OF assms(1)] query_cache.read_through_correct [OF assms(2)]
  by simp

subsection \<open>The size limit\<close>

definition query_wf :: "queryResultCache \<Rightarrow> bool" where
  "query_wf c \<longleftrightarrow> distinct (map fst (qc_entries c)) \<and> (\<forall>k\<in>fst ` set (qc_entries c). k \<noteq> [])
     \<and> 1 \<le> qc_maxSize c \<and> int (length (qc_entries c)) \<le> qc_maxSize c"

lemma least_used_some: "xs \<noteq> [] \<Longrightarrow> \<exists>k t. least_used xs best = Some (k, t)"
proof (induction xs best rule: least_used.induct)
  case (1 best)
  then show ?case by simp
next
  case (2 key entry rest best)
  show ?case
  proof (cases "rest = []")
    case True
    then show ?thesis by (cases best) auto
  next
    case False
    with "2.IH" show ?thesis by simp
  qed
qed

lemma least_used_key:
  "least_used xs best = Some (k, t) \<Longrightarrow> k \<in> fst ` set xs \<or> best = Some (k, t)"
proof (induction xs best rule: least_used.induct)
  case (1 best)
  then show ?case by simp
next
  case (2 key entry rest best)
  then show ?case by (cases best) (auto split: if_splits)
qed

lemma set_delete: "set (AList.delete k xs) \<subseteq> set xs"
  by (auto simp: AList.delete_eq)

lemma query_evict_shrinks:
  assumes wf: "query_wf c" and ne: "qc_entries c \<noteq> []" and ord: "\<And>xs. set (ord xs) = set xs"
  shows "Suc (length (qc_entries (query_evictLRU ord c))) = length (qc_entries c)
    \<and> distinct (map fst (qc_entries (query_evictLRU ord c)))
    \<and> set (qc_entries (query_evictLRU ord c)) \<subseteq> set (qc_entries c)"
proof -
  have "ord (qc_entries c) \<noteq> []" using ord [of "qc_entries c"] ne by auto
  then obtain k t where kt: "least_used (ord (qc_entries c)) None = Some (k, t)"
    using least_used_some [of "ord (qc_entries c)" None] by blast
  with least_used_key [OF kt] ord have k: "k \<in> fst ` set (qc_entries c)" by auto
  with wf have "k \<noteq> []" by (auto simp: query_wf_def)
  with kt have e: "qc_entries (query_evictLRU ord c) = AList.delete k (qc_entries c)"
    by (simp add: query_evictLRU_def)
  have d: "distinct (map fst (qc_entries c))" using wf by (simp add: query_wf_def)
  then show ?thesis
    using length_delete [OF d k] distinct_delete [OF d, of k] set_delete [of k "qc_entries c"] unfolding e by simp
qed

lemma query_wf_delete: "query_wf c \<Longrightarrow> query_wf (query_deleteEntry k c)"
proof -
  assume wf: "query_wf c"
  have "length (AList.delete k (qc_entries c)) \<le> length (qc_entries c)" by (simp add: AList.delete_eq)
  with wf show ?thesis using set_delete [of k "qc_entries c"]
    by (auto simp: query_wf_def query_deleteEntry_def distinct_delete)
qed

lemma query_wf_counts [simp]:
  "query_wf (c\<lparr>qc_missCount := n\<rparr>) = query_wf c" "query_wf (c\<lparr>qc_hitCount := n\<rparr>) = query_wf c"
  "query_wf (c\<lparr>qc_evictCount := n\<rparr>) = query_wf c"
  by (simp_all add: query_wf_def)

lemma query_wf_update:
  "query_wf c \<Longrightarrow> map_of (qc_entries c) k = Some e \<Longrightarrow> query_wf (c\<lparr>qc_entries := AList.update k e' (qc_entries c)\<rparr>)"
proof -
  assume wf: "query_wf c" and k: "map_of (qc_entries c) k = Some e"
  then have "k \<in> fst ` set (qc_entries c)" by (metis domI dom_map_of_conv_image_fst)
  with wf show ?thesis
    by (auto simp: query_wf_def length_update distinct_update dom_update)
qed

lemma query_wf_Get: "query_wf c \<Longrightarrow> query_wf (snd (query_Get t1 t2 k c))"
  by (auto simp: query_Get_def query_wf_delete query_wf_update split: option.splits)

lemma query_wf_Set:
  assumes wf: "query_wf c" and ord: "\<And>xs. set (ord xs) = set xs" and k: "k \<noteq> []"
  shows "query_wf (query_Set ord t1 t2 t3 k v c)"
proof (cases "map_of (qc_entries c) k")
  case (Some e)
  then show ?thesis using query_wf_update [OF wf Some] by (simp add: query_Set_def)
next
  case None
  obtain d where d_def: "d = (if int (length (qc_entries c)) \<ge> qc_maxSize c then query_evictLRU ord c else c)"
    by simp
  have max: "qc_maxSize d = qc_maxSize c" "qc_ttl d = qc_ttl c" by (simp_all add: d_def)
  have d: "distinct (map fst (qc_entries d))" "set (qc_entries d) \<subseteq> set (qc_entries c)"
    "int (length (qc_entries d)) < qc_maxSize c"
  proof -
    have "qc_entries c \<noteq> []" if "int (length (qc_entries c)) \<ge> qc_maxSize c"
      using wf that by (auto simp: query_wf_def)
    then show "distinct (map fst (qc_entries d))" "set (qc_entries d) \<subseteq> set (qc_entries c)"
      "int (length (qc_entries d)) < qc_maxSize c"
      using query_evict_shrinks [OF wf _ ord] wf by (auto simp: d_def query_wf_def)
  qed
  have "query_Set ord t1 t2 t3 k v c = d\<lparr>qc_entries := AList.update k
      \<lparr>qe_Key = k, qe_Value = v, qe_ExpiresAt = t1 + qc_ttl d, qe_CreatedAt = t2, qe_AccessTime = t3\<rparr> (qc_entries d)\<rparr>"
    using None by (simp add: query_Set_def d_def Let_def)
  with d wf k max show ?thesis
    by (auto simp: query_wf_def length_update distinct_update dom_update)
qed

text \<open>C29. The query cache never holds more entries than its limit: a fresh cache does not, and no
  lookup, store or deletion of a nonempty key makes it, in whatever order the map is visited.\<close>
theorem query_cache_bounded:
  assumes "\<And>xs. set (ord xs) = set xs" and "k \<noteq> []"
  shows "query_wf (newQueryResultCache ttl mx)
    \<and> (query_wf c \<longrightarrow> query_wf (snd (query_Get t1 t2 k c)) \<and> query_wf (query_Set ord t1 t2 t3 k v c)
        \<and> query_wf (query_Delete k c) \<and> int (length (qc_entries c)) \<le> qc_maxSize c)"
proof -
  have "query_wf (newQueryResultCache ttl mx)"
    by (simp add: query_wf_def newQueryResultCache_def DefaultQueryCacheMaxSize_def)
  moreover have "query_wf c \<Longrightarrow> int (length (qc_entries c)) \<le> qc_maxSize c" by (simp add: query_wf_def)
  ultimately show ?thesis
    using query_wf_Get [of c] query_wf_Set [OF _ assms] query_wf_delete [of c] by (auto simp: query_Delete_def)
qed

theorem query_cache_bounded_witness:
  "int (length (qc_entries (query_Set id 1 2 3 ''role:a'' (VRole zero_role) (newQueryResultCache 0 0)))) \<le> 1000"
proof -
  let ?c = "newQueryResultCache 0 0"
  let ?d = "query_Set id 1 2 3 ''role:a'' (VRole zero_role) ?c"
  have step: "query_wf ?d"
    using query_cache_bounded [where ord = id and k = "''role:a''" and ttl = "0" and mx = "0" and c = ?c
        and ?t1.0 = "1" and ?t2.0 = "2" and ?t3.0 = "3" and v = "VRole zero_role"] by simp
  then have "int (length (qc_entries ?d)) \<le> qc_maxSize ?d"
    using query_cache_bounded [where ord = id and k = "''role:a''" and c = ?d] by simp
  moreover have "qc_maxSize ?d = 1000"
    by (simp add: query_Set_def newQueryResultCache_def DefaultQueryCacheMaxSize_def)
  ultimately show ?thesis by simp
qed

theorem caches_transparent_witness:
  "fst (cred_cache.read_through id 1 2 3 4 5 [''u'' \<mapsto> sample_cred] ''u'' (newCredentialCache 10 10)) = Some sample_cred"
  using caches_transparent [where m = "[''u'' \<mapsto> sample_cred]" and c = "newCredentialCache 10 10"
      and m' = Map.empty and c' = "newQueryResultCache 0 0" and ord = id and k = "''u''"
      and ?t1.0 = "1" and ?t2.0 = "2" and ?t3.0 = "3" and ?t4.0 = "4" and ?t5.0 = "5"]
  by (simp add: cred_cache.coherent_def query_cache.coherent_def cred_view_def query_view_def newCredentialCache_def
      newQueryResultCache_def)

end
