(* ===== verification/Plugin_Base.thy ===== *)
theory Plugin_Base
  imports Db_Registry Query_Cache "HOL-Library.AList"
begin

text \<open>
  What every handler of the plugin uses: the request data, the response, the storage view, the
  state of \<open>Backend\<close>, and the outside world. Code that is not in the repository is the record
  \<open>env\<close>: the Unicode tables, the ODBC driver, OpenBao's storage, the rendering of a time in the
  local zone, the HTTP client, the order in which a run visits a Go map, and whether the
  system's random source answers.

  A handler returns an error, possibly with a response, or a response, possibly nil. Storage
  holds the values that \<open>logical.StorageEntryJSON\<close> encodes, one constructor per type; decoding an
  entry of another type is an error.
\<close>

subsection \<open>Requests and responses\<close>

datatype fval = VS string | VI int | VB bool | VL "string list" | VF rat | VTime int
  | VM "(string \<times> fval) list" | VLM "(string \<times> fval) list list"

record response =
  rs_Data :: "(string \<times> fval) list"
  rs_Secret :: "(int \<times> int) option"
  rs_Warnings :: "string list"

definition data_response :: "(string \<times> fval) list \<Rightarrow> response" where
  "data_response d = \<lparr>rs_Data = d, rs_Secret = None, rs_Warnings = []\<rparr>"

definition ListResponse :: "string list \<Rightarrow> response" where
  "ListResponse keys = data_response (if keys = [] then [] else [(''keys'', VL keys)])"

text \<open>\<open>framework.FieldData\<close>: \<open>fd_Get\<close> gives the value of a field of the path's schema, its default
  when it is absent, and nothing for a field the schema does not have, where \<open>Get\<close> panics;
  \<open>fd_session\<close> is \<open>Raw["session_variables"]\<close> when it is a map.\<close>

record FieldData =
  fd_Get :: "string \<Rightarrow> fval option"
  fd_session :: "(string \<times> fval) list option"

type_synonym hres = "(go_err \<times> response option) + response option"

definition getS :: "FieldData \<Rightarrow> string \<Rightarrow> ('w, string) act" where
  "getS d k = (case fd_Get d k of Some (VS s) \<Rightarrow> ret s | _ \<Rightarrow> panic (''field '' @ k @ '' not in the schema''))"

definition getI :: "FieldData \<Rightarrow> string \<Rightarrow> ('w, int) act" where
  "getI d k = (case fd_Get d k of Some (VI s) \<Rightarrow> ret s | _ \<Rightarrow> panic (''field '' @ k @ '' not in the schema''))"

definition getB :: "FieldData \<Rightarrow> string \<Rightarrow> ('w, bool) act" where
  "getB d k = (case fd_Get d k of Some (VB s) \<Rightarrow> ret s | _ \<Rightarrow> panic (''field '' @ k @ '' not in the schema''))"

definition getL :: "FieldData \<Rightarrow> string \<Rightarrow> ('w, string list) act" where
  "getL d k = (case fd_Get d k of Some (VL s) \<Rightarrow> ret s | _ \<Rightarrow> panic (''field '' @ k @ '' not in the schema''))"

definition getF :: "FieldData \<Rightarrow> string \<Rightarrow> ('w, rat) act" where
  "getF d k = (case fd_Get d k of Some (VF s) \<Rightarrow> ret s | _ \<Rightarrow> panic (''field '' @ k @ '' not in the schema''))"

text \<open>Returning an error, a response, and \<open>v, err := m(); if err != nil { return nil, wrap(err) }\<close>.\<close>

definition failH :: "go_err \<Rightarrow> ('w, hres) act" where
  "failH e = ret (Inl (e, None))"

definition okH :: "response \<Rightarrow> ('w, hres) act" where
  "okH r = ret (Inr (Some r))"

definition nilH :: "('w, hres) act" where
  "nilH = ret (Inr None)"

definition tryH :: "('w, go_err + 'a) act \<Rightarrow> (go_err \<Rightarrow> go_err) \<Rightarrow> ('a \<Rightarrow> ('w, hres) act) \<Rightarrow> ('w, hres) act" where
  "tryH m wrap k = bnd m (\<lambda>r. case r of Inl e \<Rightarrow> failH (wrap e) | Inr a \<Rightarrow> k a)"

definition guardH :: "go_err option \<Rightarrow> (go_err \<Rightarrow> go_err) \<Rightarrow> ('w, hres) act \<Rightarrow> ('w, hres) act" where
  "guardH e wrap k = (case e of Some x \<Rightarrow> failH (wrap x) | None \<Rightarrow> k)"

definition wrapped :: "string \<Rightarrow> go_err \<Rightarrow> go_err" where
  "wrapped pre e = Wrapf (pre @ '': '') e []"

text \<open>\<open>%q\<close> of a plain name.\<close>

definition qq :: "string \<Rightarrow> string" where
  "qq s = [CHR 0x22] @ s @ [CHR 0x22]"

subsection \<open>Storage\<close>

record WebhookConfig =
  wh_URL :: string
  wh_Enabled :: bool
  wh_TimeoutSeconds :: int
  wh_RetryCount :: int
  wh_Events :: "string list"

datatype audit_event =
    CredentialAuditData string string string int string "(string \<times> fval) list option"
  | RoleAuditData string string int string string
  | RotationAuditData string int bool string

datatype stored = SConfig Config | SRole Role | SStatement Statement | SCred Credential
  | SStaticRole StaticRole | SStaticCred StaticCredential | SWebhook WebhookConfig | SAudit audit_event

record 's storage =
  st_Get :: "string \<Rightarrow> 's \<Rightarrow> (go_err + stored option) \<times> 's"
  st_Put :: "string \<Rightarrow> stored \<Rightarrow> 's \<Rightarrow> go_err option \<times> 's"
  st_Delete :: "string \<Rightarrow> 's \<Rightarrow> go_err option \<times> 's"
  st_List :: "string \<Rightarrow> 's \<Rightarrow> (go_err + string list) \<times> 's"

datatype http_result = HttpBadRequest go_err | HttpFailed go_err | HttpStatus int

record ('d, 's) env =
  e_U :: unicode
  e_D :: "'d driver"
  e_S :: "'s storage"
  e_fmt :: "int \<Rightarrow> string"
  e_http :: "string \<Rightarrow> string \<Rightarrow> (string \<times> fval) list \<Rightarrow> 'd \<Rightarrow> http_result \<times> 'd"
  e_ord :: "string list \<Rightarrow> string list"
  e_rand_ok :: bool

definition on_st :: "('s \<Rightarrow> 'a \<times> 's) \<Rightarrow> (('d, 's, 'z) world_scheme, 'a) act" where
  "on_st f = seq tick (\<lambda>w. case f (w_st w) of (a, s) \<Rightarrow> (Ret a, w\<lparr>w_st := s\<rparr>))"

definition storage_Get :: "('d, 's) env \<Rightarrow> string \<Rightarrow> (('d, 's, 'z) world_scheme, go_err + stored option) act" where
  "storage_Get E key = on_st (st_Get (e_S E) key)"

definition storage_Put :: "('d, 's) env \<Rightarrow> string \<Rightarrow> stored \<Rightarrow> (('d, 's, 'z) world_scheme, go_err + unit) act" where
  "storage_Put E key v = bnd (on_st (st_Put (e_S E) key v)) (\<lambda>e. ret (err_to_sum e))"

definition storage_Delete :: "('d, 's) env \<Rightarrow> string \<Rightarrow> (('d, 's, 'z) world_scheme, go_err + unit) act" where
  "storage_Delete E key = bnd (on_st (st_Delete (e_S E) key)) (\<lambda>e. ret (err_to_sum e))"

definition storage_List :: "('d, 's) env \<Rightarrow> string \<Rightarrow> (('d, 's, 'z) world_scheme, go_err + string list) act" where
  "storage_List E p = on_st (st_List (e_S E) p)"

definition json_error :: go_err where
  "json_error = Errorf ''error decoding JSON''"

text \<open>Reading an entry and decoding it: nothing when there is no entry.\<close>

definition get_as :: "(stored \<Rightarrow> 'a option) \<Rightarrow> ('d, 's) env \<Rightarrow> string
    \<Rightarrow> (('d, 's, 'z) world_scheme, go_err + 'a option) act" where
  "get_as dec E key = bnd (storage_Get E key) (\<lambda>r. ret (case r of
       Inl e \<Rightarrow> Inl e
     | Inr None \<Rightarrow> Inr None
     | Inr (Some v) \<Rightarrow> (case dec v of None \<Rightarrow> Inl json_error | Some a \<Rightarrow> Inr (Some a))))"

fun as_config :: "stored \<Rightarrow> Config option" where
  "as_config (SConfig c) = Some c" | "as_config _ = None"
fun as_role :: "stored \<Rightarrow> Role option" where
  "as_role (SRole r) = Some r" | "as_role _ = None"
fun as_statement :: "stored \<Rightarrow> Statement option" where
  "as_statement (SStatement x) = Some x" | "as_statement _ = None"
fun as_cred :: "stored \<Rightarrow> Credential option" where
  "as_cred (SCred x) = Some x" | "as_cred _ = None"
fun as_static_role :: "stored \<Rightarrow> StaticRole option" where
  "as_static_role (SStaticRole x) = Some x" | "as_static_role _ = None"
fun as_static_cred :: "stored \<Rightarrow> StaticCredential option" where
  "as_static_cred (SStaticCred x) = Some x" | "as_static_cred _ = None"
fun as_webhook :: "stored \<Rightarrow> WebhookConfig option" where
  "as_webhook (SWebhook x) = Some x" | "as_webhook _ = None"

text \<open>What OpenBao documents of a storage view: a read returns the value written last or fails, a
  write or deletion that reports no error has happened and one that reports an error has not,
  and none touches another key; a listing gives the keys below a prefix.\<close>

definition lawful_storage :: "('s \<Rightarrow> string \<Rightarrow> stored option) \<Rightarrow> 's storage \<Rightarrow> bool" where
  "lawful_storage view S \<longleftrightarrow>
     (\<forall>k s. view (snd (st_Get S k s)) = view s
        \<and> (\<forall>v. fst (st_Get S k s) = Inr v \<longrightarrow> v = view s k)) \<and>
     (\<forall>k v s. view (snd (st_Put S k v s)) = (if fst (st_Put S k v s) = None then (view s)(k \<mapsto> v) else view s)) \<and>
     (\<forall>k s. view (snd (st_Delete S k s)) = (if fst (st_Delete S k s) = None then (view s)(k := None) else view s)) \<and>
     (\<forall>p s. view (snd (st_List S p s)) = view s
        \<and> (\<forall>ks. fst (st_List S p s) = Inr ks \<longrightarrow> distinct ks
             \<and> (\<forall>k. CHR ''/'' \<notin> set k \<longrightarrow> (k \<in> set ks \<longleftrightarrow> view s (p @ k) \<noteq> None))))"

subsection \<open>The state of the backend\<close>

record ('d, 's) plugin_world = "('d, 's) world" +
  b_registry :: "DBRegistry option"
  b_credCache :: "credentialCache option"
  b_queryCache :: "queryResultCache option"
  b_degradedSince :: "int option"
  b_gracefulDegradation :: bool
  b_manuallyEnabledDegradation :: bool

text \<open>The order in which the scans for an entry to evict visit a map: the map's own order.\<close>

definition cache_lookup :: "string \<Rightarrow> (('d, 's, 'z) plugin_world_scheme, Credential option) act" where
  "cache_lookup username = bnd (gets b_credCache) (\<lambda>cc. case cc of
       None \<Rightarrow> ret None
     | Some _ \<Rightarrow> bnd time_Now (\<lambda>t w. case b_credCache w of
           None \<Rightarrow> (Ret None, w)
         | Some c \<Rightarrow> (case cred_Get t username c of
             (r, c') \<Rightarrow> (Ret r, w\<lparr>b_credCache := Some c'\<rparr>))))"

definition cacheCredential :: "string \<Rightarrow> Credential \<Rightarrow> (('d, 's, 'z) plugin_world_scheme, unit) act" where
  "cacheCredential username cred = bnd (gets b_credCache) (\<lambda>cc. case cc of
       None \<Rightarrow> ret ()
     | Some _ \<Rightarrow> bnd time_Now (\<lambda>t1. bnd time_Now (\<lambda>t2. bnd time_Now (\<lambda>t3.
         modify (\<lambda>w. w\<lparr>b_credCache := map_option (cred_Set id t1 t2 t3 username cred) (b_credCache w)\<rparr>)))))"

definition invalidateCachedCredential :: "string \<Rightarrow> (('d, 's, 'z) plugin_world_scheme, unit) act" where
  "invalidateCachedCredential username =
     modify (\<lambda>w. w\<lparr>b_credCache := map_option (cred_Delete username) (b_credCache w)\<rparr>)"

definition query_cache_delete :: "string \<Rightarrow> (('d, 's, 'z) plugin_world_scheme, unit) act" where
  "query_cache_delete key =
     modify (\<lambda>w. w\<lparr>b_queryCache := map_option (query_Delete key) (b_queryCache w)\<rparr>)"

definition invalidateConfigCache :: "string \<Rightarrow> (('d, 's, 'z) plugin_world_scheme, unit) act" where
  "invalidateConfigCache region =
     (if region = [] then query_cache_delete ''config:default'' else query_cache_delete (ConfigKey region))"

definition invalidateRoleCache :: "string \<Rightarrow> (('d, 's, 'z) plugin_world_scheme, unit) act" where
  "invalidateRoleCache name = query_cache_delete (RoleKey name)"

definition invalidateStatementCache :: "string \<Rightarrow> (('d, 's, 'z) plugin_world_scheme, unit) act" where
  "invalidateStatementCache name = query_cache_delete (StatementKey name)"

definition invalidateAllQueryCache :: "(('d, 's, 'z) plugin_world_scheme, unit) act" where
  "invalidateAllQueryCache = modify (\<lambda>w. w\<lparr>b_queryCache := map_option query_Clear (b_queryCache w)\<rparr>)"

definition invalidateRoleCacheByPrefix :: "string \<Rightarrow> (('d, 's, 'z) plugin_world_scheme, unit) act" where
  "invalidateRoleCacheByPrefix rolePrefix =
     modify (\<lambda>w. w\<lparr>b_queryCache := map_option (\<lambda>c. snd (query_DeleteByPrefix ''role:'' c)) (b_queryCache w)\<rparr>)"

text \<open>Reading a value through the query cache: \<open>pick\<close> is the type assertion on the cached value, and
  \<open>load\<close> reads storage. An entry of another type is a miss.\<close>

definition read_cached :: "string \<Rightarrow> (CacheValue \<Rightarrow> 'a option) \<Rightarrow> ('a \<Rightarrow> CacheValue)
    \<Rightarrow> (('d, 's, 'z) plugin_world_scheme, go_err + 'a option) act
    \<Rightarrow> (('d, 's, 'z) plugin_world_scheme, go_err + 'a option) act" where
  "read_cached key pick mk load = bnd (gets b_queryCache) (\<lambda>qc. case qc of
       None \<Rightarrow> load
     | Some _ \<Rightarrow> bnd time_Now (\<lambda>t1. bnd time_Now (\<lambda>t2. bnd (\<lambda>w. case b_queryCache w of
           None \<Rightarrow> (Ret None, w)
         | Some c \<Rightarrow> (case query_Get t1 t2 key c of (r, c') \<Rightarrow> (Ret r, w\<lparr>b_queryCache := Some c'\<rparr>)))
         (\<lambda>hit. case Option.bind hit pick of
             Some a \<Rightarrow> ret (Inr (Some a))
           | None \<Rightarrow> bnd load (\<lambda>r. case r of
               Inr (Some a) \<Rightarrow> bnd time_Now (\<lambda>t3. bnd time_Now (\<lambda>t4. bnd time_Now (\<lambda>t5.
                 seq (modify (\<lambda>w. w\<lparr>b_queryCache :=
                        map_option (query_Set id t3 t4 t5 key (mk a)) (b_queryCache w)\<rparr>)) (ret r))))
             | _ \<Rightarrow> ret r)))))"

subsection \<open>Loading and storing\<close>

definition credentialPrefix :: string where
  "credentialPrefix = ''creds/''"

definition storeCredential :: "('d, 's) env \<Rightarrow> string \<Rightarrow> Credential
    \<Rightarrow> (('d, 's, 'z) world_scheme, go_err + unit) act" where
  "storeCredential E username cred = storage_Put E (credentialPrefix @ username) (SCred cred)"

definition getCredential :: "('d, 's) env \<Rightarrow> string
    \<Rightarrow> (('d, 's, 'z) world_scheme, go_err + Credential option) act" where
  "getCredential E username = get_as as_cred E (credentialPrefix @ username)"

definition deleteCredential :: "('d, 's) env \<Rightarrow> string \<Rightarrow> (('d, 's, 'z) world_scheme, go_err + unit) act" where
  "deleteCredential E username = storage_Delete E (credentialPrefix @ username)"

definition getConfig :: "('d, 's) env \<Rightarrow> (('d, 's, 'z) world_scheme, go_err + Config option) act" where
  "getConfig E = get_as as_config E ''config''"

definition getConfigByName :: "('d, 's) env \<Rightarrow> string
    \<Rightarrow> (('d, 's, 'z) world_scheme, go_err + Config option) act" where
  "getConfigByName E name = (if name = [] then getConfig E else get_as as_config E (''config/'' @ name))"

definition getStatement :: "('d, 's) env \<Rightarrow> string
    \<Rightarrow> (('d, 's, 'z) world_scheme, go_err + Statement option) act" where
  "getStatement E name = get_as as_statement E (''statements/'' @ name)"

definition getCachedCredential :: "('d, 's) env \<Rightarrow> string
    \<Rightarrow> (('d, 's, 'z) plugin_world_scheme, go_err + Credential option) act" where
  "getCachedCredential E username = bnd (cache_lookup username) (\<lambda>hit. case hit of
       Some cred \<Rightarrow> ret (Inr (Some cred))
     | None \<Rightarrow> bnd (getCredential E username) (\<lambda>r. case r of
         Inr (Some cred) \<Rightarrow> seq (cacheCredential username cred) (ret r)
       | _ \<Rightarrow> ret r))"

subsection \<open>A backend to evaluate with\<close>

text \<open>A storage that is a map and never fails, an environment whose driver always answers, and a
  backend without pools and without caches.\<close>

definition keys_below :: "string \<Rightarrow> (string \<times> stored) list \<Rightarrow> string list" where
  "keys_below p s = map (drop (length p)) (filter (prefix p) (map fst s))"

definition map_storage :: "(string \<times> stored) list storage" where
  "map_storage = \<lparr>st_Get = (\<lambda>k s. (Inr (map_of s k), s)), st_Put = (\<lambda>k v s. (None, AList.update k v s)),
     st_Delete = (\<lambda>k s. (None, AList.delete k s)), st_List = (\<lambda>p s. (Inr (remdups (keys_below p s)), s))\<rparr>"

definition calm_env :: "(unit, (string \<times> stored) list) env" where
  "calm_env = \<lparr>e_U = plain_tables, e_D = steady_driver, e_S = map_storage, e_fmt = (\<lambda>_. ''t''),
     e_http = (\<lambda>_ _ _ d. (HttpStatus 200, d)), e_ord = id, e_rand_ok = True\<rparr>"

definition start_backend :: "'s \<Rightarrow> (unit, 's) plugin_world" where
  "start_backend s = \<lparr>w_now = 0, w_ticks = (\<lambda>_. 1), w_tickpos = 0, w_rand = (\<lambda>n. n), w_randpos = 0,
     w_db = (), w_sql = [], w_st = s, b_registry = None, b_credCache = None, b_queryCache = None,
     b_degradedSince = None, b_gracefulDegradation = False, b_manuallyEnabledDegradation = False\<rparr>"

lemma map_storage_lawful: "lawful_storage map_of map_storage"
proof -
  have "k \<in> set (keys_below p s) \<longleftrightarrow> map_of s (p @ k) \<noteq> None" for k p and s :: "(string \<times> stored) list"
  proof -
    have "k \<in> set (keys_below p s) \<longleftrightarrow> (\<exists>q\<in>fst ` set s. prefix p q \<and> k = drop (length p) q)"
      by (auto simp: keys_below_def)
    also have "\<dots> \<longleftrightarrow> p @ k \<in> fst ` set s"
      by (force elim!: prefixE)
    finally show ?thesis by (simp add: map_of_eq_None_iff)
  qed
  then show ?thesis
    by (simp add: lawful_storage_def map_storage_def update_conv' delete_conv' restrict_map_def fun_eq_iff)
qed

end
