(* ===== verification/Audit_Webhook.thy ===== *)
theory Audit_Webhook
  imports Plugin_Base
begin

text \<open>
  The packages \<open>audit\<close> (\<open>audit/audit.go\<close>) and \<open>webhook\<close> (\<open>webhook/webhook.go\<close>), and the handlers of
  the webhook path (\<open>plugin/path_webhook.go\<close>). Audit events are written to storage under keys of
  their own; webhooks are posted through \<open>e_http\<close> with the retries of \<open>retry.Do\<close>.
\<close>

subsection \<open>Audit events\<close>

datatype AuditEventType = AuditCredentialCreated | AuditCredentialRevoked | AuditCredentialRotated
  | AuditRoleCreated | AuditRoleUpdated | AuditRoleDeleted | AuditRootRotated

fun event_name :: "AuditEventType \<Rightarrow> string" where
  "event_name AuditCredentialCreated = ''credential_created''"
| "event_name AuditCredentialRevoked = ''credential_revoked''"
| "event_name AuditCredentialRotated = ''credential_rotated''"
| "event_name AuditRoleCreated = ''role_created''"
| "event_name AuditRoleUpdated = ''role_updated''"
| "event_name AuditRoleDeleted = ''role_deleted''"
| "event_name AuditRootRotated = ''root_rotated''"

definition auditPrefix :: string where
  "auditPrefix = ''audit/''"

definition audit_key :: "('d, 's) env \<Rightarrow> AuditEventType \<Rightarrow> int \<Rightarrow> int \<Rightarrow> string" where
  "audit_key E eventType t1 t2 =
     auditPrefix @ event_name eventType @ ''/'' @ e_fmt E t1 @ ''/'' @ itoa t2"

definition storeAuditEvent :: "('d, 's) env \<Rightarrow> AuditEventType \<Rightarrow> audit_event
    \<Rightarrow> (('d, 's, 'z) world_scheme, go_err option) act" where
  "storeAuditEvent E eventType ev =
     bnd time_Now (\<lambda>t1. bnd time_Now (\<lambda>t2.
     bnd (storage_Put E (audit_key E eventType t1 t2) (SAudit ev)) (\<lambda>r.
     ret (map_option (wrapped ''failed to store audit event'') (sum_to_err r)))))"

definition LogCredentialCreation :: "('d, 's) env \<Rightarrow> string \<Rightarrow> string \<Rightarrow> string
    \<Rightarrow> (string \<times> fval) list option \<Rightarrow> (('d, 's, 'z) world_scheme, go_err option) act" where
  "LogCredentialCreation E username roleName leaseID metadata = bnd time_Now (\<lambda>t.
     storeAuditEvent E AuditCredentialCreated
       (CredentialAuditData username roleName ''credential_created'' t leaseID metadata))"

definition LogCredentialRevocation :: "('d, 's) env \<Rightarrow> string \<Rightarrow> string
    \<Rightarrow> (string \<times> fval) list option \<Rightarrow> (('d, 's, 'z) world_scheme, go_err option) act" where
  "LogCredentialRevocation E username roleName metadata = bnd time_Now (\<lambda>t.
     storeAuditEvent E AuditCredentialRevoked
       (CredentialAuditData username roleName ''credential_revoked'' t [] metadata))"

definition LogCredentialRotation :: "('d, 's) env \<Rightarrow> bool \<Rightarrow> string
    \<Rightarrow> (('d, 's, 'z) world_scheme, go_err option) act" where
  "LogCredentialRotation E success errMsg = bnd time_Now (\<lambda>t.
     storeAuditEvent E AuditCredentialRotated (RotationAuditData ''credential_rotated'' t success errMsg))"

definition LogRoleCreation :: "('d, 's) env \<Rightarrow> string \<Rightarrow> string \<Rightarrow> string
    \<Rightarrow> (('d, 's, 'z) world_scheme, go_err option) act" where
  "LogRoleCreation E roleName dbUser stmt = bnd time_Now (\<lambda>t.
     storeAuditEvent E AuditRoleCreated (RoleAuditData roleName ''role_created'' t dbUser stmt))"

definition LogRoleUpdate :: "('d, 's) env \<Rightarrow> string \<Rightarrow> string \<Rightarrow> string
    \<Rightarrow> (('d, 's, 'z) world_scheme, go_err option) act" where
  "LogRoleUpdate E roleName dbUser stmt = bnd time_Now (\<lambda>t.
     storeAuditEvent E AuditRoleUpdated (RoleAuditData roleName ''role_updated'' t dbUser stmt))"

definition LogRoleDeletion :: "('d, 's) env \<Rightarrow> string \<Rightarrow> (('d, 's, 'z) world_scheme, go_err option) act" where
  "LogRoleDeletion E roleName = bnd time_Now (\<lambda>t.
     storeAuditEvent E AuditRoleDeleted (RoleAuditData roleName ''role_deleted'' t [] []))"

definition LogRootRotation :: "('d, 's) env \<Rightarrow> bool \<Rightarrow> string
    \<Rightarrow> (('d, 's, 'z) world_scheme, go_err option) act" where
  "LogRootRotation E success errMsg = bnd time_Now (\<lambda>t.
     storeAuditEvent E AuditRootRotated (RotationAuditData ''root_rotated'' t success errMsg))"

subsection \<open>Webhooks\<close>

definition defaultTimeout :: int where "defaultTimeout = 30"
definition defaultRetries :: int where "defaultRetries = 3"

definition NewWebhookConfig :: WebhookConfig where
  "NewWebhookConfig = \<lparr>wh_URL = [], wh_Enabled = False, wh_TimeoutSeconds = defaultTimeout,
     wh_RetryCount = defaultRetries,
     wh_Events = map event_name [AuditCredentialCreated, AuditCredentialRevoked, AuditCredentialRotated,
       AuditRoleCreated, AuditRoleUpdated, AuditRoleDeleted, AuditRootRotated]\<rparr>"

definition IsEventEnabled :: "WebhookConfig \<Rightarrow> string \<Rightarrow> bool" where
  "IsEventEnabled c eventType = (if \<not> wh_Enabled c then False else list_ex (\<lambda>e. e = eventType) (wh_Events c))"

definition http_post :: "('d, 's) env \<Rightarrow> string \<Rightarrow> string \<Rightarrow> (string \<times> fval) list
    \<Rightarrow> (('d, 's, 'z) world_scheme, http_result) act" where
  "http_post E url eventType data = on_db (e_http E url eventType data)"

text \<open>One attempt; the variable of the closure is \<open>lastErr\<close>.\<close>

definition webhook_attempt :: "('d, 's) env \<Rightarrow> WebhookConfig \<Rightarrow> string \<Rightarrow> (string \<times> fval) list
    \<Rightarrow> (('d, 's, 'z \<times> go_err option) world_scheme, go_err option) act" where
  "webhook_attempt E config eventType data =
     bnd (http_post E (wh_URL config) eventType data) (\<lambda>r. case r of
       HttpBadRequest err \<Rightarrow>
         seq (set_var (Some (wrapped ''failed to create webhook request'' err))) (ret (Some err))
     | HttpFailed err \<Rightarrow>
         seq (set_var (Some (wrapped ''webhook request failed'' err))) (ret (Some (NewTransientError err)))
     | HttpStatus code \<Rightarrow>
         if 200 \<le> code \<and> code < 300 then ret None
         else let lastErr = Errorf (''webhook returned status '' @ itoa code) in
           seq (set_var (Some lastErr))
             (ret (Some (if 500 \<le> code then NewTransientError lastErr else lastErr))))"

definition webhook_retry :: "WebhookConfig \<Rightarrow> 'w RetryConfig" where
  "webhook_retry config =
     plain_retry (if wh_RetryCount config \<le> 0 then defaultRetries else wh_RetryCount config)
       (100 * millisecond) (5 * second) 2"

definition SendWebhook :: "('d, 's) env \<Rightarrow> ctx \<Rightarrow> WebhookConfig \<Rightarrow> AuditEventType \<Rightarrow> (string \<times> fval) list
    \<Rightarrow> (('d, 's, 'z) world_scheme, go_err option) act" where
  "SendWebhook E ctx config eventType data =
     (if \<not> IsEventEnabled config (event_name eventType) then ret None
      else seq time_Now
        (bnd (local_var None (Do ctx (Some (webhook_retry config))
                (webhook_attempt E config (event_name eventType) data))) (\<lambda>(err, lastErr).
         ret (if err \<noteq> None then lastErr else None))))"

definition GetWebhookConfig :: "('d, 's) env \<Rightarrow> (('d, 's, 'z) world_scheme, go_err + WebhookConfig) act" where
  "GetWebhookConfig E = bnd (get_as as_webhook E ''webhook/config'') (\<lambda>r. ret (case r of
       Inl e \<Rightarrow> Inl e | Inr None \<Rightarrow> Inr NewWebhookConfig | Inr (Some c) \<Rightarrow> Inr c))"

definition StoreWebhookConfig :: "('d, 's) env \<Rightarrow> WebhookConfig option
    \<Rightarrow> (('d, 's, 'z) world_scheme, go_err + unit) act" where
  "StoreWebhookConfig E config = storage_Put E ''webhook/config''
     (SWebhook (case config of None \<Rightarrow> NewWebhookConfig | Some c \<Rightarrow> c))"

text \<open>The senders differ in the event and the data; each reads the configuration first and puts the
  time in the data.\<close>

definition send_event :: "('d, 's) env \<Rightarrow> ctx \<Rightarrow> AuditEventType \<Rightarrow> (int \<Rightarrow> (string \<times> fval) list)
    \<Rightarrow> (('d, 's, 'z) world_scheme, go_err option) act" where
  "send_event E ctx eventType data = bnd (GetWebhookConfig E) (\<lambda>r. case r of
       Inl e \<Rightarrow> ret (Some e)
     | Inr config \<Rightarrow> bnd time_Now (\<lambda>t. SendWebhook E ctx config eventType (data t)))"

definition with_metadata :: "(string \<times> fval) list option \<Rightarrow> (string \<times> fval) list" where
  "with_metadata m = (case m of None \<Rightarrow> [] | Some md \<Rightarrow> [(''metadata'', VM md)])"

definition SendCredentialCreatedWebhook :: "('d, 's) env \<Rightarrow> ctx \<Rightarrow> string \<Rightarrow> string \<Rightarrow> string
    \<Rightarrow> (string \<times> fval) list option \<Rightarrow> (('d, 's, 'z) world_scheme, go_err option) act" where
  "SendCredentialCreatedWebhook E ctx username roleName leaseID metadata =
     send_event E ctx AuditCredentialCreated (\<lambda>t. [(''username'', VS username), (''role_name'', VS roleName),
       (''lease_id'', VS leaseID), (''timestamp'', VTime t)] @ with_metadata metadata)"

definition SendCredentialRevokedWebhook :: "('d, 's) env \<Rightarrow> ctx \<Rightarrow> string \<Rightarrow> string
    \<Rightarrow> (string \<times> fval) list option \<Rightarrow> (('d, 's, 'z) world_scheme, go_err option) act" where
  "SendCredentialRevokedWebhook E ctx username roleName metadata =
     send_event E ctx AuditCredentialRevoked (\<lambda>t. [(''username'', VS username), (''role_name'', VS roleName),
       (''timestamp'', VTime t)] @ with_metadata metadata)"

definition role_event :: "string \<Rightarrow> string \<Rightarrow> string \<Rightarrow> int \<Rightarrow> (string \<times> fval) list" where
  "role_event roleName dbUser stmt t = [(''role_name'', VS roleName), (''db_user'', VS dbUser),
     (''statement'', VS stmt), (''timestamp'', VTime t)]"

definition SendRoleCreatedWebhook :: "('d, 's) env \<Rightarrow> ctx \<Rightarrow> string \<Rightarrow> string \<Rightarrow> string
    \<Rightarrow> (('d, 's, 'z) world_scheme, go_err option) act" where
  "SendRoleCreatedWebhook E ctx roleName dbUser stmt =
     send_event E ctx AuditRoleCreated (role_event roleName dbUser stmt)"

definition SendRoleUpdatedWebhook :: "('d, 's) env \<Rightarrow> ctx \<Rightarrow> string \<Rightarrow> string \<Rightarrow> string
    \<Rightarrow> (('d, 's, 'z) world_scheme, go_err option) act" where
  "SendRoleUpdatedWebhook E ctx roleName dbUser stmt =
     send_event E ctx AuditRoleUpdated (role_event roleName dbUser stmt)"

definition SendRoleDeletedWebhook :: "('d, 's) env \<Rightarrow> ctx \<Rightarrow> string
    \<Rightarrow> (('d, 's, 'z) world_scheme, go_err option) act" where
  "SendRoleDeletedWebhook E ctx roleName = send_event E ctx AuditRoleDeleted
     (\<lambda>t. [(''role_name'', VS roleName), (''timestamp'', VTime t)])"

definition SendRootRotatedWebhook :: "('d, 's) env \<Rightarrow> ctx \<Rightarrow> bool \<Rightarrow> string
    \<Rightarrow> (('d, 's, 'z) world_scheme, go_err option) act" where
  "SendRootRotatedWebhook E ctx success errMsg = send_event E ctx AuditRootRotated
     (\<lambda>t. [(''success'', VB success), (''error'', VS errMsg), (''timestamp'', VTime t)])"

subsection \<open>The webhook path\<close>

definition pathWebhookWrite :: "('d, 's) env \<Rightarrow> FieldData \<Rightarrow> (('d, 's, 'z) world_scheme, hres) act" where
  "pathWebhookWrite E data =
     bnd (getS data ''url'') (\<lambda>url. bnd (getB data ''enabled'') (\<lambda>enabled.
     bnd (getI data ''timeout_seconds'') (\<lambda>timeout0. bnd (getI data ''retry_count'') (\<lambda>retry0.
     bnd (getL data ''events'') (\<lambda>events.
     let timeoutSeconds = (if timeout0 \<le> 0 then 30 else timeout0);
         retryCount = (if retry0 < 0 then 0 else retry0);
         cfg = \<lparr>wh_URL = url, wh_Enabled = enabled, wh_TimeoutSeconds = timeoutSeconds,
                wh_RetryCount = retryCount, wh_Events = events\<rparr>
     in tryH (StoreWebhookConfig E (Some cfg)) id (\<lambda>_.
        okH (data_response [(''url'', VS url), (''enabled'', VB enabled),
          (''timeout_seconds'', VI timeoutSeconds), (''retry_count'', VI retryCount),
          (''events'', VL events)])))))))"

definition pathWebhookRead :: "('d, 's) env \<Rightarrow> (('d, 's, 'z) world_scheme, hres) act" where
  "pathWebhookRead E = tryH (GetWebhookConfig E) id (\<lambda>cfg.
     okH (data_response [(''url'', VS (wh_URL cfg)), (''enabled'', VB (wh_Enabled cfg)),
       (''timeout_seconds'', VI (wh_TimeoutSeconds cfg)), (''retry_count'', VI (wh_RetryCount cfg)),
       (''events'', VL (wh_Events cfg))]))"

definition pathWebhookDelete :: "('d, 's) env \<Rightarrow> (('d, 's, 'z) world_scheme, hres) act" where
  "pathWebhookDelete E = tryH (storage_Delete E ''webhook/config'') id (\<lambda>_. nilH)"

end
