(* ===== verification/Validation_Errors.thy ===== *)
theory Validation_Errors
  imports Audit_Webhook
begin

text \<open>
  The error values of the package \<open>security\<close> as the plugin returns them: \<open>sec_go\<close> and \<open>conn_go\<close> give
  the Go error of each verdict of the validators, with its text and what it wraps.
\<close>

definition apostrophed :: "string \<Rightarrow> string" where
  "apostrophed s = [CHR 0x27] @ s @ [CHR 0x27]"

definition DangerousPatternErr :: go_err where
  "DangerousPatternErr = Sentinel ''potentially dangerous SQL pattern detected''"

definition InvalidSessionVarErr :: go_err where
  "InvalidSessionVarErr = Sentinel ''invalid session variable''"

definition SessionVarTooLongErr :: go_err where
  "SessionVarTooLongErr = Sentinel ''session variable value exceeds maximum length''"

fun sec_go :: "sec_error \<Rightarrow> go_err" where
  "sec_go ErrEmptyStatement = Sentinel ''SQL statement cannot be empty''"
| "sec_go ErrStatementTooLong = Sentinel ''SQL statement exceeds maximum length''"
| "sec_go ErrCommentDetected = Sentinel ''SQL comments not allowed''"
| "sec_go (DangerousPattern p) = Wrapf [] DangerousPatternErr ('': found pattern '' @ apostrophed p)"
| "sec_go (KeywordInUserStatement k) =
     Wrapf [] DangerousPatternErr ('': SQL keyword '' @ apostrophed k @ '' not allowed in user statements'')"
| "sec_go (KeywordInCallStatement k) =
     Wrapf [] DangerousPatternErr ('': SQL keyword '' @ apostrophed k @ '' not allowed in CALL statements'')"
| "sec_go ErrInvalidPassword = Sentinel ''password contains invalid characters''"
| "sec_go ErrPasswordTooLong = Sentinel ''password exceeds maximum length''"
| "sec_go EmptyUsername = Errorf ''username cannot be empty''"
| "sec_go UsernameTooLong = Errorf ''username cannot exceed 30 characters''"
| "sec_go (UsernameBadChar r) = Errorf (''username contains invalid character '' @ apostrophed (encode_rune r))"
| "sec_go (UsernameKeyword k) = Wrapf [] DangerousPatternErr ('': found SQL keyword '' @ apostrophed k)"
| "sec_go (CreationInvalid e) = wrapped ''creation_statement validation failed'' (sec_go e)"
| "sec_go (RevocationInvalid e) = wrapped ''revocation_statement validation failed'' (sec_go e)"
| "sec_go (RollbackInvalid e) = wrapped ''rollback_statement validation failed'' (sec_go e)"
| "sec_go (RenewalInvalid e) = wrapped ''renewal_statement validation failed'' (sec_go e)"
| "sec_go TooManySessionVars =
     Wrapf [] InvalidSessionVarErr ('': maximum '' @ itoa (int MaxSessionVars) @ '' variables allowed'')"
| "sec_go (SessionNameTooLong n) = Wrapf [] SessionVarTooLongErr
     ('': name '' @ apostrophed n @ '' exceeds maximum length '' @ itoa (int MaxSessionVarNameLen))"
| "sec_go (SessionValueTooLong n) = Wrapf [] SessionVarTooLongErr
     ('': value for '' @ apostrophed n @ '' exceeds maximum length '' @ itoa (int MaxSessionVarValueLen))"
| "sec_go (SessionNameBadChar n r) = Wrapf [] InvalidSessionVarErr
     ('': name '' @ apostrophed n @ '' contains invalid character '' @ apostrophed (encode_rune r))"
| "sec_go (SessionValuePattern n p) = Wrapf [] DangerousPatternErr
     ('': value for '' @ apostrophed n @ '' contains dangerous pattern '' @ apostrophed p)"
| "sec_go (SessionValueKeyword n k) = Wrapf [] DangerousPatternErr
     ('': value for '' @ apostrophed n @ '' contains SQL keyword '' @ apostrophed k)"

definition InvalidKeyValueErr :: go_err where
  "InvalidKeyValueErr = Sentinel ''invalid key-value pair in connection string''"

fun conn_go :: "conn_error \<Rightarrow> go_err" where
  "conn_go ErrEmptyConnectionString = Sentinel ''connection string cannot be empty''"
| "conn_go ErrInvalidFormat = Sentinel ''invalid connection string format''"
| "conn_go ErrMissingDSN = Sentinel ''connection string must contain a DSN or SERVER parameter''"
| "conn_go ErrInvalidKeyValue = InvalidKeyValueErr"
| "conn_go (KeyWithSpaces k) =
     Wrapf [] InvalidKeyValueErr ('': key '' @ apostrophed k @ '' contains spaces'')"
| "conn_go (KeyBadChar k r) = Wrapf [] InvalidKeyValueErr
     ('': key '' @ apostrophed k @ '' contains invalid character '' @ apostrophed (encode_rune r))"

text \<open>\<open>data.Raw["session_variables"]\<close>: the entries whose value is a string, and their check in the
  order of the run.\<close>

definition session_variables_of :: "FieldData \<Rightarrow> (string \<times> string) list option" where
  "session_variables_of data = map_option (List.map_filter
     (\<lambda>(k, v). case v of VS s \<Rightarrow> Some (k, s) | _ \<Rightarrow> None)) (fd_session data)"

definition entries_of :: "(string \<times> string) list option \<Rightarrow> (string \<times> string) list" where
  "entries_of m = (case m of None \<Rightarrow> [] | Some kvs \<Rightarrow> kvs)"

definition session_check :: "('d, 's) env \<Rightarrow> (string \<times> string) list option \<Rightarrow> go_err option" where
  "session_check E m = map_option (\<lambda>e. wrapped ''invalid session_variables'' (sec_go e))
     (ValidateSessionVariables (e_U E) (map_entries (e_ord E) (entries_of m)))"

definition template_check :: "('d, 's) env \<Rightarrow> string \<Rightarrow> string \<Rightarrow> string \<Rightarrow> string \<Rightarrow> go_err option" where
  "template_check E creation revocation rollback renewal =
     map_option (\<lambda>e. wrapped ''SQL statement validation failed'' (sec_go e))
       (ValidateStatementTemplates (e_U E) creation revocation rollback renewal)"

text \<open>A map of strings as response data.\<close>

definition VSM :: "(string \<times> string) list option \<Rightarrow> fval" where
  "VSM m = VM (map (\<lambda>(k, v). (k, VS v)) (entries_of m))"

end
