(* ===== verification/Visible.thy ===== *)
theory Visible
  imports Validation_Errors
begin

text \<open>
  What a request can leave behind: the entries of storage other than the audit log, the statements
  sent to the database, and the backend's own state. \<open>visible\<close> projects a world to them, \<open>quiet\<close>
  actions do not change them, and \<open>out view s m Q Z\<close> says that a run of \<open>m\<close> from a world that shows \<open>s\<close>
  ends in one that satisfies \<open>Q\<close> when it returns and \<open>Z\<close> when it panics or never returns. The clock,
  the random source and the database are abstracted away: a statement of this form holds for all
  of them.
\<close>

named_theorems out_rules \<open>what the combinators leave behind\<close>

definition hide_audit :: "(string \<Rightarrow> stored option) \<Rightarrow> string \<Rightarrow> stored option" where
  "hide_audit f k = (if prefix auditPrefix k then None else f k)"

definition visible :: "('s \<Rightarrow> string \<Rightarrow> stored option) \<Rightarrow> ('d, 's, 'z) world_scheme
    \<Rightarrow> (string \<Rightarrow> stored option) \<times> (string \<times> string) list \<times> 'z" where
  "visible view w = (hide_audit (view (w_st w)), w_sql w, world.more w)"

definition quiet :: "('s \<Rightarrow> string \<Rightarrow> stored option) \<Rightarrow> (('d, 's, 'z) world_scheme, 'a) act \<Rightarrow> bool" where
  "quiet view m \<longleftrightarrow> (\<forall>v. keeps (\<lambda>w. visible view w = v) m)"

definition out :: "('s \<Rightarrow> string \<Rightarrow> stored option)
    \<Rightarrow> (string \<Rightarrow> stored option) \<times> (string \<times> string) list \<times> 'z \<Rightarrow> (('d, 's, 'z) world_scheme, 'a) act
    \<Rightarrow> ('a \<Rightarrow> (string \<Rightarrow> stored option) \<times> (string \<times> string) list \<times> 'z \<Rightarrow> bool)
    \<Rightarrow> ((string \<Rightarrow> stored option) \<times> (string \<times> string) list \<times> 'z \<Rightarrow> bool) \<Rightarrow> bool" where
  "out view s m Q Z \<longleftrightarrow> (\<forall>w. visible view w = s \<longrightarrow> (case m w of
       (Ret a, w') \<Rightarrow> Q a (visible view w') | (_, w') \<Rightarrow> Z (visible view w')))"

lemma outD:
  assumes "out view (visible view w) m Q Z" and "m w = (r, w')"
  shows "case r of Ret a \<Rightarrow> Q a (visible view w') | _ \<Rightarrow> Z (visible view w')"
  using assms by (cases r) (auto simp: out_def)

lemma outE:
  fixes m :: "(('d, 's, 'z) world_scheme, 'a) act" and w :: "('d, 's, 'z) world_scheme"
  assumes "out view s m Q Z" and "visible view w = s"
  obtains a w' where "m w = (Ret a, w')" "Q a (visible view w')"
  | p w' where "m w = (Panic p, w')" "Z (visible view w')"
  | w' where "m w = (Block, w')" "Z (visible view w')"
proof -
  obtain r w' where r: "m w = (r, w')" by (cases "m w")
  note assms(1) [unfolded out_def, rule_format, OF assms(2)]
  with r that show thesis by (cases r) auto
qed

lemma outI_wp:
  fixes m :: "(('d, 's, 'z) world_scheme, 'a) act"
  assumes "\<And>w. visible view w = s \<Longrightarrow> wp m (\<lambda>a w'. Q a (visible view w')) w"
  shows "out view s m Q Z"
  unfolding out_def
proof (intro allI impI)
  fix w :: "('d, 's, 'z) world_scheme"
  assume "visible view w = s"
  then have "wp m (\<lambda>a w'. Q a (visible view w')) w" by (rule assms)
  then show "case m w of (Ret a, w') \<Rightarrow> Q a (visible view w') | (_, w') \<Rightarrow> Z (visible view w')"
    by (auto simp: wp_returns)
qed

lemma out_ret [out_rules]: "Q a s \<Longrightarrow> out view s (ret a) Q Z"
  by (simp add: out_def ret_def)

lemma out_panic [out_rules]: "Z s \<Longrightarrow> out view s (panic p) Q Z"
  by (simp add: out_def panic_def)

lemma out_block [out_rules]: "Z s \<Longrightarrow> out view s block Q Z"
  by (simp add: out_def block_def)

lemma out_bnd [out_rules]:
  fixes m :: "(('d, 's, 'z) world_scheme, 'a) act"
  assumes "out view s m (\<lambda>a s'. out view s' (k a) Q Z) Z"
  shows "out view s (bnd m k) Q Z"
  unfolding out_def
proof (intro allI impI)
  fix w :: "('d, 's, 'z) world_scheme"
  assume w: "visible view w = s"
  show "case bnd m k w of (Ret a, w') \<Rightarrow> Q a (visible view w') | (_, w') \<Rightarrow> Z (visible view w')"
    using assms w
  proof (cases rule: outE)
    case (1 a w')
    then show ?thesis using outD [of view w' "k a"] by (auto simp: bnd_def out_def)
  qed (simp_all add: bnd_def)
qed

lemma out_seq [out_rules]: "out view s m (\<lambda>_ s'. out view s' k Q Z) Z \<Longrightarrow> out view s (seq m k) Q Z"
  by (simp add: seq_def out_bnd)

lemma out_conseq:
  fixes m :: "(('d, 's, 'z) world_scheme, 'a) act"
  assumes "out view s m Q Z" and "\<And>a s'. Q a s' \<Longrightarrow> Q' a s'" and "\<And>s'. Z s' \<Longrightarrow> Z' s'"
  shows "out view s m Q' Z'"
  unfolding out_def
proof (intro allI impI)
  fix w :: "('d, 's, 'z) world_scheme"
  assume w: "visible view w = s"
  from assms(1) w show "case m w of (Ret a, w') \<Rightarrow> Q' a (visible view w') | (_, w') \<Rightarrow> Z' (visible view w')"
    by (cases rule: outE) (auto dest: assms(2,3))
qed

lemma out_gets [out_rules]: "(\<And>w. visible view w = s \<Longrightarrow> Q (f w) s) \<Longrightarrow> out view s (gets f) Q Z"
  by (simp add: out_def gets_def)

lemma out_if [out_rules]:
  "(b \<Longrightarrow> out view s m Q Z) \<Longrightarrow> (\<not> b \<Longrightarrow> out view s m' Q Z) \<Longrightarrow> out view s (if b then m else m') Q Z"
  by simp

lemma out_case_option [out_rules]:
  "(x = None \<Longrightarrow> out view s m Q Z) \<Longrightarrow> (\<And>a. x = Some a \<Longrightarrow> out view s (k a) Q Z)
   \<Longrightarrow> out view s (case x of None \<Rightarrow> m | Some a \<Rightarrow> k a) Q Z"
  by (cases x) simp_all

lemma out_case_sum [out_rules]:
  "(\<And>a. x = Inl a \<Longrightarrow> out view s (m a) Q Z) \<Longrightarrow> (\<And>a. x = Inr a \<Longrightarrow> out view s (k a) Q Z)
   \<Longrightarrow> out view s (case x of Inl a \<Rightarrow> m a | Inr a \<Rightarrow> k a) Q Z"
  by (cases x) simp_all

lemma out_case_prod [out_rules]:
  "(\<And>a b. x = (a, b) \<Longrightarrow> out view s (k a b) Q Z) \<Longrightarrow> out view s (case x of (a, b) \<Rightarrow> k a b) Q Z"
  by (cases x) simp_all

lemma out_bndE [out_rules]:
  "out view s m (\<lambda>r s'. case r of Inl e \<Rightarrow> Q (Inl (wrap e)) s' | Inr a \<Rightarrow> out view s' (k a) Q Z) Z
   \<Longrightarrow> out view s (bndE m wrap k) Q Z"
  unfolding bndE_def
  by (rule out_bnd, erule out_conseq) (auto intro: out_rules split: sum.splits)

lemma out_failH [out_rules]: "Q (Inl (e, None)) s \<Longrightarrow> out view s (failH e) Q Z"
  by (simp add: failH_def out_ret)

lemma out_okH [out_rules]: "Q (Inr (Some r)) s \<Longrightarrow> out view s (okH r) Q Z"
  by (simp add: okH_def out_ret)

lemma out_nilH [out_rules]: "Q (Inr None) s \<Longrightarrow> out view s nilH Q Z"
  by (simp add: nilH_def out_ret)

lemma out_tryH [out_rules]:
  "out view s m (\<lambda>r s'. case r of Inl e \<Rightarrow> Q (Inl (wrap e, None)) s' | Inr a \<Rightarrow> out view s' (k a) Q Z) Z
   \<Longrightarrow> out view s (tryH m wrap k) Q Z"
  unfolding tryH_def
  by (rule out_bnd, erule out_conseq) (auto intro: out_rules split: sum.splits)

lemma out_guardH [out_rules]:
  "(\<And>x. e = Some x \<Longrightarrow> Q (Inl (wrap x, None)) s) \<Longrightarrow> (e = None \<Longrightarrow> out view s k Q Z)
   \<Longrightarrow> out view s (guardH e wrap k) Q Z"
  unfolding guardH_def by (auto intro: out_rules split: option.splits)

subsection \<open>Quiet actions\<close>

lemma quietI: "(\<And>v. keeps (\<lambda>w. visible view w = v) m) \<Longrightarrow> quiet view m"
  by (simp add: quiet_def)

lemma quietD: "quiet view m \<Longrightarrow> visible view (snd (m w)) = visible view w"
  unfolding quiet_def keeps_def by blast

lemma out_quiet:
  fixes m :: "(('d, 's, 'z) world_scheme, 'a) act"
  assumes q: "quiet view m" and "\<And>a. Q a s" and "Z s"
  shows "out view s m Q Z"
  unfolding out_def
proof (intro allI impI)
  fix w :: "('d, 's, 'z) world_scheme"
  assume w: "visible view w = s"
  obtain r w' where r: "m w = (r, w')" by (cases "m w")
  with quietD [OF q, of w] w have "visible view w' = s" by simp
  with r assms(2,3) show "case m w of (Ret a, w') \<Rightarrow> Q a (visible view w') | (_, w') \<Rightarrow> Z (visible view w')"
    by (cases r) simp_all
qed

lemma visible_blind:
  "clock_blind (visible view)" "visible view (w\<lparr>w_now := t\<rparr>) = visible view w"
  "visible view (w\<lparr>w_tickpos := n\<rparr>) = visible view w" "visible view (w\<lparr>w_randpos := n\<rparr>) = visible view w"
  "visible view (w\<lparr>w_db := d\<rparr>) = visible view w"
  by (simp_all add: visible_def clock_blind_def)

lemma blind_visible: "clock_blind (\<lambda>w. P (visible view w))"
  by (rule clock_blind_comp [OF visible_blind(1)])

lemma quiet_tick: "quiet view tick"
  unfolding quiet_def by (intro allI keeps_tick) (simp add: visible_blind)

lemma quiet_draw: "quiet view draw"
  unfolding quiet_def by (intro allI keeps_draw) (simp add: visible_blind)

lemma quiet_combinators:
  "quiet view (ret r)" "quiet view (panic p)" "quiet view block" "quiet view (gets g)"
  "quiet view m \<Longrightarrow> (\<And>a. quiet view (k a)) \<Longrightarrow> quiet view (bnd m k)"
  "quiet view m1 \<Longrightarrow> quiet view n1 \<Longrightarrow> quiet view (seq m1 n1)"
  "(b \<Longrightarrow> quiet view m2) \<Longrightarrow> (\<not> b \<Longrightarrow> quiet view n2) \<Longrightarrow> quiet view (if b then m2 else n2)"
  "(x = None \<Longrightarrow> quiet view m3) \<Longrightarrow> (\<And>a. x = Some a \<Longrightarrow> quiet view (k' a))
   \<Longrightarrow> quiet view (case x of None \<Rightarrow> m3 | Some a \<Rightarrow> k' a)"
  "(\<And>a. y = Inl a \<Longrightarrow> quiet view (f' a)) \<Longrightarrow> (\<And>a. y = Inr a \<Longrightarrow> quiet view (g' a))
   \<Longrightarrow> quiet view (case y of Inl a \<Rightarrow> f' a | Inr a \<Rightarrow> g' a)"
  "(\<And>a b. ab = (a, b) \<Longrightarrow> quiet view (h a b)) \<Longrightarrow> quiet view (case ab of (a, b) \<Rightarrow> h a b)"
  unfolding quiet_def by (auto intro!: keeps_rules split: option.splits sum.splits prod.splits)

lemma quiet_effects:
  "quiet view time_Now" "quiet view (ctx_poll c)" "quiet view (on_db f)" "quiet view rand_Float64"
proof -
  show "quiet view (on_db f)"
  proof (unfold on_db_def, intro quiet_combinators quiet_tick)
    show "quiet view (\<lambda>w. case f (w_db w) of (a, d) \<Rightarrow> (Ret a, w\<lparr>w_db := d\<rparr>))"
      by (simp add: quiet_def keeps_def visible_blind split: prod.splits)
  qed
qed (auto simp: time_Now_def ctx_poll_def rand_Float64_def intro!: quiet_combinators quiet_tick quiet_draw)

lemma quiet_case_http:
  "(\<And>e. r = HttpBadRequest e \<Longrightarrow> quiet view (a e)) \<Longrightarrow> (\<And>e. r = HttpFailed e \<Longrightarrow> quiet view (b e))
   \<Longrightarrow> (\<And>n. r = HttpStatus n \<Longrightarrow> quiet view (c n))
   \<Longrightarrow> quiet view (case r of HttpBadRequest e \<Rightarrow> a e | HttpFailed e \<Rightarrow> b e | HttpStatus n \<Rightarrow> c n)"
  by (cases r) simp_all

subsection \<open>Storage\<close>

text \<open>Keys of the audit log, and the others.\<close>

definition audit_free :: "string \<Rightarrow> bool" where
  "audit_free k \<longleftrightarrow> \<not> prefix auditPrefix k"

lemma audit_free_keys [simp]:
  "audit_free (''creds/'' @ k)" "audit_free (''roles/'' @ k)" "audit_free (''config/'' @ k)" "audit_free ''config''"
  "audit_free (''statements/'' @ k)" "audit_free ''webhook/config''" "audit_free (''static-roles/'' @ k)"
  "audit_free (''static-creds/'' @ k)" "\<not> audit_free (auditPrefix @ k)"
  by (simp_all add: audit_free_def auditPrefix_def)

lemma hide_audit_upd:
  "audit_free k \<Longrightarrow> hide_audit (f(k := v)) = (hide_audit f)(k := v)"
  "\<not> audit_free k \<Longrightarrow> hide_audit (f(k := v)) = hide_audit f"
  "audit_free k \<Longrightarrow> hide_audit f k = f k"
  by (auto simp: hide_audit_def audit_free_def fun_eq_iff)

lemma on_st_eq:
  "on_st f w = (case f (w_st w) of (a, s) \<Rightarrow> (Ret a, (snd (tick w))\<lparr>w_st := s\<rparr>))"
  by (simp add: on_st_def tick_def modify_def seq_def bnd_def split: prod.splits)

lemma visible_st:
  "visible view (w\<lparr>w_st := s\<rparr>) = (hide_audit (view s), w_sql w, world.more w)"
  by (simp add: visible_def)

lemma tick_fields: "w_sql (snd (tick w)) = w_sql w" "world.more (snd (tick w)) = world.more w" "w_st (snd (tick w)) = w_st w"
  by (simp_all add: tick_def modify_def)

lemma out_on_st:
  fixes f :: "'s \<Rightarrow> 'a \<times> 's" and z :: 'z
  assumes "\<And>st. hide_audit (view st) = V \<Longrightarrow> Q (fst (f st)) (hide_audit (view (snd (f st))), L, z)"
  shows "out view (V, L, z) (on_st f :: (('d, 's, 'z) world_scheme, 'a) act) Q Z"
  unfolding out_def
proof (intro allI impI)
  fix w :: "('d, 's, 'z) world_scheme"
  assume w: "visible view w = (V, L, z)"
  obtain a st where a: "f (w_st w) = (a, st)" by (cases "f (w_st w)")
  from assms [of "w_st w"] w a show "case on_st f w of (Ret a, w') \<Rightarrow> Q a (visible view w') | (_, w') \<Rightarrow> Z (visible view w')"
    by (simp add: on_st_eq visible_st tick_fields visible_def [of view])
qed

lemma out_Get:
  assumes law: "lawful_storage view (e_S E)" and "audit_free key"
    and "\<And>e. Q (Inl e) (V, L, z)" and "Q (Inr (V key)) (V, L, z)"
  shows "out view (V, L, z) (storage_Get E key) Q Z"
  unfolding storage_Get_def
proof (rule out_on_st)
  fix st assume "hide_audit (view st) = V"
  moreover from law have "view (snd (st_Get (e_S E) key st)) = view st"
    and "\<And>v. fst (st_Get (e_S E) key st) = Inr v \<Longrightarrow> v = view st key"
    by (auto simp: lawful_storage_def)
  ultimately show "Q (fst (st_Get (e_S E) key st)) (hide_audit (view (snd (st_Get (e_S E) key st))), L, z)"
    using assms(2-4) by (cases "fst (st_Get (e_S E) key st)") (auto simp: hide_audit_upd(3))
qed

lemma out_Put:
  assumes law: "lawful_storage view (e_S E)" and "audit_free key"
    and "\<And>e. Q (Inl e) (V, L, z)" and "Q (Inr ()) (V(key \<mapsto> v), L, z)"
  shows "out view (V, L, z) (storage_Put E key v) Q Z"
  unfolding storage_Put_def
proof (rule out_bnd, rule out_on_st, rule out_ret)
  fix st assume "hide_audit (view st) = V"
  moreover from law have "view (snd (st_Put (e_S E) key v st))
      = (if fst (st_Put (e_S E) key v st) = None then (view st)(key \<mapsto> v) else view st)"
    by (auto simp: lawful_storage_def)
  ultimately show "Q (err_to_sum (fst (st_Put (e_S E) key v st)))
      (hide_audit (view (snd (st_Put (e_S E) key v st))), L, z)"
    using assms(2-4) by (auto simp: hide_audit_upd err_to_sum_def split: option.split)
qed

lemma out_Delete:
  assumes law: "lawful_storage view (e_S E)" and "audit_free key"
    and "\<And>e. Q (Inl e) (V, L, z)" and "Q (Inr ()) (V(key := None), L, z)"
  shows "out view (V, L, z) (storage_Delete E key) Q Z"
  unfolding storage_Delete_def
proof (rule out_bnd, rule out_on_st, rule out_ret)
  fix st assume "hide_audit (view st) = V"
  moreover from law have "view (snd (st_Delete (e_S E) key st))
      = (if fst (st_Delete (e_S E) key st) = None then (view st)(key := None) else view st)"
    by (auto simp: lawful_storage_def)
  ultimately show "Q (err_to_sum (fst (st_Delete (e_S E) key st)))
      (hide_audit (view (snd (st_Delete (e_S E) key st))), L, z)"
    using assms(2-4) by (auto simp: hide_audit_upd err_to_sum_def split: option.split)
qed

text \<open>What a listing gives of the visible keys below a prefix.\<close>

definition lists_keys :: "string \<Rightarrow> (string \<Rightarrow> stored option) \<Rightarrow> string list \<Rightarrow> bool" where
  "lists_keys p V ks \<longleftrightarrow> distinct ks \<and> (\<forall>k. CHR ''/'' \<notin> set k \<longrightarrow> (k \<in> set ks \<longleftrightarrow> V (p @ k) \<noteq> None))"

lemma out_List:
  assumes law: "lawful_storage view (e_S E)" and p: "\<And>k. audit_free (p @ k)"
    and Q: "\<And>e. Q (Inl e) (V, L, z)" "\<And>ks. lists_keys p V ks \<Longrightarrow> Q (Inr ks) (V, L, z)"
  shows "out view (V, L, z) (storage_List E p) Q Z"
  unfolding storage_List_def
proof (rule out_on_st)
  fix st assume V: "hide_audit (view st) = V"
  from law have l: "view (snd (st_List (e_S E) p st)) = view st"
    "\<And>ks. fst (st_List (e_S E) p st) = Inr ks \<Longrightarrow> distinct ks
       \<and> (\<forall>k. CHR ''/'' \<notin> set k \<longrightarrow> (k \<in> set ks \<longleftrightarrow> view st (p @ k) \<noteq> None))"
    unfolding lawful_storage_def by blast+
  have "V (p @ k) = view st (p @ k)" for k
    using V p [of k] by (auto simp: hide_audit_upd(3))
  with l Q V show "Q (fst (st_List (e_S E) p st)) (hide_audit (view (snd (st_List (e_S E) p st))), L, z)"
    by (cases "fst (st_List (e_S E) p st)") (auto simp: lists_keys_def)
qed

lemma out_get_as:
  assumes "lawful_storage view (e_S E)" and "audit_free key"
    and "\<And>e. Q (Inl e) (V, L, z)" and "V key = None \<Longrightarrow> Q (Inr None) (V, L, z)"
    and "\<And>x a. V key = Some x \<Longrightarrow> dec x = Some a \<Longrightarrow> Q (Inr (Some a)) (V, L, z)"
  shows "out view (V, L, z) (get_as dec E key) Q Z"
  unfolding get_as_def
  by (rule out_bnd, rule out_Get [OF assms(1,2)])
    (auto intro!: out_ret assms(3-5) split: option.split)

subsection \<open>The audit log and the webhooks\<close>

lemma quiet_storage_Get: "lawful_storage view (e_S E) \<Longrightarrow> quiet view (storage_Get E key)"
  unfolding quiet_def keeps_def storage_Get_def
  by (simp add: on_st_eq visible_st tick_fields lawful_storage_def split: prod.split)
    (simp add: visible_def, metis snd_conv)

lemma quiet_get_as: "lawful_storage view (e_S E) \<Longrightarrow> quiet view (get_as dec E key)"
  unfolding get_as_def by (intro quiet_combinators quiet_storage_Get)

lemma quiet_audit_Put:
  "lawful_storage view (e_S E) \<Longrightarrow> \<not> audit_free key \<Longrightarrow> quiet view (storage_Put E key v)"
  unfolding storage_Put_def
proof (intro quiet_combinators)
  assume law: "lawful_storage view (e_S E)" and k: "\<not> audit_free key"
  show "quiet view (on_st (st_Put (e_S E) key v))"
    unfolding quiet_def keeps_def
  proof (intro allI impI)
    fix u w assume u: "visible view w = u"
    obtain e s where p: "st_Put (e_S E) key v (w_st w) = (e, s)" by (cases "st_Put (e_S E) key v (w_st w)")
    from law have "view (snd (st_Put (e_S E) key v (w_st w)))
        = (if fst (st_Put (e_S E) key v (w_st w)) = None then (view (w_st w))(key \<mapsto> v) else view (w_st w))"
      unfolding lawful_storage_def by blast
    with u p k show "visible view (snd (on_st (st_Put (e_S E) key v) w)) = u"
      by (auto simp: on_st_eq visible_st tick_fields hide_audit_upd visible_def [of view])
  qed
qed

lemma quiet_storeAuditEvent: "lawful_storage view (e_S E) \<Longrightarrow> quiet view (storeAuditEvent E t ev)"
  unfolding storeAuditEvent_def audit_key_def
  by (intro quiet_combinators quiet_effects quiet_audit_Put) simp_all

lemma quiet_logs:
  assumes "lawful_storage view (e_S E)"
  shows "quiet view (LogCredentialCreation E username roleName leaseID md)"
    "quiet view (LogCredentialRevocation E username roleName md)"
    "quiet view (LogCredentialRotation E success msg)"
    "quiet view (LogRoleCreation E roleName dbUser stmt)"
    "quiet view (LogRoleUpdate E roleName dbUser stmt)" "quiet view (LogRoleDeletion E roleName)"
    "quiet view (LogRootRotation E success msg)"
  unfolding LogCredentialCreation_def LogCredentialRevocation_def LogCredentialRotation_def
    LogRoleCreation_def LogRoleUpdate_def LogRoleDeletion_def LogRootRotation_def
  by (intro quiet_combinators quiet_effects quiet_storeAuditEvent assms)+

lemma var_out_in: "with_var_out (with_var_in x w) = w"
  by (cases w) (simp add: with_var_in_def with_var_out_def world.defs)

lemma keeps_local_var:
  assumes "keeps (\<lambda>w. I (with_var_out w)) m"
  shows "keeps I (local_var x m)"
proof -
  have "I (with_var_out (snd (m (with_var_in x w))))" if "I w" for w
    using keepsD [OF assms, of "with_var_in x w"] that by (simp add: var_out_in)
  then show ?thesis by (fastforce simp: keeps_def local_var_def split: prod.splits res.splits)
qed

lemma visible_var_out:
  "visible view (with_var_out w) = (hide_audit (view (w_st w)), w_sql w, fst (world.more w))"
  by (simp add: visible_def with_var_out_def world.defs)

lemma clock_blind_var_out: "clock_blind (\<lambda>w. visible view (with_var_out w) = v)"
  by (simp add: clock_blind_def visible_var_out)

lemma keeps_set_var: "keeps (\<lambda>w. visible view (with_var_out w) = v) (set_var x)"
  by (simp add: set_var_def keeps_def modify_def visible_var_out)

lemma keeps_on_db_out: "keeps (\<lambda>w. visible view (with_var_out w) = v) (on_db f)"
  unfolding on_db_def
  by (intro keeps_seq keeps_tick) (simp_all add: keeps_def visible_var_out split: prod.split)

lemma quiet_SendWebhook: "quiet view (SendWebhook E ctx config t data)"
proof -
  have op: "keeps (\<lambda>w. visible view (with_var_out w) = v) (webhook_attempt E config n data)" for v n
    unfolding webhook_attempt_def http_post_def Let_def
    by (intro keeps_bnd keeps_on_db_out) (auto split: http_result.split intro!: keeps_rules keeps_set_var)
  have "quiet view (local_var x (Do ctx (Some (webhook_retry config)) (webhook_attempt E config n data)))" for n x
    unfolding quiet_def webhook_retry_def
    by (intro allI keeps_local_var do_run.run_keeps clock_blind_var_out op)
  then show ?thesis unfolding SendWebhook_def
    by (intro quiet_combinators quiet_effects)
qed

lemma quiet_send_event: "lawful_storage view (e_S E) \<Longrightarrow> quiet view (send_event E ctx t data)"
  unfolding send_event_def GetWebhookConfig_def
  by (intro quiet_combinators quiet_effects quiet_SendWebhook quiet_get_as)

lemma quiet_webhooks:
  assumes "lawful_storage view (e_S E)"
  shows "quiet view (SendCredentialCreatedWebhook E ctx username roleName leaseID md)"
    "quiet view (SendCredentialRevokedWebhook E ctx username roleName md)"
    "quiet view (SendRoleCreatedWebhook E ctx roleName dbUser stmt)"
    "quiet view (SendRoleUpdatedWebhook E ctx roleName dbUser stmt)"
    "quiet view (SendRoleDeletedWebhook E ctx roleName)"
    "quiet view (SendRootRotatedWebhook E ctx success msg)"
  unfolding SendCredentialCreatedWebhook_def SendCredentialRevokedWebhook_def SendRoleCreatedWebhook_def
    SendRoleUpdatedWebhook_def SendRoleDeletedWebhook_def SendRootRotatedWebhook_def
  by (intro quiet_send_event assms)+

subsection \<open>Statements\<close>

text \<open>\<open>sends cs P m\<close>: the action changes nothing visible but the log of statements, which it extends by
  statements over the connection string \<open>cs\<close> that satisfy \<open>P\<close>.\<close>

definition sent_since :: "string \<Rightarrow> (string \<Rightarrow> bool) \<Rightarrow> 's \<Rightarrow> 'z \<Rightarrow> (string \<times> string) list
    \<Rightarrow> ('d, 's, 'z) world_scheme \<Rightarrow> bool" where
  "sent_since cs P st z L w \<longleftrightarrow> w_st w = st \<and> world.more w = z \<and>
     (\<exists>l. w_sql w = L @ map (Pair cs) l \<and> list_all P l)"

definition sends :: "string \<Rightarrow> (string \<Rightarrow> bool) \<Rightarrow> (('d, 's, 'z) world_scheme, 'a) act \<Rightarrow> bool" where
  "sends cs P m \<longleftrightarrow> (\<forall>L st z. keeps (sent_since cs P st z L) m)"

lemma sent_since_updates [simp]:
  "sent_since cs P st z L (w\<lparr>w_now := t\<rparr>) = sent_since cs P st z L w"
  "sent_since cs P st z L (w\<lparr>w_tickpos := n\<rparr>) = sent_since cs P st z L w"
  "sent_since cs P st z L (w\<lparr>w_randpos := n\<rparr>) = sent_since cs P st z L w"
  "sent_since cs P st z L (w\<lparr>w_db := d\<rparr>) = sent_since cs P st z L w"
  by (simp_all add: sent_since_def)

lemma sent_since_log: "P q \<Longrightarrow> sent_since cs P st z L w \<Longrightarrow> sent_since cs P st z L (w\<lparr>w_sql := w_sql w @ [(cs, q)]\<rparr>)"
proof -
  assume "P q" and "sent_since cs P st z L w"
  then obtain l where "w_st w = st" "world.more w = z" "w_sql w = L @ map (Pair cs) l" "list_all P l"
    by (auto simp: sent_since_def)
  with \<open>P q\<close> show ?thesis by (auto simp: sent_since_def intro!: exI [of _ "l @ [q]"])
qed

lemma sends_out:
  fixes m :: "(('d, 's, 'z) world_scheme, 'a) act"
  assumes "sends cs P m"
    and "\<And>a l. list_all P l \<Longrightarrow> Q a (V, L @ map (Pair cs) l, z)"
    and "\<And>l. list_all P l \<Longrightarrow> Z (V, L @ map (Pair cs) l, z)"
  shows "out view (V, L, z) m Q Z"
  unfolding out_def
proof (intro allI impI)
  fix w :: "('d, 's, 'z) world_scheme"
  assume w: "visible view w = (V, L, z)"
  obtain r w' where r: "m w = (r, w')" by (cases "m w")
  have "sent_since cs P (w_st w) (world.more w) (w_sql w) w"
    by (auto simp: sent_since_def intro: exI [of _ "[]"])
  with assms(1) r have "sent_since cs P (w_st w) (world.more w) (w_sql w) w'"
    unfolding sends_def keeps_def by (metis snd_conv)
  with w obtain l where "visible view w' = (V, L @ map (Pair cs) l, z)" "list_all P l"
    by (auto simp: visible_def sent_since_def)
  with r assms(2,3) show "case m w of (Ret a, w') \<Rightarrow> Q a (visible view w') | (_, w') \<Rightarrow> Z (visible view w')"
    by (cases r) simp_all
qed

lemma sends_blind: "clock_blind (sent_since cs P st z L)"
  by (simp add: clock_blind_def)

lemma sends_tick: "sends cs P tick"
  unfolding sends_def by (intro allI keeps_tick) simp

lemma sends_draw: "sends cs P draw"
  unfolding sends_def by (intro allI keeps_draw) simp

lemma sends_combinators:
  "sends cs P (ret r)" "sends cs P (panic p)" "sends cs P block" "sends cs P (gets g)"
  "sends cs P m \<Longrightarrow> (\<And>a. sends cs P (k a)) \<Longrightarrow> sends cs P (bnd m k)"
  "sends cs P m1 \<Longrightarrow> sends cs P n1 \<Longrightarrow> sends cs P (seq m1 n1)"
  "(b \<Longrightarrow> sends cs P m2) \<Longrightarrow> (\<not> b \<Longrightarrow> sends cs P n2) \<Longrightarrow> sends cs P (if b then m2 else n2)"
  "(x = None \<Longrightarrow> sends cs P m3) \<Longrightarrow> (\<And>a. x = Some a \<Longrightarrow> sends cs P (k' a))
   \<Longrightarrow> sends cs P (case x of None \<Rightarrow> m3 | Some a \<Rightarrow> k' a)"
  "(\<And>a. y = Inl a \<Longrightarrow> sends cs P (f' a)) \<Longrightarrow> (\<And>a. y = Inr a \<Longrightarrow> sends cs P (g' a))
   \<Longrightarrow> sends cs P (case y of Inl a \<Rightarrow> f' a | Inr a \<Rightarrow> g' a)"
  "(\<And>a b. ab = (a, b) \<Longrightarrow> sends cs P (h a b)) \<Longrightarrow> sends cs P (case ab of (a, b) \<Rightarrow> h a b)"
  "sends cs P fin \<Longrightarrow> sends cs P m4 \<Longrightarrow> sends cs P (with_defer fin m4)"
  unfolding sends_def by (auto intro!: keeps_rules split: option.splits sum.splits prod.splits)

lemma sends_on_db: "sends cs P (on_db f)"
proof (unfold on_db_def, intro sends_combinators sends_tick)
  show "sends cs P (\<lambda>w. case f (w_db w) of (a, d) \<Rightarrow> (Ret a, w\<lparr>w_db := d\<rparr>))"
    by (simp add: sends_def keeps_def split: prod.split)
qed

lemma sends_effects:
  "sends cs P rand_Float64" "sends cs P (ctx_poll c)" "sends cs P (sleep_ctx c d)" "sends cs P (time_Sleep d)"
  "sends cs P time_Now"
  unfolding sends_def
  by (simp_all add: keeps_sleep keeps_time_Sleep)
    (auto simp: rand_Float64_def ctx_poll_def time_Now_def sends_def [symmetric]
      intro!: sends_combinators sends_draw sends_tick)

lemma sends_Exec: "P q \<Longrightarrow> sends cs P (db_Exec D cs q)"
  unfolding db_Exec_def
  by (intro sends_combinators sends_on_db) (simp add: sends_def keeps_def modify_def sent_since_log)

end
