(* ===== verification/Cred_Gen.thy ===== *)
theory Cred_Gen
  imports Visible "HOL-Library.AList"
begin

text \<open>
  What a new credential is made of (\<open>plugin/path_creds.go\<close>, lines 570 to 670 and 929 to 950): the
  password, the user name, the statement that creates the user, and the session variables. \<open>ok\<close>
  says whether the system's random source answers; both random packages draw from the world.

  The theorems show which passwords come out, when a generated user name is accepted, and what
  the clean-up of a password can destroy.
\<close>

subsection \<open>Passwords\<close>

definition passwordMinLength :: nat where "passwordMinLength = 16"
definition passwordMaxLength :: nat where "passwordMaxLength = 32"
definition lowerChars :: string where "lowerChars = ''abcdefghijklmnopqrstuvwxyz''"
definition upperChars :: string where "upperChars = ''ABCDEFGHIJKLMNOPQRSTUVWXYZ''"
definition digitChars :: string where "digitChars = ''0123456789''"
definition specialChars :: string where "specialChars = ''!@''"
definition allPasswordChars :: string where
  "allPasswordChars = lowerChars @ upperChars @ digitChars @ specialChars"

text \<open>\<open>mrand.Intn(n)\<close>\<close>

definition mrand_Intn :: "nat \<Rightarrow> (('d, 's, 'z) world_scheme, nat) act" where
  "mrand_Intn n = bnd draw (\<lambda>k. ret (k mod n))"

fun draw_chars :: "nat list \<Rightarrow> nat \<Rightarrow> (('d, 's, 'z) world_scheme, string) act" where
  "draw_chars charset 0 = ret []"
| "draw_chars charset (Suc n) = bnd (mrand_Intn (length charset)) (\<lambda>k.
     bnd (draw_chars charset n) (\<lambda>cs. ret (char_of (charset ! k) # cs)))"

text \<open>The first matching case of the \<open>switch\<close> sets one of the four flags.\<close>

datatype char_class = Lower | Upper | Digit | Special | Other

definition char_class :: "nat \<Rightarrow> char_class" where
  "char_class r = (if ContainsRune lowerChars r then Lower else if ContainsRune upperChars r then Upper
     else if ContainsRune digitChars r then Digit else if ContainsRune specialChars r then Special else Other)"

definition has_class :: "char_class \<Rightarrow> nat list \<Rightarrow> bool" where
  "has_class c rs \<longleftrightarrow> list_ex (\<lambda>r. char_class r = c) rs"

definition replace_missing :: "nat \<times> nat list \<Rightarrow> bool \<times> string
    \<Rightarrow> (('d, 's, 'z) world_scheme, nat \<times> nat list) act" where
  "replace_missing st req =
     (case st of (idx, rs) \<Rightarrow> case req of (check, chars) \<Rightarrow>
       if check then ret (idx, rs)
       else let pos = idx mod length rs in
         bnd (mrand_Intn (length chars)) (\<lambda>k. ret (Suc idx, rs[pos := byte (chars ! k)])))"

definition ensurePasswordRequirements :: "string \<Rightarrow> (('d, 's, 'z) world_scheme, string) act" where
  "ensurePasswordRequirements password =
     (let rs = runes password in
      if length rs = 0 then ret password
      else bnd (fold_act replace_missing (0, rs)
                 [(has_class Lower rs, lowerChars), (has_class Upper rs, upperChars),
                  (has_class Digit rs, digitChars), (has_class Special rs, specialChars)])
             (\<lambda>(idx, rs'). ret (concat (map encode_rune rs'))))"

definition generatePassword :: "bool \<Rightarrow> (('d, 's, 'z) world_scheme, string) act" where
  "generatePassword ok =
     bnd (mrand_Intn (passwordMaxLength - passwordMinLength + 1)) (\<lambda>n.
     let length' = passwordMinLength + n in
     if \<not> ok then ret []
     else bnd (draw_chars (runes allPasswordChars) length') (\<lambda>password.
       ensurePasswordRequirements password))"

definition generatePasswordWithPolicy :: "bool \<Rightarrow> string
    \<Rightarrow> (('d, 's, 'z) world_scheme, go_err + string) act" where
  "generatePasswordWithPolicy ok policy = bnd (generatePassword ok) (\<lambda>p. ret (Inr p))"

subsection \<open>User names\<close>

definition hex_digit :: "nat \<Rightarrow> char" where
  "hex_digit n = ''0123456789abcdef'' ! n"

definition hex_encode :: "nat list \<Rightarrow> string" where
  "hex_encode bs = concat (map (\<lambda>b. [hex_digit (b div 16), hex_digit (b mod 16)]) bs)"

fun draw_bytes :: "nat \<Rightarrow> (('d, 's, 'z) world_scheme, nat list) act" where
  "draw_bytes 0 = ret []"
| "draw_bytes (Suc n) = bnd draw (\<lambda>k. bnd (draw_bytes n) (\<lambda>bs. ret (k mod 256 # bs)))"

definition generateUsername :: "bool \<Rightarrow> string \<Rightarrow> string \<Rightarrow> (('d, 's, 'z) world_scheme, string) act" where
  "generateUsername ok prefix0 suffixCustom =
     (let pre = (if prefix0 = [] then ''vault'' else prefix0) in
      if suffixCustom \<noteq> [] then ret (pre @ ''_'' @ suffixCustom)
      else if \<not> ok then ret []
      else bnd (draw_bytes 8) (\<lambda>bytes. ret (pre @ ''_'' @ hex_encode bytes)))"

subsection \<open>Statements\<close>

definition buildTeradataCreateUserSQL :: "Role \<Rightarrow> string \<Rightarrow> string \<Rightarrow> string" where
  "buildTeradataCreateUserSQL role username password =
     ''CREATE USER '' @ username @ '' FROM DBC AS PASSWORD = '' @ qq password
       @ '' DEFAULT DATABASE = '' @ username @ '' PERM = 1000000''"

definition escapeSQLString :: "string \<Rightarrow> string" where
  "escapeSQLString s = ReplaceAll s [CHR 0x27] [CHR 0x27, CHR 0x27]"

text \<open>\<open>{{username}}\<close> and \<open>{{password}}\<close> in a statement of the role.\<close>

definition fill_template :: "string \<Rightarrow> string \<Rightarrow> string \<Rightarrow> string" where
  "fill_template stmt username password =
     ReplaceAll (ReplaceAll stmt ''{{username}}'' username) ''{{password}}'' password"

definition mergeSessionVariables :: "(string \<times> string) list option \<Rightarrow> (string \<times> string) list option
    \<Rightarrow> (string \<times> string) list" where
  "mergeSessionVariables configVars roleVars =
     foldl (\<lambda>m kv. AList.update (fst kv) (snd kv) m) [] (entries_of configVars @ entries_of roleVars)"

definition buildSessionVariableSQL :: "(string list \<Rightarrow> string list) \<Rightarrow> (string \<times> string) list \<Rightarrow> string list" where
  "buildSessionVariableSQL ord vars = map (\<lambda>(name, v). ''SET '' @ name @ '' = '' @ v) (map_entries ord vars)"

subsection \<open>What comes out\<close>

lemma wp_drawI: "(\<And>n w'. Q n w') \<Longrightarrow> wp draw Q w"
  by (simp add: wp_def draw_def)

lemma wp_Intn: "0 < n \<Longrightarrow> (\<And>k w'. k < n \<Longrightarrow> Q k w') \<Longrightarrow> wp (mrand_Intn n) Q w"
  by (auto simp: mrand_Intn_def wp_bnd wp_ret intro!: wp_drawI)

lemma wp_draw_chars:
  fixes w :: "('d, 's, 'z) world_scheme"
  shows "charset \<noteq> [] \<Longrightarrow> wp (draw_chars charset n) (\<lambda>s _. length s = n \<and> set s \<subseteq> char_of ` set charset) w"
proof (induction n arbitrary: w)
  case (Suc n)
  show ?case
    unfolding draw_chars.simps wp_bnd
  proof (rule wp_Intn)
    fix k and w' :: "('d, 's, 'z) world_scheme" assume k: "k < length charset"
    show "wp (draw_chars charset n) (\<lambda>a. wp (ret (char_of (charset ! k) # a))
        (\<lambda>s _. length s = Suc n \<and> set s \<subseteq> char_of ` set charset)) w'"
      by (rule wp_mono [OF Suc.IH [OF Suc.prems]]) (use k in \<open>auto simp: wp_ret\<close>)
  qed (use Suc.prems in simp)
qed (simp add: wp_ret)

text \<open>The clean-up writes one character of each missing class, at distinct positions.\<close>

definition req_bytes :: "(bool \<times> string) list \<Rightarrow> nat set" where
  "req_bytes reqs = (\<Union>r\<in>set reqs. byte ` set (snd r))"

lemma replace_missing_simps:
  "replace_missing (i, rs) (True, chars) = ret (i, rs)"
  "replace_missing (i, rs) (False, chars) = bnd (mrand_Intn (length chars))
     (\<lambda>k. ret (Suc i, rs[i mod length rs := byte (chars ! k)]))"
  by (simp_all add: replace_missing_def Let_def)

lemma wp_replace_missing:
  fixes w :: "('d, 's, 'z) world_scheme"
  assumes "\<forall>r\<in>set reqs. snd r \<noteq> []" and "i + length reqs \<le> length rs"
  shows "wp (fold_act replace_missing (i, rs) reqs) (\<lambda>st _. case st of (i', rs') \<Rightarrow>
     length rs' = length rs \<and> i \<le> i' \<and> i' \<le> i + length reqs
     \<and> (\<forall>j. j < i \<or> i' \<le> j \<longrightarrow> rs' ! j = rs ! j)
     \<and> (\<forall>r\<in>set reqs. \<not> fst r \<longrightarrow> (\<exists>j<i'. rs' ! j \<in> byte ` set (snd r)))
     \<and> set rs' \<subseteq> set rs \<union> req_bytes reqs) w"
  using assms
proof (induction reqs arbitrary: i rs w)
  case Nil
  then show ?case by (simp add: wp_ret req_bytes_def)
next
  case (Cons r reqs)
  obtain check chars where r: "r = (check, chars)" by (cases r)
  show ?case
  proof (cases check)
    case True
    then have eqTrue: "check = True" by simp
    have "i + length reqs \<le> length rs" "\<forall>r\<in>set reqs. snd r \<noteq> []" using Cons.prems by auto
    from Cons.IH [OF this(2,1)] show ?thesis
      unfolding r fold_act.simps eqTrue replace_missing_simps wp_bnd wp_ret
      by (rule wp_mono) (auto simp: req_bytes_def)
  next
    case False
    then have eqFalse: "check = False" by simp
    show ?thesis
      unfolding r fold_act.simps eqFalse replace_missing_simps wp_bnd
    proof (rule wp_Intn)
      fix k and w' :: "('d, 's, 'z) world_scheme" assume k: "k < length chars"
      let ?rs = "rs[i mod length rs := byte (chars ! k)]"
      have i: "i mod length rs = i" "i < length rs" using Cons.prems(2) by simp_all
      have "Suc i + length reqs \<le> length ?rs" "\<forall>r\<in>set reqs. snd r \<noteq> []" using Cons.prems by auto
      note ih = Cons.IH [OF this(2,1), of w']
      have sub: "set ?rs \<subseteq> set rs \<union> byte ` set chars"
        using k set_update_subset_insert [of rs i "byte (chars ! k)"] by (auto simp: i)
      show "wp (ret (Suc i, ?rs)) (\<lambda>a. wp (fold_act replace_missing a reqs) (\<lambda>st _. case st of (i', rs') \<Rightarrow>
         length rs' = length rs \<and> i \<le> i' \<and> i' \<le> i + length ((False, chars) # reqs)
         \<and> (\<forall>j. j < i \<or> i' \<le> j \<longrightarrow> rs' ! j = rs ! j)
         \<and> (\<forall>r\<in>set ((False, chars) # reqs). \<not> fst r \<longrightarrow> (\<exists>j<i'. rs' ! j \<in> byte ` set (snd r)))
         \<and> set rs' \<subseteq> set rs \<union> req_bytes ((False, chars) # reqs))) w'"
        unfolding wp_ret
      proof (rule wp_mono [OF ih])
        fix st w2
        assume h: "case st of (i', rs') \<Rightarrow> length rs' = length ?rs \<and> Suc i \<le> i' \<and> i' \<le> Suc i + length reqs
         \<and> (\<forall>j. j < Suc i \<or> i' \<le> j \<longrightarrow> rs' ! j = ?rs ! j)
         \<and> (\<forall>r\<in>set reqs. \<not> fst r \<longrightarrow> (\<exists>j<i'. rs' ! j \<in> byte ` set (snd r)))
         \<and> set rs' \<subseteq> set ?rs \<union> req_bytes reqs"
        obtain i' rs' where st: "st = (i', rs')" by (cases st)
        have "rs' ! i = byte (chars ! k)" "i < i'" using h i by (auto simp: st)
        then have new: "\<exists>j<i'. rs' ! j \<in> byte ` set chars" using k by auto
        have "set rs' \<subseteq> set rs \<union> req_bytes ((False, chars) # reqs)"
          using h sub by (auto simp: st req_bytes_def)
        with h new i show "case st of (i', rs') \<Rightarrow> length rs' = length rs \<and> i \<le> i'
         \<and> i' \<le> i + length ((False, chars) # reqs) \<and> (\<forall>j. j < i \<or> i' \<le> j \<longrightarrow> rs' ! j = rs ! j)
         \<and> (\<forall>r\<in>set ((False, chars) # reqs). \<not> fst r \<longrightarrow> (\<exists>j<i'. rs' ! j \<in> byte ` set (snd r)))
         \<and> set rs' \<subseteq> set rs \<union> req_bytes ((False, chars) # reqs)"
          by (auto simp: st)
      qed
    qed (use Cons.prems r in auto)
  qed
qed


lemma password_alphabet:
  "ascii lowerChars" "ascii upperChars" "ascii digitChars" "ascii specialChars" "ascii allPasswordChars"
  by (simp_all add: lowerChars_def upperChars_def digitChars_def specialChars_def allPasswordChars_def ascii_set)

lemma class_disjoint:
  "set lowerChars \<inter> set upperChars = {}" "set lowerChars \<inter> set digitChars = {}"
  "set upperChars \<inter> set digitChars = {}" "set lowerChars \<inter> set specialChars = {}"
  "set upperChars \<inter> set specialChars = {}" "set digitChars \<inter> set specialChars = {}"
  by (simp_all add: lowerChars_def upperChars_def digitChars_def specialChars_def)

lemma class_of_chars:
  "c \<in> set lowerChars \<Longrightarrow> char_class (byte c) = Lower" "c \<in> set upperChars \<Longrightarrow> char_class (byte c) = Upper"
  "c \<in> set digitChars \<Longrightarrow> char_class (byte c) = Digit" "c \<in> set specialChars \<Longrightarrow> char_class (byte c) = Special"
  using class_disjoint
  by (auto simp: char_class_def ContainsRune_ascii password_alphabet byte_image_iff)

lemma encode_runes_ascii:
  "\<forall>r\<in>set rs. r < 128 \<Longrightarrow> concat (map encode_rune rs) = map char_of rs"
  by (induction rs) (simp_all add: encode_rune_def)

lemma runes_encode: "\<forall>r\<in>set rs. r < 128 \<Longrightarrow> runes (map char_of rs) = rs"
proof -
  assume r: "\<forall>r\<in>set rs. r < 128"
  then have "ascii (map char_of rs)" by (auto simp: ascii_set)
  then show ?thesis using r by (auto simp: runes_ascii intro!: map_idI)
qed

lemma byte_list_ascii: "ascii s \<Longrightarrow> set rs \<subseteq> byte ` set s \<Longrightarrow> \<forall>r\<in>set rs. r < 128"
  by (auto simp: ascii_set)

definition requirements :: "nat list \<Rightarrow> (bool \<times> string) list" where
  "requirements rs = [(has_class Lower rs, lowerChars), (has_class Upper rs, upperChars),
     (has_class Digit rs, digitChars), (has_class Special rs, specialChars)]"

lemma req_bytes_all: "req_bytes (requirements rs) = byte ` set allPasswordChars"
  by (auto simp: req_bytes_def requirements_def allPasswordChars_def)

lemma wp_ensure:
  fixes w :: "('d, 's, 'z) world_scheme"
  assumes "ascii p" and "4 \<le> length p"
  shows "wp (ensurePasswordRequirements p) (\<lambda>p' _. length p' = length p
     \<and> set p' \<subseteq> set p \<union> set allPasswordChars
     \<and> (\<forall>c\<in>{Lower, Upper, Digit, Special}. has_class c (runes p) \<or> has_class c (runes p'))) w"
proof -
  let ?rs = "map byte p"
  have rs: "runes p = ?rs" using assms(1) by (rule runes_ascii)
  have nonempty: "\<forall>r\<in>set (requirements ?rs). snd r \<noteq> []"
    by (simp add: requirements_def lowerChars_def upperChars_def digitChars_def specialChars_def)
  have room: "0 + length (requirements ?rs) \<le> length ?rs" using assms(2) by (simp add: requirements_def)
  have eq: "(ensurePasswordRequirements p :: (('d, 's, 'z) world_scheme, string) act) = bnd (fold_act replace_missing (0, ?rs) (requirements ?rs))
      (\<lambda>(idx, rs'). ret (concat (map encode_rune rs')))"
    using assms(2) by (auto simp: ensurePasswordRequirements_def rs requirements_def Let_def)
  show ?thesis
    unfolding eq wp_bnd
  proof (rule wp_mono [OF wp_replace_missing [OF nonempty room]])
    fix st and w' :: "('d, 's, 'z) world_scheme"
    assume h: "case st of (i', rs') \<Rightarrow> length rs' = length ?rs \<and> 0 \<le> i' \<and> i' \<le> 0 + length (requirements ?rs)
      \<and> (\<forall>j. j < 0 \<or> i' \<le> j \<longrightarrow> rs' ! j = ?rs ! j)
      \<and> (\<forall>r\<in>set (requirements ?rs). \<not> fst r \<longrightarrow> (\<exists>j<i'. rs' ! j \<in> byte ` set (snd r)))
      \<and> set rs' \<subseteq> set ?rs \<union> req_bytes (requirements ?rs)"
    obtain i' rs' where st: "st = (i', rs')" by (cases st)
    from h have len: "length rs' = length p" and i': "i' \<le> 4"
      and new: "\<And>r. r \<in> set (requirements ?rs) \<Longrightarrow> \<not> fst r \<Longrightarrow> \<exists>j<i'. rs' ! j \<in> byte ` set (snd r)"
      by (auto simp: st requirements_def)
    from h have sub: "set rs' \<subseteq> byte ` (set p \<union> set allPasswordChars)"
      by (simp add: st req_bytes_all image_Un)
    have small: "\<forall>r\<in>set rs'. r < 128"
      using sub assms(1) password_alphabet(5) by (intro byte_list_ascii [of "p @ allPasswordChars"]) auto
    have res: "concat (map encode_rune rs') = map char_of rs'" by (rule encode_runes_ascii [OF small])
    have cls: "has_class c rs'" if "(has_class c ?rs, chars) \<in> set (requirements ?rs)" "\<not> has_class c ?rs"
      and "\<And>x. x \<in> set chars \<Longrightarrow> char_class (byte x) = c" for c chars
    proof -
      from new [OF that(1)] that(2) obtain j where "j < i'" "rs' ! j \<in> byte ` set chars" by auto
      moreover have "j < length rs'" using \<open>j < i'\<close> i' len assms(2) by simp
      ultimately have "rs' ! j \<in> set rs'" "char_class (rs' ! j) = c" using that(3) by auto
      then show ?thesis by (auto simp: has_class_def list_ex_iff)
    qed
    have "\<forall>c\<in>{Lower, Upper, Digit, Special}. has_class c ?rs \<or> has_class c rs'"
      using cls [of Lower lowerChars] cls [of Upper upperChars] cls [of Digit digitChars]
        cls [of Special specialChars]
      by (auto simp: requirements_def class_of_chars)
    moreover have "set (map char_of rs' :: string) \<subseteq> set p \<union> set allPasswordChars"
      using sub by auto
    ultimately show "wp (case st of (idx, rs') \<Rightarrow> ret (concat (map encode_rune rs'))) (\<lambda>p' _. length p' = length p
     \<and> set p' \<subseteq> set p \<union> set allPasswordChars
     \<and> (\<forall>c\<in>{Lower, Upper, Digit, Special}. has_class c (runes p) \<or> has_class c (runes p'))) w'"
      unfolding st prod.case wp_ret res runes_encode [OF small] rs using len by simp
  qed
qed


lemma wp_exists: "wp m (\<lambda>a _. P a) w \<Longrightarrow> \<exists>a w'. m w = (Ret a, w') \<and> P a"
  by (simp add: wp_returns)

lemma wp_generatePassword:
  "wp (generatePassword True) (\<lambda>p _. 16 \<le> length p \<and> length p \<le> 32 \<and> set p \<subseteq> set allPasswordChars) w"
  unfolding generatePassword_def wp_bnd Let_def
proof (rule wp_Intn, goal_cases)
  case (2 n w')
  have chars: "char_of ` set (runes allPasswordChars) = set allPasswordChars" "runes allPasswordChars \<noteq> []"
    using password_alphabet(5)
    by (simp_all add: runes_ascii image_image) (simp add: allPasswordChars_def lowerChars_def)
  show ?case
    unfolding simp_thms if_False wp_bnd
  proof (rule wp_mono [OF wp_draw_chars [OF chars(2)]], goal_cases)
    case (1 s w2)
    then have "ascii s" using password_alphabet(5) by (auto simp: chars ascii_set)
    moreover have "4 \<le> length s" using 1 by (simp add: passwordMinLength_def)
    ultimately show ?case
      by (rule wp_mono [OF wp_ensure])
        (use 1 2 in \<open>auto simp: chars passwordMinLength_def passwordMaxLength_def\<close>)
  qed
qed (simp add: passwordMinLength_def)

lemma accepted_alphabet: "c \<in> set allPasswordChars \<Longrightarrow>
    33 \<le> byte c \<and> byte c \<le> 126 \<and> c \<noteq> CHR 0x27 \<and> c \<noteq> CHR 0x22 \<and> c \<noteq> CHR 0x5C"
  by (auto simp: allPasswordChars_def lowerChars_def upperChars_def digitChars_def specialChars_def)

lemma generated_accepted:
  "16 \<le> length p \<Longrightarrow> length p \<le> 32 \<Longrightarrow> set p \<subseteq> set allPasswordChars \<Longrightarrow> ValidatePassword p = None"
  using accepted_alphabet unfolding ValidatePassword_None by force

text \<open>C23. Whatever the random source gives, a generated password has 16 to 32 characters from the
  generator's alphabet and \<open>security.ValidatePassword\<close> accepts it; when the system's random source
  fails, the result is the empty password, which it rejects.\<close>
theorem generatePassword_accepted:
  "(\<exists>p w'. generatePassword True w = (Ret p, w') \<and> 16 \<le> length p \<and> length p \<le> 32
      \<and> set p \<subseteq> set allPasswordChars \<and> ValidatePassword p = None)
   \<and> (\<exists>w'. generatePassword False w = (Ret [], w')) \<and> ValidatePassword [] \<noteq> None"
proof (intro conjI)
  show "\<exists>p w'. generatePassword True w = (Ret p, w') \<and> 16 \<le> length p \<and> length p \<le> 32
      \<and> set p \<subseteq> set allPasswordChars \<and> ValidatePassword p = None"
    by (rule wp_exists, rule wp_mono [OF wp_generatePassword]) (auto intro: generated_accepted)
  show "\<exists>w'. generatePassword False w = (Ret [], w')"
    by (simp add: generatePassword_def mrand_Intn_def bnd_def draw_def ret_def)
qed (simp add: ValidatePassword_None)

text \<open>The clean-up of a password gives every character class that was missing a character, in a
  password of at least four ASCII characters, and keeps the length.\<close>
theorem ensurePasswordRequirements_adds:
  assumes "ascii p" and "4 \<le> length p"
  shows "\<exists>p' w'. ensurePasswordRequirements p w = (Ret p', w') \<and> length p' = length p
     \<and> (\<forall>c\<in>{Lower, Upper, Digit, Special}. has_class c (runes p) \<or> has_class c (runes p'))"
  by (rule wp_exists, rule wp_mono [OF wp_ensure [OF assms]]) auto

theorem ensurePasswordRequirements_adds_witness:
  "\<exists>p' w'. ensurePasswordRequirements ''abcd'' (start_world ()) = (Ret p', w') \<and> length p' = 4
     \<and> has_class Upper (runes p')"
proof -
  have no: "\<not> has_class Upper (runes ''abcd'')"
    using class_of_chars(1) [of "CHR ''a''"] class_of_chars(1) [of "CHR ''b''"]
      class_of_chars(1) [of "CHR ''c''"] class_of_chars(1) [of "CHR ''d''"]
    by (simp add: has_class_def runes_ascii ascii_set lowerChars_def)
  have "ascii ''abcd''" "4 \<le> length ''abcd''" by (simp_all add: ascii_set)
  from ensurePasswordRequirements_adds [OF this, of "start_world ()"] no show ?thesis by auto
qed


text \<open>A password whose only digit comes first: the upper-case letter that is missing replaces it.\<close>

definition one_digit :: string where
  "one_digit = ''1aaaaaaaaaaaaaaa''"

lemma one_digit_facts:
  "ascii one_digit" "length one_digit = 16" "has_class Lower (runes one_digit)"
  "\<not> has_class Upper (runes one_digit)" "has_class Digit (runes one_digit)" "\<not> has_class Special (runes one_digit)"
  using class_of_chars(1) [of "CHR ''a''"] class_of_chars(3) [of "CHR ''1''"]
  by (simp_all add: one_digit_def has_class_def runes_ascii ascii_set lowerChars_def digitChars_def)

lemma wp_fun: "wp (ret a) Q = Q a" "wp (bnd m k) Q = wp m (\<lambda>a. wp (k a) Q)"
  by (simp_all add: fun_eq_iff wp_ret wp_bnd)

text \<open>The clean-up can lose a class: the password \<open>1aaaaaaaaaaaaaaa\<close> contains a digit, and whatever
  is drawn its clean-up, which replaces the characters from the first on, contains none.\<close>
theorem ensurePasswordRequirements_loses_digit:
  "has_class Digit (runes one_digit) \<and> (\<exists>p' w'. ensurePasswordRequirements one_digit w = (Ret p', w')
     \<and> \<not> has_class Digit (runes p'))"
proof (rule conjI [OF one_digit_facts(5)], rule wp_exists)
  note f = one_digit_facts
  let ?tl = "map byte ''aaaaaaaaaaaaaa''"
  have rs: "runes one_digit = 49 # 97 # ?tl" by (simp add: f runes_ascii) (simp add: one_digit_def)
  have res: "\<not> has_class Digit (runes (concat (map encode_rune (byte u # byte x # ?tl))))"
    if "u \<in> set upperChars" "x \<in> set specialChars" for u x
  proof -
    have small: "\<forall>r\<in>set (byte u # byte x # ?tl). r < 128"
      using that password_alphabet(2,4) by (auto simp: ascii_set)
    show ?thesis
      unfolding encode_runes_ascii [OF small] runes_encode [OF small]
      using class_of_chars(2) [OF that(1)] class_of_chars(4) [OF that(2)] class_of_chars(1) [of "CHR ''a''"]
      by (simp add: has_class_def lowerChars_def)
  qed
  have "wp (ensurePasswordRequirements one_digit) Q w = wp (mrand_Intn (length upperChars)) (\<lambda>k.
      wp (mrand_Intn (length specialChars)) (\<lambda>j. Q (concat (map encode_rune
        (byte (upperChars ! k) # byte (specialChars ! j) # ?tl))))) w" for Q
    unfolding ensurePasswordRequirements_def Let_def
    using f(3-6) by (simp add: rs replace_missing_simps wp_fun)
  moreover have "0 < length upperChars" "0 < length specialChars" by (simp_all add: upperChars_def specialChars_def)
  ultimately show "wp (ensurePasswordRequirements one_digit) (\<lambda>p' _. \<not> has_class Digit (runes p')) w"
    by (auto intro!: wp_Intn dest: res [OF nth_mem nth_mem, THEN notE] simp del: list.map)
qed

subsection \<open>User names\<close>

definition hexChars :: string where "hexChars = ''0123456789abcdef''"

lemma set_hex_encode:
  assumes "\<forall>b\<in>set bs. b < 256"
  shows "set (hex_encode bs) \<subseteq> set hexChars"
proof -
  have "hex_digit n \<in> set hexChars" if "n < 16" for n
    unfolding hex_digit_def hexChars_def using that by (intro nth_mem) simp
  with assms show ?thesis by (auto simp: hex_encode_def)
qed

lemma length_hex_encode: "length (hex_encode bs) = 2 * length bs"
  by (induction bs) (simp_all add: hex_encode_def)

lemma wp_draw_bytes: "wp (draw_bytes n) (\<lambda>bs _. length bs = n \<and> (\<forall>b\<in>set bs. b < 256)) w"
proof (induction n arbitrary: w)
  case (Suc n)
  show ?case
    unfolding draw_bytes.simps wp_bnd
    by (rule wp_drawI, rule wp_mono [OF Suc.IH]) (simp add: wp_ret)
qed (simp add: wp_ret)

lemma wp_generateUsername:
  "wp (generateUsername True p []) (\<lambda>u _. \<exists>h. u = (if p = [] then ''vault'' else p) @ ''_'' @ h
     \<and> length h = 16 \<and> set h \<subseteq> set hexChars) w"
  unfolding generateUsername_def Let_def
  unfolding simp_thms if_False not_True_eq_False wp_bnd
  by (rule wp_mono [OF wp_draw_bytes]) (use set_hex_encode in \<open>auto simp: wp_ret length_hex_encode\<close>)

lemma upper_hex:
  assumes "set h \<subseteq> set hexChars"
  shows "set (map upper_char h) \<subseteq> set ''0123456789ABCDEF''"
proof -
  have "upper_char ` set hexChars \<subseteq> set ''0123456789ABCDEF''"
    by (simp add: hexChars_def upper_char_def char_of_def bit_0)
  from subset_trans [OF image_mono [OF assms] this] show ?thesis by (simp only: set_map)
qed

text \<open>A pattern without an underscore that has a character no hexadecimal digit is can only be
  in the part before the underscore.\<close>

lemma pattern_split:
  assumes "CHR ''_'' \<notin> set q" and "c \<in> set q" and "c \<notin> set h"
  shows "Contains (p @ ''_'' @ h) q \<longleftrightarrow> Contains p q"
proof
  assume "Contains (p @ ''_'' @ h) q"
  then have "sublist q (p @ (CHR ''_'' # h))" by (simp add: Contains_def)
  then consider "sublist q p" | "sublist q (CHR ''_'' # h)"
    | a b where "q = a @ b" "suffix a p" "prefix b (CHR ''_'' # h)"
    by (auto simp: sublist_append)
  then show "Contains p q"
  proof cases
    case 2
    then have "set q \<subseteq> set (CHR ''_'' # h)" by (rule set_mono_sublist)
    with assms have False by auto
    then show ?thesis ..
  next
    case 3
    with assms(1) have "b = []" by (cases b) auto
    with 3 show ?thesis by (simp add: Contains_def suffix_imp_sublist)
  qed (simp add: Contains_def)
qed (auto simp: Contains_def sublist_append)

text \<open>The two patterns that end in an underscore.\<close>

lemma pattern_underscore:
  assumes "CHR ''_'' \<notin> set q" and "q \<noteq> []" and "CHR ''_'' \<notin> set h" and "hd q \<notin> set h"
  shows "Contains (p @ ''_'' @ h) (q @ ''_'') \<longleftrightarrow> Contains p (q @ ''_'') \<or> suffix q p"
proof
  assume "Contains (p @ ''_'' @ h) (q @ ''_'')"
  then obtain a b where ab: "p @ CHR ''_'' # h = a @ q @ CHR ''_'' # b" by (auto simp: Contains_iff)
  then obtain us where "(p = a @ q @ us \<and> us @ CHR ''_'' # h = CHR ''_'' # b)
      \<or> (p @ us = a @ q \<and> CHR ''_'' # h = us @ CHR ''_'' # b)"
    by (auto simp: append_eq_append_conv2 simp flip: append_assoc)
  then show "Contains p (q @ ''_'') \<or> suffix q p"
  proof
    assume h: "p = a @ q @ us \<and> us @ CHR ''_'' # h = CHR ''_'' # b"
    show ?thesis
    proof (cases us)
      case Nil
      with h show ?thesis by (auto simp: suffix_def)
    next
      case (Cons c us')
      with h have "p = a @ (q @ ''_'') @ us'" by auto
      then show ?thesis by (auto simp: Contains_iff)
    qed
  next
    assume h: "p @ us = a @ q \<and> CHR ''_'' # h = us @ CHR ''_'' # b"
    show ?thesis
    proof (cases us)
      case Nil
      with h show ?thesis by (auto simp: suffix_def)
    next
      case (Cons c us')
      with h assms(3) show ?thesis by auto
    qed
  qed
next
  assume "Contains p (q @ ''_'') \<or> suffix q p"
  then show "Contains (p @ ''_'' @ h) (q @ ''_'')"
    by (auto simp: Contains_iff suffix_def)
      (metis append.assoc append_Cons, metis append.assoc append_Cons append_Nil)
qed


lemma hex_no: "set h \<subseteq> set hexChars \<Longrightarrow> c \<notin> set ''0123456789ABCDEF'' \<Longrightarrow> c \<notin> set (map upper_char h)"
  using upper_hex by blast

definition outside_hex :: "string \<Rightarrow> bool" where
  "outside_hex q \<longleftrightarrow> CHR ''_'' \<notin> set q \<and> list_ex (\<lambda>c. c \<notin> set ''0123456789ABCDEF'') q"

lemma username_pattern:
  assumes "set h \<subseteq> set hexChars" and "outside_hex q"
  shows "Contains (map upper_char (p @ ''_'' @ h)) q \<longleftrightarrow> Contains (map upper_char p) q"
proof -
  from assms(2) obtain c where "CHR ''_'' \<notin> set q" "c \<in> set q" "c \<notin> set ''0123456789ABCDEF''"
    by (auto simp: outside_hex_def list_ex_iff)
  from pattern_split [OF this(1,2) hex_no [OF assms(1) this(3)], of "map upper_char p"]
  show ?thesis by (simp add: upper_char_def)
qed

lemma username_underscore:
  assumes "set h \<subseteq> set hexChars" and "q = ''XP'' \<or> q = ''SP''"
  shows "Contains (map upper_char (p @ ''_'' @ h)) (q @ ''_'')
     \<longleftrightarrow> Contains (map upper_char p) (q @ ''_'') \<or> suffix q (map upper_char p)"
proof -
  have "CHR ''_'' \<notin> set (map upper_char h)" "hd q \<notin> set (map upper_char h)"
    using hex_no [OF assms(1), of "CHR ''_''"] hex_no [OF assms(1), of "CHR ''X''"]
      hex_no [OF assms(1), of "CHR ''S''"] assms(2) by (auto simp del: set_map list.set_map)
  from pattern_underscore [OF _ _ this, of "map upper_char p"] assms(2)
  show ?thesis by (auto simp: upper_char_def)
qed

definition plain_patterns :: "string list" where
  "plain_patterns = ['';'', ''--'', ''/*'', ''*/'', ''sys.'', ''sysobjects'', ''waitfor'', ''delay'', ''0x'',
     ''char('', ''nchar('', ''varchar('']"

lemma odbc_patterns_split:
  "(\<forall>q\<in>set odbc_sqlInjectionPatterns. P q) \<longleftrightarrow> P ''xp_'' \<and> P ''sp_'' \<and> (\<forall>q\<in>set plain_patterns. P q)"
  by (auto simp: odbc_sqlInjectionPatterns_def plain_patterns_def)

lemma patterns_outside:
  "q \<in> set plain_patterns \<Longrightarrow> outside_hex (map upper_char q)"
  "k \<in> set odbc_sqlKeywords \<Longrightarrow> outside_hex k"
proof -
  have "map (map upper_char) plain_patterns = ['';'', ''--'', ''/*'', ''*/'', ''SYS.'', ''SYSOBJECTS'', ''WAITFOR'',
      ''DELAY'', ''0X'', ''CHAR('', ''NCHAR('', ''VARCHAR('']"
    by (simp add: plain_patterns_def upper_char_def char_of_def bit_0)
  then have "list_all outside_hex (map (map upper_char) plain_patterns)"
    by (simp add: outside_hex_def)
  then have "list_all (\<lambda>q. outside_hex (map upper_char q)) plain_patterns"
    by (simp only: list_all_iff list.set_map ball_simps)
  moreover have "list_all outside_hex odbc_sqlKeywords"
    by (simp add: odbc_sqlKeywords_def outside_hex_def)
  ultimately
  show "q \<in> set plain_patterns \<Longrightarrow> outside_hex (map upper_char q)"
    "k \<in> set odbc_sqlKeywords \<Longrightarrow> outside_hex k" by (auto simp: list_all_iff)
qed

lemma upper_xp: "map upper_char ''xp_'' = ''XP'' @ ''_''" "map upper_char ''sp_'' = ''SP'' @ ''_''"
  by (simp_all add: upper_char_def char_of_def bit_0)

lemma generated_name_accepted:
  assumes "odbc_ValidateUsername U p = None" and h: "set h \<subseteq> set hexChars" "length h = 16"
  shows "odbc_ValidateUsername U (p @ ''_'' @ h) = None \<longleftrightarrow>
     length p \<le> 13 \<and> \<not> suffix ''XP'' (map upper_char p) \<and> \<not> suffix ''SP'' (map upper_char p)"
proof -
  have chars: "set hexChars \<subseteq> set usernameChars" "CHR ''_'' \<in> set usernameChars"
    by (simp_all add: hexChars_def usernameChars_def)
  with h(1) have alpha: "set (p @ ''_'' @ h) \<subseteq> set usernameChars \<longleftrightarrow> set p \<subseteq> set usernameChars" by auto
  have "odbc_ValidateUsername U (p @ ''_'' @ h) = None \<longleftrightarrow>
      length p + 17 \<le> 30 \<and> set p \<subseteq> set usernameChars
      \<and> \<not> (Contains (map upper_char p) (''XP'' @ ''_'') \<or> suffix ''XP'' (map upper_char p))
      \<and> \<not> (Contains (map upper_char p) (''SP'' @ ''_'') \<or> suffix ''SP'' (map upper_char p))
      \<and> (\<forall>q\<in>set plain_patterns. \<not> Contains (map upper_char p) (map upper_char q))
      \<and> (\<forall>k\<in>set odbc_sqlKeywords. \<not> Contains (map upper_char p) k)"
    unfolding odbc_ValidateUsername_None odbc_patterns_split alpha upper_xp
    using username_underscore [OF h(1), of "''XP''" p] username_underscore [OF h(1), of "''SP''" p]
      username_pattern [OF h(1) patterns_outside(1), of _ p] username_pattern [OF h(1) patterns_outside(2), of _ p]
      h(2) by (simp del: list.map map_append)
  then show ?thesis
    using assms(1) unfolding odbc_ValidateUsername_None odbc_patterns_split upper_xp by auto
qed

text \<open>C24. The prefix of a role is checked before a name is generated from it, but the check of the
  prefix does not decide the check of the name: with a prefix that passes, the name is the prefix,
  an underscore and 16 hexadecimal digits, and it is accepted exactly when the prefix has at most 13
  characters and does not end in \<open>xp\<close> or \<open>sp\<close> in any case. The outcome does not depend on what is
  drawn.\<close>
theorem generateUsername_accepted_iff:
  assumes "odbc_ValidateUsername U p = None"
  shows "\<exists>u w'. generateUsername True p [] w = (Ret u, w') \<and> length u = length p + 17 \<and>
     (odbc_ValidateUsername U u = None \<longleftrightarrow>
        length p \<le> 13 \<and> \<not> suffix ''XP'' (map upper_char p) \<and> \<not> suffix ''SP'' (map upper_char p))"
proof -
  from assms have "p \<noteq> []" by (simp add: odbc_ValidateUsername_None)
  then show ?thesis
    by (intro wp_exists wp_mono [OF wp_generateUsername]) (auto simp: generated_name_accepted [OF assms, simplified])
qed

lemma app_xp_accepted: "odbc_ValidateUsername plain_tables ''app_xp'' = None"
  by (simp add: odbc_ValidateUsername_None usernameChars_def odbc_sqlInjectionPatterns_def odbc_sqlKeywords_def go_eval)

theorem generateUsername_accepted_iff_witness:
  "\<exists>u w'. generateUsername True ''app_xp'' [] (start_world ()) = (Ret u, w')
     \<and> odbc_ValidateUsername plain_tables ''app_xp'' = None \<and> odbc_ValidateUsername plain_tables u \<noteq> None"
  using generateUsername_accepted_iff [OF app_xp_accepted, of "start_world ()"] app_xp_accepted
  by (auto simp: upper_char_def char_of_def bit_0 suffix_to_prefix)

text \<open>A role with a suffix of its own gives every credential the same user name, whatever the
  random source, and a role without prefix and suffix gets a name that is always accepted.\<close>
theorem generateUsername_fixed:
  "(suffixCustom \<noteq> [] \<longrightarrow> generateUsername ok p suffixCustom w
      = (Ret ((if p = [] then ''vault'' else p) @ ''_'' @ suffixCustom), w)) \<and>
   (\<exists>u w'. generateUsername True [] [] w = (Ret u, w') \<and> odbc_ValidateUsername U u = None)"
proof (rule conjI)
  have v: "odbc_ValidateUsername U ''vault'' = None"
    by (simp add: odbc_ValidateUsername_None usernameChars_def odbc_sqlInjectionPatterns_def odbc_sqlKeywords_def go_eval)
  have ok: "odbc_ValidateUsername U (''vault'' @ ''_'' @ h) = None"
    if "set h \<subseteq> set hexChars" "length h = 16" for h
    using generated_name_accepted [OF v that] by (simp add: upper_char_def char_of_def bit_0 suffix_to_prefix)
  show "\<exists>u w'. generateUsername True [] [] w = (Ret u, w') \<and> odbc_ValidateUsername U u = None"
    by (rule wp_exists, rule wp_mono [OF wp_generateUsername]) (use ok in auto)
qed (simp add: generateUsername_def ret_def)

theorem generateUsername_fixed_witness:
  "generateUsername True ''app'' ''ro'' (start_world ()) = (Ret ''app_ro'', start_world ())"
  using generateUsername_fixed [of "''ro''" True "''app''" "start_world ()" plain_tables] by simp

end
