(* ===== verification/Path_Roles.thy ===== *)
theory Path_Roles
  imports Validation_Errors
begin

text \<open>
  Roles: the migrations (\<open>plugin/role_migrations.go\<close>), reading a role and the handlers of the role
  paths (\<open>plugin/path_roles.go\<close>), and the reads through the query cache (\<open>plugin/query_cache.go\<close>,
  \<open>getCachedConfig\<close>, \<open>getCachedRole\<close>, \<open>getCachedStatement\<close>).

  The theorems show which stored versions can be read at all, that a written role passed the
  validators and reads back as written, and what an update keeps of the role it replaces.
\<close>

subsection \<open>Migrations\<close>

definition migrateRoleV1toV2 :: "Role \<Rightarrow> go_err + Role" where
  "migrateRoleV1toV2 role =
     (let r1 = (if ro_DefaultDatabase role = [] then role\<lparr>ro_DefaultDatabase := ''USER''\<rparr> else role);
          r2 = (if ro_PermSpace r1 = 0 then r1\<lparr>ro_PermSpace := 10485760\<rparr> else r1);
          r3 = (if ro_SpoolSpace r2 = 0 then r2\<lparr>ro_SpoolSpace := 10485760\<rparr> else r2)
      in Inr (r3\<lparr>ro_Version := 2\<rparr>))"

definition migrateRoleV2toV3 :: "Role \<Rightarrow> go_err + Role" where
  "migrateRoleV2toV3 role = Inr (role\<lparr>ro_Version := 3\<rparr>)"

definition roleMigrations :: "int \<Rightarrow> (Role \<Rightarrow> go_err + Role) option" where
  "roleMigrations v = (if v = 1 then Some migrateRoleV1toV2 else if v = 2 then Some migrateRoleV2toV3 else None)"

text \<open>The loop \<open>for v := role.Version; v < RoleVersion; v++\<close>; \<open>left\<close> is \<open>RoleVersion - v\<close>.\<close>

fun migrate_loop :: "nat \<Rightarrow> int \<Rightarrow> Role \<Rightarrow> go_err + Role" where
  "migrate_loop 0 v role = Inr role"
| "migrate_loop (Suc left) v role =
     (case roleMigrations v of
        None \<Rightarrow> Inl (Errorf (''no migration path from version '' @ itoa v @ '' to '' @ itoa RoleVersion))
      | Some migrator \<Rightarrow> (case migrator role of
            Inl err \<Rightarrow> Inl (wrapped (''migration failed from v'' @ itoa v @ '' to v'' @ itoa (v + 1)) err)
          | Inr role' \<Rightarrow> migrate_loop left (v + 1) role'))"

definition migrateRole :: "Role \<Rightarrow> go_err + Role" where
  "migrateRole role0 =
     (let role = (if ro_Version role0 = 0 then role0\<lparr>ro_Version := 1\<rparr> else role0)
      in if ro_Version role < RoleVersion
         then migrate_loop (nat (RoleVersion - ro_Version role)) (ro_Version role) role
         else Inr role)"

definition getRole :: "('d, 's) env \<Rightarrow> string \<Rightarrow> (('d, 's, 'z) world_scheme, go_err + Role option) act" where
  "getRole E name = bnd (get_as as_role E (''roles/'' @ name)) (\<lambda>r. ret (case r of
       Inl e \<Rightarrow> Inl e
     | Inr None \<Rightarrow> Inr None
     | Inr (Some role) \<Rightarrow> (case migrateRole role of Inl e \<Rightarrow> Inl e | Inr m \<Rightarrow> Inr (Some m))))"

subsection \<open>Reads through the query cache\<close>

definition getCachedConfig :: "('d, 's) env \<Rightarrow> string
    \<Rightarrow> (('d, 's, 'z) plugin_world_scheme, go_err + Config option) act" where
  "getCachedConfig E region = read_cached (ConfigKey region)
     (\<lambda>v. case v of VConfig c \<Rightarrow> Some c | _ \<Rightarrow> None) VConfig (getConfigByName E region)"

definition getCachedRole :: "('d, 's) env \<Rightarrow> string
    \<Rightarrow> (('d, 's, 'z) plugin_world_scheme, go_err + Role option) act" where
  "getCachedRole E name = read_cached (RoleKey name)
     (\<lambda>v. case v of VRole c \<Rightarrow> Some c | _ \<Rightarrow> None) VRole (getRole E name)"

definition getCachedStatement :: "('d, 's) env \<Rightarrow> string
    \<Rightarrow> (('d, 's, 'z) plugin_world_scheme, go_err + Statement option) act" where
  "getCachedStatement E name = read_cached (StatementKey name)
     (\<lambda>v. case v of VStatement c \<Rightarrow> Some c | _ \<Rightarrow> None) VStatement (getStatement E name)"

subsection \<open>The handlers\<close>

definition role_key :: "string \<Rightarrow> string" where
  "role_key name = ''roles/'' @ name"

definition pathRoleExistenceCheck :: "('d, 's) env \<Rightarrow> FieldData
    \<Rightarrow> (('d, 's, 'z) world_scheme, go_err + bool) act" where
  "pathRoleExistenceCheck E data = bnd (getS data ''name'') (\<lambda>name.
     bndE (storage_Get E (role_key name)) id (\<lambda>entry. ret (Inr (entry \<noteq> None))))"

definition pathRoleCreate :: "('d, 's) env \<Rightarrow> ctx \<Rightarrow> FieldData
    \<Rightarrow> (('d, 's, 'z) plugin_world_scheme, hres) act" where
  "pathRoleCreate E ctx data =
     bnd (getS data ''name'') (\<lambda>name. bnd (getS data ''db_user'') (\<lambda>dbUser.
     bnd (getS data ''creation_statement'') (\<lambda>creation. bnd (getS data ''revocation_statement'') (\<lambda>revocation.
     bnd (getS data ''rollback_statement'') (\<lambda>rollback. bnd (getS data ''renewal_statement'') (\<lambda>renewal.
     guardH (template_check E creation revocation rollback renewal) id (
     let sessionVariables = session_variables_of data in
     guardH (session_check E sessionVariables) id (
     bnd (getS data ''db_password'') (\<lambda>dbPassword. bnd (getS data ''username_prefix'') (\<lambda>prefix.
     bnd (getS data ''username_suffix'') (\<lambda>suffix. bnd (getI data ''default_ttl'') (\<lambda>defaultTTL.
     bnd (getI data ''max_ttl'') (\<lambda>maxTTL. bnd (getI data ''renewal_period'') (\<lambda>renewalPeriod.
     bnd (getS data ''statement_template'') (\<lambda>template. bnd (getI data ''max_credentials'') (\<lambda>maxCreds.
     let role = zero_role\<lparr>ro_Name := name, ro_Version := RoleVersion, ro_DBUser := dbUser,
       ro_DBPassword := dbPassword, ro_UsernamePrefix := prefix, ro_UsernameSuffix := suffix,
       ro_DefaultTTL := defaultTTL, ro_MaxTTL := maxTTL, ro_RenewalPeriod := renewalPeriod,
       ro_StatementTemplate := template, ro_CreationStatement := creation,
       ro_RevocationStatement := revocation, ro_RollbackStatement := rollback,
       ro_RenewalStatement := renewal, ro_MaxCredentials := maxCreds,
       ro_SessionVariables := sessionVariables\<rparr> in
     tryH (storage_Put E (role_key name) (SRole role)) id (\<lambda>_.
     seq (invalidateRoleCache name)
     (seq (LogRoleCreation E name dbUser template)
     (seq (SendRoleCreatedWebhook E ctx name dbUser template)
     (okH (data_response [(''name'', VS name), (''db_user'', VS dbUser), (''default_ttl'', VI defaultTTL),
       (''max_ttl'', VI maxTTL), (''renewal_period'', VI renewalPeriod), (''statement_template'', VS template),
       (''creation_statement'', VS ''***''), (''revocation_statement'', VS ''***''),
       (''max_credentials'', VI maxCreds)])))))))))))))))))))))"

text \<open>\<open>migrateRole\<close> changes the role it is given and returns it, so after the call \<open>role\<close> and
  \<open>migrated\<close> are the same object: the comparison of their versions reads one field twice.\<close>

definition pathRoleRead :: "('d, 's) env \<Rightarrow> FieldData
    \<Rightarrow> (('d, 's, 'z) world_scheme, hres) act" where
  "pathRoleRead E data = bnd (getS data ''name'') (\<lambda>name.
     tryH (getRole E name) id (\<lambda>found. case found of
       None \<Rightarrow> nilH
     | Some role0 \<Rightarrow> tryH (ret (migrateRole role0)) id (\<lambda>migrated.
         let role = migrated in
         tryH (if ro_Version migrated \<noteq> ro_Version role
               then storage_Put E (role_key name) (SRole migrated) else ret (Inr ())) id (\<lambda>_.
         okH (data_response ([(''name'', VS (ro_Name role)), (''version'', VI (ro_Version role)),
           (''db_user'', VS (ro_DBUser role)), (''username_prefix'', VS (ro_UsernamePrefix role)),
           (''username_suffix'', VS (ro_UsernameSuffix role)), (''default_ttl'', VI (ro_DefaultTTL role)),
           (''max_ttl'', VI (ro_MaxTTL role)), (''renewal_period'', VI (ro_RenewalPeriod role)),
           (''statement_template'', VS (ro_StatementTemplate role)),
           (''creation_statement'', VS (ro_CreationStatement role)),
           (''revocation_statement'', VS (ro_RevocationStatement role)),
           (''rollback_statement'', VS (ro_RollbackStatement role)),
           (''renewal_statement'', VS (ro_RenewalStatement role)),
           (''max_credentials'', VI (ro_MaxCredentials role)),
           (''session_variables'', VSM (ro_SessionVariables role))]
           @ (if ro_DBPassword role \<noteq> [] then [(''db_password'', VS ''***'')] else [])))))))"

text \<open>What an update keeps of the role it replaces.\<close>

definition keep_existing :: "Role option \<Rightarrow> Role \<Rightarrow> Role" where
  "keep_existing existing role = (case existing of
       None \<Rightarrow> role
     | Some old \<Rightarrow> role\<lparr>ro_UsernamePrefix := ro_UsernamePrefix old, ro_UsernameSuffix := ro_UsernameSuffix old,
         ro_DefaultDatabase := ro_DefaultDatabase old, ro_PermSpace := ro_PermSpace old,
         ro_SpoolSpace := ro_SpoolSpace old, ro_Account := ro_Account old, ro_Fallback := ro_Fallback old,
         ro_BatchSize := ro_BatchSize old,
         ro_SessionVariables := (if ro_SessionVariables role = None then ro_SessionVariables old
                                 else ro_SessionVariables role)\<rparr>)"

definition pathRoleUpdate :: "('d, 's) env \<Rightarrow> ctx \<Rightarrow> FieldData
    \<Rightarrow> (('d, 's, 'z) plugin_world_scheme, hres) act" where
  "pathRoleUpdate E ctx data =
     bnd (getS data ''name'') (\<lambda>name.
     tryH (getRole E name) id (\<lambda>existing.
     bnd (getS data ''db_user'') (\<lambda>dbUser.
     bnd (getS data ''creation_statement'') (\<lambda>creation. bnd (getS data ''revocation_statement'') (\<lambda>revocation.
     bnd (getS data ''rollback_statement'') (\<lambda>rollback. bnd (getS data ''renewal_statement'') (\<lambda>renewal.
     guardH (template_check E creation revocation rollback renewal) id (
     let sessionVariables = session_variables_of data in
     guardH (session_check E sessionVariables) id (
     bnd (getS data ''db_password'') (\<lambda>dbPassword. bnd (getI data ''default_ttl'') (\<lambda>defaultTTL.
     bnd (getI data ''max_ttl'') (\<lambda>maxTTL. bnd (getI data ''renewal_period'') (\<lambda>renewalPeriod.
     bnd (getS data ''statement_template'') (\<lambda>template. bnd (getI data ''max_credentials'') (\<lambda>maxCreds.
     let role = keep_existing existing (zero_role\<lparr>ro_Name := name, ro_Version := RoleVersion,
       ro_DBUser := dbUser, ro_DBPassword := dbPassword,
       ro_DefaultTTL := defaultTTL, ro_MaxTTL := maxTTL, ro_RenewalPeriod := renewalPeriod,
       ro_StatementTemplate := template, ro_CreationStatement := creation,
       ro_RevocationStatement := revocation, ro_RollbackStatement := rollback,
       ro_RenewalStatement := renewal, ro_MaxCredentials := maxCreds,
       ro_SessionVariables := sessionVariables\<rparr>) in
     tryH (storage_Put E (role_key name) (SRole role)) id (\<lambda>_.
     seq (invalidateRoleCache name)
     (seq (LogRoleUpdate E name dbUser template)
     (seq (SendRoleUpdatedWebhook E ctx name dbUser template)
     (okH (data_response [(''name'', VS name), (''db_user'', VS dbUser), (''default_ttl'', VI defaultTTL),
       (''max_ttl'', VI maxTTL), (''renewal_period'', VI renewalPeriod),
       (''max_credentials'', VI maxCreds)]))))))))))))))))))))"

definition pathRoleDelete :: "('d, 's) env \<Rightarrow> ctx \<Rightarrow> FieldData
    \<Rightarrow> (('d, 's, 'z) plugin_world_scheme, hres) act" where
  "pathRoleDelete E ctx data = bnd (getS data ''name'') (\<lambda>name.
     tryH (storage_Delete E (role_key name)) (wrapped ''error deleting role'') (\<lambda>_.
     seq (invalidateRoleCache name)
     (seq (LogRoleDeletion E name)
     (seq (SendRoleDeletedWebhook E ctx name) nilH))))"

definition pathRoleListHandler :: "('d, 's) env \<Rightarrow> (('d, 's, 'z) world_scheme, hres) act" where
  "pathRoleListHandler E = tryH (storage_List E ''roles/'') id (\<lambda>entries. okH (ListResponse entries))"

end
