(* ===== verification/Exec_Sql.thy ===== *)
theory Exec_Sql
  imports Cred_Gen Path_Roles
begin

text \<open>
  How the handlers reach the database (\<open>plugin/path_creds.go\<close>, lines 672 to 803 and 952 to 965):
  the retry configuration and the connection string of a stored configuration, \<open>executeSQL\<close> and
  the two helpers beside it.

  The theorems show what a handler's SQL can do: nothing but append statements of the given text,
  sent over the configured connection string, to the log; storage and the backend's state stay
  as they are.
\<close>

subsection \<open>The configuration\<close>

definition buildRetryConfig :: "Config \<Rightarrow> 'w RetryConfig" where
  "buildRetryConfig cfg =
     (let maxRetries = (if cf_MaxRetries cfg \<le> 0 then DefaultMaxAttempts else cf_MaxRetries cfg);
          initial0 = i64 (cf_InitialRetryInterval cfg * millisecond);
          initialInterval = (if initial0 \<le> 0 then DefaultInitialInterval else initial0);
          max0 = i64 (cf_MaxRetryInterval cfg * millisecond);
          maxInterval = (if max0 \<le> 0 then DefaultMaxInterval else max0);
          multiplier = (if cf_RetryMultiplier cfg \<le> 0 then DefaultMultiplier else cf_RetryMultiplier cfg)
      in plain_retry maxRetries initialInterval maxInterval multiplier)"

definition append_settings :: "Config \<Rightarrow> string \<Rightarrow> string" where
  "append_settings cfg s0 =
     (let s1 = AppendSessionTimeout s0 (cf_SessionTimeout cfg);
          s2 = AppendTimeZone s1 (cf_TimeZone cfg);
          s3 = AppendCharacterSet s2 (cf_CharacterSet cfg)
      in AppendQueryTimeout s3 (cf_QueryTimeout cfg))"

text \<open>The parameters of a template, as the map literal lists them; \<open>ord\<close> is the order in which the run
  visits the map.\<close>

definition template_params :: "Config \<Rightarrow> (string \<times> string) list" where
  "template_params cfg = [(''server'', cf_Server cfg), (''port'', itoa (cf_Port cfg)),
     (''database'', cf_Database cfg), (''username'', cf_Username cfg), (''password'', cf_Password cfg)]"

definition buildConnectionString :: "(string list \<Rightarrow> string list) \<Rightarrow> Config \<Rightarrow> go_err + string" where
  "buildConnectionString ord cfg =
     (if cf_ConnectionString cfg \<noteq> [] then Inr (append_settings cfg (cf_ConnectionString cfg))
      else if cf_ConnectionStringTemplate cfg \<noteq> [] then
        Inr (append_settings cfg (BuildConnectionStringFromTemplate (cf_ConnectionStringTemplate cfg)
          (map_entries ord (template_params cfg))))
      else Inl (Errorf ''no connection string or template configured''))"

subsection \<open>Execution\<close>

text \<open>\<open>executeSQL\<close> returns a nil result or an error; \<open>conn_limit\<close> is the call of \<open>SetMaxResultRows\<close>.\<close>

definition conn_limit :: "Config \<Rightarrow> Connection \<Rightarrow> Connection" where
  "conn_limit cfg conn = (if 0 < cf_MaxResultRows cfg then SetMaxResultRows (cf_MaxResultRows cfg) conn else conn)"

definition executeSQL :: "('d, 's) env \<Rightarrow> ctx \<Rightarrow> Config \<Rightarrow> string
    \<Rightarrow> (('d, 's, 'z) world_scheme, go_err + unit) act" where
  "executeSQL E ctx cfg sql =
     (case buildConnectionString (e_ord E) cfg of
        Inl err \<Rightarrow> ret (Inl (wrapped ''failed to build connection string'' err))
      | Inr connString \<Rightarrow>
          bnd (Do ctx (Some (buildRetryConfig cfg)) (with_connection (e_D E) connString (\<lambda>conn.
                 ExecuteMultipleStatements (e_D E) ctx (conn_limit cfg conn) sql))) (\<lambda>err.
          ret (case err of None \<Rightarrow> Inr ()
               | Some e \<Rightarrow> Inl (wrapped ''executeSQL failed after retries'' e))))"

definition executeGrantStatements :: "('d, 's) env \<Rightarrow> ctx \<Rightarrow> string \<Rightarrow> string
    \<Rightarrow> (('d, 's, 'z) world_scheme, go_err option) act" where
  "executeGrantStatements E ctx connString grantStatements =
     (if TrimSpace grantStatements = [] then ret None
      else bnd (Do ctx None (with_connection (e_D E) connString (\<lambda>conn.
             ExecuteGrantStatements (e_U E) (e_D E) ctx conn grantStatements))) (\<lambda>err.
           ret (map_option (wrapped ''executeGrantStatements failed after retries'') err)))"

definition executeSessionVariables :: "('d, 's) env \<Rightarrow> ctx \<Rightarrow> Config \<Rightarrow> (string \<times> string) list
    \<Rightarrow> (('d, 's, 'z) world_scheme, go_err option) act" where
  "executeSessionVariables E ctx cfg sessionVars =
     (if length sessionVars = 0 then ret None
      else for_err (buildSessionVariableSQL (e_ord E) sessionVars) (\<lambda>stmt.
        bnd (executeSQL E ctx cfg stmt) (\<lambda>r. ret (map_option
          (wrapped (''failed to execute session variable '' @ qq stmt)) (sum_to_err r)))))"

subsection \<open>What is sent\<close>

lemma conn_limit_new:
  "query_config (conn_limit cfg (new_connection cs)) = retries_of DefaultQueryRetryConfig"
  "with_handle (conn_limit cfg (new_connection cs)) k = k cs" "co_connected (conn_limit cfg (new_connection cs))"
  by (simp_all add: conn_limit_def SetMaxResultRows_def query_config_def with_handle_def new_connection_def
      retries_of_def DefaultQueryRetryConfig_def odbc_DefaultMaxRetries_def)

lemma ExecuteMultiple_limit:
  "ExecuteMultipleStatements D ctx (conn_limit cfg (new_connection cs)) sql
     = ExecuteMultipleStatements D ctx (new_connection cs) sql"
  by (simp add: ExecuteMultipleStatements_def conn_limit_new conn_limit_new(1) new_connection_config)

lemma sends_backoff: "sends cs P (calculateConnectBackoff n cfg)" "sends cs P (calculateQueryBackoff n cfg')"
  unfolding calculateConnectBackoff_def calculateQueryBackoff_def
  by (intro sends_combinators sends_effects)+

lemma sends_connect_loop: "sends cs P (connect_loop D cs' cfg left attempt lastErr)"
proof (induction left arbitrary: attempt lastErr)
  case 0
  show ?case by (subst connect_loop.simps) (auto intro!: sends_combinators)
next
  case (Suc left)
  show ?case
    by (subst connect_loop.simps)
      (auto simp: connect_once_def sql_Open_def db_Ping_def db_Close_def
        intro!: sends_combinators sends_on_db sends_effects sends_backoff Suc.IH split: option.split)
qed

lemma sends_Connect: "sends cs P (Connect D cs')"
  unfolding Connect_def odbc_ConnectWithRetry_def Let_def
  by (intro sends_combinators sends_connect_loop)

lemma sends_Close: "sends cs P (CloseConn D c)"
  unfolding CloseConn_def db_Close_def Let_def
  by (auto intro!: sends_combinators sends_on_db split: option.split)

text \<open>Actions that always return.\<close>

definition total :: "('w, 'a) act \<Rightarrow> bool" where
  "total m \<longleftrightarrow> (\<forall>w. \<exists>a w'. m w = (Ret a, w'))"

lemma total_bnd:
  assumes "total m" and "\<And>a. total (k a)"
  shows "total (bnd m k)"
  unfolding total_def
proof
  fix w
  from assms(1) obtain a w' where "m w = (Ret a, w')" unfolding total_def by blast
  with assms(2) [of a] show "\<exists>a w'. bnd m k w = (Ret a, w')" by (simp add: bnd_def total_def)
qed

lemma total_combinators:
  "total (ret r)" "total (gets g)" "total (modify u)"
  "total m \<Longrightarrow> (\<And>a. total (k a)) \<Longrightarrow> total (bnd m k)"
  "total m1 \<Longrightarrow> total n1 \<Longrightarrow> total (seq m1 n1)"
  "(b \<Longrightarrow> total m2) \<Longrightarrow> (\<not> b \<Longrightarrow> total n2) \<Longrightarrow> total (if b then m2 else n2)"
  "(x = None \<Longrightarrow> total m3) \<Longrightarrow> (\<And>a. x = Some a \<Longrightarrow> total (k' a)) \<Longrightarrow> total (case x of None \<Rightarrow> m3 | Some a \<Rightarrow> k' a)"
  by (auto simp: seq_def intro!: total_bnd split: option.split) (simp_all add: total_def ret_def gets_def modify_def)

lemma total_basic: "total tick" "total draw" "total (sleep_ctx c d)" "total (time_Sleep d)"
  by (simp_all add: total_def tick_def draw_def sleep_ctx_def time_Sleep_def modify_def Let_def)

lemma total_on_db: "total (on_db f)"
  unfolding on_db_def
  by (rule total_combinators(5) [OF total_basic(1)]) (simp add: total_def split: prod.split)

lemma total_effects:
  "total time_Now" "total (ctx_poll c)" "total rand_Float64" "total (db_Exec D cs q)"
  unfolding time_Now_def ctx_poll_def rand_Float64_def db_Exec_def
  by (intro total_combinators total_basic total_on_db)+

lemma wp_total:
  assumes "total m" and "keeps I m" and "returns P m" and "I w"
  shows "wp m (\<lambda>a w'. P a \<and> I w') w"
proof -
  from assms(1) obtain a w' where r: "m w = (Ret a, w')" unfolding total_def by blast
  moreover from r assms(3) have "P a" by (simp add: returns_def) (metis fst_conv)
  moreover from keepsD [OF assms(2,4)] r have "I w'" by simp
  ultimately show ?thesis by (simp add: wp_def)
qed

lemma wp_keeps: "wp m P w \<Longrightarrow> keeps I m \<Longrightarrow> I w \<Longrightarrow> wp m (\<lambda>a w'. P a w' \<and> I w') w"
  by (auto simp: wp_returns keeps_def)

lemma total_connect_loop: "0 < left \<or> lastErr \<noteq> None \<Longrightarrow> total (connect_loop D cs cfg left attempt lastErr)"
proof (induction left arbitrary: attempt lastErr)
  case 0
  then show ?case by (subst connect_loop.simps) (auto intro!: total_combinators)
next
  case (Suc left)
  show ?case
    by (subst connect_loop.simps)
      (auto simp: connect_once_def sql_Open_def db_Ping_def db_Close_def calculateConnectBackoff_def
        intro!: total_combinators total_effects total_basic total_on_db Suc.IH split: option.split)
qed

lemma total_Connect: "total (Connect D cs)"
  unfolding Connect_def odbc_ConnectWithRetry_def Let_def
  by (intro total_connect_loop)
    (simp add: connect_defaults_def DefaultConnectConfig_def odbc_DefaultMaxRetries_def Let_def)

lemma returns_connect_loop:
  "returns (\<lambda>r. \<forall>c. r = Inr c \<longrightarrow> c = new_connection cs) (connect_loop D cs cfg left attempt lastErr)"
proof (induction left arbitrary: attempt lastErr)
  case 0
  show ?case by (subst connect_loop.simps) (auto intro!: returns_rules split: option.split)
next
  case (Suc left)
  show ?case
    by (subst connect_loop.simps) (auto simp: Let_def intro!: returns_rules Suc.IH split: option.split)
qed

lemma wp_Connect:
  assumes "sent_since cs P st z L w"
  shows "wp (Connect D cs) (\<lambda>r w'. (\<forall>c. r = Inr c \<longrightarrow> c = new_connection cs) \<and> sent_since cs P st z L w') w"
proof (rule wp_total)
  show "total (Connect D cs)" by (rule total_Connect)
  show "keeps (sent_since cs P st z L) (Connect D cs)"
    by (rule sends_Connect [unfolded sends_def, rule_format])
  show "returns (\<lambda>r. \<forall>c. r = Inr c \<longrightarrow> c = new_connection cs) (Connect D cs)"
    unfolding Connect_def odbc_ConnectWithRetry_def Let_def by (rule returns_connect_loop)
qed (rule assms)

lemma total_Close: "total (CloseConn D c)"
  unfolding CloseConn_def db_Close_def by (auto intro!: total_combinators total_on_db split: option.split)

lemma sends_exec_each: "list_all P stmts \<Longrightarrow> sends cs P (exec_each D cs stmts)"
  unfolding exec_each_def sends_def
  by (auto intro!: keeps_rules simp: list_all_iff sends_Exec [unfolded sends_def])

lemma sends_ExecuteMultiple:
  "list_all P (statements_of sql) \<Longrightarrow> sends cs P (ExecuteMultipleStatements D ctx (new_connection cs) sql)"
  unfolding ExecuteMultiple_eq sends_def
  by (intro allI keeps_if keeps_ret odbc_run.run_keeps sends_blind)
    (rule sends_exec_each [unfolded sends_def, rule_format])


definition ends_with :: "string \<Rightarrow> (string \<times> string) list \<Rightarrow> string list \<Rightarrow> ('d, 's, 'z) world_scheme \<Rightarrow> bool" where
  "ends_with cs L stmts w \<longleftrightarrow> (\<exists>l. w_sql w = L @ map (Pair cs) (l @ stmts))"

lemma wp_ExecuteMultiple_since:
  fixes w :: "('d, 's, 'z) world_scheme" and D :: "'d driver"
  assumes P: "list_all P (statements_of sql)" and I: "sent_since cs P st z L w"
  shows "wp (ExecuteMultipleStatements D ctx (new_connection cs) sql) (\<lambda>r w'. sent_since cs P st z L w'
     \<and> (r = None \<longrightarrow> TrimSpace sql \<noteq> [] \<longrightarrow> ends_with cs L (statements_of sql) w')) w"
proof (cases "TrimSpace sql = []")
  case True
  with I show ?thesis by (simp add: ExecuteMultiple_eq wp_ret)
next
  case False
  let ?I = "sent_since cs P st z L"
  have "wp (exec_each D cs (statements_of sql)) (\<lambda>r w'. case r of
      None \<Rightarrow> ?I w' \<and> ends_with cs L (statements_of sql) w' | Some e \<Rightarrow> True \<and> ?I w') w" if "?I w" for w
    by (rule wp_mono [OF wp_keeps [OF wp_exec_each sends_exec_each [OF P, unfolded sends_def, rule_format] that]])
      (use that in \<open>auto simp: sent_def ends_with_def sent_since_def split: option.split\<close>)
  then have op: "op_spec ?I (exec_each D cs (statements_of sql)) (\<lambda>_. True)
      (\<lambda>w'. ?I w' \<and> ends_with cs L (statements_of sql) w')" by (simp add: op_spec_def)
  from odbc_run.run_spec [OF sends_blind op, where c = ctx and cfg = DefaultQueryRetryConfig, unfolded op_spec_def, rule_format, OF I]
  show ?thesis unfolding ExecuteMultiple_eq if_not_P [OF False] by (rule wp_mono) (auto split: option.splits)
qed

lemma sends_nothing:
  assumes "sends cs (\<lambda>_. False) m"
  shows "w_sql (snd (m w)) = w_sql w" "w_st (snd (m w)) = w_st w" "world.more (snd (m w)) = world.more w"
proof -
  have "sent_since cs (\<lambda>_. False) (w_st w) (world.more w) (w_sql w) w"
    by (auto simp: sent_since_def intro: exI [of _ "[]"])
  from keepsD [OF assms [unfolded sends_def, rule_format] this]
  show "w_sql (snd (m w)) = w_sql w" "w_st (snd (m w)) = w_st w" "world.more (snd (m w)) = world.more w"
    by (auto simp: sent_since_def list_all_iff)
qed

text \<open>One run of the operation of \<open>executeSQL\<close>: it returns, whatever the driver answers; it sends only
  statements of the text, and all of them at the end when it reports no error.\<close>

lemma executeSQL_op:
  fixes P :: "string \<Rightarrow> bool" and z :: 'z and st :: 's and D :: "'d driver"
  assumes P: "list_all P (statements_of sql)"
  shows "op_spec (sent_since cs P st z L)
     (with_connection D cs (\<lambda>conn. ExecuteMultipleStatements D ctx (conn_limit cfg conn) sql))
     (\<lambda>_. True)
     (\<lambda>w. sent_since cs P st z L w \<and> (TrimSpace sql \<noteq> [] \<longrightarrow> ends_with cs L (statements_of sql) w))"
proof -
  let ?I = "sent_since cs P st z L"
  let ?Q = "\<lambda>r w. ?I w \<and> (r = None \<longrightarrow> TrimSpace sql \<noteq> [] \<longrightarrow> ends_with cs L (statements_of sql) w)"
  note body = wp_ExecuteMultiple_since [OF P, where cs = cs and st = st and z = z and L = L and D = D and ctx = ctx]
  have close: "wp (bnd (CloseConn D c) (\<lambda>_. ret ())) (\<lambda>_ w'. ?Q r w') w" if "?Q r w" for c w r
  proof -
    have "keeps (?Q r) (CloseConn D c)"
      unfolding keeps_def
      using keepsD [OF sends_Close [of cs P D c, unfolded sends_def, rule_format]] sends_nothing(1) [OF sends_Close]
      unfolding ends_with_def by metis
    from wp_total [OF total_Close this returns_any that] show ?thesis
      unfolding wp_bnd by (rule wp_mono) (simp add: wp_ret)
  qed
  have "wp (with_connection D cs (\<lambda>conn. ExecuteMultipleStatements D ctx (conn_limit cfg conn) sql)) ?Q w"
    if I: "?I w" for w
    unfolding with_connection_def wp_bnd
  proof (rule wp_mono [OF wp_Connect [OF I]])
    fix r :: "go_err + Connection" and w' :: "('d, 's, 'z) world_scheme"
    assume h: "(\<forall>c. r = Inr c \<longrightarrow> c = new_connection cs) \<and> ?I w'"
    show "wp (case r of Inl e \<Rightarrow> ret (Some e)
        | Inr conn \<Rightarrow> with_defer (bnd (CloseConn D conn) (\<lambda>_. ret ()))
            (ExecuteMultipleStatements D ctx (conn_limit cfg conn) sql)) ?Q w'"
    proof (cases r)
      case (Inl e)
      with h show ?thesis by (simp add: wp_ret)
    next
      case (Inr conn)
      with h have conn: "conn = new_connection cs" by simp
      show ?thesis
        unfolding Inr sum.case conn ExecuteMultiple_limit
        by (rule wp_with_defer, rule wp_mono [OF body]) (use h in \<open>simp_all add: close\<close>)
    qed
  qed
  note run = this
  show ?thesis
    unfolding op_spec_def
    by (intro allI impI, rule wp_mono [OF run]) (auto split: option.split)
qed

lemma wp_executeSQL:
  fixes w :: "('d, 's, 'z) world_scheme"
  assumes "list_all P (statements_of sql)" and "sent_since cs P st z L w"
    and "\<And>s. buildConnectionString (e_ord E) cfg = Inr s \<Longrightarrow> s = cs"
  shows "wp (executeSQL E ctx cfg sql) (\<lambda>r w'. sent_since cs P st z L w' \<and>
     (r = Inr () \<longrightarrow> TrimSpace sql \<noteq> [] \<longrightarrow> ends_with cs L (statements_of sql) w')) w"
proof (cases "buildConnectionString (e_ord E) cfg")
  case (Inl e)
  with assms(2) show ?thesis by (simp add: executeSQL_def wp_ret)
next
  case (Inr s)
  with assms(3) have s: "s = cs" by simp
  obtain n i m f where cfg: "(buildRetryConfig cfg :: ('d, 's, 'z) world_scheme RetryConfig) = plain_retry n i m f"
    by (simp add: buildRetryConfig_def Let_def)
  note spec = do_run.run_spec [OF sends_blind executeSQL_op [OF assms(1), where cs = cs and st = st and z = z and L = L
        and D = "e_D E" and ctx = ctx and cfg = cfg], where c = ctx and n = n and i = i and mx = m and f = f]
  have "wp (Do ctx (Some (plain_retry n i m f)) (with_connection (e_D E) cs (\<lambda>conn.
      ExecuteMultipleStatements (e_D E) ctx (conn_limit cfg conn) sql)))
    (\<lambda>r w'. case r of
       None \<Rightarrow> sent_since cs P st z L w' \<and> (TrimSpace sql \<noteq> [] \<longrightarrow> ends_with cs L (statements_of sql) w')
     | Some e \<Rightarrow> (True \<or> e = Canceled \<or> e = DeadlineExceeded) \<and> sent_since cs P st z L w') w"
    using spec [unfolded op_spec_def, rule_format, OF assms(2)] .
  then show ?thesis
    unfolding executeSQL_def Inr sum.case s cfg wp_bnd
    by (rule wp_mono) (auto simp: wp_ret split: option.splits)
qed

definition conn_of :: "('d, 's) env \<Rightarrow> Config \<Rightarrow> string" where
  "conn_of E cfg = (case buildConnectionString (e_ord E) cfg of Inl _ \<Rightarrow> [] | Inr cs \<Rightarrow> cs)"

text \<open>What \<open>executeSQL\<close> leaves behind: only statements of the text are appended to the log; on success
  they end in the whole text.\<close>

lemma out_executeSQL:
  fixes z :: 'z and E :: "('d, 's) env"
  assumes fail: "\<And>e l. set l \<subseteq> set (statements_of sql) \<Longrightarrow> Q (Inl e) (V, L @ map (Pair (conn_of E cfg)) l, z)"
    and ok: "\<And>l. set l \<subseteq> set (statements_of sql) \<Longrightarrow>
      (TrimSpace sql \<noteq> [] \<Longrightarrow> \<exists>k. l = k @ statements_of sql) \<Longrightarrow> Q (Inr ()) (V, L @ map (Pair (conn_of E cfg)) l, z)"
  shows "out view (V, L, z) (executeSQL E ctx cfg sql) Q Z"
proof (rule outI_wp)
  fix w :: "('d, 's, 'z) world_scheme"
  assume w: "visible view w = (V, L, z)"
  let ?P = "\<lambda>q. q \<in> set (statements_of sql)" and ?cs = "conn_of E cfg"
  have "list_all ?P (statements_of sql)" by (simp add: list_all_iff)
  moreover have "sent_since ?cs ?P (w_st w) z L w"
    using w by (auto simp: sent_since_def visible_def intro: exI [of _ "[]"])
  moreover have "s = ?cs" if "buildConnectionString (e_ord E) cfg = Inr s" for s
    using that by (simp add: conn_of_def)
  ultimately show "wp (executeSQL E ctx cfg sql) (\<lambda>a w'. Q a (visible view w')) w"
  proof (rule wp_mono [OF wp_executeSQL])
    fix r :: "go_err + unit" and w' :: "('d, 's, 'z) world_scheme"
    assume h: "sent_since ?cs ?P (w_st w) z L w'
      \<and> (r = Inr () \<longrightarrow> TrimSpace sql \<noteq> [] \<longrightarrow> ends_with ?cs L (statements_of sql) w')"
    then obtain l where l: "w_sql w' = L @ map (Pair ?cs) l" "set l \<subseteq> set (statements_of sql)"
      by (auto simp: sent_since_def list_all_iff)
    with h w have v: "visible view w' = (V, L @ map (Pair ?cs) l, z)"
      by (auto simp: visible_def sent_since_def)
    show "Q r (visible view w')"
    proof (cases r)
      case (Inr u)
      have "\<exists>k. l = k @ statements_of sql" if t: "TrimSpace sql \<noteq> []"
      proof -
        from h t Inr obtain k where "w_sql w' = L @ map (Pair ?cs) (k @ statements_of sql)"
          by (auto simp: ends_with_def)
        with l(1) have "map (Pair ?cs) l = map (Pair ?cs) (k @ statements_of sql)" by simp
        then have "l = k @ statements_of sql" by (rule map_injective) (simp add: inj_def)
        then show ?thesis by blast
      qed
      with ok [OF l(2)] Inr v show ?thesis by simp
    qed (use fail [OF l(2)] v in simp)
  qed
qed

end
