(* ===== verification/Degradation.thy ===== *)
theory Degradation
  imports Audit_Webhook
begin

text \<open>
  The backend's health and degradation state (\<open>plugin/backend.go\<close>, lines 308 to 426): two switches,
  the moment the degradation began, and what the pools' health says about a request.
\<close>

definition SetGracefulDegradation :: "bool \<Rightarrow> (('d, 's, 'z) plugin_world_scheme, unit) act" where
  "SetGracefulDegradation enabled = bnd (gets b_gracefulDegradation) (\<lambda>cur.
     seq (if enabled \<and> \<not> cur
          then bnd time_Now (\<lambda>t. modify (\<lambda>w. w\<lparr>b_degradedSince := Some t\<rparr>))
          else if \<not> enabled then modify (\<lambda>w. w\<lparr>b_degradedSince := None\<rparr>)
          else ret ())
       (modify (\<lambda>w. w\<lparr>b_gracefulDegradation := enabled\<rparr>)))"

definition SetManuallyEnabledDegradation :: "bool \<Rightarrow> (('d, 's, 'z) plugin_world_scheme, unit) act" where
  "SetManuallyEnabledDegradation enabled =
     seq (modify (\<lambda>w. w\<lparr>b_manuallyEnabledDegradation := enabled\<rparr>))
       (if enabled
        then seq (modify (\<lambda>w. w\<lparr>b_gracefulDegradation := True\<rparr>))
          (bnd (gets b_degradedSince) (\<lambda>s. case s of
             None \<Rightarrow> bnd time_Now (\<lambda>t. modify (\<lambda>w. w\<lparr>b_degradedSince := Some t\<rparr>))
           | Some _ \<Rightarrow> ret ()))
        else ret ())"

definition ShouldUseDegradation :: "('d, 's, 'z) plugin_world_scheme \<Rightarrow> bool" where
  "ShouldUseDegradation w \<longleftrightarrow> b_gracefulDegradation w \<or> b_manuallyEnabledDegradation w"

definition pool_healthy :: "DBRegistry \<Rightarrow> string \<Rightarrow> bool" where
  "pool_healthy r name =
     (case GetConnection name r of
        None \<Rightarrow> False
      | Some conn \<Rightarrow> (case GetState conn of (st, err) \<Rightarrow> err = None \<and> st = StateHealthy))"

definition IsPoolHealthy :: "DBRegistry option \<Rightarrow> string \<Rightarrow> bool" where
  "IsPoolHealthy rg region = (case rg of None \<Rightarrow> False | Some r \<Rightarrow> pool_healthy r region)"

definition AreAllPoolsHealthy :: "DBRegistry option \<Rightarrow> bool" where
  "AreAllPoolsHealthy rg =
     (case rg of None \<Rightarrow> False
      | Some r \<Rightarrow> list_all (pool_healthy r) (ListConnections r) \<and> 0 < length (ListConnections r))"

text \<open>Degraded or not, the degraded pools and the healthy pools.\<close>

definition GetDegradationStatus :: "DBRegistry option \<Rightarrow> bool \<times> string list \<times> string list" where
  "GetDegradationStatus rg =
     (case rg of
        None \<Rightarrow> (True, [], [])
      | Some r \<Rightarrow>
          let healthy = filter (pool_healthy r) (ListConnections r);
              degraded = filter (\<lambda>n. \<not> pool_healthy r n) (ListConnections r)
          in (degraded \<noteq> [], degraded, healthy))"

text \<open>\<open>%v\<close> of a list of strings.\<close>

definition show_list :: "string list \<Rightarrow> string" where
  "show_list xs = ''['' @ Join xs '' '' @ '']''"

definition CanOperate :: "DBRegistry option \<Rightarrow> string \<Rightarrow> bool \<times> string" where
  "CanOperate rg region =
     (if AreAllPoolsHealthy rg then (True, [])
      else case GetDegradationStatus rg of (degraded, degradedPools, healthyPools) \<Rightarrow>
        if \<not> degraded then (True, [])
        else if region \<noteq> [] \<and> IsPoolHealthy rg region then (True, [])
        else
          let reason0 = ''database pool is unavailable'';
              reason1 = (if 0 < length degradedPools
                         then ''database pools unavailable: '' @ show_list degradedPools else reason0);
              reason2 = (if 0 < length healthyPools
                         then ''region '' @ qq region @ '' pool is unavailable; healthy pools: '' @ show_list healthyPools
                         else reason1)
          in (False, reason2))"

subsection \<open>What the switches and the verdict mean\<close>

definition degradation_ok :: "('d, 's, 'z) plugin_world_scheme \<Rightarrow> bool" where
  "degradation_ok w \<longleftrightarrow> (b_gracefulDegradation w \<longrightarrow> b_degradedSince w \<noteq> None)"

text \<open>C30. A request can operate exactly when some pool is known to serve it: with a registry, when no
  pool is unhealthy or the request's own region has a healthy pool; without one, never. A refusal
  always comes with a reason.\<close>
theorem CanOperate_iff:
  "(fst (CanOperate (Some r) region) \<longleftrightarrow>
      list_all (pool_healthy r) (ListConnections r) \<or> (region \<noteq> [] \<and> pool_healthy r region))
   \<and> \<not> fst (CanOperate None region)
   \<and> (fst (CanOperate rg region) \<longleftrightarrow> snd (CanOperate rg region) = [])"
proof -
  have "filter (\<lambda>n. \<not> pool_healthy r n) xs = [] \<longleftrightarrow> list_all (pool_healthy r) xs" for xs r
    by (auto simp: filter_empty_conv list_all_iff)
  then show ?thesis
    by (auto simp: CanOperate_def AreAllPoolsHealthy_def GetDegradationStatus_def IsPoolHealthy_def Let_def
        split: option.splits prod.splits)
qed



end
