(* ===== verification/Handler_Rules.thy ===== *)
theory Handler_Rules
  imports Exec_Sql Degradation
begin

text \<open>
  Rules for walking through a handler: what reading a role, a configuration or a credential can
  return, actions that return and leave nothing behind, and the parts of the backend's state that
  the verdict on a request depends on.
\<close>

subsection \<open>Actions that return\<close>

lemma total_case_sum:
  "(\<And>a. y = Inl a \<Longrightarrow> total (f a)) \<Longrightarrow> (\<And>a. y = Inr a \<Longrightarrow> total (g a)) \<Longrightarrow> total (case y of Inl a \<Rightarrow> f a | Inr a \<Rightarrow> g a)"
  by (cases y) simp_all

lemma total_case_prod: "(\<And>a b. ab = (a, b) \<Longrightarrow> total (h a b)) \<Longrightarrow> total (case ab of (a, b) \<Rightarrow> h a b)"
  by (cases ab) simp

lemma total_bndE: "total m \<Longrightarrow> (\<And>a. total (k a)) \<Longrightarrow> total (bndE m wrap k)"
  unfolding bndE_def by (intro total_combinators total_case_sum)

lemma total_on_st: "total (on_st f)"
  unfolding on_st_def
  by (rule total_combinators(5) [OF total_basic(1)]) (simp add: total_def split: prod.split)

lemma total_storage:
  "total (storage_Get E key)" "total (storage_Put E key v)" "total (storage_Delete E key)" "total (storage_List E p)"
  "total (get_as dec E key)"
  unfolding get_as_def storage_Get_def storage_Put_def storage_Delete_def storage_List_def
  by (intro total_combinators total_on_st)+

lemma total_Do:
  fixes op :: "(('d, 's, 'z) world_scheme, go_err option) act"
  assumes "total op"
  shows "total (Do c (Some (plain_retry n i mx f)) op)"
proof -
  have "op_spec (\<lambda>_. True) op (\<lambda>_. True) (\<lambda>_. True)"
    unfolding op_spec_def
  proof (intro allI impI)
    fix w :: "('d, 's, 'z) world_scheme"
    from assms obtain a w' where "op w = (Ret a, w')" unfolding total_def by blast
    then show "wp op (\<lambda>r w'. case r of None \<Rightarrow> True | Some e \<Rightarrow> True \<and> True) w" by (simp add: wp_def split: option.split)
  qed
  then have "op_spec (\<lambda>_. True) (Do c (Some (plain_retry n i mx f)) op)
      (\<lambda>e. True \<or> e = Canceled \<or> e = DeadlineExceeded) (\<lambda>_. True)"
    by (intro do_run.run_spec) (simp_all add: clock_blind_def)
  then show ?thesis unfolding op_spec_def wp_returns total_def by blast
qed

lemma total_executeSQL: "total (executeSQL E ctx cfg sql)"
proof -
  have "wp (executeSQL E ctx cfg sql) (\<lambda>_ _. True) w" for w
  proof (cases "buildConnectionString (e_ord E) cfg")
    case (Inr s)
    have "list_all (\<lambda>q. q \<in> set (statements_of sql)) (statements_of sql)" by (simp add: list_all_iff)
    moreover have "sent_since s (\<lambda>q. q \<in> set (statements_of sql)) (w_st w) (world.more w) (w_sql w) w"
      by (auto simp: sent_since_def intro: exI [of _ "[]"])
    ultimately show ?thesis
      by (rule wp_mono [OF wp_executeSQL]) (use Inr in auto)
  qed (simp add: executeSQL_def wp_ret)
  then show ?thesis by (auto simp: wp_returns total_def)
qed

lemma total_local_var: "total m \<Longrightarrow> total (local_var x m)"
  unfolding total_def
proof (intro allI)
  fix w
  assume "\<forall>w. \<exists>a w'. m w = (Ret a, w')"
  then obtain a w' where "m (with_var_in x w) = (Ret a, w')" by blast
  then show "\<exists>a w'. local_var x m w = (Ret a, w')" by (simp add: local_var_def)
qed

lemma total_SendWebhook: "total (SendWebhook E ctx config t data)"
proof -
  have "total (webhook_attempt E config n data)" for n
    unfolding webhook_attempt_def http_post_def Let_def set_var_def
    by (intro total_combinators total_on_db) (auto split: http_result.split intro!: total_combinators)
  then show ?thesis unfolding SendWebhook_def webhook_retry_def
    by (intro total_combinators total_effects total_local_var total_Do total_case_prod)
qed

lemma total_send_event: "total (send_event E ctx t data)"
  unfolding send_event_def GetWebhookConfig_def
  by (intro total_combinators total_case_sum total_effects total_SendWebhook total_storage)

lemma total_storeAuditEvent: "total (storeAuditEvent E t ev)"
  unfolding storeAuditEvent_def by (intro total_combinators total_effects total_storage)

subsection \<open>Silent actions\<close>

text \<open>They return and leave nothing visible behind.\<close>

definition silent :: "('s \<Rightarrow> string \<Rightarrow> stored option) \<Rightarrow> (('d, 's, 'z) world_scheme, 'a) act \<Rightarrow> bool" where
  "silent view m \<longleftrightarrow> quiet view m \<and> total m"

lemma out_silent:
  fixes m :: "(('d, 's, 'z) world_scheme, 'a) act"
  assumes m: "silent view m" and r: "returns P m" and Q: "\<And>a. P a \<Longrightarrow> Q a s"
  shows "out view s m Q Z"
proof (rule outI_wp)
  fix w :: "('d, 's, 'z) world_scheme"
  assume "visible view w = s"
  moreover from m have "total m" and "keeps (\<lambda>w'. visible view w' = s) m"
    unfolding silent_def quiet_def by blast+
  ultimately have "wp m (\<lambda>a w'. P a \<and> visible view w' = s) w"
    using r by (intro wp_total)
  then show "wp m (\<lambda>a w'. Q a (visible view w')) w"
    by (rule wp_mono) (simp add: Q)
qed

lemma out_seq_silent:
  fixes m :: "(('d, 's, 'z) world_scheme, 'a) act" and n :: "(('d, 's, 'z) world_scheme, 'b) act"
  shows "silent view m \<Longrightarrow> out view s n Q Z \<Longrightarrow> out view s (seq m n) Q Z"
  by (rule out_seq, rule out_silent [OF _ returns_any])

lemma out_bnd_silent:
  fixes m :: "(('d, 's, 'z) world_scheme, 'a) act" and k :: "'a \<Rightarrow> (('d, 's, 'z) world_scheme, 'b) act"
  shows "silent view m \<Longrightarrow> (\<And>a. out view s (k a) Q Z) \<Longrightarrow> out view s (bnd m k) Q Z"
  by (rule out_bnd, rule out_silent [OF _ returns_any])

lemma silent_effects: "silent view time_Now" "silent view (on_db f)" "silent view (ret r)" "silent view (gets g)"
  "silent view draw" "silent view (ctx_poll c)"
  by (simp_all add: silent_def quiet_effects total_effects total_on_db quiet_combinators total_combinators
      quiet_draw total_basic)

lemma silent_bnd: "silent view m \<Longrightarrow> (\<And>a. silent view (k a)) \<Longrightarrow> silent view (bnd m k)"
  unfolding silent_def by (auto intro: quiet_combinators total_combinators)

lemma silent_seq: "silent view m \<Longrightarrow> silent view n \<Longrightarrow> silent view (seq m n)"
  unfolding silent_def by (auto intro: quiet_combinators total_combinators)

lemma silent_if: "(b \<Longrightarrow> silent view m) \<Longrightarrow> (\<not> b \<Longrightarrow> silent view n) \<Longrightarrow> silent view (if b then m else n)"
  by simp

lemma silent_case_prod: "(\<And>a b. x = (a, b) \<Longrightarrow> silent view (h a b)) \<Longrightarrow> silent view (case x of (a, b) \<Rightarrow> h a b)"
  by (cases x) simp

lemma silent_bndE: "silent view m \<Longrightarrow> (\<And>a. silent view (k a)) \<Longrightarrow> silent view (bndE m wrap k)"
  unfolding bndE_def by (rule silent_bnd) (auto intro: silent_effects split: sum.splits)

lemma silent_for_each: "(\<And>x. x \<in> set xs \<Longrightarrow> silent view (f x)) \<Longrightarrow> silent view (for_each xs f)"
  by (induction xs) (simp_all add: silent_effects silent_seq)

lemma silent_storage:
  assumes "lawful_storage view (e_S E)"
  shows "silent view (storage_Get E key)" "silent view (get_as dec E key)"
  using assms by (simp_all add: silent_def total_storage quiet_storage_Get quiet_get_as)

lemma silent_logs:
  assumes "lawful_storage view (e_S E)"
  shows "silent view (LogCredentialCreation E username roleName leaseID md)"
    "silent view (LogCredentialRevocation E username roleName md)"
    "silent view (LogCredentialRotation E success msg)"
    "silent view (LogRoleCreation E roleName dbUser stmt)"
    "silent view (LogRoleUpdate E roleName dbUser stmt)" "silent view (LogRoleDeletion E roleName)"
    "silent view (LogRootRotation E success msg)"
  unfolding silent_def
  by (simp_all add: quiet_logs [OF assms])
    (auto simp: LogCredentialCreation_def LogCredentialRevocation_def LogCredentialRotation_def
      LogRoleCreation_def LogRoleUpdate_def LogRoleDeletion_def LogRootRotation_def
      intro!: total_combinators total_effects total_storeAuditEvent)

lemma silent_webhooks:
  assumes "lawful_storage view (e_S E)"
  shows "silent view (SendCredentialCreatedWebhook E ctx username roleName leaseID md)"
    "silent view (SendCredentialRevokedWebhook E ctx username roleName md)"
    "silent view (SendRoleCreatedWebhook E ctx roleName dbUser stmt)"
    "silent view (SendRoleUpdatedWebhook E ctx roleName dbUser stmt)"
    "silent view (SendRoleDeletedWebhook E ctx roleName)"
    "silent view (SendRootRotatedWebhook E ctx success msg)"
  unfolding silent_def
  by (simp_all add: quiet_webhooks [OF assms])
    (simp_all add: SendCredentialCreatedWebhook_def SendCredentialRevokedWebhook_def SendRoleCreatedWebhook_def
      SendRoleUpdatedWebhook_def SendRoleDeletedWebhook_def SendRootRotatedWebhook_def total_send_event)

lemma silent_draw_bytes: "silent view (draw_bytes n)"
  by (induction n) (auto intro!: silent_bnd silent_effects)

lemma silent_Intn: "silent view (mrand_Intn n)"
  unfolding mrand_Intn_def by (intro silent_bnd silent_effects)

lemma silent_draw_chars: "silent view (draw_chars cs n)"
  by (induction n) (auto intro!: silent_bnd silent_effects silent_Intn)

lemma silent_generateUsername: "silent view (generateUsername ok p s)"
  unfolding generateUsername_def Let_def by (intro silent_if silent_bnd silent_effects silent_draw_bytes)

lemma silent_fold_act: "(\<And>b x. silent view (f b x)) \<Longrightarrow> silent view (fold_act f b xs)"
  by (induction xs arbitrary: b) (auto intro!: silent_bnd silent_effects)

lemma silent_ensure: "silent view (ensurePasswordRequirements p)"
  unfolding ensurePasswordRequirements_def Let_def
  by (auto intro!: silent_bnd silent_effects silent_fold_act silent_case_prod silent_if silent_Intn
      simp: replace_missing_def)

lemma silent_generatePassword: "silent view (generatePassword ok)"
  unfolding generatePassword_def Let_def
  by (intro silent_bnd silent_effects silent_if silent_Intn silent_draw_chars silent_ensure)

subsection \<open>What the reads return\<close>

definition role_at :: "(string \<Rightarrow> stored option) \<Rightarrow> string \<Rightarrow> Role option" where
  "role_at V name = (case Option.bind (V (''roles/'' @ name)) as_role of
     None \<Rightarrow> None | Some r \<Rightarrow> (case migrateRole r of Inl _ \<Rightarrow> None | Inr m \<Rightarrow> Some m))"

definition config_at :: "(string \<Rightarrow> stored option) \<Rightarrow> string \<Rightarrow> Config option" where
  "config_at V region = Option.bind (V (if region = [] then ''config'' else ''config/'' @ region)) as_config"

definition cred_at :: "(string \<Rightarrow> stored option) \<Rightarrow> string \<Rightarrow> Credential option" where
  "cred_at V username = Option.bind (V (credentialPrefix @ username)) as_cred"

lemma out_getRole:
  assumes "lawful_storage view (e_S E)"
    and "\<And>e. Q (Inl e) (V, L, z)" and "Q (Inr None) (V, L, z)"
    and "\<And>role. role_at V name = Some role \<Longrightarrow> Q (Inr (Some role)) (V, L, z)"
  shows "out view (V, L, z) (getRole E name) Q Z"
  unfolding getRole_def
  by (rule out_bnd, rule out_get_as [OF assms(1)])
    (auto simp: role_at_def intro!: out_ret assms(2-4) audit_free_keys [simplified] split: sum.split)

lemma out_getConfig:
  assumes "lawful_storage view (e_S E)"
    and "\<And>e. Q (Inl e) (V, L, z)" and "Q (Inr None) (V, L, z)"
    and "\<And>cfg. config_at V [] = Some cfg \<Longrightarrow> Q (Inr (Some cfg)) (V, L, z)"
  shows "out view (V, L, z) (getConfig E) Q Z"
  unfolding getConfig_def
  by (rule out_get_as [OF assms(1)]) (auto simp: config_at_def intro!: assms(2-4) audit_free_keys [simplified])

lemma out_getConfigByName:
  assumes "lawful_storage view (e_S E)"
    and "\<And>e. Q (Inl e) (V, L, z)" and "Q (Inr None) (V, L, z)"
    and "\<And>cfg. config_at V region = Some cfg \<Longrightarrow> Q (Inr (Some cfg)) (V, L, z)"
  shows "out view (V, L, z) (getConfigByName E region) Q Z"
  unfolding getConfigByName_def
  by (intro out_if out_getConfig out_get_as assms(1)) (auto simp: config_at_def intro!: assms(2-4) audit_free_keys [simplified])

lemma out_getCredential:
  assumes "lawful_storage view (e_S E)"
    and "\<And>e. Q (Inl e) (V, L, z)" and "V (credentialPrefix @ u) = None \<Longrightarrow> Q (Inr None) (V, L, z)"
    and "\<And>c. V (credentialPrefix @ u) = Some (SCred c) \<Longrightarrow> Q (Inr (Some c)) (V, L, z)"
  shows "out view (V, L, z) (getCredential E u) Q Z"
  unfolding getCredential_def
proof (rule out_get_as [OF assms(1)])
  show "audit_free (credentialPrefix @ u)" unfolding credentialPrefix_def by (rule audit_free_keys)
  fix x c assume "V (credentialPrefix @ u) = Some x" "as_cred x = Some c"
  then show "Q (Inr (Some c)) (V, L, z)" by (cases x) (auto intro: assms(4))
qed (auto intro: assms)

text \<open>Reading a field: its value, or a panic when the path's schema does not have it.\<close>

lemma out_getS: "(\<And>a. fd_Get d k = Some (VS a) \<Longrightarrow> Q a s) \<Longrightarrow> Z s \<Longrightarrow> out view s (getS d k) Q Z"
  unfolding getS_def by (auto intro: out_ret out_panic split: option.split fval.split)

lemma out_getI: "(\<And>a. fd_Get d k = Some (VI a) \<Longrightarrow> Q a s) \<Longrightarrow> Z s \<Longrightarrow> out view s (getI d k) Q Z"
  unfolding getI_def by (auto intro: out_ret out_panic split: option.split fval.split)

lemma out_getB: "(\<And>a. fd_Get d k = Some (VB a) \<Longrightarrow> Q a s) \<Longrightarrow> Z s \<Longrightarrow> out view s (getB d k) Q Z"
  unfolding getB_def by (auto intro: out_ret out_panic split: option.split fval.split)

lemma out_getL: "(\<And>a. fd_Get d k = Some (VL a) \<Longrightarrow> Q a s) \<Longrightarrow> Z s \<Longrightarrow> out view s (getL d k) Q Z"
  unfolding getL_def by (auto intro: out_ret out_panic split: option.split fval.split)

lemma out_getF: "(\<And>a. fd_Get d k = Some (VF a) \<Longrightarrow> Q a s) \<Longrightarrow> Z s \<Longrightarrow> out view s (getF d k) Q Z"
  unfolding getF_def by (auto intro: out_ret out_panic split: option.split fval.split)

text \<open>Changing the backend's own state.\<close>

lemma out_modify:
  fixes f :: "('d, 's, 'z) world_scheme \<Rightarrow> ('d, 's, 'z) world_scheme"
  assumes "\<And>w. visible view w = s \<Longrightarrow> Q () (visible view (f w))"
  shows "out view s (modify f) Q Z"
  using assms by (simp add: out_def modify_def)

definition same_backend :: "('d, 's, 'z) plugin_world_scheme \<Rightarrow> ('d, 's, 'z) plugin_world_scheme \<Rightarrow> bool" where
  "same_backend w w' \<longleftrightarrow> world.more w = world.more w'"

lemma same_backend_fields:
  assumes "same_backend w w'"
  shows "b_registry w = b_registry w'" "b_credCache w = b_credCache w'" "b_queryCache w = b_queryCache w'"
    "b_degradedSince w = b_degradedSince w'" "b_gracefulDegradation w = b_gracefulDegradation w'"
    "b_manuallyEnabledDegradation w = b_manuallyEnabledDegradation w'"
  using assms by (cases w; cases w'; simp add: same_backend_def)+

end
