(* ===== verification/Path_Creds.thy ===== *)
theory Path_Creds
  imports Handler_Rules
begin

text \<open>
  Dynamic credentials (\<open>plugin/path_creds.go\<close>): counting and finding the stored ones, the clean-up of
  the expired ones, and the two handlers that create them.

  The theorems show what a request for credentials leaves in storage and sends to the database, on
  every path through the handlers.
\<close>

subsection \<open>Times\<close>

text \<open>The zero \<open>time.Time\<close>, \<open>IsZero\<close>, \<open>Unix\<close>, and \<open>int(d.Seconds())\<close>.\<close>

definition zero_time :: int where
  "zero_time = - 62135596800 * second"

definition unix :: "int \<Rightarrow> int" where
  "unix t = t div second"

definition int_seconds :: "int \<Rightarrow> int" where
  "int_seconds d = (if d < 0 then - ((- d) div second) else d div second)"

definition seconds :: "int \<Rightarrow> int" where
  "seconds n = i64 (n * second)"

subsection \<open>The stored credentials\<close>

definition entry_user :: "string \<Rightarrow> string" where
  "entry_user entry = TrimPrefix entry credentialPrefix"

fun count_loop :: "('d, 's) env \<Rightarrow> string \<Rightarrow> int \<Rightarrow> string list
    \<Rightarrow> (('d, 's, 'z) world_scheme, go_err + int) act" where
  "count_loop E roleName n [] = ret (Inr n)"
| "count_loop E roleName n (entry # entries) =
     bndE (getCredential E (entry_user entry)) id (\<lambda>cred.
     count_loop E roleName (case cred of None \<Rightarrow> n
       | Some c \<Rightarrow> if cr_RoleName c = roleName then n + 1 else n) entries)"

definition countCredentialsByRole :: "('d, 's) env \<Rightarrow> string
    \<Rightarrow> (('d, 's, 'z) world_scheme, go_err + int) act" where
  "countCredentialsByRole E roleName =
     bndE (storage_List E credentialPrefix) id (\<lambda>entries. count_loop E roleName 0 entries)"

fun lease_loop :: "('d, 's) env \<Rightarrow> string \<Rightarrow> string list
    \<Rightarrow> (('d, 's, 'z) world_scheme, go_err + (Credential \<times> string) option) act" where
  "lease_loop E leaseID [] = ret (Inr None)"
| "lease_loop E leaseID (entry # entries) =
     bndE (getCredential E (entry_user entry)) id (\<lambda>cred. case cred of
       None \<Rightarrow> lease_loop E leaseID entries
     | Some c \<Rightarrow> if cr_LeaseID c = leaseID then ret (Inr (Some (c, entry_user entry)))
                else lease_loop E leaseID entries)"

definition getCredentialByLeaseID :: "('d, 's) env \<Rightarrow> string
    \<Rightarrow> (('d, 's, 'z) world_scheme, go_err + (Credential \<times> string) option) act" where
  "getCredentialByLeaseID E leaseID =
     bndE (storage_List E credentialPrefix) id (\<lambda>entries. lease_loop E leaseID entries)"

fun leases_loop :: "('d, 's) env \<Rightarrow> string list
    \<Rightarrow> (('d, 's, 'z) world_scheme, go_err + Credential list) act" where
  "leases_loop E [] = ret (Inr [])"
| "leases_loop E (entry # entries) =
     bndE (getCredential E (entry_user entry)) id (\<lambda>cred.
     bndE (leases_loop E entries) id (\<lambda>rest.
     ret (Inr (case cred of None \<Rightarrow> rest | Some c \<Rightarrow> c # rest))))"

definition listAllLeases :: "('d, 's) env \<Rightarrow> (('d, 's, 'z) world_scheme, go_err + Credential list) act" where
  "listAllLeases E = bndE (storage_List E credentialPrefix) id (\<lambda>entries. leases_loop E entries)"

text \<open>One step of the clean-up: whether the credential was removed.\<close>

definition cleanup_one :: "('d, 's) env \<Rightarrow> ctx \<Rightarrow> Config \<Rightarrow> int \<Rightarrow> string
    \<Rightarrow> (('d, 's, 'z) plugin_world_scheme, bool) act" where
  "cleanup_one E ctx cfg now username =
     bnd (getCredential E username) (\<lambda>r. case r of
       Inr (Some cred) \<Rightarrow>
         if cr_ExpiresAt cred < now
         then bnd (executeSQL E ctx cfg (''DROP USER '' @ username)) (\<lambda>x. case x of
             Inl execErr \<Rightarrow> ret False
           | Inr _ \<Rightarrow> bnd (deleteCredential E username) (\<lambda>y. case y of
               Inl delErr \<Rightarrow> ret False
             | Inr _ \<Rightarrow> seq (invalidateCachedCredential username) (ret True)))
         else ret False
     | _ \<Rightarrow> ret False)"

definition cleanup_loop :: "('d, 's) env \<Rightarrow> ctx \<Rightarrow> Config \<Rightarrow> int \<Rightarrow> int \<Rightarrow> string list
    \<Rightarrow> (('d, 's, 'z) plugin_world_scheme, int) act" where
  "cleanup_loop E ctx cfg now cleaned entries =
     fold_act (\<lambda>cleaned entry. bnd (cleanup_one E ctx cfg now (entry_user entry)) (\<lambda>removed.
       ret (if removed then cleaned + 1 else cleaned))) cleaned entries"

definition cleanupExpiredCredentials :: "('d, 's) env \<Rightarrow> ctx \<Rightarrow> Config
    \<Rightarrow> (('d, 's, 'z) plugin_world_scheme, go_err + int) act" where
  "cleanupExpiredCredentials E ctx cfg =
     bndE (storage_List E credentialPrefix) id (\<lambda>entries.
     bnd time_Now (\<lambda>now.
     bnd (cleanup_loop E ctx cfg now 0 entries) (\<lambda>cleaned.
     ret (Inr cleaned))))"

subsection \<open>What a request needs before a user is created\<close>

definition resolve_config :: "('d, 's) env \<Rightarrow> string
    \<Rightarrow> (('d, 's, 'z) world_scheme, go_err + Config) act" where
  "resolve_config E region =
     (if region \<noteq> []
      then bndE (getConfigByName E region) (wrapped ''failed to get region config'') (\<lambda>c. ret (case c of
          None \<Rightarrow> Inl (Errorf (''configuration for region '' @ qq region @ '' not found''))
        | Some cfg \<Rightarrow> Inr cfg))
      else bndE (getConfig E) id (\<lambda>c. ret (case c of
          None \<Rightarrow> Inl (Errorf ''database configuration not found'')
        | Some cfg \<Rightarrow> Inr cfg)))"

definition role_allowed :: "Config \<Rightarrow> string \<Rightarrow> bool" where
  "role_allowed cfg name \<longleftrightarrow>
     \<not> 0 < length (cf_AllowedRoles cfg) \<or> list_ex (\<lambda>allowedRole. allowedRole = name) (cf_AllowedRoles cfg)"

text \<open>The verdict of the degradation mode: nothing when the request can go on, otherwise the reason and
  the moment the degradation began.\<close>

definition refusal :: "string \<Rightarrow> ('d, 's, 'z) plugin_world_scheme \<Rightarrow> (string \<times> int option) option" where
  "refusal region w =
     (if ShouldUseDegradation w \<or> \<not> IsPoolHealthy (b_registry w) region
      then case CanOperate (b_registry w) region of (canOperate, reason) \<Rightarrow>
        if \<not> canOperate then Some (reason, b_degradedSince w) else None
      else None)"

definition degraded_response :: "string \<Rightarrow> int option \<Rightarrow> string \<Rightarrow> response" where
  "degraded_response reason since warning =
     \<lparr>rs_Data = [(''error'', VS ''database unavailable - graceful degradation mode active''),
        (''reason'', VS reason), (''degraded'', VB True), (''graceful_degradation_mode'', VB True)]
        @ (case since of None \<Rightarrow> [] | Some t \<Rightarrow> [(''degraded_since'', VTime t)]),
      rs_Secret = None, rs_Warnings = [warning]\<rparr>"

definition role_statements :: "('d, 's) env \<Rightarrow> Role
    \<Rightarrow> (('d, 's, 'z) world_scheme, go_err + string \<times> string) act" where
  "role_statements E role =
     (if ro_StatementTemplate role \<noteq> []
      then bndE (getStatement E (ro_StatementTemplate role)) (wrapped ''failed to load statement template'') (\<lambda>st.
        ret (case st of
          None \<Rightarrow> Inl (Errorf (''statement template '' @ qq (ro_StatementTemplate role) @ '' not found''))
        | Some statement \<Rightarrow> Inr
            (if sm_CreationStatement statement \<noteq> [] then sm_CreationStatement statement
             else ro_CreationStatement role,
             if sm_RollbackStatement statement \<noteq> [] then sm_RollbackStatement statement
             else ro_RollbackStatement role)))
      else ret (Inr (ro_CreationStatement role, ro_RollbackStatement role)))"

text \<open>The checks between the quota and the creation, the same in both handlers but for the warning; \<open>k\<close>
  goes on with the configuration, the creation and the rollback statement.\<close>

definition admit :: "('d, 's) env \<Rightarrow> string \<Rightarrow> string \<Rightarrow> string \<Rightarrow> Role
    \<Rightarrow> (Config \<Rightarrow> string \<Rightarrow> string \<Rightarrow> (('d, 's, 'z) plugin_world_scheme, hres) act)
    \<Rightarrow> (('d, 's, 'z) plugin_world_scheme, hres) act" where
  "admit E warning name region role k =
     guardH (if ro_UsernamePrefix role \<noteq> [] then odbc_ValidateUsername (e_U E) (ro_UsernamePrefix role) else None)
       (wrapped ''invalid username_prefix'') (
     tryH (resolve_config E region) id (\<lambda>cfg.
     if \<not> role_allowed cfg name
     then failH (Errorf (''role '' @ qq name @ '' is not allowed for this connection''))
     else bnd (gets (refusal region)) (\<lambda>verdict. case verdict of
       Some (reason, since) \<Rightarrow> ret (Inl (Errorf (''cannot create credentials: '' @ reason),
         Some (degraded_response reason since warning)))
     | None \<Rightarrow> tryH (role_statements E role) id (\<lambda>(creation, rollback). k cfg creation rollback))))"

subsection \<open>Creating one user\<close>

definition draw_identity :: "('d, 's) env \<Rightarrow> Role \<Rightarrow> (('d, 's, 'z) world_scheme, go_err + string \<times> string) act" where
  "draw_identity E role =
     bnd (generateUsername (e_rand_ok E) (ro_UsernamePrefix role) (ro_UsernameSuffix role)) (\<lambda>username.
     bnd (generatePassword (e_rand_ok E)) (\<lambda>password0.
     bndE (if ro_PasswordPolicy role \<noteq> []
           then generatePasswordWithPolicy (e_rand_ok E) (ro_PasswordPolicy role)
           else ret (Inr password0)) (wrapped ''failed to generate password with policy'') (\<lambda>password.
     ret (case odbc_ValidateUsername (e_U E) username of
        Some err \<Rightarrow> Inl (wrapped ''generated username validation failed'' err)
      | None \<Rightarrow> (case ValidatePassword password of
            Some err \<Rightarrow> Inl (wrapped ''generated password validation failed'' (sec_go err))
          | None \<Rightarrow> Inr (username, password))))))"

text \<open>The two handlers differ in the texts of the errors, which name the user in the batch: \<open>tag\<close> is the
  text after \<open>to create user\<close>, \<open>tag2\<close> the text after the other two.\<close>

definition run_creation :: "('d, 's) env \<Rightarrow> ctx \<Rightarrow> string \<Rightarrow> Config \<Rightarrow> string \<Rightarrow> string
    \<Rightarrow> string \<Rightarrow> string \<Rightarrow> (('d, 's, 'z) world_scheme, go_err + unit) act" where
  "run_creation E ctx tag2 cfg creation rollback username password =
     (if creation = [] then ret (Inr ())
      else bnd (executeSQL E ctx cfg (fill_template creation username password)) (\<lambda>r. case r of
         Inr _ \<Rightarrow> ret (Inr ())
       | Inl err \<Rightarrow>
           seq (if rollback \<noteq> []
                then seq (executeSQL E ctx cfg (fill_template rollback username password)) (ret ())
                else ret ())
           (seq (executeSQL E ctx cfg (''DROP USER '' @ username))
           (ret (Inl (wrapped (''failed to run creation statement'' @ tag2) err))))))"

definition create_user :: "('d, 's) env \<Rightarrow> ctx \<Rightarrow> string \<Rightarrow> string \<Rightarrow> Config \<Rightarrow> Role \<Rightarrow> string \<Rightarrow> string
    \<Rightarrow> string \<Rightarrow> string \<Rightarrow> (('d, 's, 'z) world_scheme, go_err + unit) act" where
  "create_user E ctx tag tag2 cfg role creation rollback username password =
     bndE (executeSQL E ctx cfg (buildTeradataCreateUserSQL role username password))
       (wrapped (''failed to create user'' @ tag)) (\<lambda>_.
     run_creation E ctx tag2 cfg creation rollback username password)"

definition lease_id :: "string \<Rightarrow> string \<Rightarrow> string" where
  "lease_id name username = ''teradata/creds/'' @ name @ ''/'' @ username"

definition new_credential :: "string \<Rightarrow> string \<Rightarrow> string \<Rightarrow> int \<Rightarrow> int \<Rightarrow> Credential" where
  "new_credential name region username createdAt expiresAt =
     \<lparr>cr_LeaseID = lease_id name username, cr_Username = username, cr_RoleName = name, cr_Region = region,
      cr_CreatedAt = createdAt, cr_ExpiresAt = expiresAt, cr_LastRenewed = zero_time\<rparr>"

definition record_credential :: "('d, 's) env \<Rightarrow> string \<Rightarrow> string \<Rightarrow> string \<Rightarrow> Role \<Rightarrow> string
    \<Rightarrow> (('d, 's, 'z) plugin_world_scheme, go_err + unit) act" where
  "record_credential E tag2 name region role username =
     bnd time_Now (\<lambda>t1. bnd time_Now (\<lambda>t2.
     let cred = new_credential name region username t2 (t1 + seconds (ro_DefaultTTL role)) in
     bndE (storeCredential E username cred) (wrapped (''failed to store credential'' @ tag2)) (\<lambda>_.
     seq (cacheCredential username cred) (ret (Inr ())))))"

definition ttl_secret :: "Role \<Rightarrow> (int \<times> int) option" where
  "ttl_secret role =
     (if 0 < ro_DefaultTTL role then Some (seconds (ro_DefaultTTL role), seconds (ro_MaxTTL role)) else None)"

definition credential_data :: "string \<Rightarrow> Role \<Rightarrow> string \<Rightarrow> string \<Rightarrow> (string \<times> fval) list" where
  "credential_data name role username password =
     [(''username'', VS username), (''password'', VS password),
      (''ttl'', VI (int_seconds (seconds (ro_DefaultTTL role)))),
      (''max_ttl'', VI (int_seconds (seconds (ro_MaxTTL role)))),
      (''lease_id'', VS (lease_id name username))]"

subsection \<open>The handlers\<close>

definition creation_response :: "string \<Rightarrow> Role \<Rightarrow> Config \<Rightarrow> string \<Rightarrow> string \<Rightarrow> response" where
  "creation_response name role cfg username password =
     \<lparr>rs_Data = credential_data name role username password @ [(''session_variables'',
        VSM (Some (mergeSessionVariables (cf_SessionVariables cfg) (ro_SessionVariables role))))],
      rs_Secret = ttl_secret role, rs_Warnings = []\<rparr>"

definition quota_error :: "string \<Rightarrow> Role \<Rightarrow> int \<Rightarrow> go_err" where
  "quota_error name role current = Errorf (''credential quota exceeded for role '' @ qq name @ '': max ''
     @ itoa (ro_MaxCredentials role) @ '', current '' @ itoa current)"

definition pathCredsRead :: "('d, 's) env \<Rightarrow> ctx \<Rightarrow> FieldData
    \<Rightarrow> (('d, 's, 'z) plugin_world_scheme, hres) act" where
  "pathCredsRead E ctx data =
     bnd (getS data ''name'') (\<lambda>name. bnd (getS data ''region'') (\<lambda>region.
     tryH (getRole E name) id (\<lambda>found. case found of
       None \<Rightarrow> failH (Errorf (''role '' @ qq name @ '' not found''))
     | Some role \<Rightarrow>
     tryH (if 0 < ro_MaxCredentials role
           then bndE (countCredentialsByRole E name) (wrapped ''failed to count credentials'') (\<lambda>currentCount.
             ret (if ro_MaxCredentials role \<le> currentCount then Inl (quota_error name role currentCount)
                  else Inr ()))
           else ret (Inr ())) id (\<lambda>_.
     admit E ''Database is currently unavailable. Credential creation is not possible in graceful degradation mode.''
       name region role (\<lambda>cfg creation rollback.
     tryH (draw_identity E role) id (\<lambda>(username, password).
     tryH (create_user E ctx [] [] cfg role creation rollback username password) id (\<lambda>_.
     tryH (record_credential E [] name region role username) id (\<lambda>_.
     seq (LogCredentialCreation E username name (lease_id name username) None)
     (seq (SendCredentialCreatedWebhook E ctx username name (lease_id name username) None)
     (okH (creation_response name role cfg username password)))))))))))"

text \<open>One round of the batch and its loop: the credentials made so far, or the error that ends it.\<close>

definition batch_one :: "('d, 's) env \<Rightarrow> ctx \<Rightarrow> string \<Rightarrow> string \<Rightarrow> Role \<Rightarrow> Config \<Rightarrow> string \<Rightarrow> string
    \<Rightarrow> (('d, 's, 'z) plugin_world_scheme, go_err + string \<times> string) act" where
  "batch_one E ctx name region role cfg creation rollback =
     bndE (draw_identity E role) id (\<lambda>(username, password).
     bndE (create_user E ctx ('' '' @ username) ('' for '' @ username) cfg role creation rollback username password) id (\<lambda>_.
     bndE (record_credential E ('' for '' @ username) name region role username) id (\<lambda>_.
     ret (Inr (username, password)))))"

fun batch_loop :: "('d, 's) env \<Rightarrow> ctx \<Rightarrow> string \<Rightarrow> string \<Rightarrow> Role \<Rightarrow> Config \<Rightarrow> string \<Rightarrow> string \<Rightarrow> nat
    \<Rightarrow> (('d, 's, 'z) plugin_world_scheme, go_err + (string \<times> string) list) act" where
  "batch_loop E ctx name region role cfg creation rollback 0 = ret (Inr [])"
| "batch_loop E ctx name region role cfg creation rollback (Suc n) =
     bndE (batch_one E ctx name region role cfg creation rollback) id (\<lambda>cred.
     bndE (batch_loop E ctx name region role cfg creation rollback n) id (\<lambda>creds.
     ret (Inr (cred # creds))))"

definition clamp_count :: "int \<Rightarrow> int" where
  "clamp_count n = (let count1 = (if n \<le> 0 then 1 else n) in if 100 < count1 then 100 else count1)"

definition batch_metadata :: "(string \<times> fval) list option" where
  "batch_metadata = Some [(''batch'', VB True)]"

definition batch_response :: "string \<Rightarrow> Role \<Rightarrow> Config \<Rightarrow> (string \<times> string) list \<Rightarrow> response" where
  "batch_response name role cfg credentials =
     \<lparr>rs_Data = [(''credentials'', VLM (map (\<lambda>(u, p). credential_data name role u p) credentials)),
        (''count'', VI (int (length credentials))),
        (''ttl'', VI (int_seconds (seconds (ro_DefaultTTL role)))),
        (''max_ttl'', VI (int_seconds (seconds (ro_MaxTTL role)))),
        (''session_variables'',
           VSM (Some (mergeSessionVariables (cf_SessionVariables cfg) (ro_SessionVariables role))))],
      rs_Secret = ttl_secret role, rs_Warnings = []\<rparr>"

text \<open>The remaining quota is a difference of two numbers that are not negative, which does not
  overflow.\<close>

definition pathCredsBatchRead :: "('d, 's) env \<Rightarrow> ctx \<Rightarrow> FieldData
    \<Rightarrow> (('d, 's, 'z) plugin_world_scheme, hres) act" where
  "pathCredsBatchRead E ctx data =
     bnd (getS data ''name'') (\<lambda>name. bnd (getI data ''count'') (\<lambda>count0. bnd (getS data ''region'') (\<lambda>region.
     let count1 = clamp_count count0 in
     tryH (getRole E name) id (\<lambda>found. case found of
       None \<Rightarrow> failH (Errorf (''role '' @ qq name @ '' not found''))
     | Some role \<Rightarrow>
     tryH (if 0 < ro_MaxCredentials role
           then bndE (countCredentialsByRole E name) (wrapped ''failed to count credentials'') (\<lambda>currentCount.
             let remainingQuota = ro_MaxCredentials role - currentCount in
             ret (if remainingQuota \<le> 0 then Inl (quota_error name role currentCount)
                  else Inr (if remainingQuota < count1 then remainingQuota else count1)))
           else ret (Inr count1)) id (\<lambda>count.
     admit E ''Database is currently unavailable. Batch credential creation is not possible in graceful degradation mode.''
       name region role (\<lambda>cfg creation rollback.
     tryH (batch_loop E ctx name region role cfg creation rollback (nat count)) id (\<lambda>credentials.
     seq (for_each credentials (\<lambda>(username, password).
            seq (LogCredentialCreation E username name (lease_id name username) batch_metadata)
           (seq (SendCredentialCreatedWebhook E ctx username name (lease_id name username) batch_metadata)
           (ret ()))))
     (okH (batch_response name role cfg credentials)))))))))"

end
