(* ===== verification/Issuing.thy ===== *)
theory Issuing
  imports Path_Creds
begin

text \<open>
  What issuing credentials does: the CREATE USER statement reaches the database as one statement, the
  walk through the two handlers of \<open>plugin/path_creds.go\<close> step by step, and the properties of the
  handlers and of the clean-up that follow from it.
\<close>

subsection \<open>The CREATE USER statement\<close>

lemma TrimSpace_newline:
  assumes "ascii s" "s \<noteq> []" "\<not> space_char (hd s)" "\<not> space_char (last s)"
  shows "TrimSpace (s @ [CHR 0x0A]) = s"
proof -
  have "ascii (s @ [CHR 0x0A])" using assms(1) by (auto simp: ascii_set)
  moreover have "dropWhile space_char (s @ [CHR 0x0A]) = s @ [CHR 0x0A]"
    using assms(2,3) by (cases s) simp_all
  moreover have "dropWhile space_char (rev s) = rev s"
    using assms(2,4) by (cases s rule: rev_cases) simp_all
  ultimately show ?thesis by (simp add: TrimSpace_ascii space_char_def IsSpace_def)
qed

lemma statements_of_line:
  assumes s: "ascii s" "s \<noteq> []" "\<not> space_char (hd s)" "\<not> space_char (last s)"
    and "CHR 0x0A \<notin> set s" and "last s \<noteq> CHR '';''"
  shows "statements_of s = [s]"
proof -
  have "parseSQLStatements s = [s @ [CHR 0x0A]]"
    using assms by (simp add: parseSQLStatements_def Split_no_sep TrimSpace_id Let_def)
  moreover have "TrimSuffix s '';'' = s"
    using assms(2,6) by (cases s rule: rev_cases) (simp_all add: TrimSuffix_def)
  ultimately show ?thesis
    using s by (simp add: statements_of_def List.map_filter_def stmt_to_send_def TrimSpace_newline TrimSpace_id Let_def)
qed

lemma create_line:
  assumes "odbc_ValidateUsername U username = None" and "ValidatePassword password = None"
  shows "ascii (buildTeradataCreateUserSQL role username password)"
    "CHR 0x0A \<notin> set (buildTeradataCreateUserSQL role username password)"
proof -
  from assms(1) have u: "set username \<subseteq> set usernameChars" by (simp add: odbc_ValidateUsername_None)
  then have "ascii username" by (rule ascii_username)
  moreover from assms(2) have p: "\<forall>c\<in>set password. 33 \<le> byte c \<and> byte c \<le> 126"
    by (simp add: ValidatePassword_None)
  then have "ascii password" by (force simp: ascii_set)
  ultimately show "ascii (buildTeradataCreateUserSQL role username password)"
    by (auto simp: ascii_set buildTeradataCreateUserSQL_def qq_def)
  have "CHR 0x0A \<notin> set username" using u by (auto simp: usernameChars_def)
  moreover from p have "CHR 0x0A \<notin> set password" by force
  ultimately show "CHR 0x0A \<notin> set (buildTeradataCreateUserSQL role username password)"
    by (simp add: buildTeradataCreateUserSQL_def qq_def)
qed

lemma create_ends:
  "buildTeradataCreateUserSQL role username password \<noteq> []"
  "\<not> space_char (hd (buildTeradataCreateUserSQL role username password))"
  "\<not> space_char (last (buildTeradataCreateUserSQL role username password))"
  "last (buildTeradataCreateUserSQL role username password) \<noteq> CHR '';''"
  by (simp_all add: buildTeradataCreateUserSQL_def space_char_def IsSpace_def)

lemma create_statement:
  assumes "odbc_ValidateUsername U username = None" and "ValidatePassword password = None"
  shows "statements_of (buildTeradataCreateUserSQL role username password)
      = [buildTeradataCreateUserSQL role username password]"
    "TrimSpace (buildTeradataCreateUserSQL role username password) \<noteq> []"
  using statements_of_line [OF create_line(1) create_ends(1-3) create_line(2) create_ends(4), OF assms assms]
    create_ends by (simp_all add: TrimSpace_id [OF create_line(1) create_ends(1-3), OF assms])

subsection \<open>Creating a user, step by step\<close>

definition drawn_ok :: "('d, 's) env \<Rightarrow> go_err + string \<times> string \<Rightarrow> bool" where
  "drawn_ok E r \<longleftrightarrow> (\<forall>u p. r = Inr (u, p) \<longrightarrow> odbc_ValidateUsername (e_U E) u = None \<and> ValidatePassword p = None)"

lemma returns_draw_identity: "returns (drawn_ok E) (draw_identity E role)"
  unfolding draw_identity_def bndE_def
  by (intro returns_rules) (auto simp: drawn_ok_def intro!: returns_rules split: sum.split option.split)

lemma silent_draw_identity: "silent view (draw_identity E role)"
  unfolding draw_identity_def generatePasswordWithPolicy_def
  by (intro silent_bnd silent_bndE silent_if silent_effects silent_generateUsername silent_generatePassword)

text \<open>The statements one user's creation may send, and what a successful one has sent.\<close>

definition creation_texts :: "Role \<Rightarrow> string \<Rightarrow> string \<Rightarrow> string \<Rightarrow> string \<Rightarrow> string set" where
  "creation_texts role creation rollback username password =
     {buildTeradataCreateUserSQL role username password, fill_template creation username password,
      fill_template rollback username password, ''DROP USER '' @ username}"

definition sendable :: "string set \<Rightarrow> string set" where
  "sendable texts = (\<Union>t\<in>texts. set (statements_of t))"

lemma sendableI: "set l \<subseteq> set (statements_of t) \<Longrightarrow> t \<in> T \<Longrightarrow> set l \<subseteq> sendable T"
  by (auto simp: sendable_def)

lemma out_executeSQL_ignored:
  fixes z :: 'z and E :: "('d, 's) env"
  assumes "\<And>r l. set l \<subseteq> set (statements_of sql) \<Longrightarrow> Q r (V, L @ map (Pair (conn_of E cfg)) l, z)"
  shows "out view (V, L, z) (executeSQL E ctx cfg sql) Q Z"
  by (rule out_executeSQL) (simp_all add: assms)

lemma out_run_creation:
  fixes z :: 'z and E :: "('d, 's) env"
  assumes Q: "\<And>r l. set l \<subseteq> sendable (creation_texts role creation rollback username password)
      \<Longrightarrow> Q r (V, L @ map (Pair (conn_of E cfg)) l, z)"
  shows "out view (V, L, z) (run_creation E ctx tag2 cfg creation rollback username password) Q Z"
proof -
  define T where "T = creation_texts role creation rollback username password"
  have t: "fill_template creation username password \<in> T" "fill_template rollback username password \<in> T"
    "''DROP USER '' @ username \<in> T" by (simp_all add: T_def creation_texts_def)
  note sub = sendableI [OF _ t(1)] sendableI [OF _ t(2)] sendableI [OF _ t(3)]
  have Q': "Q r (V, L @ map (Pair (conn_of E cfg)) l1 @ map (Pair (conn_of E cfg)) l2, z)"
    if "set l1 \<subseteq> sendable T" "set l2 \<subseteq> sendable T" for r l1 l2
    using Q [folded T_def, of "l1 @ l2" r] that by simp
  have Q'': "Q r (V, L @ map (Pair (conn_of E cfg)) l1 @ map (Pair (conn_of E cfg)) l2
      @ map (Pair (conn_of E cfg)) l3, z)"
    if "set l1 \<subseteq> sendable T" "set l2 \<subseteq> sendable T" "set l3 \<subseteq> sendable T" for r l1 l2 l3
    using Q [folded T_def, of "l1 @ l2 @ l3" r] that by simp
  show ?thesis
    unfolding run_creation_def
    by (intro out_if out_bnd out_ret out_executeSQL_ignored out_case_sum out_seq)
      (insert Q [folded T_def, of "[]"], auto intro!: Q [folded T_def] Q' Q'' intro: sub del: subsetI)
qed

lemma out_create_user:
  fixes z :: 'z and E :: "('d, 's) env"
  assumes ok: "odbc_ValidateUsername (e_U E) username = None" "ValidatePassword password = None"
    and fail: "\<And>e l. set l \<subseteq> sendable (creation_texts role creation rollback username password)
      \<Longrightarrow> Q (Inl e) (V, L @ map (Pair (conn_of E cfg)) l, z)"
    and made: "\<And>k l. set (k @ l) \<subseteq> sendable (creation_texts role creation rollback username password)
      \<Longrightarrow> Q (Inr ()) (V, L @ map (Pair (conn_of E cfg)) (k @ buildTeradataCreateUserSQL role username password # l), z)"
  shows "out view (V, L, z) (create_user E ctx tag tag2 cfg role creation rollback username password) Q Z"
proof -
  let ?T = "creation_texts role creation rollback username password"
  let ?c = "buildTeradataCreateUserSQL role username password" and ?m = "map (Pair (conn_of E cfg))"
  note c = create_statement [OF ok, of role]
  have cT: "?c \<in> ?T" by (simp add: creation_texts_def)
  show ?thesis
    unfolding create_user_def
  proof (rule out_bndE, rule out_executeSQL, simp_all only: sum.case)
    fix e l assume "set l \<subseteq> set (statements_of ?c)"
    then show "Q (Inl (wrapped (''failed to create user'' @ tag) e)) (V, L @ ?m l, z)"
      by (intro fail sendableI [OF _ cT])
  next
    fix l assume l: "set l \<subseteq> set (statements_of ?c)" "TrimSpace ?c \<noteq> [] \<Longrightarrow> \<exists>k. l = k @ statements_of ?c"
    with c obtain k where k: "l = k @ [?c]" by auto
    with l(1) have kT: "set k \<subseteq> sendable ?T" "set (k @ [?c]) \<subseteq> sendable ?T"
      using sendableI [OF l(1) cT] by auto
    show "out view (V, L @ ?m l, z) (run_creation E ctx tag2 cfg creation rollback username password) Q Z"
    proof (rule out_run_creation)
      fix r :: "go_err + unit" and l'
      assume l': "set l' \<subseteq> sendable ?T"
      show "Q r (V, (L @ ?m l) @ ?m l', z)"
      proof (cases r)
        case (Inl e)
        with fail [of "l @ l'" e] l' kT k show ?thesis by simp
      next
        case (Inr u)
        with made [of k l'] l' kT k show ?thesis by simp
      qed
    qed
  qed
qed

subsection \<open>Counting\<close>

text \<open>The users stored for a role.\<close>

definition role_users :: "(string \<Rightarrow> stored option) \<Rightarrow> string \<Rightarrow> string set" where
  "role_users V name = {u. CHR ''/'' \<notin> set u \<and> (\<exists>c. V (credentialPrefix @ u) = Some (SCred c) \<and> cr_RoleName c = name)}"

definition entry_counts :: "(string \<Rightarrow> stored option) \<Rightarrow> string \<Rightarrow> string \<Rightarrow> bool" where
  "entry_counts V name e \<longleftrightarrow> (\<exists>c. V (credentialPrefix @ entry_user e) = Some (SCred c) \<and> cr_RoleName c = name)"

lemma entry_user_plain: "CHR ''/'' \<notin> set u \<Longrightarrow> entry_user u = u"
  by (auto simp: entry_user_def TrimPrefix_def credentialPrefix_def prefix_def)

lemma out_count_loop:
  assumes "lawful_storage view (e_S E)" and "\<And>e. Q (Inl e) (V, L, z)"
    and "Q (Inr (n + int (length (filter (entry_counts V name) es)))) (V, L, z)"
  shows "out view (V, L, z) (count_loop E name n es) Q Z"
  using assms(3)
proof (induction es arbitrary: n)
  case Nil
  then show ?case by (simp add: out_ret)
next
  case (Cons e es)
  show ?case
    unfolding count_loop.simps
  proof (rule out_bndE, rule out_getCredential [OF assms(1)], simp_all only: sum.case option.case)
    assume "V (credentialPrefix @ entry_user e) = None"
    with Cons.prems show "out view (V, L, z) (count_loop E name n es) Q Z"
      by (intro Cons.IH) (simp add: entry_counts_def)
  next
    fix c assume c: "V (credentialPrefix @ entry_user e) = Some (SCred c)"
    show "out view (V, L, z) (count_loop E name (if cr_RoleName c = name then n + 1 else n) es) Q Z"
    proof (rule Cons.IH)
      have "entry_counts V name e \<longleftrightarrow> cr_RoleName c = name" using c by (simp add: entry_counts_def)
      with Cons.prems show "Q (Inr ((if cr_RoleName c = name then n + 1 else n)
          + int (length (filter (entry_counts V name) es)))) (V, L, z)"
        by (simp add: algebra_simps split: if_splits)
    qed
  qed (rule assms(2))
qed

lemma role_users_counted:
  assumes "lists_keys credentialPrefix V ks"
  shows "finite (role_users V name) \<and> card (role_users V name) \<le> length (filter (entry_counts V name) ks)"
proof -
  have sub: "role_users V name \<subseteq> set (filter (entry_counts V name) ks)"
    using assms by (auto simp: role_users_def entry_counts_def entry_user_plain lists_keys_def)
  then have "card (role_users V name) \<le> card (set (filter (entry_counts V name) ks))"
    by (intro card_mono) simp_all
  also have "\<dots> \<le> length (filter (entry_counts V name) ks)" by (rule card_length)
  finally show ?thesis using sub finite_subset by blast
qed

lemma out_countCredentialsByRole:
  assumes "lawful_storage view (e_S E)" and "\<And>e. Q (Inl e) (V, L, z)"
    and "\<And>n. finite (role_users V name) \<Longrightarrow> int (card (role_users V name)) \<le> n \<Longrightarrow> Q (Inr n) (V, L, z)"
  shows "out view (V, L, z) (countCredentialsByRole E name) Q Z"
  unfolding countCredentialsByRole_def
proof (rule out_bndE, rule out_List [OF assms(1)])
  show "audit_free (credentialPrefix @ k)" for k unfolding credentialPrefix_def by (rule audit_free_keys)
next
  fix ks assume "lists_keys credentialPrefix V ks"
  note c = role_users_counted [OF this, of name]
  have "out view (V, L, z) (count_loop E name 0 ks) Q Z"
    by (rule out_count_loop [where Q = Q, OF assms(1,2)]) (use c in \<open>auto intro!: assms(3)\<close>)
  then show "case Inr ks of Inl e \<Rightarrow> Q (Inl (id e)) (V, L, z) | Inr a \<Rightarrow> out view (V, L, z) (count_loop E name 0 a) Q Z"
    by simp
qed (simp add: assms(2))

lemma role_users_add:
  "role_users (V(credentialPrefix @ u \<mapsto> SCred c)) name \<subseteq> insert u (role_users V name)"
  by (auto simp: role_users_def split: if_splits)

subsection \<open>Admission\<close>

definition statements_at :: "(string \<Rightarrow> stored option) \<Rightarrow> Role \<Rightarrow> (string \<times> string) option" where
  "statements_at V role =
     (if ro_StatementTemplate role = [] then Some (ro_CreationStatement role, ro_RollbackStatement role)
      else map_option (\<lambda>statement.
        (if sm_CreationStatement statement \<noteq> [] then sm_CreationStatement statement else ro_CreationStatement role,
         if sm_RollbackStatement statement \<noteq> [] then sm_RollbackStatement statement else ro_RollbackStatement role))
       (Option.bind (V (''statements/'' @ ro_StatementTemplate role)) as_statement))"

text \<open>What must hold of the state before a user is created for a request.\<close>

definition grants :: "('d, 's) env \<Rightarrow> (string \<Rightarrow> stored option) \<Rightarrow> ('d, 's, 'z) plugin_world_scheme
    \<Rightarrow> string \<Rightarrow> string \<Rightarrow> Role \<Rightarrow> Config \<Rightarrow> bool" where
  "grants E V w name region role cfg \<longleftrightarrow>
     role_at V name = Some role \<and> config_at V region = Some cfg \<and> role_allowed cfg name \<and>
     refusal region w = None \<and>
     (ro_UsernamePrefix role \<noteq> [] \<longrightarrow> odbc_ValidateUsername (e_U E) (ro_UsernamePrefix role) = None) \<and>
     (0 < ro_MaxCredentials role \<longrightarrow> finite (role_users V name)
        \<and> int (card (role_users V name)) < ro_MaxCredentials role)"

lemma refusal_same:
  fixes w w' :: "('d, 's, 'z) plugin_world_scheme"
  shows "world.more w = world.more w' \<Longrightarrow> refusal region w = refusal region w'"
  using same_backend_fields [of w w'] by (auto simp: same_backend_def refusal_def ShouldUseDegradation_def cong: prod.case_cong split: prod.split)

lemma out_resolve_config:
  assumes "lawful_storage view (e_S E)" and "\<And>e. Q (Inl e) (V, L, z)"
    and "\<And>cfg. config_at V region = Some cfg \<Longrightarrow> Q (Inr cfg) (V, L, z)"
  shows "out view (V, L, z) (resolve_config E region) Q Z"
  unfolding resolve_config_def
  by (intro out_if out_bndE out_getConfigByName out_getConfig assms(1)) (auto intro!: out_ret assms(2,3))

lemma out_role_statements:
  assumes "lawful_storage view (e_S E)" and "\<And>e. Q (Inl e) (V, L, z)"
    and "\<And>st. statements_at V role = Some st \<Longrightarrow> Q (Inr st) (V, L, z)"
  shows "out view (V, L, z) (role_statements E role) Q Z"
proof -
  have "audit_free (''statements/'' @ ro_StatementTemplate role)" by (rule audit_free_keys)
  then show ?thesis
    unfolding role_statements_def getStatement_def
    by (intro out_if out_bndE out_get_as assms(1))
      (auto simp: statements_at_def intro!: out_ret assms(2,3))
qed

lemma out_admit:
  fixes w0 :: "('d, 's, 'z) plugin_world_scheme" and E :: "('d, 's) env"
  assumes law: "lawful_storage view (e_S E)" and w0: "world.more w0 = z"
    and fail: "\<And>e. Q (Inl e) (V, L, z)"
    and go: "\<And>cfg creation rollback. config_at V region = Some cfg \<Longrightarrow> role_allowed cfg name \<Longrightarrow> refusal region w0 = None
      \<Longrightarrow> (ro_UsernamePrefix role \<noteq> [] \<longrightarrow> odbc_ValidateUsername (e_U E) (ro_UsernamePrefix role) = None)
      \<Longrightarrow> statements_at V role = Some (creation, rollback)
      \<Longrightarrow> out view (V, L, z) (k cfg creation rollback) Q Z"
  shows "out view (V, L, z) (admit E warning name region role k) Q Z"
  unfolding admit_def
proof (rule out_guardH, rule fail, rule out_tryH, rule out_resolve_config [OF law], goal_cases)
  case (2 cfg)
  have r: "refusal region w = refusal region w0" if "visible view w = (V, L, z)" for w :: "('d, 's, 'z) plugin_world_scheme"
    using that w0 by (intro refusal_same) (simp add: visible_def)
  from 2(1) have p: "ro_UsernamePrefix role \<noteq> [] \<longrightarrow> odbc_ValidateUsername (e_U E) (ro_UsernamePrefix role) = None"
    by (auto split: if_splits)
  show ?case
    by (auto simp: r fail p intro!: out_if out_failH out_bnd out_gets out_case_option out_case_prod out_ret out_tryH
        out_role_statements law go 2 split: sum.split if_splits)
qed (simp add: fail)

subsection \<open>Storing the credential\<close>

lemma out_cacheCredential:
  assumes "\<And>z'. Q () (V, L, z')"
  shows "out view (V, L, z) (cacheCredential username cred) Q Z"
  unfolding cacheCredential_def
  by (rule out_bnd, rule out_gets, rule out_case_option)
    (intro out_ret assms, intro out_bnd_silent silent_effects out_modify, simp add: visible_def assms)

lemma out_storeCredential:
  assumes "lawful_storage view (e_S E)" and "\<And>e. Q (Inl e) (V, L, z)"
    and "Q (Inr ()) (V(credentialPrefix @ u \<mapsto> SCred c), L, z)"
  shows "out view (V, L, z) (storeCredential E u c) Q Z"
  unfolding storeCredential_def
  by (rule out_Put [OF assms(1), where key = "credentialPrefix @ u"])
    (simp_all only: credentialPrefix_def audit_free_keys assms(2,3) [unfolded credentialPrefix_def])

lemma out_record_credential:
  assumes "lawful_storage view (e_S E)" and fail: "\<And>e. Q (Inl e) (V, L, z)"
    and made: "\<And>t1 t2 z'. Q (Inr ())
      (V(credentialPrefix @ u \<mapsto> SCred (new_credential name region u t2 (t1 + seconds (ro_DefaultTTL role)))), L, z')"
  shows "out view (V, L, z) (record_credential E tag2 name region role u) Q Z"
  unfolding record_credential_def Let_def
  by (intro out_bnd_silent silent_effects out_bndE out_storeCredential assms(1))
    (auto intro!: out_seq out_cacheCredential out_ret fail made)

subsection \<open>A request for one credential\<close>

text \<open>What the request leaves: \<open>V\<close>, \<open>L\<close> and \<open>w\<close> are the state before it.\<close>

definition read_result :: "('d, 's) env \<Rightarrow> FieldData \<Rightarrow> (string \<Rightarrow> stored option) \<Rightarrow> (string \<times> string) list
    \<Rightarrow> ('d, 's, 'z) plugin_world_scheme \<Rightarrow> hres \<Rightarrow> (string \<Rightarrow> stored option) \<Rightarrow> (string \<times> string) list \<Rightarrow> bool" where
  "read_result E data V L w r V' L' \<longleftrightarrow> (case r of
     Inl _ \<Rightarrow> V' = V \<and> (L' = L \<or> (\<exists>name region role cfg creation rollback username password l.
         fd_Get data ''name'' = Some (VS name) \<and> fd_Get data ''region'' = Some (VS region) \<and>
         grants E V w name region role cfg \<and> statements_at V role = Some (creation, rollback) \<and>
         odbc_ValidateUsername (e_U E) username = None \<and> ValidatePassword password = None \<and>
         L' = L @ map (Pair (conn_of E cfg)) l \<and> set l \<subseteq> sendable (creation_texts role creation rollback username password)))
   | Inr resp \<Rightarrow> (\<exists>name region role cfg creation rollback username password t1 t2 k l.
         fd_Get data ''name'' = Some (VS name) \<and> fd_Get data ''region'' = Some (VS region) \<and>
         grants E V w name region role cfg \<and> statements_at V role = Some (creation, rollback) \<and>
         odbc_ValidateUsername (e_U E) username = None \<and> ValidatePassword password = None \<and>
         resp = Some (creation_response name role cfg username password) \<and>
         V' = V(credentialPrefix @ username
            \<mapsto> SCred (new_credential name region username t2 (t1 + seconds (ro_DefaultTTL role)))) \<and>
         L' = L @ map (Pair (conn_of E cfg)) (k @ buildTeradataCreateUserSQL role username password # l) \<and>
         set (k @ l) \<subseteq> sendable (creation_texts role creation rollback username password)))"

lemma grantsI:
  "role_at V name = Some role \<Longrightarrow> config_at V region = Some cfg \<Longrightarrow> role_allowed cfg name \<Longrightarrow> refusal region w = None
   \<Longrightarrow> (ro_UsernamePrefix role \<noteq> [] \<longrightarrow> odbc_ValidateUsername (e_U E) (ro_UsernamePrefix role) = None)
   \<Longrightarrow> (0 < ro_MaxCredentials role \<longrightarrow> finite (role_users V name) \<and> int (card (role_users V name)) < ro_MaxCredentials role)
   \<Longrightarrow> grants E V w name region role cfg"
  by (simp add: grants_def)

lemma read_failed:
  "read_result E data V L w (Inl e) V L"
  "fd_Get data ''name'' = Some (VS name) \<Longrightarrow> fd_Get data ''region'' = Some (VS region)
   \<Longrightarrow> grants E V w name region role cfg \<Longrightarrow> statements_at V role = Some (creation, rollback)
   \<Longrightarrow> odbc_ValidateUsername (e_U E) u = None \<Longrightarrow> ValidatePassword p = None
   \<Longrightarrow> set l \<subseteq> sendable (creation_texts role creation rollback u p)
   \<Longrightarrow> read_result E data V L w (Inl e) V (L @ map (Pair (conn_of E cfg)) l)"
  unfolding read_result_def sum.case by blast+

lemma read_issued:
  "fd_Get data ''name'' = Some (VS name) \<Longrightarrow> fd_Get data ''region'' = Some (VS region)
   \<Longrightarrow> grants E V w name region role cfg \<Longrightarrow> statements_at V role = Some (creation, rollback)
   \<Longrightarrow> odbc_ValidateUsername (e_U E) u = None \<Longrightarrow> ValidatePassword p = None
   \<Longrightarrow> set (k @ l) \<subseteq> sendable (creation_texts role creation rollback u p)
   \<Longrightarrow> read_result E data V L w (Inr (Some (creation_response name role cfg u p)))
     (V(credentialPrefix @ u \<mapsto> SCred (new_credential name region u t2 (t1 + seconds (ro_DefaultTTL role)))))
     (L @ map (Pair (conn_of E cfg)) (k @ buildTeradataCreateUserSQL role u p # l))"
  unfolding read_result_def sum.case by blast

lemma create_sendable:
  "odbc_ValidateUsername U u = None \<Longrightarrow> ValidatePassword p = None
   \<Longrightarrow> set (k @ l) \<subseteq> sendable (creation_texts role creation rollback u p)
   \<Longrightarrow> set (k @ buildTeradataCreateUserSQL role u p # l) \<subseteq> sendable (creation_texts role creation rollback u p)"
  using create_statement(1) [of U u p role] by (auto simp: sendable_def creation_texts_def)

lemma pathCredsRead_out:
  fixes w :: "('d, 's, 'z) plugin_world_scheme" and E :: "('d, 's) env"
  assumes law: "lawful_storage view (e_S E)" and w: "world.more w = z"
  shows "out view (V, L, z) (pathCredsRead E ctx data) (\<lambda>r (V', L', z'). read_result E data V L w r V' L')
    (\<lambda>s. s = (V, L, z))"
  unfolding pathCredsRead_def
proof (rule out_bnd, rule out_getS, rule out_bnd, rule out_getS, rule out_tryH, rule out_getRole [OF law], goal_cases)
  case (3 name region role)
  note err = read_failed(1)
  have quota: "out view (V, L, z)
     (if 0 < ro_MaxCredentials role
      then bndE (countCredentialsByRole E name) (wrapped ''failed to count credentials'') (\<lambda>currentCount.
        ret (if ro_MaxCredentials role \<le> currentCount then Inl (quota_error name role currentCount) else Inr ()))
      else ret (Inr ())) R (\<lambda>s. s = (V, L, z))"
    if "\<And>e. R (Inl e) (V, L, z)"
      and "0 < ro_MaxCredentials role \<longrightarrow> finite (role_users V name) \<and> int (card (role_users V name)) < ro_MaxCredentials role
        \<Longrightarrow> R (Inr ()) (V, L, z)" for R
    by (intro out_if out_bndE out_countCredentialsByRole law) (auto intro!: out_ret that)
  have made: "out view (V, L, z)
     (tryH (draw_identity E role) id (\<lambda>(username, password).
      tryH (create_user E ctx [] [] cfg role creation rollback username password) id (\<lambda>_.
      tryH (record_credential E [] name region role username) id (\<lambda>_.
      seq (LogCredentialCreation E username name (lease_id name username) None)
     (seq (SendCredentialCreatedWebhook E ctx username name (lease_id name username) None)
     (okH (creation_response name role cfg username password)))))))
     (\<lambda>r (V', L', z'). read_result E data V L w r V' L') (\<lambda>s. s = (V, L, z))"
    if g: "grants E V w name region role cfg" and st: "statements_at V role = Some (creation, rollback)"
    for cfg creation rollback
  proof (rule out_tryH, rule out_silent [OF silent_draw_identity returns_draw_identity])
    fix r assume r: "drawn_ok E r"
    show "case r of Inl e \<Rightarrow> (\<lambda>r (V', L', z'). read_result E data V L w r V' L') (Inl (id e, None)) (V, L, z)
      | Inr a \<Rightarrow> out view (V, L, z) ((\<lambda>(username, password).
      tryH (create_user E ctx [] [] cfg role creation rollback username password) id (\<lambda>_.
      tryH (record_credential E [] name region role username) id (\<lambda>_.
      seq (LogCredentialCreation E username name (lease_id name username) None)
     (seq (SendCredentialCreatedWebhook E ctx username name (lease_id name username) None)
     (okH (creation_response name role cfg username password)))))) a)
     (\<lambda>r (V', L', z'). read_result E data V L w r V' L') (\<lambda>s. s = (V, L, z))"
    proof (cases r)
      case (Inr a)
      obtain u p where a: "a = (u, p)" by (cases a)
      from r Inr a have ok: "odbc_ValidateUsername (e_U E) u = None" "ValidatePassword p = None"
        by (simp_all add: drawn_ok_def)
      show ?thesis
        unfolding Inr a sum.case prod.case
      proof (rule out_tryH, rule out_create_user [OF ok], simp_all only: sum.case prod.case)
        fix e l
        assume "set l \<subseteq> sendable (creation_texts role creation rollback u p)"
        with 3(1,2) g st ok show "read_result E data V L w (Inl (id e, None)) V (L @ map (Pair (conn_of E cfg)) l)"
          by (rule read_failed(2))
      next
        fix k l
        assume kl: "set (k @ l) \<subseteq> sendable (creation_texts role creation rollback u p)"
        note f = read_failed(2) [OF 3(1,2) g st ok create_sendable [OF ok kl]] and i = read_issued [OF 3(1,2) g st ok kl]
        show "out view (V, L @ map (Pair (conn_of E cfg)) (k @ buildTeradataCreateUserSQL role u p # l), z)
          (tryH (record_credential E [] name region role u) id (\<lambda>_.
            seq (LogCredentialCreation E u name (lease_id name u) None)
           (seq (SendCredentialCreatedWebhook E ctx u name (lease_id name u) None)
           (okH (creation_response name role cfg u p)))))
          (\<lambda>r (V', L', z'). read_result E data V L w r V' L') (\<lambda>s. s = (V, L, z))"
          by (rule out_tryH, rule out_record_credential [OF law], simp_all only: sum.case prod.case f)
            (intro out_seq_silent silent_logs silent_webhooks law out_okH, simp only: prod.case i)
      qed
    qed (simp add: err)
  qed
  show ?case
    by (simp only: sum.case option.case, rule out_tryH, rule quota, simp_all only: sum.case prod.case err)
      (rule out_admit [OF law w], simp_all only: prod.case err, rule made, simp_all add: grants_def 3)
qed (simp_all add: read_result_def out_failH)

subsection \<open>A batch\<close>

definition store_all :: "(string \<Rightarrow> stored option) \<Rightarrow> (string \<times> Credential) list \<Rightarrow> string \<Rightarrow> stored option" where
  "store_all V ucs = foldl (\<lambda>V (u, c). V(credentialPrefix @ u \<mapsto> SCred c)) V ucs"

text \<open>Credentials made for the role of a request, and the statements their creation may send.\<close>

definition made_for :: "('d, 's) env \<Rightarrow> string \<Rightarrow> string \<Rightarrow> Role \<Rightarrow> (string \<times> Credential) list \<Rightarrow> bool" where
  "made_for E name region role = list_all (\<lambda>(u, c). odbc_ValidateUsername (e_U E) u = None \<and>
     (\<exists>t1 t2. c = new_credential name region u t2 (t1 + seconds (ro_DefaultTTL role))))"

definition batch_sendable :: "('d, 's) env \<Rightarrow> Role \<Rightarrow> string \<Rightarrow> string \<Rightarrow> string set" where
  "batch_sendable E role creation rollback =
     (\<Union>u\<in>{u. odbc_ValidateUsername (e_U E) u = None}. \<Union>p\<in>{p. ValidatePassword p = None}.
        sendable (creation_texts role creation rollback u p))"

lemma batch_sendableI:
  "odbc_ValidateUsername (e_U E) u = None \<Longrightarrow> ValidatePassword p = None
   \<Longrightarrow> set l \<subseteq> sendable (creation_texts role creation rollback u p) \<Longrightarrow> set l \<subseteq> batch_sendable E role creation rollback"
  by (auto simp: batch_sendable_def)

lemma out_batch_one:
  assumes law: "lawful_storage view (e_S E)"
    and fail: "\<And>e l. set l \<subseteq> batch_sendable E role creation rollback
      \<Longrightarrow> Q (Inl e) (V, L @ map (Pair (conn_of E cfg)) l, z)"
    and made: "\<And>u p c l z'. set l \<subseteq> batch_sendable E role creation rollback \<Longrightarrow> made_for E name region role [(u, c)]
      \<Longrightarrow> ValidatePassword p = None \<Longrightarrow> buildTeradataCreateUserSQL role u p \<in> set l
      \<Longrightarrow> Q (Inr (u, p)) (V(credentialPrefix @ u \<mapsto> SCred c), L @ map (Pair (conn_of E cfg)) l, z')"
  shows "out view (V, L, z) (batch_one E ctx name region role cfg creation rollback) Q Z"
  unfolding batch_one_def
proof (rule out_bndE, rule out_silent [OF silent_draw_identity returns_draw_identity])
  fix r assume r: "drawn_ok E r"
  show "case r of Inl e \<Rightarrow> Q (Inl (id e)) (V, L, z) | Inr a \<Rightarrow> out view (V, L, z) ((\<lambda>(username, password).
     bndE (create_user E ctx ('' '' @ username) ('' for '' @ username) cfg role creation rollback username password) id (\<lambda>_.
     bndE (record_credential E ('' for '' @ username) name region role username) id (\<lambda>_.
     ret (Inr (username, password))))) a) Q Z"
  proof (cases r)
    case (Inl e)
    with fail [of "[]"] show ?thesis by simp
  next
    case (Inr a)
    obtain u p where a: "a = (u, p)" by (cases a)
    from r Inr a have ok: "odbc_ValidateUsername (e_U E) u = None" "ValidatePassword p = None"
      by (simp_all add: drawn_ok_def)
    show ?thesis
      unfolding Inr a sum.case prod.case
    proof (rule out_bndE, rule out_create_user [OF ok], simp_all only: sum.case)
      fix e l
      assume "set l \<subseteq> sendable (creation_texts role creation rollback u p)"
      with ok show "Q (Inl (id e)) (V, L @ map (Pair (conn_of E cfg)) l, z)"
        by (intro fail batch_sendableI)
    next
      fix k l
      let ?l = "k @ buildTeradataCreateUserSQL role u p # l"
      assume "set (k @ l) \<subseteq> sendable (creation_texts role creation rollback u p)"
      then have l: "set ?l \<subseteq> batch_sendable E role creation rollback"
        by (rule batch_sendableI [OF ok create_sendable [OF ok]])
      show "out view (V, L @ map (Pair (conn_of E cfg)) ?l, z)
        (bndE (record_credential E ('' for '' @ u) name region role u) id (\<lambda>_. ret (Inr (u, p)))) Q Z"
      proof (rule out_bndE, rule out_record_credential [OF law], simp_all only: sum.case)
        fix t1 t2 :: int and z'
        show "out view (V(credentialPrefix @ u \<mapsto> SCred (new_credential name region u t2 (t1 + seconds (ro_DefaultTTL role)))),
            L @ map (Pair (conn_of E cfg)) ?l, z') (ret (Inr (u, p))) Q Z"
        proof (rule out_ret, rule made [OF l])
          show "made_for E name region role
              [(u, new_credential name region u t2 (t1 + seconds (ro_DefaultTTL role)))]"
            using ok(1) by (auto simp: made_for_def)
        qed (simp_all add: ok(2))
      qed (rule fail [OF l])
    qed
  qed
qed

lemma store_all_Cons: "store_all V ((u, c) # ucs) = store_all (V(credentialPrefix @ u \<mapsto> SCred c)) ucs"
  by (simp add: store_all_def)

lemma made_for_Cons:
  "made_for E name region role (uc # ucs) \<longleftrightarrow> made_for E name region role [uc] \<and> made_for E name region role ucs"
  by (simp add: made_for_def)

text \<open>What the loop leaves: on an error the credentials of some rounds are stored, at the end those of
  all rounds.\<close>

definition batch_left :: "('d, 's) env \<Rightarrow> string \<Rightarrow> string \<Rightarrow> Role \<Rightarrow> Config \<Rightarrow> string \<Rightarrow> string \<Rightarrow> nat
    \<Rightarrow> (string \<Rightarrow> stored option) \<Rightarrow> (string \<times> string) list
    \<Rightarrow> go_err + (string \<times> string) list \<Rightarrow> (string \<Rightarrow> stored option) \<Rightarrow> (string \<times> string) list \<Rightarrow> bool" where
  "batch_left E name region role cfg creation rollback n V L r V' L' \<longleftrightarrow>
     (\<exists>ucs l. V' = store_all V ucs \<and> made_for E name region role ucs \<and> length ucs \<le> n \<and>
        L' = L @ map (Pair (conn_of E cfg)) l \<and> set l \<subseteq> batch_sendable E role creation rollback \<and>
        (\<forall>creds. r = Inr creds \<longrightarrow> length ucs = n \<and> map fst creds = map fst ucs \<and>
           (\<forall>(u, p)\<in>set creds. ValidatePassword p = None \<and> buildTeradataCreateUserSQL role u p \<in> set l)))"

lemma batch_left_step:
  assumes "made_for E name region role [(u, c)]" and "set l \<subseteq> batch_sendable E role creation rollback"
    and "batch_left E name region role cfg creation rollback n (V(credentialPrefix @ u \<mapsto> SCred c))
      (L @ map (Pair (conn_of E cfg)) l) r V' L'"
    and "ValidatePassword p = None" and "buildTeradataCreateUserSQL role u p \<in> set l"
  shows "batch_left E name region role cfg creation rollback (Suc n) V L
    (case r of Inl e \<Rightarrow> Inl e | Inr creds \<Rightarrow> Inr ((u, p) # creds)) V' L'"
proof -
  from assms(3) obtain ucs k where h: "V' = store_all (V(credentialPrefix @ u \<mapsto> SCred c)) ucs"
    "made_for E name region role ucs" "length ucs \<le> n" "L' = (L @ map (Pair (conn_of E cfg)) l) @ map (Pair (conn_of E cfg)) k"
    "set k \<subseteq> batch_sendable E role creation rollback"
    "\<forall>creds. r = Inr creds \<longrightarrow> length ucs = n \<and> map fst creds = map fst ucs \<and>
           (\<forall>(u, p)\<in>set creds. ValidatePassword p = None \<and> buildTeradataCreateUserSQL role u p \<in> set k)"
    unfolding batch_left_def by blast
  show ?thesis
    unfolding batch_left_def
  proof (intro exI conjI)
    show "V' = store_all V ((u, c) # ucs)" by (simp add: store_all_Cons h(1))
    show "made_for E name region role ((u, c) # ucs)" using assms(1) h(2) by (simp add: made_for_def)
    show "L' = L @ map (Pair (conn_of E cfg)) (l @ k)" by (simp add: h(4))
    show "set (l @ k) \<subseteq> batch_sendable E role creation rollback" using assms(2) h(5) by simp
    show "\<forall>creds. (case r of Inl e \<Rightarrow> Inl e | Inr creds \<Rightarrow> Inr ((u, p) # creds)) = Inr creds \<longrightarrow>
        length ((u, c) # ucs) = Suc n \<and> map fst creds = map fst ((u, c) # ucs) \<and>
           (\<forall>(u, p)\<in>set creds. ValidatePassword p = None \<and> buildTeradataCreateUserSQL role u p \<in> set (l @ k))"
      using h(6) assms(4,5) by (cases r) auto
  qed (simp add: h(3))
qed

lemma out_batch_loop:
  fixes E :: "('d, 's) env"
  assumes law: "lawful_storage view (e_S E)"
    and Q: "\<And>r V' L' z'. batch_left E name region role cfg creation rollback n V L r V' L' \<Longrightarrow> Q r (V', L', z')"
  shows "out view (V, L, z) (batch_loop E ctx name region role cfg creation rollback n) Q Z"
  using Q
proof (induction n arbitrary: V L z Q)
  case 0
  have "batch_left E name region role cfg creation rollback 0 V L (Inr []) V L"
    unfolding batch_left_def by (intro exI [of _ "[]"]) (simp add: store_all_def made_for_def)
  then show ?case by (simp add: out_ret "0.prems")
next
  case (Suc n)
  show ?case
    unfolding batch_loop.simps
  proof (rule out_bndE, rule out_batch_one [OF law], simp_all only: sum.case)
    fix e l assume "set l \<subseteq> batch_sendable E role creation rollback"
    then have "batch_left E name region role cfg creation rollback (Suc n) V L (Inl e) V (L @ map (Pair (conn_of E cfg)) l)"
      unfolding batch_left_def by (intro exI [of _ "[]"] exI [of _ l]) (simp add: store_all_def made_for_def)
    then show "Q (Inl (id e)) (V, L @ map (Pair (conn_of E cfg)) l, z)" by (simp add: Suc.prems)
  next
    fix u p c l z'
    assume h: "set l \<subseteq> batch_sendable E role creation rollback" "made_for E name region role [(u, c)]"
      "ValidatePassword p = None" "buildTeradataCreateUserSQL role u p \<in> set l"
    show "out view (V(credentialPrefix @ u \<mapsto> SCred c), L @ map (Pair (conn_of E cfg)) l, z')
      (bndE (batch_loop E ctx name region role cfg creation rollback n) id (\<lambda>creds. ret (Inr ((u, p) # creds)))) Q Z"
    proof (rule out_bndE, rule Suc.IH)
      fix r V' L' z''
      assume "batch_left E name region role cfg creation rollback n (V(credentialPrefix @ u \<mapsto> SCred c))
        (L @ map (Pair (conn_of E cfg)) l) r V' L'"
      from batch_left_step [OF h(2,1) this h(3,4)] Suc.prems
      show "case r of Inl e \<Rightarrow> Q (Inl (id e)) (V', L', z'')
        | Inr a \<Rightarrow> out view (V', L', z'') (ret (Inr ((u, p) # a))) Q Z"
        by (cases r) (auto intro: out_ret)
    qed
  qed
qed

text \<open>What a request for a batch leaves; \<open>V\<close>, \<open>L\<close> and \<open>w\<close> are the state before it.\<close>

definition batch_result :: "('d, 's) env \<Rightarrow> FieldData \<Rightarrow> (string \<Rightarrow> stored option) \<Rightarrow> (string \<times> string) list
    \<Rightarrow> ('d, 's, 'z) plugin_world_scheme \<Rightarrow> hres \<Rightarrow> (string \<Rightarrow> stored option) \<Rightarrow> (string \<times> string) list \<Rightarrow> bool" where
  "batch_result E data V L w r V' L' \<longleftrightarrow> (V' = V \<and> L' = L \<and> (\<exists>e. r = Inl e)) \<or>
     (\<exists>name region role cfg creation rollback n r'.
         fd_Get data ''name'' = Some (VS name) \<and> fd_Get data ''region'' = Some (VS region) \<and>
         grants E V w name region role cfg \<and> statements_at V role = Some (creation, rollback) \<and>
         0 < n \<and> n \<le> 100 \<and>
         (0 < ro_MaxCredentials role \<longrightarrow> int (card (role_users V name)) + int n \<le> ro_MaxCredentials role) \<and>
         batch_left E name region role cfg creation rollback n V L r' V' L' \<and>
         (case r' of Inl e \<Rightarrow> r = Inl (e, None) | Inr creds \<Rightarrow> r = Inr (Some (batch_response name role cfg creds))))"

lemma batch_refused: "batch_result E data V L w (Inl e) V L"
  by (simp add: batch_result_def)

lemma batch_ran:
  "fd_Get data ''name'' = Some (VS name) \<Longrightarrow> fd_Get data ''region'' = Some (VS region)
   \<Longrightarrow> grants E V w name region role cfg \<Longrightarrow> statements_at V role = Some (creation, rollback)
   \<Longrightarrow> 0 < n \<and> n \<le> 100 \<and> (0 < ro_MaxCredentials role \<longrightarrow> int (card (role_users V name)) + int n \<le> ro_MaxCredentials role)
   \<Longrightarrow> batch_left E name region role cfg creation rollback n V L r' V' L'
   \<Longrightarrow> batch_result E data V L w
     (case r' of Inl e \<Rightarrow> Inl (e, None) | Inr creds \<Rightarrow> Inr (Some (batch_response name role cfg creds))) V' L'"
  unfolding batch_result_def
  by (rule disjI2, (rule exI)+, (erule conjE)+, (intro conjI; (assumption)?)) (cases r'; simp)

lemma clamp_count_range: "1 \<le> clamp_count n \<and> clamp_count n \<le> 100"
  by (simp add: clamp_count_def Let_def)

lemma pathCredsBatchRead_out:
  fixes w :: "('d, 's, 'z) plugin_world_scheme" and E :: "('d, 's) env"
  assumes law: "lawful_storage view (e_S E)" and w: "world.more w = z"
  shows "out view (V, L, z) (pathCredsBatchRead E ctx data) (\<lambda>r (V', L', z'). batch_result E data V L w r V' L')
    (\<lambda>s. s = (V, L, z))"
  unfolding pathCredsBatchRead_def Let_def
proof (rule out_bnd, rule out_getS, rule out_bnd, rule out_getI, rule out_bnd, rule out_getS, rule out_tryH,
    rule out_getRole [OF law], goal_cases)
  case (3 name count0 region role)
  note err = batch_refused
  let ?n = "clamp_count count0"
  let ?ok = "\<lambda>c. 0 < nat c \<and> nat c \<le> 100 \<and> (0 < ro_MaxCredentials role \<longrightarrow> finite (role_users V name)
      \<and> int (card (role_users V name)) + int (nat c) \<le> ro_MaxCredentials role)"
  have quota: "out view (V, L, z)
     (if 0 < ro_MaxCredentials role
      then bndE (countCredentialsByRole E name) (wrapped ''failed to count credentials'') (\<lambda>currentCount.
        ret (if ro_MaxCredentials role - currentCount \<le> 0 then Inl (quota_error name role currentCount)
             else Inr (if ro_MaxCredentials role - currentCount < ?n then ro_MaxCredentials role - currentCount else ?n)))
      else ret (Inr ?n)) R (\<lambda>s. s = (V, L, z))"
    if "\<And>e. R (Inl e) (V, L, z)" and "\<And>c. ?ok c \<Longrightarrow> R (Inr c) (V, L, z)" for R
    by (intro out_if out_bndE out_countCredentialsByRole law)
      (use clamp_count_range [of count0] in \<open>auto intro!: out_ret that\<close>)
  have ran: "out view (V, L, z)
     (tryH (batch_loop E ctx name region role cfg creation rollback (nat c)) id (\<lambda>credentials.
      seq (for_each credentials (\<lambda>(username, password).
            seq (LogCredentialCreation E username name (lease_id name username) batch_metadata)
           (seq (SendCredentialCreatedWebhook E ctx username name (lease_id name username) batch_metadata)
           (ret ()))))
     (okH (batch_response name role cfg credentials))))
     (\<lambda>r (V', L', z'). batch_result E data V L w r V' L') (\<lambda>s. s = (V, L, z))"
    if g: "grants E V w name region role cfg" and st: "statements_at V role = Some (creation, rollback)" and c: "?ok c"
    for cfg creation rollback c
  proof (rule out_tryH, rule out_batch_loop [OF law])
    fix r V' L' z'
    assume l: "batch_left E name region role cfg creation rollback (nat c) V L r V' L'"
    from c have "0 < nat c \<and> nat c \<le> 100 \<and>
        (0 < ro_MaxCredentials role \<longrightarrow> int (card (role_users V name)) + int (nat c) \<le> ro_MaxCredentials role)"
      by blast
    note i = batch_ran [OF 3(1,3) g st this l]
    show "case r of Inl e \<Rightarrow> (\<lambda>r (V', L', z'). batch_result E data V L w r V' L') (Inl (id e, None)) (V', L', z')
      | Inr credentials \<Rightarrow> out view (V', L', z')
        (seq (for_each credentials (\<lambda>(username, password).
            seq (LogCredentialCreation E username name (lease_id name username) batch_metadata)
           (seq (SendCredentialCreatedWebhook E ctx username name (lease_id name username) batch_metadata)
           (ret ()))))
        (okH (batch_response name role cfg credentials)))
        (\<lambda>r (V', L', z'). batch_result E data V L w r V' L') (\<lambda>s. s = (V, L, z))"
      using i by (cases r) (auto intro!: out_seq_silent silent_for_each silent_case_prod silent_seq silent_logs
          silent_webhooks silent_effects law out_okH)
  qed
  show ?case
    by (simp only: sum.case option.case, rule out_tryH, rule quota, simp_all only: sum.case prod.case err)
      (rule out_admit [OF law w], simp_all only: prod.case err, rule ran, auto simp: grants_def 3)
qed (simp_all add: batch_refused out_failH)

subsection \<open>The quota\<close>

lemma store_all_users:
  "role_users (store_all V ucs) name \<subseteq> fst ` set ucs \<union> role_users V name"
proof (induction ucs arbitrary: V)
  case Nil
  then show ?case by (simp add: store_all_def)
next
  case (Cons uc ucs)
  obtain u c where uc: "uc = (u, c)" by (cases uc)
  have "role_users (store_all V (uc # ucs)) name \<subseteq> fst ` set ucs \<union> role_users (V(credentialPrefix @ u \<mapsto> SCred c)) name"
    using Cons.IH by (simp add: uc store_all_Cons)
  with role_users_add [of V u c name] show ?case by (auto simp: uc)
qed

lemma card_store_all:
  assumes "finite (role_users V name)"
  shows "finite (role_users (store_all V ucs) name)
    \<and> card (role_users (store_all V ucs) name) \<le> length ucs + card (role_users V name)"
proof -
  have fin: "finite (fst ` set ucs \<union> role_users V name)" using assms by simp
  then have "card (role_users (store_all V ucs) name) \<le> card (fst ` set ucs \<union> role_users V name)"
    by (intro card_mono store_all_users)
  also have "\<dots> \<le> card (fst ` set ucs) + card (role_users V name)" by (rule card_Un_le)
  also have "card (fst ` set ucs) \<le> length ucs" using card_length [of "map fst ucs"] by simp
  finally show ?thesis using finite_subset [OF store_all_users fin] by simp
qed

subsection \<open>The properties of the two handlers\<close>

text \<open>The entries of storage other than the audit log.\<close>

abbreviation stored_entries :: "('s \<Rightarrow> string \<Rightarrow> stored option) \<Rightarrow> ('d, 's, 'z) world_scheme \<Rightarrow> string \<Rightarrow> stored option" where
  "stored_entries view w \<equiv> hide_audit (view (w_st w))"

lemma out_run:
  fixes w w' :: "('d, 's, 'z) world_scheme"
  assumes "out view (stored_entries view w, w_sql w, world.more w) m Q Z" and "m w = (r, w')"
  shows "case r of Ret a \<Rightarrow> Q a (stored_entries view w', w_sql w', world.more w')
    | _ \<Rightarrow> Z (stored_entries view w', w_sql w', world.more w')"
  using outD [of view w m Q Z r w'] assms by (cases r) (simp_all add: visible_def)

lemma read_run:
  fixes w :: "('d, 's, 'z) plugin_world_scheme"
  assumes "lawful_storage view (e_S E)" and "pathCredsRead E ctx data w = (r, w')"
  shows "case r of Ret a \<Rightarrow> read_result E data (stored_entries view w) (w_sql w) w a (stored_entries view w') (w_sql w')
    | _ \<Rightarrow> stored_entries view w' = stored_entries view w \<and> w_sql w' = w_sql w"
  using out_run [OF pathCredsRead_out [OF assms(1) refl] assms(2)] by (cases r) simp_all

lemma batch_run:
  fixes w :: "('d, 's, 'z) plugin_world_scheme"
  assumes "lawful_storage view (e_S E)" and "pathCredsBatchRead E ctx data w = (r, w')"
  shows "case r of Ret a \<Rightarrow> batch_result E data (stored_entries view w) (w_sql w) w a (stored_entries view w') (w_sql w')
    | _ \<Rightarrow> stored_entries view w' = stored_entries view w \<and> w_sql w' = w_sql w"
  using out_run [OF pathCredsBatchRead_out [OF assms(1) refl] assms(2)] by (cases r) simp_all

lemma read_sql:
  assumes "read_result E data V L w r V' L'"
  shows "L' = L \<or> (\<exists>name region role cfg creation rollback ts.
       fd_Get data ''name'' = Some (VS name) \<and> fd_Get data ''region'' = Some (VS region) \<and>
       grants E V w name region role cfg \<and> statements_at V role = Some (creation, rollback) \<and>
       L' = L @ map (Pair (conn_of E cfg)) ts \<and> set ts \<subseteq> batch_sendable E role creation rollback)"
proof (cases r)
  case (Inl e)
  from assms have "L' = L \<or> (\<exists>name region role cfg creation rollback u p l.
      fd_Get data ''name'' = Some (VS name) \<and> fd_Get data ''region'' = Some (VS region) \<and>
      grants E V w name region role cfg \<and> statements_at V role = Some (creation, rollback) \<and>
      odbc_ValidateUsername (e_U E) u = None \<and> ValidatePassword p = None \<and>
      L' = L @ map (Pair (conn_of E cfg)) l \<and> set l \<subseteq> sendable (creation_texts role creation rollback u p))"
    unfolding read_result_def Inl sum.case by (rule conjunct2)
  then show ?thesis using batch_sendableI [of E] by metis
next
  case (Inr resp)
  from assms obtain name region role cfg creation rollback u p k l where h: "fd_Get data ''name'' = Some (VS name)"
    "fd_Get data ''region'' = Some (VS region)" "grants E V w name region role cfg"
    "statements_at V role = Some (creation, rollback)"
    and ok: "odbc_ValidateUsername (e_U E) u = None" "ValidatePassword p = None"
    and L: "L' = L @ map (Pair (conn_of E cfg)) (k @ buildTeradataCreateUserSQL role u p # l)"
      "set (k @ l) \<subseteq> sendable (creation_texts role creation rollback u p)"
    unfolding read_result_def Inr sum.case by blast
  from batch_sendableI [OF ok create_sendable [OF ok L(2)]] h L(1) show ?thesis by blast
qed

text \<open>C2. A request for a credential stores exactly what it returns, or nothing. When it succeeds, its role
  exists, its configuration exists and allows the role, no degradation stops it and the quota is not
  used up; the name and the password in the response passed the validators; the one storage entry that
  changed is the credential under that name, with the lease, the role and the region of the response and the role's
  time to live; and the CREATE USER statement for this name and this password was sent over the configured connection. An error
  leaves the storage as it was, whatever was sent before it.\<close>
theorem pathCredsRead_issues_one:
  fixes w :: "('d, 's, 'z) plugin_world_scheme"
  assumes "lawful_storage view (e_S E)"
  shows "case pathCredsRead E ctx data w of
     (Ret (Inr resp), w') \<Rightarrow> \<exists>name region role cfg username password t1 t2.
        fd_Get data ''name'' = Some (VS name) \<and> fd_Get data ''region'' = Some (VS region) \<and>
        grants E (stored_entries view w) w name region role cfg \<and>
        odbc_ValidateUsername (e_U E) username = None \<and> ValidatePassword password = None \<and>
        resp = Some (creation_response name role cfg username password) \<and>
        stored_entries view w' = (stored_entries view w)(credentialPrefix @ username
          \<mapsto> SCred (new_credential name region username t2 (t1 + seconds (ro_DefaultTTL role)))) \<and>
        (conn_of E cfg, buildTeradataCreateUserSQL role username password) \<in> set (w_sql w')
   | (_, w') \<Rightarrow> stored_entries view w' = stored_entries view w"
proof -
  obtain r w' where r: "pathCredsRead E ctx data w = (r, w')" by (cases "pathCredsRead E ctx data w")
  note res = read_run [OF assms r]
  show ?thesis
  proof (cases r)
    case (Ret a)
    show ?thesis
    proof (cases a)
      case (Inl e)
      with res Ret r show ?thesis by (simp add: read_result_def)
    next
      case (Inr resp)
      from res have "read_result E data (stored_entries view w) (w_sql w) w (Inr resp) (stored_entries view w') (w_sql w')"
        by (simp add: Ret Inr)
      then show ?thesis
        unfolding r Ret Inr read_result_def sum.case prod.case res.case
        by (elim exE conjE) (intro exI conjI; (assumption)?; simp)
    qed
  qed (use res r in simp_all)
qed

theorem pathCredsRead_issues_one_witness:
  "\<exists>f w'. pathCredsRead calm_env Background \<lparr>fd_Get = (\<lambda>_. Some (VS ''r'')), fd_session = None\<rparr> (start_backend [])
       = (Ret (Inl f), w') \<and> stored_entries map_of w' = stored_entries map_of (start_backend [] :: (unit, _) plugin_world)"
proof -
  let ?d = "\<lparr>fd_Get = (\<lambda>_. Some (VS ''r'')), fd_session = None\<rparr>" and ?w = "start_backend []"
  have "lawful_storage map_of (e_S calm_env)" by (simp add: calm_env_def map_storage_lawful)
  note t = pathCredsRead_issues_one [OF this, where ctx = Background and data = ?d and w = ?w]
  moreover have "\<exists>f w'. pathCredsRead calm_env Background ?d ?w = (Ret (Inl f), w')"
    by (simp add: pathCredsRead_def getS_def getRole_def get_as_def storage_Get_def on_st_def calm_env_def map_storage_def
        start_backend_def tick_def modify_def bnd_def seq_def ret_def tryH_def failH_def)
  ultimately show ?thesis by auto
qed

text \<open>C4. No statement reaches the database unless the request is granted: if the log of statements has grown,
  the role exists, the configuration exists and allows it, no degradation stops the request and
  the quota is not used up; every statement is one of the role's own texts, with a validated name and a
  validated password filled in, or the DROP of that name, and goes to the configured connection. This
  holds for both handlers, on every path, whatever the database answers.\<close>
theorem creation_sql_is_gated:
  fixes w :: "('d, 's, 'z) plugin_world_scheme"
  assumes "lawful_storage view (e_S E)" and "m = pathCredsRead E ctx data \<or> m = pathCredsBatchRead E ctx data"
  shows "w_sql (snd (m w)) = w_sql w \<or>
    (\<exists>name region role cfg creation rollback ts.
       fd_Get data ''name'' = Some (VS name) \<and> fd_Get data ''region'' = Some (VS region) \<and>
       grants E (stored_entries view w) w name region role cfg \<and>
       statements_at (stored_entries view w) role = Some (creation, rollback) \<and>
       w_sql (snd (m w)) = w_sql w @ map (Pair (conn_of E cfg)) ts \<and>
       set ts \<subseteq> batch_sendable E role creation rollback)"
proof -
  obtain r w' where r: "m w = (r, w')" by (cases "m w")
  from assms(2) show ?thesis
  proof
    assume m: "m = pathCredsRead E ctx data"
    from read_run [OF assms(1)] r m have res: "case r of
        Ret a \<Rightarrow> read_result E data (stored_entries view w) (w_sql w) w a (stored_entries view w') (w_sql w')
      | _ \<Rightarrow> stored_entries view w' = stored_entries view w \<and> w_sql w' = w_sql w" by blast
    show ?thesis
    proof (cases r)
      case (Ret a)
      with res have "read_result E data (stored_entries view w) (w_sql w) w a (stored_entries view w') (w_sql w')" by simp
      from read_sql [OF this] show ?thesis unfolding r snd_conv .
    qed (use res r in simp_all)
  next
    assume m: "m = pathCredsBatchRead E ctx data"
    from batch_run [OF assms(1)] r m have res: "case r of
        Ret a \<Rightarrow> batch_result E data (stored_entries view w) (w_sql w) w a (stored_entries view w') (w_sql w')
      | _ \<Rightarrow> stored_entries view w' = stored_entries view w \<and> w_sql w' = w_sql w" by blast
    show ?thesis
    proof (cases r)
      case (Ret a)
      with res have "batch_result E data (stored_entries view w) (w_sql w) w a (stored_entries view w') (w_sql w')" by simp
      then show ?thesis
        unfolding r snd_conv batch_result_def batch_left_def by blast
    qed (use res r in simp_all)
  qed
qed

theorem creation_sql_is_gated_witness:
  "w_sql (snd (pathCredsBatchRead calm_env Background \<lparr>fd_Get = (\<lambda>_. Some (VS ''r'')), fd_session = None\<rparr> (start_backend []))) = []"
proof -
  let ?d = "\<lparr>fd_Get = (\<lambda>_. Some (VS ''r'')), fd_session = None\<rparr>" and ?w = "start_backend [] :: (unit, _) plugin_world"
  have law: "lawful_storage map_of (e_S calm_env)" by (simp add: calm_env_def map_storage_lawful)
  have w: "w_sql ?w = []" "\<not> grants calm_env (stored_entries map_of ?w) ?w n g r c" for n g r c
    by (simp_all add: start_backend_def grants_def role_at_def hide_audit_def)
  from creation_sql_is_gated [OF law disjI2 [OF refl], where ctx = Background and data = ?d and w = ?w] w show ?thesis
    by simp
qed

lemma store_all_other:
  assumes "made_for E name' region role' ucs" and "name' \<noteq> name"
  shows "role_users (store_all V ucs) name \<subseteq> role_users V name"
  using assms
proof (induction ucs arbitrary: V)
  case (Cons uc ucs)
  obtain u c where uc: "uc = (u, c)" by (cases uc)
  with Cons.prems have c: "cr_RoleName c \<noteq> name" and ucs: "made_for E name' region role' ucs"
    by (auto simp: made_for_def new_credential_def)
  have "role_users (store_all (V(credentialPrefix @ u \<mapsto> SCred c)) ucs) name
      \<subseteq> role_users (V(credentialPrefix @ u \<mapsto> SCred c)) name"
    by (rule Cons.IH [OF ucs Cons.prems(2)])
  also have "\<dots> \<subseteq> role_users V name" using c by (auto simp: role_users_def split: if_splits)
  finally show ?case by (simp only: uc store_all_Cons)
qed (simp add: store_all_def)

text \<open>What both handlers may add to storage.\<close>

definition adds :: "('d, 's) env \<Rightarrow> ('d, 's, 'z) plugin_world_scheme \<Rightarrow> (string \<Rightarrow> stored option)
    \<Rightarrow> (string \<Rightarrow> stored option) \<Rightarrow> bool" where
  "adds E w V V' \<longleftrightarrow> V' = V \<or> (\<exists>name region role cfg ucs.
     grants E V w name region role cfg \<and> V' = store_all V ucs \<and> made_for E name region role ucs \<and>
     (0 < ro_MaxCredentials role \<longrightarrow> int (card (role_users V name)) + int (length ucs) \<le> ro_MaxCredentials role))"

lemma adds_refl: "adds E w V V"
  by (simp add: adds_def)

lemma read_adds:
  assumes "read_result E data V L w r V' L'"
  shows "adds E w V V'"
proof (cases r)
  case (Inr resp)
  with assms obtain name region role cfg u t1 t2 where
    h: "grants E V w name region role cfg" "odbc_ValidateUsername (e_U E) u = None"
    "V' = V(credentialPrefix @ u \<mapsto> SCred (new_credential name region u t2 (t1 + seconds (ro_DefaultTTL role))))"
    unfolding read_result_def Inr sum.case by (elim exE conjE) (erule (2) that)
  let ?ucs = "[(u, new_credential name region u t2 (t1 + seconds (ro_DefaultTTL role)))]"
  have "V' = store_all V ?ucs" "made_for E name region role ?ucs"
    using h by (auto simp: store_all_def made_for_def)
  moreover have "0 < ro_MaxCredentials role \<longrightarrow> int (card (role_users V name)) + int (length ?ucs) \<le> ro_MaxCredentials role"
    using h(1) by (auto simp: grants_def)
  ultimately show ?thesis using h(1) unfolding adds_def by blast
qed (use assms in \<open>simp add: read_result_def adds_def\<close>)

lemma batch_adds:
  assumes "batch_result E data V L w r V' L'"
  shows "adds E w V V'"
  using assms unfolding batch_result_def
proof (elim disjE conjE exE)
  fix name region role cfg creation rollback n r'
  assume h: "grants E V w name region role cfg"
    "0 < ro_MaxCredentials role \<longrightarrow> int (card (role_users V name)) + int n \<le> ro_MaxCredentials role"
    "batch_left E name region role cfg creation rollback n V L r' V' L'"
  from h(3) obtain ucs where u: "V' = store_all V ucs" "made_for E name region role ucs" "length ucs \<le> n"
    unfolding batch_left_def by blast
  with h(2) have "0 < ro_MaxCredentials role \<longrightarrow> int (card (role_users V name)) + int (length ucs) \<le> ro_MaxCredentials role"
    by auto
  with h(1) u(1,2) show ?thesis unfolding adds_def by blast
qed (simp add: adds_def)

lemma handlers_add:
  fixes w :: "('d, 's, 'z) plugin_world_scheme"
  assumes law: "lawful_storage view (e_S E)"
    and m: "m = pathCredsRead E ctx data \<or> m = pathCredsBatchRead E ctx data"
  shows "adds E w (stored_entries view w) (stored_entries view (snd (m w)))"
proof -
  obtain r w' where r: "m w = (r, w')" by (cases "m w")
  from m show ?thesis
  proof
    assume "m = pathCredsRead E ctx data"
    with r have "pathCredsRead E ctx data w = (r, w')" by simp
    from read_run [OF law this] r show ?thesis by (cases r) (auto intro: read_adds simp: adds_refl)
  next
    assume "m = pathCredsBatchRead E ctx data"
    with r have "pathCredsBatchRead E ctx data w = (r, w')" by simp
    from batch_run [OF law this] r show ?thesis by (cases r) (auto intro: batch_adds simp: adds_refl)
  qed
qed


definition one_role :: "(string \<times> stored) list" where
  "one_role = [(''roles/r'', SRole (zero_role\<lparr>ro_Version := 4, ro_MaxCredentials := 1\<rparr>))]"


subsection \<open>The clean-up\<close>

definition forget :: "string list \<Rightarrow> (string \<Rightarrow> stored option) \<Rightarrow> string \<Rightarrow> stored option" where
  "forget us V k = (if k \<in> (\<lambda>u. credentialPrefix @ u) ` set us then None else V k)"

definition expired_in :: "(string \<Rightarrow> stored option) \<Rightarrow> int \<Rightarrow> string \<Rightarrow> bool" where
  "expired_in V now u \<longleftrightarrow> (\<exists>c. V (credentialPrefix @ u) = Some (SCred c) \<and> cr_ExpiresAt c < now)"

lemma out_invalidate:
  assumes "\<And>z'. Q () (V, L, z')"
  shows "out view (V, L, z) (invalidateCachedCredential username) Q Z"
  unfolding invalidateCachedCredential_def by (rule out_modify) (simp add: visible_def, use assms in blast)

lemma out_deleteCredential:
  assumes "lawful_storage view (e_S E)" and "\<And>e. Q (Inl e) (V, L, z)"
    and "Q (Inr ()) (V(credentialPrefix @ u := None), L, z)"
  shows "out view (V, L, z) (deleteCredential E u) Q Z"
  unfolding deleteCredential_def
  by (rule out_Delete [OF assms(1), where key = "credentialPrefix @ u"])
    (simp_all only: credentialPrefix_def audit_free_keys assms(2,3) [unfolded credentialPrefix_def])

lemma TrimSpace_nonblank:
  assumes "byte c < 128" and "\<not> space_char c"
  shows "TrimSpace (c # s) \<noteq> []"
proof -
  have "segs (c # s) = (byte c, [c]) # segs s" using assms(1) by (simp add: segs_ascii_Cons)
  moreover have "dropWhile P (xs @ [x]) = dropWhile P xs @ [x]" if "\<not> P x" for P xs and x :: "nat \<times> string"
    using that by (induction xs) auto
  ultimately show ?thesis using assms(2) by (simp add: TrimSpace_def space_char_def)
qed

lemma drop_nonblank: "TrimSpace (''DROP USER '' @ u) \<noteq> []"
  by (simp add: TrimSpace_nonblank space_char_def IsSpace_def)

lemma out_cleanup_one:
  assumes law: "lawful_storage view (e_S E)"
    and keep: "\<And>l. Q False (V, L @ map (Pair (conn_of E cfg)) l, z)"
    and gone: "\<And>l z'. expired_in V now u \<Longrightarrow> set (statements_of (''DROP USER '' @ u)) \<subseteq> set l
      \<Longrightarrow> Q True (V(credentialPrefix @ u := None), L @ map (Pair (conn_of E cfg)) l, z')"
  shows "out view (V, L, z) (cleanup_one E ctx cfg now u) Q Z"
  unfolding cleanup_one_def
proof (rule out_bnd, rule out_getCredential [OF law], simp_all only: sum.case option.case)
  fix c assume c: "V (credentialPrefix @ u) = Some (SCred c)"
  show "out view (V, L, z) (if cr_ExpiresAt c < now
      then bnd (executeSQL E ctx cfg (''DROP USER '' @ u)) (\<lambda>x. case x of
             Inl execErr \<Rightarrow> ret False
           | Inr _ \<Rightarrow> bnd (deleteCredential E u) (\<lambda>y. case y of
               Inl delErr \<Rightarrow> ret False
             | Inr _ \<Rightarrow> seq (invalidateCachedCredential u) (ret True)))
      else ret False) Q Z"
  proof (rule out_if)
    assume e: "cr_ExpiresAt c < now"
    with c have x: "expired_in V now u" by (auto simp: expired_in_def)
    show "out view (V, L, z) (bnd (executeSQL E ctx cfg (''DROP USER '' @ u)) (\<lambda>x. case x of
             Inl execErr \<Rightarrow> ret False
           | Inr _ \<Rightarrow> bnd (deleteCredential E u) (\<lambda>y. case y of
               Inl delErr \<Rightarrow> ret False
             | Inr _ \<Rightarrow> seq (invalidateCachedCredential u) (ret True)))) Q Z"
    proof (rule out_bnd, rule out_executeSQL, simp_all only: sum.case)
      fix l assume "TrimSpace (''DROP USER '' @ u) \<noteq> [] \<Longrightarrow> \<exists>k. l = k @ statements_of (''DROP USER '' @ u)"
      then have l: "set (statements_of (''DROP USER '' @ u)) \<subseteq> set l" using drop_nonblank by auto
      show "out view (V, L @ map (Pair (conn_of E cfg)) l, z) (bnd (deleteCredential E u) (\<lambda>y. case y of
               Inl delErr \<Rightarrow> ret False
             | Inr _ \<Rightarrow> seq (invalidateCachedCredential u) (ret True))) Q Z"
        by (rule out_bnd, rule out_deleteCredential [OF law], simp_all only: sum.case)
          (intro out_ret keep, intro out_seq out_invalidate out_ret gone x l)
    qed (intro out_ret keep)
  qed (use keep [of "[]"] in \<open>simp add: out_ret\<close>)
qed (use keep [of "[]"] in \<open>simp_all add: out_ret\<close>)

lemma expired_after:
  "expired_in (V(credentialPrefix @ u := None)) now v \<longleftrightarrow> v \<noteq> u \<and> expired_in V now v"
  by (auto simp: expired_in_def)

lemma forget_after: "forget us (V(credentialPrefix @ u := None)) = forget (u # us) V"
  by (auto simp: forget_def fun_eq_iff)

definition dropped :: "(string \<Rightarrow> stored option) \<Rightarrow> int \<Rightarrow> string list \<Rightarrow> string list \<Rightarrow> bool" where
  "dropped V now us l \<longleftrightarrow> distinct us \<and>
     (\<forall>u\<in>set us. expired_in V now u \<and> set (statements_of (''DROP USER '' @ u)) \<subseteq> set l)"

lemma out_cleanup_loop:
  fixes E :: "('d, 's) env"
  assumes law: "lawful_storage view (e_S E)"
    and Q: "\<And>us l z'. dropped V now us l \<Longrightarrow> Q (n + int (length us)) (forget us V, L @ map (Pair (conn_of E cfg)) l, z')"
  shows "out view (V, L, z) (cleanup_loop E ctx cfg now n es) Q Z"
  using Q
proof (induction es arbitrary: n V L z Q)
  case Nil
  show ?case using Nil [of "[]" "[]" z] by (simp add: cleanup_loop_def out_ret dropped_def forget_def)
next
  case (Cons e es)
  let ?u = "entry_user e" and ?m = "map (Pair (conn_of E cfg))"
  have loop: "cleanup_loop E ctx cfg now n (e # es) = bnd (cleanup_one E ctx cfg now ?u) (\<lambda>removed.
      cleanup_loop E ctx cfg now (if removed then n + 1 else n) es)"
    by (simp add: cleanup_loop_def bnd_def ret_def fun_eq_iff split: prod.split res.split)
  show ?case
    unfolding loop
  proof (rule out_bnd, rule out_cleanup_one [OF law], simp_all only: if_True if_False)
    fix l
    show "out view (V, L @ ?m l, z) (cleanup_loop E ctx cfg now n es) Q Z"
    proof (rule Cons.IH)
      fix us k z' assume "dropped V now us k"
      then have "dropped V now us (l @ k)" by (auto simp: dropped_def)
      from Cons.prems [OF this] show "Q (n + int (length us)) (forget us V, (L @ ?m l) @ ?m k, z')" by simp
    qed
  next
    fix l z'
    assume x: "expired_in V now ?u" and l: "set (statements_of (''DROP USER '' @ ?u)) \<subseteq> set l"
    show "out view (V(credentialPrefix @ ?u := None), L @ ?m l, z') (cleanup_loop E ctx cfg now (n + 1) es) Q Z"
    proof (rule Cons.IH)
      fix us k z''
      assume "dropped (V(credentialPrefix @ ?u := None)) now us k"
      with x l have "dropped V now (?u # us) (l @ k)" by (auto simp: dropped_def expired_after)
      from Cons.prems [OF this] show "Q (n + 1 + int (length us))
          (forget us (V(credentialPrefix @ ?u := None)), (L @ ?m l) @ ?m k, z'')"
        by (simp add: forget_after algebra_simps)
    qed
  qed
qed



end
