(* ===== verification/Revocation.thy ===== *)
theory Revocation
  imports Issuing
begin

text \<open>
  Ending and renewing credentials: \<open>plugin/path_revoke_creds.go\<close>, \<open>plugin/path_bulk_revoke.go\<close>,
  \<open>plugin/path_renew_creds.go\<close>, \<open>plugin/path_renew_batch.go\<close> and \<open>Revoke\<close> of \<open>plugin/backend.go\<close>.

  The theorems show that every one of these operations panics where it would connect to the database,
  because it passes a nil configuration to \<open>retry.Do\<close>, and what the substitution of
  variables does to a statement.
\<close>

subsection \<open>Substituting variables\<close>

text \<open>\<open>string(s[i])\<close> is the encoding of the byte taken as a code point.\<close>

function replaceAllString :: "string \<Rightarrow> string \<Rightarrow> string \<Rightarrow> string" where
  "replaceAllString [] old new = []"
| "replaceAllString (c # cs) old new =
     (if old \<noteq> [] \<and> prefix old (c # cs)
      then new @ replaceAllString (drop (length old) (c # cs)) old new
      else encode_rune (byte c) @ replaceAllString cs old new)"
  by pat_completeness auto
termination by (relation "measure (\<lambda>(s, _, _). length s)") (auto simp: drop_Cons' dest: prefix_length_le)

text \<open>The loop runs until a round changes nothing; \<open>None\<close> is a loop that never ends. The placeholders
  are the two constants, so \<open>old\<close> is never empty.\<close>

partial_function (option) replace_rounds :: "string \<Rightarrow> string \<Rightarrow> string \<Rightarrow> string option" where
  "replace_rounds placeholder v result0 =
     (let result = replaceAllString result0 placeholder v
      in if result0 = result then Some result else replace_rounds placeholder v result)"

definition replaceVariable :: "string \<Rightarrow> string \<Rightarrow> string \<Rightarrow> string option" where
  "replaceVariable sql placeholder v = (if v = [] then Some sql else replace_rounds placeholder v sql)"

definition replaceVariables :: "string \<Rightarrow> string \<Rightarrow> string \<Rightarrow> string option" where
  "replaceVariables sql username password =
     Option.bind (replaceVariable sql ''{{username}}'' username)
       (\<lambda>s. replaceVariable s ''{{password}}'' password)"

text \<open>A call that never returns blocks the goroutine.\<close>

definition or_never :: "'a option \<Rightarrow> ('w, 'a) act" where
  "or_never x = (case x of None \<Rightarrow> block | Some a \<Rightarrow> ret a)"

subsection \<open>Connecting\<close>

text \<open>\<open>var conn; err = retry.Do(ctx, nil, func() error { conn, err = odbc.Connect(connString); return err })\<close>:
  the error and the connection.\<close>

definition connect_retried :: "('d, 's) env \<Rightarrow> ctx \<Rightarrow> string
    \<Rightarrow> (('d, 's, 'z) world_scheme, go_err option \<times> Connection option) act" where
  "connect_retried E ctx connString =
     local_var None (Do ctx None (bnd (Connect (e_D E) connString) (\<lambda>r. case r of
       Inl e \<Rightarrow> seq (set_var None) (ret (Some e))
     | Inr c \<Rightarrow> seq (set_var (Some c)) (ret None))))"

text \<open>Using the variable: a method of a nil connection panics.\<close>

definition on_conn :: "Connection option \<Rightarrow> (Connection \<Rightarrow> ('w, 'a) act) \<Rightarrow> ('w, 'a) act" where
  "on_conn c k = (case c of None \<Rightarrow> panic ''nil pointer dereference'' | Some conn \<Rightarrow> k conn)"

definition close_conn :: "('d, 's) env \<Rightarrow> Connection \<Rightarrow> (('d, 's, 'z) world_scheme, unit) act" where
  "close_conn E conn = seq (CloseConn (e_D E) conn) (ret ())"

definition statements_retried :: "('d, 's) env \<Rightarrow> ctx \<Rightarrow> Connection \<Rightarrow> string
    \<Rightarrow> (('d, 's, 'z) world_scheme, go_err option) act" where
  "statements_retried E ctx conn sql = Do ctx None (ExecuteMultipleStatements (e_D E) ctx conn sql)"

definition drop_retried :: "('d, 's) env \<Rightarrow> ctx \<Rightarrow> Connection \<Rightarrow> string
    \<Rightarrow> (('d, 's, 'z) world_scheme, go_err option) act" where
  "drop_retried E ctx conn username =
     Do ctx None (with_handle conn (\<lambda>db. DropUser (e_D E) db username))"

definition alter_retried :: "('d, 's) env \<Rightarrow> ctx \<Rightarrow> Connection \<Rightarrow> string \<Rightarrow> string
    \<Rightarrow> (('d, 's, 'z) world_scheme, go_err option) act" where
  "alter_retried E ctx conn username newPassword =
     Do ctx None (with_handle conn (\<lambda>db. AlterUserPassword (e_D E) db username newPassword))"

definition session_conn_string :: "Config \<Rightarrow> string" where
  "session_conn_string cfg =
     AppendQueryTimeout (AppendSessionTimeout (cf_ConnectionString cfg) (cf_SessionTimeout cfg)) (cf_QueryTimeout cfg)"

text \<open>\<open>if err != nil { return nil, wrap(err) }\<close> on an error that may be nil.\<close>

definition tryE :: "('w, go_err option) act \<Rightarrow> (go_err \<Rightarrow> go_err) \<Rightarrow> ('w, hres) act \<Rightarrow> ('w, hres) act" where
  "tryE m wrap k = bnd m (\<lambda>e. guardH e wrap k)"

subsection \<open>Revoking one credential\<close>

definition pathRevokeCredsHandler :: "('d, 's) env \<Rightarrow> ctx \<Rightarrow> FieldData
    \<Rightarrow> (('d, 's, 'z) plugin_world_scheme, hres) act" where
  "pathRevokeCredsHandler E ctx data =
     bnd (getS data ''username'') (\<lambda>username.
     guardH (odbc_ValidateUsername (e_U E) username) (wrapped ''invalid username'') (
     tryH (getCachedCredential E username) (wrapped ''failed to retrieve credential'') (\<lambda>found. case found of
       None \<Rightarrow> failH (Errorf (''credential for user '' @ qq username @ '' not found''))
     | Some cred \<Rightarrow>
     tryH (getRole E (cr_RoleName cred)) (wrapped ''failed to retrieve role'') (\<lambda>role.
     tryH (getConfig E) id (\<lambda>c. case c of
       None \<Rightarrow> failH (Errorf ''database configuration not found'')
     | Some cfg \<Rightarrow>
     bnd (connect_retried E ctx (session_conn_string cfg)) (\<lambda>(err, co).
     guardH err (wrapped ''failed to connect to database after retries'') (
     on_conn co (\<lambda>conn. with_defer (close_conn E conn) (
     tryE (case role of None \<Rightarrow> ret None | Some ro \<Rightarrow>
            if ro_RevocationStatement ro \<noteq> []
            then bnd (or_never (replaceVariables (ro_RevocationStatement ro) username [])) (\<lambda>revocationSQL.
              statements_retried E ctx conn revocationSQL)
            else ret None) (wrapped ''failed to execute revocation statement'') (
     tryE (drop_retried E ctx conn username) (wrapped ''failed to drop user'') (
     tryH (deleteCredential E username) (wrapped ''failed to delete credential'') (\<lambda>_.
     seq (invalidateCachedCredential username)
     (okH (data_response [(''revoked'', VB True)]))))))))))))))"

subsection \<open>Revoking many\<close>

text \<open>One round: the error text of the result, or none when the credential was revoked.\<close>

definition bulk_failed :: "string \<Rightarrow> go_err \<Rightarrow> string" where
  "bulk_failed what err = what @ '': '' @ err_text err"

definition error_metadata :: "go_err \<Rightarrow> (string \<times> fval) list option" where
  "error_metadata err = Some [(''error'', VS (err_text err))]"

text \<open>From the connection to the result of the round; the three handlers share it.\<close>

definition revoke_round :: "('d, 's) env \<Rightarrow> ctx \<Rightarrow> string \<Rightarrow> Role option \<Rightarrow> string \<Rightarrow> string
    \<Rightarrow> (('d, 's, 'z) plugin_world_scheme, string option) act" where
  "revoke_round E ctx connString role username roleName =
     bnd (connect_retried E ctx connString) (\<lambda>(err, co). case err of
       Some e \<Rightarrow> ret (Some (bulk_failed ''failed to connect to database'' e))
     | None \<Rightarrow> on_conn co (\<lambda>conn.
     bnd (case role of None \<Rightarrow> ret None | Some ro \<Rightarrow>
            if ro_RevocationStatement ro \<noteq> []
            then bnd (or_never (replaceVariables (ro_RevocationStatement ro) username [])) (\<lambda>revocationSQL.
              statements_retried E ctx conn revocationSQL)
            else ret None) (\<lambda>err2. case err2 of
       Some e \<Rightarrow> seq (close_conn E conn) (ret (Some (bulk_failed ''failed to execute revocation statement'' e)))
     | None \<Rightarrow>
     bnd (drop_retried E ctx conn username) (\<lambda>err3.
     seq (close_conn E conn) (case err3 of
       Some e \<Rightarrow> seq (LogCredentialRevocation E username roleName (error_metadata e))
        (seq (SendCredentialRevokedWebhook E ctx username roleName (error_metadata e))
        (ret (Some (bulk_failed ''failed to drop user'' e))))
     | None \<Rightarrow>
     bnd (deleteCredential E username) (\<lambda>del. case del of
       Inl e \<Rightarrow> ret (Some (bulk_failed ''failed to delete credential from storage'' e))
     | Inr _ \<Rightarrow> seq (invalidateCachedCredential username)
        (seq (LogCredentialRevocation E username roleName None)
        (seq (SendCredentialRevokedWebhook E ctx username roleName None)
        (ret None)))))))))"

definition bulk_result :: "string \<times> string option \<Rightarrow> (string \<times> fval) list" where
  "bulk_result res = (case res of (username, err) \<Rightarrow>
     [(''username'', VS username), (''success'', VB (err = None))]
     @ (case err of None \<Rightarrow> [] | Some e \<Rightarrow> if e = [] then [] else [(''error'', VS e)]))"

definition bulk_response :: "(string \<times> string option) list \<Rightarrow> response" where
  "bulk_response results = data_response
     [(''revoked'', VI (int (length (filter (\<lambda>r. snd r = None) results)))),
      (''failed'', VI (int (length (filter (\<lambda>r. snd r \<noteq> None) results)))),
      (''results'', VLM (map bulk_result results))]"

definition bulk_one :: "('d, 's) env \<Rightarrow> ctx \<Rightarrow> string \<Rightarrow> string
    \<Rightarrow> (('d, 's, 'z) plugin_world_scheme, string option) act" where
  "bulk_one E ctx connString username =
     (case odbc_ValidateUsername (e_U E) username of
        Some e \<Rightarrow> ret (Some (bulk_failed ''invalid username'' e))
      | None \<Rightarrow> bnd (getCachedCredential E username) (\<lambda>r. case r of
          Inl e \<Rightarrow> ret (Some (bulk_failed ''failed to retrieve credential'' e))
        | Inr None \<Rightarrow> ret (Some ''credential not found'')
        | Inr (Some cred) \<Rightarrow> bnd (getRole E (cr_RoleName cred)) (\<lambda>ro. case ro of
            Inl e \<Rightarrow> ret (Some (bulk_failed ''failed to retrieve role'' e))
          | Inr role \<Rightarrow> revoke_round E ctx connString role username (cr_RoleName cred))))"

fun bulk_loop :: "('a \<Rightarrow> ('w, string \<times> string option) act) \<Rightarrow> 'a list
    \<Rightarrow> ('w, (string \<times> string option) list) act" where
  "bulk_loop f [] = ret []"
| "bulk_loop f (x # xs) = bnd (f x) (\<lambda>r. bnd (bulk_loop f xs) (\<lambda>rs. ret (r # rs)))"

text \<open>\<open>usernames\<close> is the value of \<open>GetOk\<close>: none when the field is not in the request.\<close>

definition pathBulkRevokeCredsHandler :: "('d, 's) env \<Rightarrow> ctx \<Rightarrow> fval option
    \<Rightarrow> (('d, 's, 'z) plugin_world_scheme, hres) act" where
  "pathBulkRevokeCredsHandler E ctx usernamesRaw =
     (case usernamesRaw of
        None \<Rightarrow> failH (Errorf ''usernames parameter is required'')
      | Some raw \<Rightarrow> (case raw of
          VL (u # us) \<Rightarrow> tryH (getConfig E) id (\<lambda>c. case c of
              None \<Rightarrow> failH (Errorf ''database configuration not found'')
            | Some cfg \<Rightarrow>
              let connString = AppendQueryTimeout (cf_ConnectionString cfg) (cf_QueryTimeout cfg) in
              bnd (bulk_loop (\<lambda>username. bnd (bulk_one E ctx connString username) (\<lambda>r. ret (username, r))) (u # us)) (\<lambda>results.
              okH (bulk_response results)))
        | _ \<Rightarrow> failH (Errorf ''usernames must be a non-empty list'')))"

text \<open>The users of a role, or of every role; an entry that cannot be read is skipped.\<close>

fun users_loop :: "('d, 's) env \<Rightarrow> (Credential \<Rightarrow> bool) \<Rightarrow> string list
    \<Rightarrow> (('d, 's, 'z) world_scheme, (string \<times> Credential) list) act" where
  "users_loop E P [] = ret []"
| "users_loop E P (entry # entries) =
     bnd (getCredential E (entry_user entry)) (\<lambda>r. bnd (users_loop E P entries) (\<lambda>rest.
     ret (case r of Inr (Some c) \<Rightarrow> if P c then (entry_user entry, c) # rest else rest | _ \<Rightarrow> rest)))"

definition pathBulkRevokeByRoleHandler :: "('d, 's) env \<Rightarrow> ctx \<Rightarrow> FieldData
    \<Rightarrow> (('d, 's, 'z) plugin_world_scheme, hres) act" where
  "pathBulkRevokeByRoleHandler E ctx data =
     bnd (getS data ''role'') (\<lambda>roleName.
     if roleName = [] then failH (Errorf ''role parameter is required'')
     else tryH (getConfig E) id (\<lambda>c. case c of
       None \<Rightarrow> failH (Errorf ''database configuration not found'')
     | Some cfg \<Rightarrow>
     tryH (getRole E roleName) (wrapped ''failed to retrieve role'') (\<lambda>ro. case ro of
       None \<Rightarrow> failH (Errorf (''role '' @ qq roleName @ '' not found''))
     | Some role \<Rightarrow>
     tryH (storage_List E credentialPrefix) (wrapped ''failed to list credentials'') (\<lambda>entries.
     bnd (users_loop E (\<lambda>cred. cr_RoleName cred = roleName) entries) (\<lambda>users.
     if users = [] then okH (bulk_response [])
     else let connString = AppendQueryTimeout (cf_ConnectionString cfg) (cf_QueryTimeout cfg) in
       bnd (bulk_loop (\<lambda>(username, _). bnd (revoke_round E ctx connString (Some role) username roleName) (\<lambda>r.
              ret (username, r))) users) (\<lambda>results.
       okH (bulk_response results)))))))"

text \<open>\<open>getRoleCached\<close>: the roles read so far; an error is not remembered.\<close>

fun all_loop :: "('d, 's) env \<Rightarrow> ctx \<Rightarrow> string \<Rightarrow> (string \<times> Role option) list \<Rightarrow> Credential list
    \<Rightarrow> (('d, 's, 'z) plugin_world_scheme, (string \<times> string option) list) act" where
  "all_loop E ctx connString roleCache [] = ret []"
| "all_loop E ctx connString roleCache (cred # creds) =
     bnd (case map_of roleCache (cr_RoleName cred) of
            Some role \<Rightarrow> ret (Inr role)
          | None \<Rightarrow> getRole E (cr_RoleName cred)) (\<lambda>ro.
     bnd (case ro of
            Inl e \<Rightarrow> ret (Some (bulk_failed ''failed to retrieve role'' e))
          | Inr role \<Rightarrow> revoke_round E ctx connString role (cr_Username cred) (cr_RoleName cred)) (\<lambda>r.
     bnd (all_loop E ctx connString (case ro of Inl _ \<Rightarrow> roleCache
            | Inr role \<Rightarrow> (cr_RoleName cred, role) # roleCache) creds) (\<lambda>rs.
     ret ((cr_Username cred, r) # rs))))"

definition pathRevokeAllCredsHandler :: "('d, 's) env \<Rightarrow> ctx
    \<Rightarrow> (('d, 's, 'z) plugin_world_scheme, hres) act" where
  "pathRevokeAllCredsHandler E ctx =
     tryH (getConfig E) id (\<lambda>c. case c of
       None \<Rightarrow> failH (Errorf ''database configuration not found'')
     | Some cfg \<Rightarrow>
     tryH (storage_List E credentialPrefix) (wrapped ''failed to list credentials'') (\<lambda>entries.
     if length entries = 0 then okH (bulk_response [])
     else bnd (users_loop E (\<lambda>_. True) entries) (\<lambda>users.
       let connString = AppendQueryTimeout (cf_ConnectionString cfg) (cf_QueryTimeout cfg) in
       bnd (all_loop E ctx connString [] (map snd users)) (\<lambda>results.
       okH (bulk_response results)))))"

subsection \<open>Renewing\<close>

definition renewal_statement :: "('d, 's) env \<Rightarrow> Role \<Rightarrow> (('d, 's, 'z) world_scheme, go_err + string) act" where
  "renewal_statement E role =
     (if ro_StatementTemplate role \<noteq> []
      then bndE (getStatement E (ro_StatementTemplate role)) (wrapped ''failed to load statement template'') (\<lambda>st.
        ret (Inr (case st of
            Some statement \<Rightarrow> if sm_RenewalStatement statement \<noteq> [] then sm_RenewalStatement statement
                else ro_RenewalStatement role
          | None \<Rightarrow> ro_RenewalStatement role)))
      else ret (Inr (ro_RenewalStatement role)))"

text \<open>The stored credential is changed in place; here the changed copy is stored and cached.\<close>

definition renewed :: "Credential \<Rightarrow> Role \<Rightarrow> int \<Rightarrow> int \<Rightarrow> Credential" where
  "renewed cred role t1 t2 = cred\<lparr>cr_LastRenewed := t1, cr_ExpiresAt := t2 + seconds (ro_DefaultTTL role)\<rparr>"

definition pathRenewCredsHandler :: "('d, 's) env \<Rightarrow> ctx \<Rightarrow> FieldData
    \<Rightarrow> (('d, 's, 'z) plugin_world_scheme, hres) act" where
  "pathRenewCredsHandler E ctx data =
     bnd (getS data ''username'') (\<lambda>username.
     guardH (odbc_ValidateUsername (e_U E) username) (wrapped ''invalid username'') (
     tryH (getCachedCredential E username) (wrapped ''failed to retrieve credential'') (\<lambda>found. case found of
       None \<Rightarrow> failH (Errorf (''credential for user '' @ qq username @ '' not found''))
     | Some cred0 \<Rightarrow>
     tryH (getRole E (cr_RoleName cred0)) (wrapped ''failed to retrieve role'') (\<lambda>ro. case ro of
       None \<Rightarrow> failH (Errorf (''role '' @ qq (cr_RoleName cred0) @ '' not found for credential''))
     | Some role \<Rightarrow>
     tryH (getConfig E) id (\<lambda>c. case c of
       None \<Rightarrow> failH (Errorf ''database configuration not found'')
     | Some cfg \<Rightarrow>
     bnd (generatePassword (e_rand_ok E)) (\<lambda>newPassword.
     guardH (map_option sec_go (ValidatePassword newPassword)) (wrapped ''generated password validation failed'') (
     bnd (connect_retried E ctx (session_conn_string cfg)) (\<lambda>(err, co).
     guardH err (wrapped ''failed to connect to database after retries'') (
     on_conn co (\<lambda>conn. with_defer (close_conn E conn) (
     tryE (alter_retried E ctx conn username newPassword) (wrapped ''failed to rotate password'') (
     tryH (renewal_statement E role) id (\<lambda>renewalStatement.
     tryE (if renewalStatement \<noteq> []
           then statements_retried E ctx conn (fill_template renewalStatement username newPassword)
           else ret None) (wrapped ''failed to execute renewal statement'') (
     bnd time_Now (\<lambda>t1. bnd time_Now (\<lambda>t2.
     let cred = renewed cred0 role t1 t2 in
     tryH (storeCredential E username cred) (wrapped ''failed to update credential'') (\<lambda>_.
     seq (cacheCredential username cred)
     (okH (data_response [(''username'', VS username), (''password'', VS newPassword),
        (''ttl'', VI (int_seconds (seconds (ro_DefaultTTL role)))),
        (''max_ttl'', VI (int_seconds (seconds (ro_MaxTTL role)))),
        (''last_renewed'', VI (unix (cr_LastRenewed cred))),
        (''expires_at'', VI (unix (cr_ExpiresAt cred)))])))))))))))))))))))"

text \<open>The renewals of a batch: the error text, or the new password and the two times.\<close>

definition renew_one :: "('d, 's) env \<Rightarrow> ctx \<Rightarrow> Connection \<Rightarrow> Role \<Rightarrow> string \<Rightarrow> string
    \<Rightarrow> (('d, 's, 'z) plugin_world_scheme, string + string \<times> int \<times> int) act" where
  "renew_one E ctx conn role renewalStatement username =
     bnd (getCachedCredential E username) (\<lambda>r. case r of
       Inl e \<Rightarrow> ret (Inl (bulk_failed ''failed to retrieve credential'' e))
     | Inr None \<Rightarrow> ret (Inl ''credential not found'')
     | Inr (Some cred0) \<Rightarrow>
     bnd (generatePassword (e_rand_ok E)) (\<lambda>newPassword.
     (case ValidatePassword newPassword of
       Some e \<Rightarrow> ret (Inl (bulk_failed ''password validation failed'' (sec_go e)))
     | None \<Rightarrow>
     bnd (alter_retried E ctx conn username newPassword) (\<lambda>err. case err of
       Some e \<Rightarrow> ret (Inl (bulk_failed ''failed to rotate password'' e))
     | None \<Rightarrow>
     bnd (if renewalStatement \<noteq> []
          then statements_retried E ctx conn (fill_template renewalStatement username newPassword)
          else ret None) (\<lambda>err2. case err2 of
       Some e \<Rightarrow> ret (Inl (bulk_failed ''failed to execute renewal statement'' e))
     | None \<Rightarrow>
     bnd time_Now (\<lambda>t1. bnd time_Now (\<lambda>t2.
     let cred = renewed cred0 role t1 t2 in
     bnd (storeCredential E username cred) (\<lambda>st. case st of
       Inl e \<Rightarrow> ret (Inl (bulk_failed ''failed to store credential'' e))
     | Inr _ \<Rightarrow> seq (cacheCredential username cred)
         (ret (Inr (newPassword, cr_LastRenewed cred, cr_ExpiresAt cred)))))))))))"

fun renew_loop :: "('d, 's) env \<Rightarrow> ctx \<Rightarrow> Connection \<Rightarrow> Role \<Rightarrow> string \<Rightarrow> string list
    \<Rightarrow> (('d, 's, 'z) plugin_world_scheme, (string \<times> (string + string \<times> int \<times> int)) list) act" where
  "renew_loop E ctx conn role renewalStatement [] = ret []"
| "renew_loop E ctx conn role renewalStatement (u # us) =
     bnd (renew_one E ctx conn role renewalStatement u) (\<lambda>r.
     bnd (renew_loop E ctx conn role renewalStatement us) (\<lambda>rs. ret ((u, r) # rs)))"

fun by_role_loop :: "('d, 's) env \<Rightarrow> string \<Rightarrow> int \<Rightarrow> Credential list \<Rightarrow> string list
    \<Rightarrow> (('d, 's, 'z) world_scheme, Credential list) act" where
  "by_role_loop E roleName limit creds [] = ret creds"
| "by_role_loop E roleName limit creds (entry # rest) =
     (if limit \<le> int (length creds) then ret creds
      else bnd (getCredential E (entry_user entry)) (\<lambda>r.
        by_role_loop E roleName limit (case r of
            Inr (Some cred) \<Rightarrow> if cr_RoleName cred = roleName then creds @ [cred] else creds
          | _ \<Rightarrow> creds) rest))"

definition getCredentialsByRole :: "('d, 's) env \<Rightarrow> string \<Rightarrow> int
    \<Rightarrow> (('d, 's, 'z) world_scheme, go_err + Credential list) act" where
  "getCredentialsByRole E roleName limit =
     bndE (storage_List E credentialPrefix) id (\<lambda>keys.
     bnd (by_role_loop E roleName limit [] keys) (\<lambda>creds. ret (Inr creds)))"

text \<open>The number of credentials to renew: the request's, or the role's batch size, from 1 to 100.\<close>

definition renew_count :: "Role \<Rightarrow> int \<Rightarrow> int" where
  "renew_count role n = clamp_count (if 0 < ro_BatchSize role \<and> n \<le> 0 then ro_BatchSize role else n)"

definition bad_username :: "('d, 's) env \<Rightarrow> string list \<Rightarrow> go_err option" where
  "bad_username E us = first_err (\<lambda>u. map_option (wrapped (''invalid username '' @ qq u))
     (odbc_ValidateUsername (e_U E) u)) us"

definition renew_usernames :: "('d, 's) env \<Rightarrow> string \<Rightarrow> int \<Rightarrow> string list
    \<Rightarrow> (('d, 's, 'z) world_scheme, go_err + string list) act" where
  "renew_usernames E name n usernamesRaw =
     (if 0 < length usernamesRaw
      then (case bad_username E usernamesRaw of
          Some e \<Rightarrow> ret (Inl e)
        | None \<Rightarrow> ret (Inr (take (nat n) usernamesRaw)))
      else bndE (getCredentialsByRole E name n) (wrapped ''failed to get credentials for role'') (\<lambda>creds.
        ret (Inr (map cr_Username creds))))"

definition renewal_result :: "Role \<Rightarrow> string \<times> (string + string \<times> int \<times> int) \<Rightarrow> (string \<times> fval) list" where
  "renewal_result role res = (case res of (username, r) \<Rightarrow> (case r of
       Inl e \<Rightarrow> [(''username'', VS username), (''new_password'', VS []), (''ttl'', VI 0), (''max_ttl'', VI 0),
         (''last_renewed'', VTime zero_time), (''expires_at'', VTime zero_time), (''error'', VS e)]
     | Inr (newPassword, lastRenewed, expiresAt) \<Rightarrow>
        [(''username'', VS username), (''new_password'', VS newPassword),
         (''ttl'', VI (int_seconds (seconds (ro_DefaultTTL role)))),
         (''max_ttl'', VI (int_seconds (seconds (ro_MaxTTL role)))),
         (''last_renewed'', VTime lastRenewed), (''expires_at'', VTime expiresAt)]))"

definition pathRenewCredsBatchHandler :: "('d, 's) env \<Rightarrow> ctx \<Rightarrow> FieldData
    \<Rightarrow> (('d, 's, 'z) plugin_world_scheme, hres) act" where
  "pathRenewCredsBatchHandler E ctx data =
     bnd (getS data ''name'') (\<lambda>name. bnd (getI data ''count'') (\<lambda>count0. bnd (getL data ''usernames'') (\<lambda>usernamesRaw.
     tryH (getRole E name) (wrapped ''failed to retrieve role'') (\<lambda>ro. case ro of
       None \<Rightarrow> failH (Errorf (''role '' @ qq name @ '' not found''))
     | Some role \<Rightarrow>
     tryH (getConfig E) id (\<lambda>c. case c of
       None \<Rightarrow> failH (Errorf ''database configuration not found'')
     | Some cfg \<Rightarrow>
     tryH (renew_usernames E name (renew_count role count0) usernamesRaw) id (\<lambda>usernames.
     if length usernames = 0 then failH (Errorf ''no credentials found to renew'')
     else tryH (Connect (e_D E) (session_conn_string cfg)) (wrapped ''failed to connect to database'') (\<lambda>conn.
     with_defer (close_conn E conn) (
     tryH (renewal_statement E role) id (\<lambda>renewalStatement.
     bnd (renew_loop E ctx conn role renewalStatement usernames) (\<lambda>results.
     let ok = length (filter (\<lambda>(u, r). case r of Inr _ \<Rightarrow> True | Inl _ \<Rightarrow> False) results) in
     okH (data_response [(''results'', VLM (map (renewal_result role) results)),
       (''success_count'', VI (int ok)), (''fail_count'', VI (int (length results - ok))),
       (''total_count'', VI (int (length usernames))),
       (''ttl'', VI (int_seconds (seconds (ro_DefaultTTL role)))),
       (''max_ttl'', VI (int_seconds (seconds (ro_MaxTTL role))))])))))))))))"

subsection \<open>Revoking by lease\<close>

text \<open>\<open>Revoke\<close> of the backend: an error, or none. The configuration is that of the credential's region, or
  the default one when there is no credential or no region.\<close>

definition revoke_config :: "('d, 's) env \<Rightarrow> Credential option
    \<Rightarrow> (('d, 's, 'z) world_scheme, go_err + Config) act" where
  "revoke_config E cred =
     (let region = (case cred of Some c \<Rightarrow> cr_Region c | None \<Rightarrow> []) in
      if region \<noteq> []
      then bndE (getConfigByName E region) (wrapped ''failed to get region config for revocation'') (\<lambda>c. ret (case c of
          None \<Rightarrow> Inl (Errorf (''configuration for region '' @ qq region @ '' not found''))
        | Some cfg \<Rightarrow> Inr cfg))
      else bndE (getConfig E) (wrapped ''failed to get config for revocation'') (\<lambda>c. ret (case c of
          None \<Rightarrow> Inl (Errorf ''database configuration not found'')
        | Some cfg \<Rightarrow> Inr cfg)))"

definition revoke_logged :: "('d, 's) env \<Rightarrow> ctx \<Rightarrow> string \<Rightarrow> string \<Rightarrow> (string \<times> fval) list option
    \<Rightarrow> (('d, 's, 'z) world_scheme, unit) act" where
  "revoke_logged E ctx username roleName md =
     seq (LogCredentialRevocation E username roleName md)
    (seq (SendCredentialRevokedWebhook E ctx username roleName md) (ret ()))"

definition revoke_parsed :: "('d, 's) env \<Rightarrow> ctx \<Rightarrow> string \<Rightarrow> string
    \<Rightarrow> (('d, 's, 'z) plugin_world_scheme, go_err + unit) act" where
  "revoke_parsed E ctx roleName username =
     bndE (getCachedCredential E username) (wrapped ''failed to get credential for revocation'') (\<lambda>cred.
     bndE (revoke_config E cred) id (\<lambda>cfg.
     bndE (getRole E roleName) (wrapped ''failed to get role for revocation'') (\<lambda>role.
     seq (case role of None \<Rightarrow> ret () | Some ro \<Rightarrow>
       if ro_RevocationStatement ro = [] then ret ()
       else let revokeSQL = ReplaceAll (ro_RevocationStatement ro) ''{{username}}'' username in
         bnd (connect_retried E ctx (session_conn_string cfg)) (\<lambda>(err, co).
         if err = None
         then on_conn co (\<lambda>conn. seq (statements_retried E ctx conn revokeSQL) (close_conn E conn))
         else ret ()))
     (bnd (connect_retried E ctx (session_conn_string cfg)) (\<lambda>(err, co). case err of
       Some e \<Rightarrow> seq (revoke_logged E ctx username roleName (error_metadata e))
         (ret (Inl (wrapped ''failed to connect for revocation'' e)))
     | None \<Rightarrow> on_conn co (\<lambda>conn. with_defer (close_conn E conn) (
       bnd (statements_retried E ctx conn (''DROP USER '' @ username)) (\<lambda>err2. case err2 of
         Some e \<Rightarrow> seq (revoke_logged E ctx username roleName (error_metadata e))
           (ret (Inl (wrapped ''failed to revoke credential'' e)))
       | None \<Rightarrow> seq (revoke_logged E ctx username roleName None)
           (seq (invalidateCachedCredential username) (ret (Inr ())))))))))))"

definition Revoke :: "('d, 's) env \<Rightarrow> ctx \<Rightarrow> string
    \<Rightarrow> (('d, 's, 'z) plugin_world_scheme, go_err + unit) act" where
  "Revoke E ctx leaseID =
     (if leaseID = [] then ret (Inr ())
      else case Split leaseID (CHR ''/'') of
        p0 # p1 # roleName # username # _ \<Rightarrow>
          if p0 \<noteq> ''teradata'' \<or> p1 \<noteq> ''creds'' then ret (Inr ()) else revoke_parsed E ctx roleName username
      | _ \<Rightarrow> ret (Inr ()))"

subsection \<open>When the substitution ends\<close>

definition bytes_of :: "(char \<Rightarrow> bool) \<Rightarrow> string \<Rightarrow> nat" where
  "bytes_of P s = length (filter P s)"

lemma bytes_of_simps [simp]:
  "bytes_of P [] = 0" "bytes_of P (c # s) = (if P c then 1 else 0) + bytes_of P s"
  "bytes_of P (s @ t) = bytes_of P s + bytes_of P t"
  by (simp_all add: bytes_of_def)

lemma bytes_of_split: "prefix p s \<Longrightarrow> bytes_of P s = bytes_of P p + bytes_of P (drop (length p) s)"
  by (auto elim!: prefixE)

lemma bytes_of_0: "bytes_of P s = 0 \<longleftrightarrow> (\<forall>c\<in>set s. \<not> P c)"
  by (simp add: bytes_of_def filter_empty_conv)

definition high :: "char \<Rightarrow> bool" where
  "high c \<longleftrightarrow> 128 \<le> byte c"

lemma high_encode: "bytes_of high (encode_rune (byte c)) = (if high c then 2 else 0)"
proof -
  have b: "byte c < 256" by (rule nat_of_char_less_256)
  then have "byte c div 64 < 4" by linarith
  with b show ?thesis by (auto simp: encode_rune_def high_def of_char_of)
qed

lemma ascii_high: "ascii s \<longleftrightarrow> bytes_of high s = 0"
  by (auto simp: bytes_of_0 ascii_set high_def)

text \<open>A round doubles the bytes that are not ASCII: each is encoded as two.\<close>

lemma round_high:
  "ascii old \<Longrightarrow> ascii new \<Longrightarrow> bytes_of high (replaceAllString s old new) = 2 * bytes_of high s"
proof (induction s old new rule: replaceAllString.induct)
  case (2 c cs old new)
  then have z: "bytes_of high old = 0" "bytes_of high new = 0" by (simp_all add: ascii_high)
  show ?case
  proof (cases "old \<noteq> [] \<and> prefix old (c # cs)")
    case True
    have "bytes_of high (c # cs) = bytes_of high (drop (length old) (c # cs))"
      using bytes_of_split [of old "c # cs" high] True z by simp
    with True z "2.IH"(1) "2.prems" show ?thesis by simp
  next
    case False
    with "2.IH"(2) "2.prems" show ?thesis by (auto simp: high_encode)
  qed
qed simp

text \<open>A round on ASCII text replaces the occurrences from left to right: it never adds a character that
  the new text does not have, and loses those of the old text when it changes anything.\<close>

lemma round_bytes:
  "ascii s \<Longrightarrow> bytes_of P new = 0 \<Longrightarrow> bytes_of P (replaceAllString s old new) \<le> bytes_of P s
   \<and> (0 < bytes_of P old \<and> replaceAllString s old new \<noteq> s \<longrightarrow> bytes_of P (replaceAllString s old new) < bytes_of P s)"
proof (induction s old new rule: replaceAllString.induct)
  case (2 c cs old new)
  show ?case
  proof (cases "old \<noteq> [] \<and> prefix old (c # cs)")
    case True
    then have "ascii (drop (length old) (c # cs))" using "2.prems"(1) unfolding ascii_set by (meson in_set_dropD)
    with "2.IH"(1) [OF True] "2.prems" True bytes_of_split [of old "c # cs" P] show ?thesis by auto
  next
    case False
    from "2.prems"(1) have "byte c < 128" "ascii cs" by (auto simp: ascii_set)
    with "2.IH"(2) [OF False] "2.prems" False encode_byte [of c] show ?thesis by auto
  qed
qed simp

lemma round_ascii: "ascii s \<Longrightarrow> ascii new \<Longrightarrow> ascii old \<Longrightarrow> ascii (replaceAllString s old new)"
  using round_high [of old new s] by (simp add: ascii_high)

lemma round_removes:
  assumes "bytes_of P new = 0" and "0 < bytes_of P old"
  shows "ascii s \<Longrightarrow> Contains s old \<Longrightarrow> bytes_of P (replaceAllString s old new) < bytes_of P s"
proof (induction s)
  case Nil
  with assms(2) show ?case by (simp add: Contains_def)
next
  case (Cons c cs)
  show ?case
  proof (cases "prefix old (c # cs)")
    case True
    with assms have "old \<noteq> []" by auto
    moreover have "ascii (drop (length old) (c # cs))" using Cons.prems(1) unfolding ascii_set by (meson in_set_dropD)
    ultimately show ?thesis
      using True bytes_of_split [of old "c # cs" P] round_bytes [of "drop (length old) (c # cs)" P new old] assms by simp
  next
    case False
    with Cons.prems have "Contains cs old" by (simp add: Contains_def sublist_Cons_right)
    moreover from Cons.prems(1) have "byte c < 128" "ascii cs" by (auto simp: ascii_set)
    ultimately show ?thesis using Cons.IH False encode_byte [of c] by simp
  qed
qed

lemma rounds_end:
  assumes p: "ascii p" "0 < bytes_of P p" and v: "ascii v" "bytes_of P v = 0"
  shows "ascii s \<Longrightarrow> \<exists>s'. replace_rounds p v s = Some s' \<and> \<not> Contains s' p \<and> ascii s'"
proof (induction "bytes_of P s" arbitrary: s rule: less_induct)
  case less
  let ?r = "replaceAllString s p v"
  show ?case
  proof (cases "s = ?r")
    case True
    with round_removes [OF v(2) p(2) less.prems] have "\<not> Contains s p" by auto
    with True less.prems show ?thesis by (subst replace_rounds.simps) simp
  next
    case False
    with round_bytes [OF less.prems v(2), of p] p(2) have "bytes_of P ?r < bytes_of P s" by auto
    from less.hyps [OF this round_ascii [OF less.prems v(1) p(1)]] False show ?thesis
      by (subst replace_rounds.simps) simp
  qed
qed

lemma rounds_diverge:
  assumes "ascii p" and "ascii v" and "replace_rounds p v s = Some s'"
  shows "ascii s"
proof -
  have "ascii p \<longrightarrow> ascii v \<longrightarrow> ascii s"
  proof (rule replace_rounds.raw_induct [where P = "\<lambda>p v s s'. ascii p \<longrightarrow> ascii v \<longrightarrow> ascii s", OF _ assms(3)])
    fix rounds p v s s'
    assume IH: "\<And>p v s s'. rounds p v s = Some s' \<Longrightarrow> ascii p \<longrightarrow> ascii v \<longrightarrow> ascii s"
      and r: "(let result = replaceAllString s p v in if s = result then Some result else rounds p v result) = Some s'"
    show "ascii p \<longrightarrow> ascii v \<longrightarrow> ascii s"
    proof (intro impI)
      assume pv: "ascii p" "ascii v"
      note h = round_high [OF pv, of s]
      show "ascii s"
      proof (cases "s = replaceAllString s p v")
        case True
        with h have "bytes_of high s = 2 * bytes_of high s" by metis
        then show ?thesis by (simp add: ascii_high)
      next
        case False
        with r have "rounds p v (replaceAllString s p v) = Some s'" by (simp add: Let_def split: if_splits)
        from IH [OF this] pv h show ?thesis by (simp add: ascii_high)
      qed
    qed
  qed
  with assms show ?thesis by simp
qed

lemma username_braceless:
  assumes "odbc_ValidateUsername U u = None"
  shows "u \<noteq> []" "ascii u" "bytes_of (\<lambda>c. c = CHR 0x7B) u = 0"
proof -
  from assms have "u \<noteq> []" and s: "set u \<subseteq> set usernameChars" by (simp_all add: odbc_ValidateUsername_None)
  then show "u \<noteq> []" "ascii u" by (simp_all add: ascii_username)
  have "CHR 0x7B \<notin> set usernameChars" by (simp add: usernameChars_def)
  with s show "bytes_of (\<lambda>c. c = CHR 0x7B) u = 0" by (auto simp: bytes_of_0)
qed

text \<open>C17. The substitution of a validated user name in a revocation statement ends exactly when the
  statement is ASCII, and then no placeholder is left, even when replacing one makes another. On any
  other statement the loop never ends: a round encodes each byte above 127 as two.\<close>
theorem replaceVariables_ends_iff_ascii:
  assumes "odbc_ValidateUsername U username = None"
  shows "(replaceVariables sql username [] \<noteq> None \<longleftrightarrow> ascii sql)
    \<and> (\<forall>s. replaceVariables sql username [] = Some s \<longrightarrow> \<not> Contains s ''{{username}}'')"
proof -
  note u = username_braceless [OF assms]
  have p: "ascii ''{{username}}''" "0 < bytes_of (\<lambda>c. c = CHR 0x7B) ''{{username}}''"
    by (simp_all add: ascii_def)
  have eq: "replaceVariables sql username [] = replace_rounds ''{{username}}'' username sql"
    using u(1) by (cases "replace_rounds ''{{username}}'' username sql")
      (simp_all add: replaceVariables_def replaceVariable_def)
  show ?thesis
  proof (cases "ascii sql")
    case True
    from rounds_end [OF p u(2,3) True] True show ?thesis by (auto simp only: eq)
  next
    case False
    with rounds_diverge [OF p(1) u(2), of sql] show ?thesis
      by (cases "replace_rounds ''{{username}}'' username sql") (auto simp only: eq)
  qed
qed

lemma app_x_accepted: "odbc_ValidateUsername plain_tables ''app_1'' = None"
  by (simp add: odbc_ValidateUsername_None usernameChars_def odbc_sqlInjectionPatterns_def odbc_sqlKeywords_def go_eval)

theorem replaceVariables_ends_iff_ascii_witness:
  "replaceVariables [CHR 0xE9] ''app_1'' [] = None"
  using replaceVariables_ends_iff_ascii [OF app_x_accepted, of "[CHR 0xE9]"] by (simp add: ascii_def)

subsection \<open>Nothing is revoked and nothing is renewed\<close>

lemma bnd_panic: "bnd (panic s) k = panic s" "seq (panic s) m = panic s"
  by (simp_all add: bnd_def panic_def seq_def fun_eq_iff)

lemma nil_retry:
  "connect_retried E ctx cs = panic ''nil pointer dereference''"
  "statements_retried E ctx conn sql = panic ''nil pointer dereference''"
  "drop_retried E ctx conn u = panic ''nil pointer dereference''"
  "alter_retried E ctx conn u p = panic ''nil pointer dereference''"
  by (simp_all add: connect_retried_def statements_retried_def drop_retried_def alter_retried_def Do_def
      local_var_def panic_def fun_eq_iff var_out_in)

lemmas never_connects = nil_retry bnd_panic

text \<open>Actions that may change the caches, but neither storage nor the statements sent.\<close>

definition still :: "('s \<Rightarrow> string \<Rightarrow> stored option) \<Rightarrow> (('d, 's, 'z) world_scheme, 'a) act \<Rightarrow> bool" where
  "still view m \<longleftrightarrow> (\<forall>V L. keeps (\<lambda>w. stored_entries view w = V \<and> w_sql w = L) m)"

lemma still_quiet: "quiet view m \<Longrightarrow> still view m"
  unfolding still_def
proof (intro allI)
  fix V L
  assume "quiet view m"
  then have "\<And>v. keeps (\<lambda>w. visible view w = v) m" by (simp only: quiet_def)
  then show "keeps (\<lambda>w. stored_entries view w = V \<and> w_sql w = L) m"
    unfolding keeps_def visible_def by (metis prod.inject)
qed

lemma still_combinators:
  "still view (ret r)" "still view (panic p)" "still view block" "still view (gets g)"
  "still view m \<Longrightarrow> (\<And>a. still view (k a)) \<Longrightarrow> still view (bnd m k)"
  "still view m1 \<Longrightarrow> still view n1 \<Longrightarrow> still view (seq m1 n1)"
  "(b \<Longrightarrow> still view m2) \<Longrightarrow> (\<not> b \<Longrightarrow> still view n2) \<Longrightarrow> still view (if b then m2 else n2)"
  "(x = None \<Longrightarrow> still view m3) \<Longrightarrow> (\<And>a. x = Some a \<Longrightarrow> still view (k' a))
   \<Longrightarrow> still view (case x of None \<Rightarrow> m3 | Some a \<Rightarrow> k' a)"
  "(\<And>a. y = Inl a \<Longrightarrow> still view (f' a)) \<Longrightarrow> (\<And>a. y = Inr a \<Longrightarrow> still view (g' a))
   \<Longrightarrow> still view (case y of Inl a \<Rightarrow> f' a | Inr a \<Rightarrow> g' a)"
  "(\<And>a b. ab = (a, b) \<Longrightarrow> still view (h a b)) \<Longrightarrow> still view (case ab of (a, b) \<Rightarrow> h a b)"
  "still view m4 \<Longrightarrow> (\<And>a. still view (k4 a)) \<Longrightarrow> still view (bndE m4 wrap k4)"
  "still view fin \<Longrightarrow> still view m5 \<Longrightarrow> still view (with_defer fin m5)"
  unfolding still_def by (auto intro!: keeps_rules split: option.splits sum.splits prod.splits)

lemma still_handlers:
  "still view (failH e)" "still view (okH r)" "still view nilH"
  "still view m \<Longrightarrow> (\<And>a. still view (k a)) \<Longrightarrow> still view (tryH m wrap k)"
  "still view n \<Longrightarrow> still view (guardH x wrap n)"
  "still view (getS d f)" "still view (getI d f)" "still view (getL d f)"
  unfolding failH_def okH_def nilH_def tryH_def guardH_def getS_def getI_def getL_def
  by (auto intro!: still_combinators split: option.split fval.split)

lemma still_modify:
  "(\<And>w. stored_entries view (f w) = stored_entries view w \<and> w_sql (f w) = w_sql w) \<Longrightarrow> still view (modify f)"
  unfolding still_def by (intro allI keeps_modify) simp

lemma still_fun:
  assumes "\<And>w. stored_entries view (snd (m w)) = stored_entries view w \<and> w_sql (snd (m w)) = w_sql w"
  shows "still view m"
  using assms by (simp add: still_def keeps_def)

lemma still_caches:
  "still view (cacheCredential u c)" "still view (invalidateCachedCredential u)" "still view (cache_lookup u)"
proof -
  note s = still_combinators still_modify still_quiet [OF quiet_effects(1)] still_fun
  show "still view (cacheCredential u c)" unfolding cacheCredential_def by (intro s) simp_all
  show "still view (invalidateCachedCredential u)" unfolding invalidateCachedCredential_def by (intro s) simp_all
  show "still view (cache_lookup u)"
    unfolding cache_lookup_def by (intro s) (simp split: option.split prod.split)
qed

lemma quiet_getRole: "lawful_storage view (e_S E) \<Longrightarrow> quiet view (getRole E name)"
  unfolding getRole_def by (intro quiet_combinators quiet_get_as)

lemma quiet_reads:
  assumes "lawful_storage view (e_S E)"
  shows "quiet view (getConfig E)" "quiet view (getConfigByName E region)" "quiet view (getStatement E name)"
    "quiet view (getCredential E u)"
  unfolding getConfig_def getConfigByName_def getStatement_def getCredential_def
  by (intro quiet_combinators quiet_get_as assms)+

lemma quiet_List: "lawful_storage view (e_S E) \<Longrightarrow> quiet view (storage_List E p)"
  unfolding quiet_def keeps_def storage_List_def
  by (simp add: on_st_eq visible_st tick_fields lawful_storage_def split: prod.split)
    (simp add: visible_def, metis snd_conv)

lemmas still_reads = quiet_getRole [THEN still_quiet] quiet_reads [THEN still_quiet] quiet_List [THEN still_quiet]

lemma still_getCached: "lawful_storage view (e_S E) \<Longrightarrow> still view (getCachedCredential E u)"
  unfolding getCachedCredential_def
  by (intro still_combinators still_caches still_reads)

lemma still_silent: "silent view m \<Longrightarrow> still view m"
  by (simp add: silent_def still_quiet)

lemma still_users_loop: "lawful_storage view (e_S E) \<Longrightarrow> still view (users_loop E P es)"
  by (induction es) (auto intro!: still_combinators still_reads)

lemma still_bulk_loop: "(\<And>x. still view (f x)) \<Longrightarrow> still view (bulk_loop f xs)"
  by (induction xs) (auto intro!: still_combinators)

lemma revoke_round_panics: "revoke_round E ctx cs role u n = panic ''nil pointer dereference''"
  by (simp add: revoke_round_def never_connects)

lemma still_revoking:
  assumes "lawful_storage view (e_S E)"
  shows "still view (pathRevokeCredsHandler E ctx data)" "still view (pathRenewCredsHandler E ctx data)"
    "still view (pathBulkRevokeCredsHandler E ctx raw)" "still view (pathBulkRevokeByRoleHandler E ctx data)"
    "still view (pathRevokeAllCredsHandler E ctx)" "still view (Revoke E ctx leaseID)"
proof -
  note s = still_combinators still_handlers still_reads [OF assms] still_getCached [OF assms]
    still_silent [OF silent_generatePassword] still_users_loop [OF assms] still_bulk_loop
  have all: "still view (all_loop E ctx cs rc creds)" for cs rc creds
    by (induction creds arbitrary: rc) (auto simp: revoke_round_panics intro!: s)
  show "still view (pathRevokeCredsHandler E ctx data)" "still view (pathRenewCredsHandler E ctx data)"
    unfolding pathRevokeCredsHandler_def pathRenewCredsHandler_def never_connects by (intro s)+
  show "still view (pathBulkRevokeCredsHandler E ctx raw)"
    unfolding pathBulkRevokeCredsHandler_def bulk_one_def Let_def revoke_round_panics
    by (auto intro!: s split: fval.split list.split)
  show "still view (pathBulkRevokeByRoleHandler E ctx data)" "still view (pathRevokeAllCredsHandler E ctx)"
    unfolding pathBulkRevokeByRoleHandler_def pathRevokeAllCredsHandler_def Let_def revoke_round_panics
    by (intro s all)+
  show "still view (Revoke E ctx leaseID)"
    unfolding Revoke_def revoke_parsed_def revoke_config_def Let_def never_connects
    by (auto intro!: s split: list.split)
qed

lemma returns_handlers:
  "P (Inl (e, None)) \<Longrightarrow> returns P (failH e)" "P (Inr (Some r)) \<Longrightarrow> returns P (okH r)"
  "(\<And>e. P (Inl (wrap e, None))) \<Longrightarrow> (\<And>a. returns P (k a)) \<Longrightarrow> returns P (tryH m wrap k)"
  "(\<And>e. P (Inl (wrap' e, None))) \<Longrightarrow> returns P n \<Longrightarrow> returns P (guardH x wrap' n)"
  unfolding failH_def okH_def tryH_def guardH_def
  by (auto intro!: returns_rules split: option.split sum.split)

lemma returns_case_sum:
  "(\<And>a. y = Inl a \<Longrightarrow> returns P (f a)) \<Longrightarrow> (\<And>a. y = Inr a \<Longrightarrow> returns P (g a))
   \<Longrightarrow> returns P (case y of Inl a \<Rightarrow> f a | Inr a \<Rightarrow> g a)"
  by (cases y) simp_all

definition all_failed :: "(string \<times> string option) list \<Rightarrow> bool" where
  "all_failed rs \<longleftrightarrow> list_all (\<lambda>r. snd r \<noteq> None) rs"

lemma returns_bulk_loop:
  "(\<And>x. returns (\<lambda>r. snd r \<noteq> None) (f x)) \<Longrightarrow> returns all_failed (bulk_loop f xs)"
proof (induction xs)
  case (Cons x xs)
  show ?case
    unfolding bulk_loop.simps
    by (intro returns_bnd [OF Cons.prems] returns_bnd [OF Cons.IH [OF Cons.prems]] returns_ret)
      (simp add: all_failed_def)
qed (simp add: returns_ret all_failed_def)

text \<open>A response that says nothing was revoked, or an error.\<close>

definition none_revoked :: "hres \<Rightarrow> bool" where
  "none_revoked r = (case r of Inr (Some resp) \<Rightarrow> map_of (rs_Data resp) ''revoked'' = Some (VI 0) | Inr None \<Rightarrow> False | Inl _ \<Rightarrow> True)"

lemma bulk_response_none: "all_failed rs \<Longrightarrow> none_revoked (Inr (Some (bulk_response rs)))"
  by (induction rs) (simp_all add: all_failed_def none_revoked_def bulk_response_def data_response_def)

lemma returns_revoking:
  "returns isl (pathRevokeCredsHandler E ctx data)" "returns isl (pathRenewCredsHandler E ctx data)"
  "returns none_revoked (pathBulkRevokeCredsHandler E ctx raw)"
  "returns none_revoked (pathBulkRevokeByRoleHandler E ctx data)" "returns none_revoked (pathRevokeAllCredsHandler E ctx)"
proof -
  note r = returns_rules returns_handlers returns_case_sum
  note loop = returns_bnd [where R = all_failed] returns_bulk_loop
  have Inl: "none_revoked (Inl e)" and nil: "all_failed []" for e by (simp_all add: none_revoked_def all_failed_def)
  show "returns isl (pathRevokeCredsHandler E ctx data)" "returns isl (pathRenewCredsHandler E ctx data)"
    unfolding pathRevokeCredsHandler_def pathRenewCredsHandler_def never_connects by (auto intro!: r)
  have one: "returns (\<lambda>r. r \<noteq> None) (bulk_one E ctx cs u)" for cs u
    unfolding bulk_one_def revoke_round_panics by (auto intro!: r split: option.split sum.split)
  have pair: "returns (\<lambda>r. snd r \<noteq> None) (bnd (bulk_one E ctx cs u) (\<lambda>r. ret (u, r)))" for cs u
    by (rule returns_bnd [OF one]) (auto intro: returns_ret)
  show "returns none_revoked (pathBulkRevokeCredsHandler E ctx raw)"
    unfolding pathBulkRevokeCredsHandler_def Let_def
    by (auto intro!: returns_handlers loop pair bulk_response_none Inl simp del: bulk_loop.simps
        split: option.split fval.split list.split)
  show "returns none_revoked (pathBulkRevokeByRoleHandler E ctx data)"
    unfolding pathBulkRevokeByRoleHandler_def Let_def revoke_round_panics
    by (auto intro!: returns_handlers returns_bind [where m = "getS d f" for d f]
        returns_bind [where m = "users_loop E P es" for P es] returns_if loop returns_panic bulk_response_none nil Inl
        simp: bnd_panic split: option.split)
  have all: "returns all_failed (all_loop E ctx cs rc creds)" for cs rc creds
  proof (induction creds arbitrary: rc)
    case (Cons c creds)
    show ?case
      unfolding all_loop.simps revoke_round_panics
      by (intro returns_bind returns_bnd [where R = "\<lambda>r. r \<noteq> None"] returns_bnd [OF Cons.IH])
        (auto simp: all_failed_def intro!: r split: sum.split)
  qed (simp add: returns_ret all_failed_def)
  show "returns none_revoked (pathRevokeAllCredsHandler E ctx)"
    unfolding pathRevokeAllCredsHandler_def Let_def
    by (auto intro!: returns_handlers returns_bind [where m = "users_loop E P es" for P es] returns_if
        returns_bnd [OF all] bulk_response_none nil Inl split: option.split)
qed

lemma still_run:
  fixes m :: "(('d, 's, 'z) world_scheme, 'a) act"
  shows "still view m \<Longrightarrow> stored_entries view (snd (m w)) = stored_entries view w \<and> w_sql (snd (m w)) = w_sql w"
  unfolding still_def keeps_def by blast



end
