(* ===== verification/Leases.thy ===== *)
theory Leases
  imports Issuing
begin

text \<open>
  The lease paths (\<open>plugin/path_leases.go\<close>, \<open>plugin/path_extend_lease.go\<close>), the statement paths
  (\<open>plugin/path_statements.go\<close>) and the rotation of the root credentials (\<open>plugin/path_rotate_root.go\<close>).

  The theorems bound the expiry an extension can reach and show what the statement paths store.
\<close>

subsection \<open>Durations\<close>

text \<open>\<open>t.Sub(u)\<close> is exact up to the range of a duration, and the nearest duration beyond it.\<close>

definition time_Sub :: "int \<Rightarrow> int \<Rightarrow> int" where
  "time_Sub t u = max (- (2 ^ 63)) (min (2 ^ 63 - 1) (t - u))"

definition time_Since :: "int \<Rightarrow> (('d, 's, 'z) world_scheme, int) act" where
  "time_Since t = bnd time_Now (\<lambda>now. ret (time_Sub now t))"

definition time_Until :: "int \<Rightarrow> (('d, 's, 'z) world_scheme, int) act" where
  "time_Until t = bnd time_Now (\<lambda>now. ret (time_Sub t now))"

text \<open>\<open>%v\<close> of a duration.\<close>

definition frac_text :: "nat \<Rightarrow> int \<Rightarrow> string" where
  "frac_text prec v =
     (let digits = replicate (prec - length (itoa v)) (CHR ''0'') @ itoa v;
          t = rev (dropWhile (\<lambda>c. c = CHR ''0'') (rev digits))
      in if t = [] then [] else CHR ''.'' # t)"

definition duration_text :: "int \<Rightarrow> string" where
  "duration_text d =
     (let u = abs d; sign = (if d < 0 then ''-'' else []) in
      if u = 0 then ''0s''
      else if u < 1000 then sign @ itoa u @ ''ns''
      else if u < 1000000 then sign @ itoa (u div 1000) @ frac_text 3 (u mod 1000) @ [CHR 0xC2, CHR 0xB5] @ ''s''
      else if u < second then sign @ itoa (u div 1000000) @ frac_text 6 (u mod 1000000) @ ''ms''
      else let s = u div second; sec = itoa (s mod 60) @ frac_text 9 (u mod second) @ ''s'' in
        sign @ (if s < 60 then sec
          else if s < 3600 then itoa (s div 60) @ ''m'' @ sec
          else itoa (s div 3600) @ ''h'' @ itoa (s div 60 mod 60) @ ''m'' @ sec))"

subsection \<open>Leases\<close>

definition renewed_at :: "Credential \<Rightarrow> (int \<Rightarrow> fval) \<Rightarrow> (string \<times> fval) list" where
  "renewed_at cred f =
     (if cr_LastRenewed cred \<noteq> zero_time then [(''last_renewed'', f (cr_LastRenewed cred))] else [])"

definition lease_info :: "int \<Rightarrow> Credential \<Rightarrow> (string \<times> fval) list" where
  "lease_info now lease =
     [(''lease_id'', VS (cr_LeaseID lease)), (''username'', VS (cr_Username lease)),
      (''role_name'', VS (cr_RoleName lease)), (''created_at'', VI (unix (cr_CreatedAt lease))),
      (''expires_at'', VI (unix (cr_ExpiresAt lease))), (''expired'', VB (cr_ExpiresAt lease < now))]
     @ renewed_at lease (\<lambda>t. VI (unix t))"

definition pathLeasesList :: "('d, 's) env \<Rightarrow> (('d, 's, 'z) world_scheme, hres) act" where
  "pathLeasesList E =
     tryH (listAllLeases E) (wrapped ''failed to list leases'') (\<lambda>leases.
     bnd time_Now (\<lambda>now.
     okH (data_response [(''leases'', VLM (map (lease_info now) leases)), (''count'', VI (int (length leases)))])))"

text \<open>\<open>role, _ := getRole(...)\<close>: an error is ignored, and the role is then nil.\<close>

definition role_or_nil :: "('d, 's) env \<Rightarrow> string \<Rightarrow> (('d, 's, 'z) world_scheme, Role option) act" where
  "role_or_nil E name = bnd (getRole E name) (\<lambda>r. ret (case r of Inl _ \<Rightarrow> None | Inr role \<Rightarrow> role))"

definition pathLeaseInfoRead :: "('d, 's) env \<Rightarrow> FieldData \<Rightarrow> (('d, 's, 'z) world_scheme, hres) act" where
  "pathLeaseInfoRead E data =
     bnd (getS data ''lease_id'') (\<lambda>leaseID.
     tryH (getCredentialByLeaseID E leaseID) (wrapped ''failed to get lease'') (\<lambda>found. case found of
       None \<Rightarrow> failH (Errorf (''lease '' @ qq leaseID @ '' not found''))
     | Some (cred, username) \<Rightarrow>
     bnd (role_or_nil E (cr_RoleName cred)) (\<lambda>role.
     bnd time_Now (\<lambda>now.
     bnd (countCredentialsByRole E (cr_RoleName cred)) (\<lambda>c.
     let usernameFromLease = (if username = [] then cr_Username cred else username) in
     okH (data_response (lease_info now cred
       @ (case role of None \<Rightarrow> [] | Some ro \<Rightarrow>
           [(''default_ttl'', VI (ro_DefaultTTL ro)), (''max_ttl'', VI (ro_MaxTTL ro))])
       @ [(''role_credential_count'', VI (case c of Inl _ \<Rightarrow> 0 | Inr n \<Rightarrow> n)),
          (''storage_key'', VS (credentialPrefix @ usernameFromLease))])))))))"

definition pathCleanupExpiredHandler :: "('d, 's) env \<Rightarrow> ctx \<Rightarrow> (('d, 's, 'z) plugin_world_scheme, hres) act" where
  "pathCleanupExpiredHandler E ctx =
     tryH (getConfig E) id (\<lambda>c. case c of
       None \<Rightarrow> failH (Errorf ''database configuration not found'')
     | Some cfg \<Rightarrow> tryH (cleanupExpiredCredentials E ctx cfg) (wrapped ''failed to cleanup expired credentials'') (\<lambda>cleaned.
         okH (data_response [(''cleaned'', VI cleaned)])))"

definition pathLeaseLookupHandler :: "('d, 's) env \<Rightarrow> FieldData \<Rightarrow> (('d, 's, 'z) world_scheme, hres) act" where
  "pathLeaseLookupHandler E data =
     bnd (getS data ''lease_id'') (\<lambda>leaseID.
     tryH (getCredentialByLeaseID E leaseID) (wrapped ''failed to lookup lease'') (\<lambda>found. case found of
       None \<Rightarrow> failH (Errorf (''lease '' @ qq leaseID @ '' not found''))
     | Some (cred, username) \<Rightarrow>
     bnd (role_or_nil E (cr_RoleName cred)) (\<lambda>role.
     let ttl0 = (case role of None \<Rightarrow> 0 | Some ro \<Rightarrow> ro_DefaultTTL ro);
         maxTTL = (case role of None \<Rightarrow> 0 | Some ro \<Rightarrow> ro_MaxTTL ro) in
     bnd time_Now (\<lambda>t1.
     bnd (if \<not> IsExpired t1 cred \<and> cr_ExpiresAt cred \<noteq> zero_time
          then bnd (time_Until (cr_ExpiresAt cred)) (\<lambda>d. ret (int_seconds d)) else ret ttl0) (\<lambda>ttl.
     bnd time_Now (\<lambda>t2.
     okH (data_response ([(''lease_id'', VS (cr_LeaseID cred)), (''username'', VS (cr_Username cred)),
        (''role_name'', VS (cr_RoleName cred)), (''created_at'', VTime (cr_CreatedAt cred)),
        (''expires_at'', VTime (cr_ExpiresAt cred)), (''expired'', VB (IsExpired t2 cred)), (''ttl'', VI ttl),
        (''max_ttl'', VI maxTTL), (''storage_key'', VS (credentialPrefix @ username))]
        @ renewed_at cred VTime))))))))"

subsection \<open>Extending a lease\<close>

definition not_extendable :: "string \<Rightarrow> int \<Rightarrow> go_err" where
  "not_extendable leaseID maxTTL = Errorf (''lease '' @ qq leaseID @ '' has reached maximum TTL of ''
     @ duration_text maxTTL @ '' and cannot be extended further'')"

text \<open>The time to live an extension gets: the requested one or the role's, cut to what is left of the
  role's maximum.\<close>

definition extension_ttl :: "string \<Rightarrow> Role \<Rightarrow> int \<Rightarrow> Credential
    \<Rightarrow> (('d, 's, 'z) world_scheme, go_err + int) act" where
  "extension_ttl leaseID role requestedTTL cred =
     (let defaultTTL = seconds (ro_DefaultTTL role); maxTTL = seconds (ro_MaxTTL role) in
      bnd (if 0 < maxTTL
           then bnd (time_Since (cr_CreatedAt cred)) (\<lambda>totalLeaseTime.
             ret (if maxTTL \<le> totalLeaseTime then Some (not_extendable leaseID maxTTL) else None))
           else ret None) (\<lambda>stop. case stop of
        Some err \<Rightarrow> ret (Inl err)
      | None \<Rightarrow>
          let ttl = (if 0 < requestedTTL then seconds requestedTTL else defaultTTL) in
          if 0 < maxTTL
          then bnd (time_Since (cr_CreatedAt cred)) (\<lambda>totalLeaseTime.
            let remainingMaxTTL = i64 (maxTTL - totalLeaseTime);
                ttl' = (if remainingMaxTTL < ttl then remainingMaxTTL else ttl) in
            ret (if ttl' \<le> 0
                 then Inl (Errorf (''lease '' @ qq leaseID @ '' has reached maximum TTL and cannot be extended''))
                 else Inr ttl'))
          else ret (Inr ttl)))"

definition pathExtendLeaseHandler :: "('d, 's) env \<Rightarrow> FieldData
    \<Rightarrow> (('d, 's, 'z) plugin_world_scheme, hres) act" where
  "pathExtendLeaseHandler E data =
     bnd (getS data ''lease_id'') (\<lambda>leaseID. bnd (getI data ''ttl'') (\<lambda>requestedTTL.
     if leaseID = [] then failH (Errorf ''lease_id is required'')
     else tryH (getCredentialByLeaseID E leaseID) (wrapped ''failed to get credential'') (\<lambda>found. case found of
       None \<Rightarrow> failH (Errorf (''lease '' @ qq leaseID @ '' not found''))
     | Some (cred0, username) \<Rightarrow>
     tryH (getRole E (cr_RoleName cred0)) (wrapped ''failed to get role'') (\<lambda>ro. case ro of
       None \<Rightarrow> failH (Errorf (''role '' @ qq (cr_RoleName cred0) @ '' not found for lease''))
     | Some role \<Rightarrow>
     bnd time_Now (\<lambda>t0.
     if IsExpired t0 cred0
     then failH (Errorf (''lease '' @ qq leaseID @ '' has expired and cannot be extended''))
     else tryH (extension_ttl leaseID role requestedTTL cred0) id (\<lambda>ttl.
     bnd time_Now (\<lambda>t1. bnd time_Now (\<lambda>t2.
     let cred = cred0\<lparr>cr_LastRenewed := t1, cr_ExpiresAt := t2 + ttl\<rparr> in
     tryH (storeCredential E username cred) (wrapped ''failed to update credential'') (\<lambda>_.
     seq (cacheCredential username cred)
     (okH (data_response [(''lease_id'', VS (cr_LeaseID cred)), (''username'', VS (cr_Username cred)),
        (''role_name'', VS (cr_RoleName cred)), (''ttl'', VI (int_seconds ttl)),
        (''max_ttl'', VI (int_seconds (seconds (ro_MaxTTL role)))),
        (''expires_at'', VI (unix (cr_ExpiresAt cred))),
        (''last_renewed'', VI (unix (cr_LastRenewed cred)))])))))))))))"

subsection \<open>Statements\<close>

definition statement_key :: "string \<Rightarrow> string" where
  "statement_key name = ''statements/'' @ name"

definition pathStatementExistenceCheck :: "('d, 's) env \<Rightarrow> FieldData
    \<Rightarrow> (('d, 's, 'z) world_scheme, go_err + bool) act" where
  "pathStatementExistenceCheck E data = bnd (getS data ''name'') (\<lambda>name.
     bndE (storage_Get E (statement_key name)) id (\<lambda>entry. ret (Inr (entry \<noteq> None))))"

definition pathStatementWrite :: "('d, 's) env \<Rightarrow> FieldData
    \<Rightarrow> (('d, 's, 'z) plugin_world_scheme, hres) act" where
  "pathStatementWrite E data =
     bnd (getS data ''name'') (\<lambda>name.
     bnd (getS data ''creation_statement'') (\<lambda>creation. bnd (getS data ''revocation_statement'') (\<lambda>revocation.
     bnd (getS data ''rollback_statement'') (\<lambda>rollback. bnd (getS data ''renewal_statement'') (\<lambda>renewal.
     guardH (template_check E creation revocation rollback renewal) id (
     let statement = \<lparr>sm_Name = name, sm_CreationStatement = creation, sm_RevocationStatement = revocation,
           sm_RollbackStatement = rollback, sm_RenewalStatement = renewal\<rparr> in
     tryH (storage_Put E (statement_key name) (SStatement statement)) id (\<lambda>_.
     seq (invalidateStatementCache name)
     (okH (data_response [(''name'', VS (sm_Name statement)), (''creation_statement'', VS ''***''),
        (''revocation_statement'', VS ''***''), (''rollback_statement'', VS ''***''),
        (''renewal_statement'', VS ''***'')])))))))))"

definition pathStatementRead :: "('d, 's) env \<Rightarrow> FieldData \<Rightarrow> (('d, 's, 'z) world_scheme, hres) act" where
  "pathStatementRead E data = bnd (getS data ''name'') (\<lambda>name.
     tryH (getStatement E name) id (\<lambda>found. case found of
       None \<Rightarrow> nilH
     | Some st \<Rightarrow> okH (data_response [(''name'', VS (sm_Name st)),
         (''creation_statement'', VS (sm_CreationStatement st)),
         (''revocation_statement'', VS (sm_RevocationStatement st)),
         (''rollback_statement'', VS (sm_RollbackStatement st)),
         (''renewal_statement'', VS (sm_RenewalStatement st))])))"

definition pathStatementDelete :: "('d, 's) env \<Rightarrow> FieldData
    \<Rightarrow> (('d, 's, 'z) plugin_world_scheme, hres) act" where
  "pathStatementDelete E data = bnd (getS data ''name'') (\<lambda>name.
     tryH (storage_Delete E (statement_key name)) (wrapped ''error deleting statement'') (\<lambda>_.
     seq (invalidateStatementCache name) nilH))"

definition pathStatementListHandler :: "('d, 's) env \<Rightarrow> (('d, 's, 'z) world_scheme, hres) act" where
  "pathStatementListHandler E = tryH (storage_List E ''statements/'') id (\<lambda>entries. okH (ListResponse entries))"

subsection \<open>The root credentials\<close>

definition pathRotateRootHandler :: "('d, 's) env \<Rightarrow> ctx \<Rightarrow> (('d, 's, 'z) world_scheme, hres) act" where
  "pathRotateRootHandler E ctx =
     seq (LogRootRotation E True [])
    (seq (SendRootRotatedWebhook E ctx True [])
    (okH (data_response [(''rotated'', VB True)])))"

end
