(* ===== verification/Cache_Coherence.thy ===== *)
theory Cache_Coherence
  imports Revocation Leases
begin

text \<open>
  The credential cache and storage together: what \<open>getCachedCredential\<close> answers, and that every
  operation that changes a stored credential leaves the cache in agreement with storage. The laws of
  the cache come from the interpretation of \<open>forgetful_cache\<close> on the credential cache.
\<close>

text \<open>Every credential in the cache is the one in storage, and no name is cached twice.\<close>

definition cache_agrees :: "('s \<Rightarrow> string \<Rightarrow> stored option) \<Rightarrow> ('d, 's, 'z) plugin_world_scheme \<Rightarrow> bool" where
  "cache_agrees view w \<longleftrightarrow>
     (\<forall>cc. b_credCache w = Some cc \<longrightarrow> cred_cache.coherent (cred_at (stored_entries view w)) cc \<and> cred_wf cc)"

lemma agrees_visible:
  fixes w w' :: "('d, 's, 'z) plugin_world_scheme"
  assumes "stored_entries view w = stored_entries view w'" and "world.more w = world.more w'"
  shows "cache_agrees view w = cache_agrees view w'"
  using assms same_backend_fields(2) [of w w'] by (simp add: cache_agrees_def same_backend_def)

lemma agrees_quiet:
  fixes m :: "(('d, 's, 'z) plugin_world_scheme, 'a) act"
  assumes "quiet view m"
  shows "keeps (cache_agrees view) m"
  unfolding keeps_def
proof (intro allI impI)
  fix w :: "('d, 's, 'z) plugin_world_scheme"
  assume "cache_agrees view w"
  moreover from quietD [OF assms, of w] have "stored_entries view (snd (m w)) = stored_entries view w"
    "world.more (snd (m w)) = world.more w" by (simp_all add: visible_def)
  ultimately show "cache_agrees view (snd (m w))" using agrees_visible by blast
qed

lemma agrees_out:
  fixes m :: "(('d, 's, 'z) plugin_world_scheme, 'a) act"
  assumes "\<And>V L z. out view (V, L, z) m (\<lambda>_ (V', L', z'). V' = V \<and> z' = z) (\<lambda>(V', L', z'). V' = V \<and> z' = z)"
  shows "keeps (cache_agrees view) m"
  unfolding keeps_def
proof (intro allI impI)
  fix w :: "('d, 's, 'z) plugin_world_scheme"
  assume a: "cache_agrees view w"
  obtain r w' where r: "m w = (r, w')" by (cases "m w")
  from out_run [OF assms r] have "stored_entries view w' = stored_entries view w \<and> world.more w' = world.more w"
    by (cases r) simp_all
  with a agrees_visible [of view w w'] r show "cache_agrees view (snd (m w))" by simp
qed

lemma agrees_executeSQL: "keeps (cache_agrees view) (executeSQL E ctx cfg sql)"
  by (rule agrees_out, rule out_executeSQL_ignored) simp

lemma cred_at_put: "cred_at (V(credentialPrefix @ u \<mapsto> SCred c)) = (cred_at V)(u \<mapsto> c)"
  by (auto simp: cred_at_def fun_eq_iff)

lemma cred_at_delete: "cred_at (V(credentialPrefix @ u := None)) = (cred_at V)(u := None)"
  by (auto simp: cred_at_def fun_eq_iff)

text \<open>Storing a credential and caching it, and deleting one and forgetting it.\<close>

lemma tick_agrees:
  "b_credCache (w\<lparr>w_now := t, w_tickpos := n\<rparr>) = b_credCache w"
  "stored_entries view (w\<lparr>w_now := t, w_tickpos := n\<rparr>) = stored_entries view w"
  by simp_all

lemma cacheCredential_agrees:
  fixes w :: "('d, 's, 'z) plugin_world_scheme"
  assumes "cred_at (stored_entries view w) = m(u \<mapsto> c)"
    and "\<And>cc. b_credCache w = Some cc \<Longrightarrow> cred_cache.coherent m cc \<and> cred_wf cc"
  shows "cache_agrees view (snd (cacheCredential u c w))"
  using assms
  by (auto simp: cacheCredential_def bnd_def gets_def ret_def time_Now_def tick_def seq_def modify_def cache_agrees_def
      cred_cache.coherent_update_store cred_wf_ops split: option.split)

lemma storeCredential_run:
  fixes w :: "('d, 's, 'z) plugin_world_scheme"
  assumes "lawful_storage view (e_S E)" and "storeCredential E u c w = (r, w')"
  shows "world.more w' = world.more w \<and>
    (case r of Ret (Inr _) \<Rightarrow> stored_entries view w' = (stored_entries view w)(credentialPrefix @ u \<mapsto> SCred c)
     | _ \<Rightarrow> stored_entries view w' = stored_entries view w)"
proof -
  have "out view (stored_entries view w, w_sql w, world.more w) (storeCredential E u c)
    (\<lambda>a (V', L', z'). z' = world.more w \<and> V' = (case a of Inl _ \<Rightarrow> stored_entries view w
       | Inr _ \<Rightarrow> (stored_entries view w)(credentialPrefix @ u \<mapsto> SCred c)))
    (\<lambda>(V', L', z'). z' = world.more w \<and> V' = stored_entries view w)"
    by (rule out_storeCredential [OF assms(1)]) auto
  from out_run [OF this assms(2)] show ?thesis by (cases r) (auto split: sum.splits)
qed

lemma deleteCredential_run:
  fixes w :: "('d, 's, 'z) plugin_world_scheme"
  assumes "lawful_storage view (e_S E)" and "deleteCredential E u w = (r, w')"
  shows "world.more w' = world.more w \<and>
    (case r of Ret (Inr _) \<Rightarrow> stored_entries view w' = (stored_entries view w)(credentialPrefix @ u := None)
     | _ \<Rightarrow> stored_entries view w' = stored_entries view w)"
proof -
  have "out view (stored_entries view w, w_sql w, world.more w) (deleteCredential E u)
    (\<lambda>a (V', L', z'). z' = world.more w \<and> V' = (case a of Inl _ \<Rightarrow> stored_entries view w
       | Inr _ \<Rightarrow> (stored_entries view w)(credentialPrefix @ u := None)))
    (\<lambda>(V', L', z'). z' = world.more w \<and> V' = stored_entries view w)"
    by (rule out_deleteCredential [OF assms(1)]) auto
  from out_run [OF this assms(2)] show ?thesis by (cases r) (auto split: sum.splits)
qed

lemma agrees_seq_right:
  fixes w :: "'w"
  assumes "I (snd (m w))" and "\<And>a. keeps I (k a)"
  shows "I (snd (bnd m k w))"
proof -
  obtain r w' where "m w = (r, w')" by (cases "m w")
  with assms show ?thesis by (cases r) (simp_all add: bnd_def keeps_def)
qed

lemma agrees_store:
  fixes f :: "go_err \<Rightarrow> (('d, 's, 'z) plugin_world_scheme, 'b) act"
    and k' :: "(('d, 's, 'z) plugin_world_scheme, 'b) act"
  assumes law: "lawful_storage view (e_S E)" and f: "\<And>e. keeps (cache_agrees view) (f e)"
    and k: "keeps (cache_agrees view) k'"
  shows "keeps (cache_agrees view) (bnd (storeCredential E u c) (\<lambda>r. case r of
     Inl e \<Rightarrow> f e | Inr _ \<Rightarrow> seq (cacheCredential u c) k'))"
  unfolding keeps_def
proof (intro allI impI)
  fix w :: "('d, 's, 'z) plugin_world_scheme"
  assume a: "cache_agrees view w"
  obtain r w' where r: "storeCredential E u c w = (r, w')" by (cases "storeCredential E u c w")
  note s = storeCredential_run [OF law r]
  have b: "b_credCache w' = b_credCache w"
    using s same_backend_fields(2) [of w' w] by (simp add: same_backend_def)
  have same: "cache_agrees view w'" if "stored_entries view w' = stored_entries view w"
    using a that s agrees_visible by blast
  show "cache_agrees view (snd (bnd (storeCredential E u c) (\<lambda>r. case r of
     Inl e \<Rightarrow> f e | Inr _ \<Rightarrow> seq (cacheCredential u c) k') w))"
  proof (cases r)
    case (Ret x)
    show ?thesis
    proof (cases x)
      case (Inl e)
      with s Ret r same f [of e] show ?thesis by (simp add: bnd_def keeps_def)
    next
      case (Inr y)
      with s Ret have "cred_at (stored_entries view w') = (cred_at (stored_entries view w))(u \<mapsto> c)"
        by (simp add: cred_at_put)
      then have "cache_agrees view (snd (cacheCredential u c w'))"
        by (rule cacheCredential_agrees) (use a b in \<open>simp add: cache_agrees_def\<close>)
      with Inr Ret r agrees_seq_right [of "cache_agrees view" "cacheCredential u c" w' "\<lambda>_. k'"] k
      show ?thesis by (simp add: bnd_def [of "storeCredential E u c"] seq_def)
    qed
  qed (use s r same in \<open>simp_all add: bnd_def\<close>)
qed

lemma agrees_delete:
  fixes f :: "go_err \<Rightarrow> (('d, 's, 'z) plugin_world_scheme, 'b) act"
    and k' :: "(('d, 's, 'z) plugin_world_scheme, 'b) act"
  assumes law: "lawful_storage view (e_S E)" and f: "\<And>e. keeps (cache_agrees view) (f e)"
    and k: "keeps (cache_agrees view) k'"
  shows "keeps (cache_agrees view) (bnd (deleteCredential E u) (\<lambda>r. case r of
     Inl e \<Rightarrow> f e | Inr _ \<Rightarrow> seq (invalidateCachedCredential u) k'))"
  unfolding keeps_def
proof (intro allI impI)
  fix w :: "('d, 's, 'z) plugin_world_scheme"
  assume a: "cache_agrees view w"
  obtain r w' where r: "deleteCredential E u w = (r, w')" by (cases "deleteCredential E u w")
  note s = deleteCredential_run [OF law r]
  have b: "b_credCache w' = b_credCache w"
    using s same_backend_fields(2) [of w' w] by (simp add: same_backend_def)
  have same: "cache_agrees view w'" if "stored_entries view w' = stored_entries view w"
    using a that s agrees_visible by blast
  show "cache_agrees view (snd (bnd (deleteCredential E u) (\<lambda>r. case r of
     Inl e \<Rightarrow> f e | Inr _ \<Rightarrow> seq (invalidateCachedCredential u) k') w))"
  proof (cases r)
    case (Ret x)
    show ?thesis
    proof (cases x)
      case (Inl e)
      with s Ret r same f [of e] show ?thesis by (simp add: bnd_def keeps_def)
    next
      case (Inr y)
      with s Ret have "cred_at (stored_entries view w') = (cred_at (stored_entries view w))(u := None)"
        by (simp add: cred_at_delete)
      with a b have "cache_agrees view (snd (invalidateCachedCredential u w'))"
        by (auto simp: invalidateCachedCredential_def modify_def cache_agrees_def cred_cache.coherent_update_forget
          cred_wf_ops)
      with Inr Ret r agrees_seq_right [of "cache_agrees view" "invalidateCachedCredential u" w' "\<lambda>_. k'"] k
      show ?thesis by (simp add: bnd_def [of "deleteCredential E u"] seq_def)
    qed
  qed (use s r same in \<open>simp_all add: bnd_def\<close>)
qed

lemma agrees_lookup:
  fixes view :: "'s \<Rightarrow> string \<Rightarrow> stored option"
  shows "keeps (cache_agrees view) (cache_lookup u :: (('d, 's, 'z) plugin_world_scheme, Credential option) act)"
  unfolding keeps_def
proof (intro allI impI)
  fix w :: "('d, 's, 'z) plugin_world_scheme"
  assume a: "cache_agrees view w"
  show "cache_agrees view (snd (cache_lookup u w))"
  proof (cases "b_credCache w")
    case None
    with a show ?thesis by (simp add: cache_lookup_def bnd_def gets_def ret_def)
  next
    case (Some cc)
    with a have coh: "cred_cache.coherent (cred_at (stored_entries view w)) cc" and wf: "cred_wf cc"
      by (simp_all add: cache_agrees_def)
    have "cred_cache.coherent (cred_at (stored_entries view w)) c' \<and> cred_wf c'" if "cred_Get t u cc = (r, c')" for t r c'
      using cred_cache.coherent_lookup [OF coh, of t u] cred_wf_ops(3) [OF wf, of t u] that by simp
    with Some show ?thesis
      by (auto simp: cache_lookup_def bnd_def gets_def ret_def time_Now_def tick_def seq_def modify_def cache_agrees_def
          split: prod.splits)
  qed
qed

text \<open>Reading through the cache.\<close>

lemma lookup_answers:
  fixes w :: "('d, 's, 'z) plugin_world_scheme"
  assumes "cache_agrees view w" and "cache_lookup u w = (r, w')"
  shows "stored_entries view w' = stored_entries view w \<and> w_sql w' = w_sql w \<and> cache_agrees view w' \<and>
    (\<exists>x. r = Ret x \<and> (\<forall>c. x = Some c \<longrightarrow> cred_at (stored_entries view w) u = Some c))"
proof -
  have ag: "cache_agrees view w'" using keepsD [OF agrees_lookup assms(1)] assms(2) by (metis snd_conv)
  show ?thesis
  proof (cases "b_credCache w")
    case None
    with assms(2) ag show ?thesis by (auto simp: cache_lookup_def bnd_def gets_def ret_def)
  next
    case (Some cc)
    with assms(1) have "cred_cache.coherent (cred_at (stored_entries view w)) cc" by (simp add: cache_agrees_def)
    then have "cred_at (stored_entries view w) u = Some c" if "cred_Get t u cc = (Some c, x)" for t c x
      using cred_cache.lookup_view [of t u cc c] that by (simp add: cred_cache.coherent_def)
    with Some assms(2) ag show ?thesis
      by (auto simp: cache_lookup_def bnd_def gets_def ret_def time_Now_def tick_def seq_def modify_def split: prod.splits)
  qed
qed

lemma keeps_handlers:
  "keeps I (failH e)" "keeps I (okH r)" "keeps I nilH"
  "keeps I m \<Longrightarrow> (\<And>a. keeps I (k a)) \<Longrightarrow> keeps I (tryH m wrap k)"
  "keeps I n \<Longrightarrow> keeps I (guardH x wrap' n)"
  "keeps I (getS d f)" "keeps I (getI d f)" "keeps I (getB d f)" "keeps I (getL d f)" "keeps I (getF d f)"
  unfolding failH_def okH_def nilH_def tryH_def guardH_def getS_def getI_def getB_def getL_def getF_def
  by (auto intro!: keeps_rules split: option.split fval.split)

lemma getCached_answers:
  fixes w :: "('d, 's, 'z) plugin_world_scheme"
  assumes law: "lawful_storage view (e_S E)" and a: "cache_agrees view w"
  shows "\<exists>r w'. getCachedCredential E u w = (Ret r, w') \<and> stored_entries view w' = stored_entries view w
    \<and> w_sql w' = w_sql w \<and> cache_agrees view w'
    \<and> (case r of Inl _ \<Rightarrow> True | Inr x \<Rightarrow> x = cred_at (stored_entries view w) u)"
proof -
  let ?V = "stored_entries view w"
  obtain r1 w1 where r1: "cache_lookup u w = (r1, w1)" by (cases "cache_lookup u w")
  from lookup_answers [OF a r1] obtain x where x: "r1 = Ret x" "\<And>c. x = Some c \<Longrightarrow> cred_at ?V u = Some c"
    and w1: "stored_entries view w1 = ?V" "w_sql w1 = w_sql w" "cache_agrees view w1" by auto
  show ?thesis
  proof (cases x)
    case (Some c)
    with x r1 w1 show ?thesis by (simp add: getCachedCredential_def bnd_def ret_def)
  next
    case None
    obtain r2 w2 where r2: "getCredential E u w1 = (r2, w2)" by (cases "getCredential E u w1")
    have "out view (?V, w_sql w1, world.more w1) (getCredential E u)
      (\<lambda>r s. s = (?V, w_sql w1, world.more w1) \<and> (case r of Inl _ \<Rightarrow> True | Inr y \<Rightarrow> y = cred_at ?V u)) (\<lambda>_. False)"
      by (rule out_getCredential [OF law]) (simp_all add: cred_at_def)
    then have o: "out view (stored_entries view w1, w_sql w1, world.more w1) (getCredential E u)
      (\<lambda>r s. s = (?V, w_sql w1, world.more w1) \<and> (case r of Inl _ \<Rightarrow> True | Inr y \<Rightarrow> y = cred_at ?V u)) (\<lambda>_. False)"
      unfolding w1(1) .
    from out_run [OF o r2] obtain y where y: "r2 = Ret y" and
      yv: "case y of Inl _ \<Rightarrow> True | Inr z \<Rightarrow> z = cred_at ?V u" and
      w2: "stored_entries view w2 = ?V" "w_sql w2 = w_sql w" "world.more w2 = world.more w1"
      using that by (cases r2) (simp_all only: w1 res.case prod.inject simp_thms)
    have ag2: "cache_agrees view w2" using w1(3) agrees_visible [of view w2 w1] w1(1) w2(1,3) by simp
    show ?thesis
    proof (cases "\<exists>c. y = Inr (Some c)")
      case True
      then obtain c where c: "y = Inr (Some c)" by blast
      with yv have here: "cred_at ?V u = Some c" by simp
      with w2(1) have "cred_at (stored_entries view w2) = (cred_at ?V)(u \<mapsto> c)" by (simp add: fun_upd_idem)
      then have ag3: "cache_agrees view (snd (cacheCredential u c w2))"
        by (rule cacheCredential_agrees) (use ag2 w2(1) in \<open>simp add: cache_agrees_def\<close>)
      from still_run [OF still_caches(1), of view u c w2] have s3:
        "stored_entries view (snd (cacheCredential u c w2)) = ?V" "w_sql (snd (cacheCredential u c w2)) = w_sql w"
        by (simp_all add: w2)
      have "\<exists>w3. cacheCredential u c w2 = (Ret (), w3)"
        by (auto simp: cacheCredential_def bnd_def gets_def ret_def time_Now_def tick_def seq_def modify_def
            split: option.split)
      then obtain w3 where "cacheCredential u c w2 = (Ret (), w3)" by blast
      with c y r1 r2 x None
      have "getCachedCredential E u w = (Ret (Inr (Some c)), w3)" and w3: "w3 = snd (cacheCredential u c w2)"
        by (simp_all add: getCachedCredential_def bnd_def ret_def seq_def)
      with ag3 s3 here show ?thesis by simp
    next
      case False
      with y yv r1 r2 x None w2 ag2 show ?thesis
        by (auto simp: getCachedCredential_def bnd_def ret_def split: sum.splits option.splits)
    qed
  qed
qed


text \<open>C13. Reading a credential through the cache answers what storage holds: whenever the cache agrees with
  storage, \<open>getCachedCredential\<close> returns, changes neither storage nor the statements sent, leaves the cache in agreement, and its answer, when it is not an
  error, is the stored credential or none if there is none.\<close>
theorem getCachedCredential_refines:
  fixes w :: "('d, 's, 'z) plugin_world_scheme"
  assumes "lawful_storage view (e_S E)" and "cache_agrees view w"
  shows "\<exists>r w'. getCachedCredential E u w = (Ret r, w') \<and> stored_entries view w' = stored_entries view w
    \<and> w_sql w' = w_sql w \<and> cache_agrees view w'
    \<and> (case r of Inl _ \<Rightarrow> True | Inr x \<Rightarrow> x = cred_at (stored_entries view w) u)"
  by (rule getCached_answers [OF assms])

text \<open>A backend with an empty credential cache agrees with any storage.\<close>

definition one_cred :: "(string \<times> stored) list" where
  "one_cred = [(''creds/u'', SCred (new_credential ''r'' [] ''u'' 1 2))]"

definition cached_backend :: "(unit, (string \<times> stored) list) plugin_world" where
  "cached_backend = (start_backend one_cred)\<lparr>b_credCache := Some (newCredentialCache 0 0)\<rparr>"

lemma cached_backend_agrees: "cache_agrees map_of cached_backend"
  by (simp add: cache_agrees_def cached_backend_def cred_wf_def cred_cache.coherent_def newCredentialCache_def cred_view_def)

theorem getCachedCredential_refines_witness:
  "\<exists>r w'. getCachedCredential calm_env ''u'' cached_backend = (Ret r, w')
    \<and> (case r of Inl _ \<Rightarrow> True | Inr x \<Rightarrow> x = Some (new_credential ''r'' [] ''u'' 1 2))"
proof -
  have "lawful_storage map_of (e_S calm_env)" by (simp add: calm_env_def map_storage_lawful)
  from getCachedCredential_refines [OF this cached_backend_agrees, of "''u''"]
  have "\<exists>r w'. getCachedCredential calm_env ''u'' cached_backend = (Ret r, w')
    \<and> (case r of Inl _ \<Rightarrow> True | Inr x \<Rightarrow> x = cred_at (stored_entries map_of cached_backend) ''u'')" by blast
  moreover have "cred_at (stored_entries map_of cached_backend) ''u'' = Some (new_credential ''r'' [] ''u'' 1 2)"
    by (simp add: cred_at_def cached_backend_def start_backend_def one_cred_def hide_audit_def credentialPrefix_def
      auditPrefix_def)
  ultimately show ?thesis by (elim exE conjE) (intro exI conjI, assumption, simp split: sum.splits)
qed

subsection \<open>The operations keep the cache current\<close>

named_theorems agrees_rules \<open>what leaves the credential cache in agreement with storage\<close>

lemmas [agrees_rules] = keeps_rules keeps_handlers agrees_executeSQL agrees_lookup

lemma agrees_quiets [agrees_rules]:
  assumes "lawful_storage view (e_S E)"
  shows "keeps (cache_agrees view) (getRole E name)" "keeps (cache_agrees view) (getConfig E)"
    "keeps (cache_agrees view) (getConfigByName E region)" "keeps (cache_agrees view) (getStatement E name)"
    "keeps (cache_agrees view) (getCredential E u)" "keeps (cache_agrees view) (storage_List E p)"
  by (intro agrees_quiet quiet_getRole quiet_reads quiet_List assms)+

lemma agrees_silent:
  fixes m :: "(('d, 's, 'z) plugin_world_scheme, 'a) act"
  shows "silent view m \<Longrightarrow> keeps (cache_agrees view) m"
  by (rule agrees_quiet) (simp add: silent_def)

lemmas [agrees_rules] = silent_effects [THEN agrees_silent] silent_logs [THEN agrees_silent]
  silent_webhooks [THEN agrees_silent] silent_generateUsername [THEN agrees_silent]
  silent_generatePassword [THEN agrees_silent]

lemma keeps_bndE' [agrees_rules]: "keeps I m \<Longrightarrow> (\<And>a. keeps I (k a)) \<Longrightarrow> keeps I (bndE m wrap k)"
  by (rule keeps_bndE)

lemma agrees_stores [agrees_rules]:
  fixes k' :: "(('d, 's, 'z) plugin_world_scheme, go_err + 'b) act"
    and kh :: "(('d, 's, 'z) plugin_world_scheme, hres) act"
  assumes "lawful_storage view (e_S E)"
  shows "keeps (cache_agrees view) k' \<Longrightarrow>
      keeps (cache_agrees view) (bndE (storeCredential E u c) wrap (\<lambda>_. seq (cacheCredential u c) k'))"
    and "keeps (cache_agrees view) kh \<Longrightarrow>
      keeps (cache_agrees view) (tryH (storeCredential E u c) wrap (\<lambda>_. seq (cacheCredential u c) kh))"
  unfolding bndE_def tryH_def
  by (rule agrees_store [OF assms], rule keeps_rules keeps_handlers, assumption)+

lemma agrees_policy [agrees_rules]:
  "keeps (cache_agrees view) (generatePasswordWithPolicy ok p)"
  unfolding generatePasswordWithPolicy_def by (intro agrees_rules)

lemma agrees_draw [agrees_rules]: "keeps (cache_agrees view) (draw_identity E role)"
  unfolding draw_identity_def by (intro agrees_rules)

lemma agrees_record [agrees_rules]:
  "lawful_storage view (e_S E) \<Longrightarrow> keeps (cache_agrees view) (record_credential E tag2 name region role username)"
  unfolding record_credential_def Let_def by (intro agrees_rules)

lemma agrees_create [agrees_rules]:
  "keeps (cache_agrees view) (create_user E ctx tag tag2 cfg role creation rollback username password)"
  unfolding create_user_def run_creation_def by (intro agrees_rules)


lemma agrees_admit [agrees_rules]:
  assumes "lawful_storage view (e_S E)" and "\<And>cfg c r. keeps (cache_agrees view) (k cfg c r)"
  shows "keeps (cache_agrees view) (admit E warning name region role k)"
  unfolding admit_def resolve_config_def role_statements_def
  by (intro agrees_rules assms)

lemma agrees_count [agrees_rules]:
  assumes "lawful_storage view (e_S E)"
  shows "keeps (cache_agrees view) (countCredentialsByRole E name)"
proof -
  have "keeps (cache_agrees view) (count_loop E name n es)" for n es
    by (induction es arbitrary: n) (auto intro!: agrees_rules assms)
  then show ?thesis unfolding countCredentialsByRole_def by (intro agrees_rules assms)
qed

lemma agrees_batch [agrees_rules]:
  assumes "lawful_storage view (e_S E)"
  shows "keeps (cache_agrees view) (batch_loop E ctx name region role cfg creation rollback n)"
  by (induction n) (auto intro!: agrees_rules assms simp: batch_one_def)

lemma agrees_reading [agrees_rules]:
  assumes "lawful_storage view (e_S E)"
  shows "keeps (cache_agrees view) (pathCredsRead E ctx data)" "keeps (cache_agrees view) (pathCredsBatchRead E ctx data)"
  unfolding pathCredsRead_def pathCredsBatchRead_def Let_def
  by (intro agrees_rules assms)+

lemma agrees_invalidate [agrees_rules]: "keeps (cache_agrees view) (invalidateCachedCredential u)"
  unfolding invalidateCachedCredential_def
  by (rule keeps_modify) (auto simp: cache_agrees_def cred_cache.coherent_forget cred_wf_ops)

text \<open>Deleting a credential and forgetting it, in the three forms of the handlers.\<close>

lemma agrees_deletes [agrees_rules]:
  fixes kb :: "(('d, 's, 'z) plugin_world_scheme, 'b) act" and f :: "go_err \<Rightarrow> (('d, 's, 'z) plugin_world_scheme, 'b) act"
    and kh :: "(('d, 's, 'z) plugin_world_scheme, hres) act"
  assumes "lawful_storage view (e_S E)"
  shows "(\<And>e. keeps (cache_agrees view) (f e)) \<Longrightarrow> keeps (cache_agrees view) kb \<Longrightarrow>
      keeps (cache_agrees view) (bnd (deleteCredential E u) (\<lambda>y. case y of
        Inl e \<Rightarrow> f e | Inr _ \<Rightarrow> seq (invalidateCachedCredential u) kb))"
    and "keeps (cache_agrees view) kh \<Longrightarrow>
      keeps (cache_agrees view) (tryH (deleteCredential E u) wrap (\<lambda>_. seq (invalidateCachedCredential u) kh))"
  unfolding tryH_def
  by (rule agrees_delete [OF assms], assumption, assumption)
    (rule agrees_delete [OF assms], rule keeps_rules keeps_handlers, assumption)

lemma agrees_cleanup_one [agrees_rules]:
  assumes "lawful_storage view (e_S E)"
  shows "keeps (cache_agrees view) (cleanup_one E ctx cfg now u)"
  unfolding cleanup_one_def
  by (intro agrees_quiets agrees_executeSQL agrees_deletes assms keeps_bnd keeps_if keeps_case_option keeps_case_sum keeps_ret)

lemma agrees_cleanup [agrees_rules]:
  assumes "lawful_storage view (e_S E)"
  shows "keeps (cache_agrees view) (cleanupExpiredCredentials E ctx cfg)"
  unfolding cleanupExpiredCredentials_def cleanup_loop_def by (intro agrees_rules assms)

lemma agrees_getCached [agrees_rules]:
  fixes view :: "'s \<Rightarrow> string \<Rightarrow> stored option"
  assumes "lawful_storage view (e_S E)"
  shows "keeps (cache_agrees view) (getCachedCredential E u :: (('d, 's, 'z) plugin_world_scheme, go_err + Credential option) act)"
  unfolding keeps_def using getCached_answers [OF assms] by (metis snd_conv)

lemma agrees_extend [agrees_rules]:
  assumes "lawful_storage view (e_S E)"
  shows "keeps (cache_agrees view) (pathExtendLeaseHandler E data)"
proof -
  have find: "keeps (cache_agrees view) (lease_loop E l es)" for l es
    by (induction es) (auto intro!: agrees_rules assms)
  have lease: "keeps (cache_agrees view) (getCredentialByLeaseID E l)" for l
    unfolding getCredentialByLeaseID_def by (intro agrees_rules find assms)
  have ttl: "keeps (cache_agrees view) (extension_ttl l role n c)" for l role n c
    unfolding extension_ttl_def Let_def time_Since_def by (intro agrees_rules)
  show ?thesis
    unfolding pathExtendLeaseHandler_def Let_def by (intro agrees_rules lease ttl assms)
qed

lemma agrees_revoking [agrees_rules]:
  assumes "lawful_storage view (e_S E)"
  shows "keeps (cache_agrees view) (pathRevokeCredsHandler E ctx data)"
    "keeps (cache_agrees view) (pathBulkRevokeCredsHandler E ctx raw)"
    "keeps (cache_agrees view) (pathBulkRevokeByRoleHandler E ctx data)"
    "keeps (cache_agrees view) (pathRevokeAllCredsHandler E ctx)" "keeps (cache_agrees view) (Revoke E ctx leaseID)"
proof -
  note s = agrees_rules assms
  have all: "keeps (cache_agrees view) (all_loop E ctx cs rc creds)" for cs rc creds
    by (induction creds arbitrary: rc) (auto simp: revoke_round_panics intro!: s)
  have bulk: "keeps (cache_agrees view) (bulk_loop f xs)" if "\<And>x. keeps (cache_agrees view) (f x)" for f xs
    using that by (induction xs) (auto intro!: s)
  have users: "keeps (cache_agrees view) (users_loop E P es)" for P es
    by (induction es) (auto intro!: s)
  show "keeps (cache_agrees view) (pathRevokeCredsHandler E ctx data)"
    unfolding pathRevokeCredsHandler_def never_connects by (intro s)+
  show "keeps (cache_agrees view) (pathBulkRevokeCredsHandler E ctx raw)"
    unfolding pathBulkRevokeCredsHandler_def bulk_one_def Let_def revoke_round_panics
    by (auto intro!: s bulk split: fval.split list.split)
  show "keeps (cache_agrees view) (pathBulkRevokeByRoleHandler E ctx data)"
    "keeps (cache_agrees view) (pathRevokeAllCredsHandler E ctx)"
    unfolding pathBulkRevokeByRoleHandler_def pathRevokeAllCredsHandler_def Let_def revoke_round_panics
    by (intro s all bulk users)+
  show "keeps (cache_agrees view) (Revoke E ctx leaseID)"
    unfolding Revoke_def revoke_parsed_def revoke_config_def Let_def never_connects
    by (auto intro!: s split: list.split)
qed

text \<open>C10. Every handler that stores or deletes a credential leaves the credential cache in agreement with
  storage, on every path, errors and panics included: creating one credential or a batch, removing the expired ones,
  extending a lease and the five ways of revoking.\<close>
theorem credential_cache_stays_current:
  fixes w :: "('d, 's, 'z) plugin_world_scheme"
  assumes "lawful_storage view (e_S E)" and "cache_agrees view w"
  shows "cache_agrees view (snd (pathCredsRead E ctx data w)) \<and>
    cache_agrees view (snd (pathCredsBatchRead E ctx data w)) \<and>
    cache_agrees view (snd (cleanupExpiredCredentials E ctx cfg w)) \<and>
    cache_agrees view (snd (pathExtendLeaseHandler E data w)) \<and>
    cache_agrees view (snd (pathRevokeCredsHandler E ctx data w)) \<and>
    cache_agrees view (snd (pathBulkRevokeCredsHandler E ctx raw w)) \<and>
    cache_agrees view (snd (pathBulkRevokeByRoleHandler E ctx data w)) \<and>
    cache_agrees view (snd (pathRevokeAllCredsHandler E ctx w)) \<and>
    cache_agrees view (snd (Revoke E ctx leaseID w))"
  by (intro conjI keepsD [where I = "cache_agrees view", OF _ assms(2)] agrees_rules assms(1))

theorem credential_cache_stays_current_witness:
  "cache_agrees map_of (snd (pathRevokeAllCredsHandler calm_env Background cached_backend))"
proof -
  have "lawful_storage map_of (e_S calm_env)" by (simp add: calm_env_def map_storage_lawful)
  from credential_cache_stays_current [OF this cached_backend_agrees, where ctx = Background and cfg = zero_config and raw = None and leaseID = "[]"
      and data = "\<lparr>fd_Get = (\<lambda>_. None), fd_session = None\<rparr>"] show ?thesis by (elim conjE)
qed

end
