(* ===== verification/Path_Config.thy ===== *)
theory Path_Config
  imports Cache_Coherence
begin

text \<open>
  The configuration paths (\<open>plugin/path_config.go\<close>): writing a connection's configuration, verifying it,
  reading, deleting and listing.

  The theorems show that a write stores exactly one configuration, which passed every check, before
  the connection is verified, and that a read shows what was stored without its secrets.
\<close>

subsection \<open>Writing\<close>

text \<open>The first failed check of a list, with its text.\<close>

definition first_failed :: "(bool \<times> string) list \<Rightarrow> go_err option" where
  "first_failed rules = first_err (\<lambda>(failed, msg). if failed then Some (Errorf msg) else None) rules"

definition validSSLModes :: "string list" where
  "validSSLModes = [''disable'', ''allow'', ''verify-ca'', ''verify-full'', ''require'']"

definition config_checks :: "Config \<Rightarrow> (bool \<times> string) list" where
  "config_checks cfg =
     [(cf_MinConnections cfg < 0, ''min_connections cannot be negative''),
      (cf_MaxOpenConnections cfg < cf_MinConnections cfg, ''max_open_connections must be >= min_connections''),
      (cf_MaxIdleConnections cfg > cf_MaxOpenConnections cfg, ''max_idle_connections cannot exceed max_open_connections''),
      (cf_SSLMode cfg \<noteq> [] \<and> cf_SSLMode cfg \<notin> set validSSLModes, ''invalid ssl_mode: '' @ cf_SSLMode cfg
         @ '', must be one of: disable, allow, verify-ca, verify-full, require''),
      (cf_MaxRetries cfg < 0, ''max_retries cannot be negative''),
      (cf_InitialRetryInterval cfg < 0, ''initial_retry_interval cannot be negative''),
      (cf_MaxRetryInterval cfg < 0, ''max_retry_interval cannot be negative''),
      (cf_RetryMultiplier cfg < 0, ''retry_multiplier cannot be negative''),
      (cf_MaxResultRows cfg < 0, ''max_result_rows cannot be negative''),
      (cf_EvictionPolicy cfg \<noteq> [] \<and> cf_EvictionPolicy cfg \<noteq> ''lifo'' \<and> cf_EvictionPolicy cfg \<noteq> ''fifo'',
         ''eviction_policy must be '' @ apostrophed ''lifo'' @ '' or '' @ apostrophed ''fifo''),
      (cf_EvictionBatchSize cfg < 0, ''eviction_batch_size cannot be negative''),
      (cf_EvictionGracePeriod cfg < 0, ''eviction_grace_period cannot be negative''),
      (cf_MinEvictableIdleTime cfg < 0, ''min_evictable_idle_time cannot be negative'')]"

definition connection_given :: "('d, 's) env \<Rightarrow> string \<Rightarrow> string \<Rightarrow> go_err option" where
  "connection_given E connectionString connectionURL =
     (if connectionString = [] \<and> connectionURL = []
      then Some (Errorf ''connection_string or connection_url is required'')
      else if connectionString \<noteq> []
      then map_option (\<lambda>e. wrapped ''invalid connection_string'' (conn_go e))
        (ValidateConnectionString (e_U E) (e_ord E) connectionString)
      else None)"

text \<open>The fields of the request: those read before the connection is checked, and the others.\<close>

definition config_head :: "FieldData \<Rightarrow> ('w, Config) act" where
  "config_head data =
     bnd (getS data ''name'') (\<lambda>name. bnd (getS data ''plugin_name'') (\<lambda>pluginName.
     bnd (getS data ''plugin_version'') (\<lambda>pluginVersion. bnd (getB data ''verify_connection'') (\<lambda>verifyConnection.
     bnd (getL data ''allowed_roles'') (\<lambda>allowedRoles. bnd (getL data ''root_rotation_statements'') (\<lambda>rootRotation.
     bnd (getS data ''password_policy'') (\<lambda>passwordPolicy. bnd (getS data ''connection_url'') (\<lambda>connectionURL.
     bnd (getS data ''connection_string'') (\<lambda>connectionString. bnd (getS data ''username'') (\<lambda>username.
     bnd (getS data ''password'') (\<lambda>password. bnd (getB data ''disable_escaping'') (\<lambda>disableEscaping.
     ret (zero_config\<lparr>cf_Name := name, cf_PluginName := pluginName, cf_PluginVersion := pluginVersion,
       cf_VerifyConnection := verifyConnection, cf_AllowedRoles := allowedRoles,
       cf_RootRotationStatements := rootRotation, cf_PasswordPolicy := passwordPolicy,
       cf_ConnectionURL := connectionURL, cf_ConnectionString := connectionString, cf_Username := username,
       cf_Password := password, cf_DisableEscaping := disableEscaping\<rparr>)))))))))))))"

definition config_pool :: "FieldData \<Rightarrow> Config \<Rightarrow> ('w, Config) act" where
  "config_pool data cfg =
     bnd (getI data ''min_connections'') (\<lambda>minConnections. bnd (getI data ''max_open_connections'') (\<lambda>maxOpen.
     bnd (getI data ''max_idle_connections'') (\<lambda>maxIdle. bnd (getI data ''connection_timeout'') (\<lambda>connTimeout.
     bnd (getI data ''session_timeout'') (\<lambda>sessionTimeout. bnd (getI data ''max_connection_lifetime'') (\<lambda>lifetime.
     bnd (getI data ''idle_timeout'') (\<lambda>idleTimeout.
     ret (cfg\<lparr>cf_MinConnections := minConnections, cf_MaxOpenConnections := maxOpen,
       cf_MaxIdleConnections := maxIdle, cf_ConnectionTimeout := connTimeout, cf_SessionTimeout := sessionTimeout,
       cf_MaxConnectionLifetime := lifetime, cf_IdleTimeout := idleTimeout\<rparr>))))))))"

definition config_ssl :: "FieldData \<Rightarrow> Config \<Rightarrow> ('w, Config) act" where
  "config_ssl data cfg =
     bnd (getS data ''ssl_mode'') (\<lambda>sslMode. bnd (getS data ''ssl_cert'') (\<lambda>sslCert.
     bnd (getS data ''ssl_key'') (\<lambda>sslKey. bnd (getS data ''ssl_root_cert'') (\<lambda>sslRootCert.
     bnd (getS data ''ssl_key_password'') (\<lambda>sslKeyPassword. bnd (getS data ''ssl_cipher_suites'') (\<lambda>suites.
     bnd (getB data ''ssl_secure'') (\<lambda>sslSecure. bnd (getS data ''ssl_version'') (\<lambda>sslVersion.
     ret (cfg\<lparr>cf_SSLMode := sslMode, cf_SSLCert := sslCert, cf_SSLKey := sslKey, cf_SSLRootCert := sslRootCert,
       cf_SSLKeyPassword := sslKeyPassword, cf_SSLCipherSuites := suites, cf_SSLSecure := sslSecure,
       cf_SSLVersion := sslVersion\<rparr>)))))))))"

definition config_rest :: "FieldData \<Rightarrow> Config \<Rightarrow> ('w, Config) act" where
  "config_rest data cfg =
     bnd (getI data ''max_retries'') (\<lambda>maxRetries. bnd (getI data ''initial_retry_interval'') (\<lambda>initialRetry.
     bnd (getI data ''max_retry_interval'') (\<lambda>maxRetry. bnd (getF data ''retry_multiplier'') (\<lambda>multiplier.
     bnd (getB data ''graceful_degradation_mode'') (\<lambda>degradation. bnd (getI data ''max_result_rows'') (\<lambda>maxRows.
     bnd (getS data ''eviction_policy'') (\<lambda>policy. bnd (getI data ''eviction_batch_size'') (\<lambda>batch.
     bnd (getI data ''eviction_grace_period'') (\<lambda>grace. bnd (getI data ''min_evictable_idle_time'') (\<lambda>minIdle.
     bnd (getS data ''timezone'') (\<lambda>timeZone. bnd (getS data ''character_set'') (\<lambda>characterSet.
     ret (cfg\<lparr>cf_MaxRetries := maxRetries, cf_InitialRetryInterval := initialRetry, cf_MaxRetryInterval := maxRetry,
       cf_RetryMultiplier := multiplier, cf_GracefulDegradationMode := degradation, cf_MaxResultRows := maxRows,
       cf_EvictionPolicy := policy, cf_EvictionBatchSize := batch, cf_EvictionGracePeriod := grace,
       cf_MinEvictableIdleTime := minIdle, cf_TimeZone := timeZone, cf_CharacterSet := characterSet,
       cf_SessionVariables := session_variables_of data, cf_Version := 1\<rparr>)))))))))))))"

definition config_key :: "string \<Rightarrow> string" where
  "config_key name = ''config/'' @ name"

definition verifyConfigConnection :: "('d, 's) env \<Rightarrow> Config \<Rightarrow> (('d, 's, 'z) world_scheme, go_err + unit) act" where
  "verifyConfigConnection E cfg =
     (case buildConnectionString (e_ord E) cfg of
        Inl err \<Rightarrow> ret (Inl (wrapped ''failed to build connection string'' err))
      | Inr connString \<Rightarrow> bndE (Connect (e_D E) connString) (wrapped ''failed to connect'') (\<lambda>conn.
          seq (CloseConn (e_D E) conn) (ret (Inr ()))))"

subsection \<open>Reading\<close>

definition connection_details :: "Config \<Rightarrow> (string \<times> fval) list" where
  "connection_details cfg =
     [(''connection_string'', VS ''***''), (''connection_url'', VS (cf_ConnectionURL cfg)),
      (''username'', VS (cf_Username cfg)), (''disable_escaping'', VB (cf_DisableEscaping cfg)),
      (''min_connections'', VI (cf_MinConnections cfg)), (''max_open_connections'', VI (cf_MaxOpenConnections cfg)),
      (''max_idle_connections'', VI (cf_MaxIdleConnections cfg)),
      (''connection_timeout'', VI (cf_ConnectionTimeout cfg)), (''session_timeout'', VI (cf_SessionTimeout cfg)),
      (''max_connection_lifetime'', VI (cf_MaxConnectionLifetime cfg)), (''idle_timeout'', VI (cf_IdleTimeout cfg)),
      (''ssl_mode'', VS (cf_SSLMode cfg)), (''ssl_cert'', VS (cf_SSLCert cfg)), (''ssl_key'', VS (cf_SSLKey cfg)),
      (''ssl_root_cert'', VS (cf_SSLRootCert cfg)), (''ssl_cipher_suites'', VS (cf_SSLCipherSuites cfg)),
      (''ssl_secure'', VB (cf_SSLSecure cfg)), (''ssl_version'', VS (cf_SSLVersion cfg)),
      (''session_variables'', VSM (cf_SessionVariables cfg)), (''max_retries'', VI (cf_MaxRetries cfg)),
      (''initial_retry_interval'', VI (cf_InitialRetryInterval cfg)),
      (''max_retry_interval'', VI (cf_MaxRetryInterval cfg)), (''retry_multiplier'', VF (cf_RetryMultiplier cfg)),
      (''graceful_degradation_mode'', VB (cf_GracefulDegradationMode cfg)),
      (''max_result_rows'', VI (cf_MaxResultRows cfg)), (''eviction_policy'', VS (cf_EvictionPolicy cfg)),
      (''eviction_batch_size'', VI (cf_EvictionBatchSize cfg)),
      (''eviction_grace_period'', VI (cf_EvictionGracePeriod cfg)),
      (''min_evictable_idle_time'', VI (cf_MinEvictableIdleTime cfg)), (''timezone'', VS (cf_TimeZone cfg)),
      (''character_set'', VS (cf_CharacterSet cfg))]
     @ (if cf_Password cfg \<noteq> [] then [(''password'', VS ''***'')] else [])
     @ (if cf_SSLKeyPassword cfg \<noteq> [] then [(''ssl_key_password'', VS ''***'')] else [])"

definition config_response :: "string \<Rightarrow> Config \<Rightarrow> response" where
  "config_response name cfg = data_response
     [(''name'', VS name), (''plugin_name'', VS (cf_PluginName cfg)), (''plugin_version'', VS (cf_PluginVersion cfg)),
      (''verify_connection'', VB (cf_VerifyConnection cfg)), (''allowed_roles'', VL (cf_AllowedRoles cfg)),
      (''root_rotation_statements'', VL (cf_RootRotationStatements cfg)),
      (''password_policy'', VS (cf_PasswordPolicy cfg)), (''connection_details'', VM (connection_details cfg))]"

definition pathConfigRead :: "('d, 's) env \<Rightarrow> FieldData \<Rightarrow> (('d, 's, 'z) world_scheme, hres) act" where
  "pathConfigRead E data = bnd (getS data ''name'') (\<lambda>name.
     if name = [] then failH (Errorf ''name is required'')
     else tryH (get_as as_config E (config_key name)) id (\<lambda>found. case found of
       None \<Rightarrow> nilH
     | Some cfg \<Rightarrow> okH (config_response name cfg)))"

definition pathConfigWrite :: "('d, 's) env \<Rightarrow> FieldData \<Rightarrow> (('d, 's, 'z) plugin_world_scheme, hres) act" where
  "pathConfigWrite E data =
     bnd (config_head data) (\<lambda>cfg0.
     guardH (connection_given E (cf_ConnectionString cfg0) (cf_ConnectionURL cfg0)) id (
     bnd (config_pool data cfg0) (\<lambda>cfg1. bnd (config_ssl data cfg1) (\<lambda>cfg2. bnd (config_rest data cfg2) (\<lambda>cfg.
     guardH (session_check E (cf_SessionVariables cfg)) id (
     guardH (first_failed (config_checks cfg)) id (
     tryH (storage_Put E (config_key (cf_Name cfg)) (SConfig cfg)) id (\<lambda>_.
     seq (invalidateConfigCache (cf_Name cfg))
    (bnd (if cf_VerifyConnection cfg then verifyConfigConnection E cfg else ret (Inr ())) (\<lambda>v. case v of
       Inl err \<Rightarrow> seq (invalidateConfigCache (cf_Name cfg))
         (failH (wrapped ''connection verification failed'' err))
     | Inr _ \<Rightarrow> pathConfigRead E data))))))))))"

definition pathConfigDelete :: "('d, 's) env \<Rightarrow> FieldData \<Rightarrow> (('d, 's, 'z) plugin_world_scheme, hres) act" where
  "pathConfigDelete E data = bnd (getS data ''name'') (\<lambda>name.
     if name = [] then failH (Errorf ''name is required'')
     else tryH (storage_Delete E (config_key name)) (wrapped ''error deleting config'') (\<lambda>_.
       seq (invalidateConfigCache name) nilH))"

definition pathConfigListHandler :: "('d, 's) env \<Rightarrow> (('d, 's, 'z) world_scheme, hres) act" where
  "pathConfigListHandler E = tryH (storage_List E ''config/'') id (\<lambda>entries. okH (ListResponse entries))"

end
