(* ===== verification/Pools.thy ===== *)
theory Pools
  imports Path_Config
begin

text \<open>
  The pools of the backend: the pool configuration every handler makes of a stored configuration, the
  reset and reload paths (\<open>plugin/path_config.go\<close>, \<open>plugin/path_reload_config.go\<close>,
  \<open>plugin/path_reload_plugin.go\<close>), the pool statistics (\<open>plugin/path_pool_stats.go\<close>), and \<open>Setup\<close>,
  \<open>prewarmPools\<close> and \<open>Shutdown\<close> of \<open>plugin/backend.go\<close>.
\<close>

text \<open>The state of \<open>HandleRequest\<close>'s limiter is added to the backend: whether it is enabled, and the
  limiters of the clients, which are values of the imported package \<open>rate\<close>.\<close>

record 'l rateLimiter =
  rl_limiters :: "(string \<times> 'l) list"
  rl_rate :: rat
  rl_burst :: int
  rl_cleanup :: int
  rl_enabled :: bool
  rl_closed :: bool

record ('d, 's, 'l) server_world = "('d, 's) plugin_world" +
  b_rateLimiter :: "'l rateLimiter option"

text \<open>A method of the registry; calling it on a nil registry panics.\<close>

definition on_registry :: "(DBRegistry \<Rightarrow> (('d, 's, 'z) plugin_world_scheme, 'a \<times> DBRegistry) act)
    \<Rightarrow> (('d, 's, 'z) plugin_world_scheme, 'a) act" where
  "on_registry f = bnd (gets b_registry) (\<lambda>r. case r of
       None \<Rightarrow> panic ''nil pointer dereference''
     | Some rg \<Rightarrow> bnd (f rg) (\<lambda>(a, rg'). seq (modify (\<lambda>w. w\<lparr>b_registry := Some rg'\<rparr>)) (ret a)))"

definition pool_config :: "string \<Rightarrow> Config \<Rightarrow> DBConfig" where
  "pool_config name cfg =
     \<lparr>db_Name = name, db_ConnectionString = cf_ConnectionString cfg, db_MinConnections = cf_MinConnections cfg,
      db_MaxOpenConnections = cf_MaxOpenConnections cfg, db_MaxIdleConnections = cf_MaxIdleConnections cfg,
      db_ConnectionTimeout = seconds (cf_ConnectionTimeout cfg),
      db_MaxConnectionLifetime = seconds (cf_MaxConnectionLifetime cfg),
      db_IdleTimeout = seconds (cf_IdleTimeout cfg), db_HealthCheckInterval = 0, db_HealthCheckTimeout = 0,
      db_EvictionPolicy = EvictionPolicyUnset, db_EvictionBatchSize = 0, db_EvictionGracePeriod = 0,
      db_MinEvictableIdleTime = 0, db_SSLMode = cf_SSLMode cfg, db_SSLCert = cf_SSLCert cfg,
      db_SSLKey = cf_SSLKey cfg, db_SSLRootCert = cf_SSLRootCert cfg, db_SSLKeyPassword = cf_SSLKeyPassword cfg,
      db_SSLCipherSuites = cf_SSLCipherSuites cfg, db_SSLSecure = cf_SSLSecure cfg, db_SSLVersion = cf_SSLVersion cfg,
      db_MaxRetries = 0, db_InitialRetryInterval = 0, db_MaxRetryInterval = 0, db_RetryMultiplier = 0,
      db_MaxResultRows = 0\<rparr>"

subsection \<open>Resetting and reloading\<close>

definition pathConfigResetHandler :: "('d, 's) env \<Rightarrow> FieldData
    \<Rightarrow> (('d, 's, 'z) plugin_world_scheme, hres) act" where
  "pathConfigResetHandler E data = bnd (getS data ''name'') (\<lambda>name.
     if name = [] then failH (Errorf ''name is required'')
     else tryH (get_as as_config E (config_key name)) id (\<lambda>found. case found of
       None \<Rightarrow> failH (Errorf (''configuration '' @ qq name @ '' not found''))
     | Some cfg \<Rightarrow>
       tryH (on_registry (UpdateConnection (e_D E) name (pool_config name cfg))) (wrapped ''failed to reset connection'') (\<lambda>_.
       okH (data_response [(''message'', VS (''connection '' @ qq name @ '' reset successfully''))]))))"

fun reload_loop :: "('d, 's) env \<Rightarrow> string \<Rightarrow> string list \<Rightarrow> (('d, 's, 'z) plugin_world_scheme, int) act" where
  "reload_loop E pluginName [] = ret 0"
| "reload_loop E pluginName (entry # entries) =
     bnd (get_as as_config E (config_key entry)) (\<lambda>r.
     bnd (case r of
            Inr (Some cfg) \<Rightarrow>
              if cf_PluginName cfg \<noteq> pluginName then ret 0
              else bnd (on_registry (UpdateConnection (e_D E) entry (pool_config entry cfg))) (\<lambda>u.
                ret (case u of Inl _ \<Rightarrow> 0 | Inr _ \<Rightarrow> 1))
          | _ \<Rightarrow> ret 0) (\<lambda>one.
     bnd (reload_loop E pluginName entries) (\<lambda>more. ret (one + more))))"

definition pathConfigReloadHandler :: "('d, 's) env \<Rightarrow> FieldData
    \<Rightarrow> (('d, 's, 'z) plugin_world_scheme, hres) act" where
  "pathConfigReloadHandler E data = bnd (getS data ''plugin_name'') (\<lambda>pluginName.
     if pluginName = [] then failH (Errorf ''plugin_name is required'')
     else tryH (storage_List E ''config/'') id (\<lambda>entries.
       bnd (reload_loop E pluginName entries) (\<lambda>reloadedCount.
       okH (data_response
         [(''message'', VS (''reloaded '' @ itoa reloadedCount @ '' connections for plugin '' @ qq pluginName)),
          (''reloaded_count'', VI reloadedCount), (''plugin_name'', VS pluginName)]))))"

text \<open>\<open>region\<close> is \<open>Raw["region"]\<close> when it is a string, and empty otherwise.\<close>

definition failed_response :: "string \<Rightarrow> response" where
  "failed_response msg = data_response [(''success'', VB False), (''message'', VS msg)]"

definition pathReloadConfigHandler :: "('d, 's) env \<Rightarrow> string
    \<Rightarrow> (('d, 's, 'z) plugin_world_scheme, hres) act" where
  "pathReloadConfigHandler E region =
     (let storageKey = (if region \<noteq> [] then config_key region else ''config'');
          connectionName = (if region \<noteq> [] then region else ''default'') in
      tryH (storage_Get E storageKey) (wrapped ''failed to read config'') (\<lambda>entry. case entry of
        None \<Rightarrow> okH (failed_response (''configuration for region '' @ qq region @ '' not found''))
      | Some v \<Rightarrow> (case as_config v of
          None \<Rightarrow> failH (wrapped ''failed to decode config'' json_error)
        | Some cfg \<Rightarrow>
          seq (invalidateConfigCache region)
          (bnd (on_registry (UpdateConnection (e_D E) connectionName
             ((pool_config connectionName cfg)\<lparr>db_HealthCheckInterval := 30 * second,
                db_HealthCheckTimeout := 5 * second\<rparr>))) (\<lambda>u. case u of
             Inl err \<Rightarrow> okH (failed_response (''failed to update connection: '' @ err_text err))
           | Inr _ \<Rightarrow> okH (data_response [(''success'', VB True),
               (''message'', VS (''configuration for region '' @ qq region @ '' reloaded successfully''))]))))))"

subsection \<open>Opening every pool\<close>

text \<open>One key: nothing when it is skipped, otherwise the name of the pool, with whether it was opened. The
  wait for the warm-up may last for ever.\<close>

definition pool_name :: "Config \<Rightarrow> string" where
  "pool_name cfg = (if cf_Name cfg = [] then ''default'' else cf_Name cfg)"

definition open_pool :: "('d, 's) env \<Rightarrow> string \<Rightarrow> (('d, 's, 'z) plugin_world_scheme, (bool \<times> string) option) act" where
  "open_pool E key =
     bnd (get_as as_config E key) (\<lambda>r. case r of
       Inl _ \<Rightarrow> ret (Some (False, key))
     | Inr None \<Rightarrow> ret None
     | Inr (Some cfg) \<Rightarrow>
         if cf_ConnectionString cfg = [] then ret None
         else bnd (on_registry (AddConnection (e_D E) (pool_name cfg) (pool_config (cf_Name cfg) cfg))) (\<lambda>c. case c of
             Inl _ \<Rightarrow> ret (Some (False, pool_name cfg))
           | Inr conn \<Rightarrow> seq (WaitForWarmup conn) (ret (Some (True, pool_name cfg)))))"

fun open_pools :: "('d, 's) env \<Rightarrow> string list \<Rightarrow> (('d, 's, 'z) plugin_world_scheme, (bool \<times> string) list) act" where
  "open_pools E [] = ret []"
| "open_pools E (key # keys) = bnd (open_pool E key) (\<lambda>one. bnd (open_pools E keys) (\<lambda>more.
     ret (case one of None \<Rightarrow> more | Some p \<Rightarrow> p # more)))"

definition config_keys :: "string list \<Rightarrow> string list" where
  "config_keys entries = ''config'' # map config_key entries"

definition prewarmPools :: "('d, 's) env \<Rightarrow> (('d, 's, 'z) plugin_world_scheme, go_err + unit) act" where
  "prewarmPools E =
     bndE (storage_List E ''config/'') (wrapped ''failed to list config keys'') (\<lambda>entries.
     bnd (open_pools E (config_keys entries)) (\<lambda>_. ret (Inr ())))"

definition new_registry :: "(('d, 's, 'z) plugin_world_scheme, unit) act" where
  "new_registry = modify (\<lambda>w. w\<lparr>b_registry := Some (StartHealthChecks NewDBRegistry)\<rparr>)"

definition reload_response :: "(bool \<times> string) list \<Rightarrow> response" where
  "reload_response pools =
     (let reloaded = map snd (filter fst pools); failed = map snd (filter (\<lambda>p. \<not> fst p) pools) in
      data_response (if 0 < length failed
        then [(''success'', VB False), (''message'', VS ''plugin configuration reloaded with errors''),
              (''reloaded_pools'', VL reloaded), (''reloaded_pool_count'', VI (int (length reloaded))),
              (''failed_pools'', VL failed)]
        else [(''success'', VB True), (''message'', VS ''plugin configuration reloaded successfully''),
              (''reloaded_pools'', VL reloaded), (''reloaded_pool_count'', VI (int (length reloaded)))]))"

text \<open>\<open>close\<close> of the credential cache, which panics the second time.\<close>

definition close_cred_cache :: "(('d, 's, 'z) plugin_world_scheme, unit) act" where
  "close_cred_cache w = (case b_credCache w of
       None \<Rightarrow> (Ret (), w)
     | Some c \<Rightarrow> (case cred_Close c of
         Ret c' \<Rightarrow> (Ret (), w\<lparr>b_credCache := Some c'\<rparr>)
       | Panic s \<Rightarrow> (Panic s, w)
       | Block \<Rightarrow> (Block, w)))"

definition close_query_cache :: "(('d, 's, 'z) plugin_world_scheme, unit) act" where
  "close_query_cache = modify (\<lambda>w. w\<lparr>b_queryCache := map_option query_Close (b_queryCache w)\<rparr>)"

definition shutdown_registry :: "('d, 's) env \<Rightarrow> (('d, 's, 'z) plugin_world_scheme, unit) act" where
  "shutdown_registry E = bnd (gets b_registry) (\<lambda>r. case r of
       None \<Rightarrow> ret ()
     | Some rg \<Rightarrow> bnd (Shutdown (e_D E) rg) (\<lambda>rg'. modify (\<lambda>w. w\<lparr>b_registry := Some rg'\<rparr>)))"

definition cache_ttl :: int where
  "cache_ttl = 300 * second"

definition pathReloadPluginHandler :: "('d, 's) env \<Rightarrow> (('d, 's, 'z) plugin_world_scheme, hres) act" where
  "pathReloadPluginHandler E =
     tryH (storage_List E ''config/'') (wrapped ''failed to list config keys'') (\<lambda>entries.
     seq close_cred_cache
    (seq (modify (\<lambda>w. w\<lparr>b_credCache := map_option (\<lambda>_. newCredentialCache cache_ttl 10000) (b_credCache w)\<rparr>))
    (seq close_query_cache
    (seq (modify (\<lambda>w. w\<lparr>b_queryCache := map_option (\<lambda>_. newQueryResultCache cache_ttl 1000) (b_queryCache w)\<rparr>))
    (seq (shutdown_registry E)
    (seq new_registry
    (bnd (open_pools E (config_keys entries)) (\<lambda>pools.
     okH (reload_response pools)))))))))"

subsection \<open>Statistics\<close>

fun stateToString :: "ConnectionState \<Rightarrow> string" where
  "stateToString StateHealthy = ''healthy''"
| "stateToString StateUnhealthy = ''unhealthy''"
| "stateToString StateClosed = ''closed''"
| "stateToString StateUnknown = ''unknown''"

definition pool_row :: "string \<Rightarrow> PoolStats \<Rightarrow> (string \<times> fval) list" where
  "pool_row name stats =
     [(''name'', VS name), (''active'', VI (ps_OpenConnections stats - ps_Idle stats)), (''idle'', VI (ps_Idle stats)),
      (''in_use'', VI (ps_InUse stats)), (''total'', VI (ps_OpenConnections stats)),
      (''max_open'', VI (ps_MaxOpen stats)), (''min'', VI (ps_MinConnections stats)),
      (''state'', VS (stateToString (ps_State stats))), (''wait_count'', VI (ps_WaitCount stats)),
      (''wait_duration_nanos'', VI (ps_WaitDurationNanos stats)), (''max_idle_closed'', VI (ps_MaxIdleClosed stats)),
      (''max_lifetime_closed'', VI (ps_MaxLifetimeClosed stats)),
      (''last_health_check'', VTime (ps_LastHealthCheck stats))]
     @ (case ps_HealthError stats of None \<Rightarrow> [] | Some e \<Rightarrow> [(''error'', VS (err_text e))])"

text \<open>The statistics of the pools: an unknown name gives a nil result, whose fields cannot be read.\<close>

fun stats_loop :: "('d, 's) env \<Rightarrow> DBRegistry \<Rightarrow> string list
    \<Rightarrow> (('d, 's, 'z) world_scheme, (string \<times> PoolStats) list) act" where
  "stats_loop E rg [] = ret []"
| "stats_loop E rg (name # names) =
     bnd (GetDetailedConnectionStats (e_D E) name rg) (\<lambda>r. case r of
       Inl _ \<Rightarrow> panic ''nil pointer dereference''
     | Inr stats \<Rightarrow> bnd (stats_loop E rg names) (\<lambda>rest. ret ((name, stats) # rest)))"

definition pathPoolStatsRead :: "('d, 's) env \<Rightarrow> (('d, 's, 'z) plugin_world_scheme, hres) act" where
  "pathPoolStatsRead E =
     tryH (getConfig E) id (\<lambda>c. case c of
       None \<Rightarrow> okH (data_response [(''initialized'', VB False)])
     | Some cfg \<Rightarrow> bnd (gets b_registry) (\<lambda>r. case r of
         None \<Rightarrow> panic ''nil pointer dereference''
       | Some rg \<Rightarrow> bnd (stats_loop E rg (ListConnections rg)) (\<lambda>pools.
           let total = (\<lambda>f. VI (sum_list (map (f \<circ> snd) pools))) in
           okH (data_response [(''initialized'', VB True), (''total_pools'', VI (int (length pools))),
             (''total_active'', total (\<lambda>s. ps_OpenConnections s - ps_Idle s)), (''total_idle'', total ps_Idle),
             (''total_in_use'', total ps_InUse), (''total_wait_count'', total ps_WaitCount),
             (''total_errors'', total (\<lambda>s. if ps_HealthError s \<noteq> None then 1 else 0)),
             (''pools'', VLM (map (\<lambda>(name, s). pool_row name s) pools))]))))"

end
