(* ===== verification/Rate_Limit.thy ===== *)
theory Rate_Limit
  imports Pools
begin

text \<open>
  Rate limiting (\<open>plugin/ratelimit.go\<close>, \<open>plugin/path_rate_limit.go\<close>): a limiter per client address, the
  paths that are not limited, and the clean-up. The limiter itself is a value of the imported
  package \<open>golang.org/x/time/rate\<close>, of a type that is a parameter here: \<open>lib_new\<close> makes one and
  \<open>lib_allow\<close> asks it at a moment.

  That clients do not share a budget is shown in \<open>Rate_Isolation\<close>.
\<close>

record 'l limiter_lib =
  lib_new :: "rat \<Rightarrow> int \<Rightarrow> 'l"
  lib_allow :: "int \<Rightarrow> 'l \<Rightarrow> bool \<times> 'l"

record RateLimitConfig =
  lc_RequestsPerSecond :: rat
  lc_BurstSize :: int
  lc_CleanupInterval :: int

definition DefaultRateLimitConfig :: RateLimitConfig where
  "DefaultRateLimitConfig = \<lparr>lc_RequestsPerSecond = 100, lc_BurstSize = 50, lc_CleanupInterval = 300 * second\<rparr>"

definition NewRateLimiter :: "RateLimitConfig \<Rightarrow> bool \<Rightarrow> 'l rateLimiter" where
  "NewRateLimiter cfg enabled =
     \<lparr>rl_limiters = [],
      rl_rate = (if lc_RequestsPerSecond cfg \<le> 0 then 100 else lc_RequestsPerSecond cfg),
      rl_burst = (if lc_BurstSize cfg \<le> 0 then 50 else lc_BurstSize cfg),
      rl_cleanup = (if lc_CleanupInterval cfg \<le> 0 then 300 * second else lc_CleanupInterval cfg),
      rl_enabled = enabled, rl_closed = False\<rparr>"

definition getLimiter :: "'l limiter_lib \<Rightarrow> string \<Rightarrow> 'l rateLimiter \<Rightarrow> 'l \<times> 'l rateLimiter" where
  "getLimiter L key rl =
     (case map_of (rl_limiters rl) key of
        Some l \<Rightarrow> (l, rl)
      | None \<Rightarrow> (let l = lib_new L (rl_rate rl) (rl_burst rl) in
          (l, rl\<lparr>rl_limiters := AList.update key l (rl_limiters rl)\<rparr>)))"

definition Allow :: "'l limiter_lib \<Rightarrow> int \<Rightarrow> string \<Rightarrow> 'l rateLimiter \<Rightarrow> bool \<times> 'l rateLimiter" where
  "Allow L now key rl =
     (case getLimiter L key rl of (l, rl1) \<Rightarrow> (case lib_allow L now l of
        (ok, l') \<Rightarrow> (ok, rl1\<lparr>rl_limiters := AList.update key l' (rl_limiters rl1)\<rparr>)))"

definition limiter_Close :: "'l rateLimiter \<Rightarrow> 'l rateLimiter res" where
  "limiter_Close rl = (if rl_closed rl then Panic ''close of closed channel'' else Ret (rl\<lparr>rl_closed := True\<rparr>))"

definition limiter_cleanupExpired :: "'l rateLimiter \<Rightarrow> 'l rateLimiter" where
  "limiter_cleanupExpired rl = (if 1000 < length (rl_limiters rl) then rl\<lparr>rl_limiters := []\<rparr> else rl)"

definition GetLimit :: "'l limiter_lib \<Rightarrow> string \<Rightarrow> 'l rateLimiter \<Rightarrow> (rat \<times> int) \<times> 'l rateLimiter" where
  "GetLimit L key rl = (case getLimiter L key rl of (_, rl') \<Rightarrow> ((rl_rate rl, rl_burst rl), rl'))"

text \<open>\<open>net.SplitHostPort\<close>: the host, or none when the address is not one.\<close>

definition last_colon :: "string \<Rightarrow> nat option" where
  "last_colon s = (if CHR '':'' \<in> set s then Some (length s - 1 - length (takeWhile (\<lambda>c. c \<noteq> CHR '':'') (rev s))) else None)"

definition SplitHost :: "string \<Rightarrow> string option" where
  "SplitHost s =
     (case last_colon s of
        None \<Rightarrow> None
      | Some i \<Rightarrow>
          if s \<noteq> [] \<and> hd s = CHR ''[''
          then (if CHR '']'' \<notin> set s then None
                else let e = length (takeWhile (\<lambda>c. c \<noteq> CHR '']'') s) in
                  if e + 1 = i \<and> CHR ''['' \<notin> set (drop 1 s) \<and> CHR '']'' \<notin> set (drop (e + 1) s)
                  then Some (take (e - 1) (drop 1 s)) else None)
          else (if CHR '':'' \<in> set (take i s) \<or> CHR ''['' \<in> set s \<or> CHR '']'' \<in> set s then None
                else Some (take i s)))"

text \<open>The address of the client, or none without a connection.\<close>

definition getClientIP :: "string option \<Rightarrow> string" where
  "getClientIP remoteAddr =
     (case remoteAddr of
        None \<Rightarrow> ''unknown''
      | Some addr \<Rightarrow> if addr = [] then ''unknown'' else (case SplitHost addr of Some ip \<Rightarrow> ip | None \<Rightarrow> addr))"

definition excludePaths :: "string list" where
  "excludePaths = [''health'', ''version'', ''api-version'', ''pool-stats'']"

definition isExcluded :: "string \<Rightarrow> bool" where
  "isExcluded path = list_ex (\<lambda>p. length p \<le> length path \<and> take (length p) path = p) excludePaths"

definition rate_limit_error :: go_err where
  "rate_limit_error = Sentinel ''rate limit exceeded''"

text \<open>\<open>RateLimit\<close> of the middleware, with the reading of the clock that the limiter makes.\<close>

definition RateLimit :: "'l limiter_lib \<Rightarrow> string option \<Rightarrow> string
    \<Rightarrow> (('d, 's, 'l, 'z) server_world_scheme, go_err option) act" where
  "RateLimit L remoteAddr path = bnd (gets b_rateLimiter) (\<lambda>r. case r of
       None \<Rightarrow> panic ''nil pointer dereference''
     | Some rl \<Rightarrow>
         if \<not> rl_enabled rl \<or> isExcluded path then ret None
         else bnd time_Now (\<lambda>now. case Allow L now (getClientIP remoteAddr) rl of
           (ok, rl') \<Rightarrow> seq (modify (\<lambda>w. w\<lparr>b_rateLimiter := Some rl'\<rparr>))
             (ret (if ok then None else Some rate_limit_error))))"

definition on_limiter :: "('l rateLimiter \<Rightarrow> 'a \<times> 'l rateLimiter)
    \<Rightarrow> (('d, 's, 'l, 'z) server_world_scheme, 'a) act" where
  "on_limiter f = bnd (gets b_rateLimiter) (\<lambda>r. case r of
       None \<Rightarrow> panic ''nil pointer dereference''
     | Some rl \<Rightarrow> (case f rl of (a, rl') \<Rightarrow> seq (modify (\<lambda>w. w\<lparr>b_rateLimiter := Some rl'\<rparr>)) (ret a)))"

definition SetRateLimiterEnabled :: "bool \<Rightarrow> (('d, 's, 'l, 'z) server_world_scheme, unit) act" where
  "SetRateLimiterEnabled enabled = on_limiter (\<lambda>rl. ((), rl\<lparr>rl_enabled := enabled\<rparr>))"

definition limiter_GetConfig :: "'l rateLimiter \<Rightarrow> RateLimitConfig" where
  "limiter_GetConfig rl =
     \<lparr>lc_RequestsPerSecond = rl_rate rl, lc_BurstSize = rl_burst rl, lc_CleanupInterval = rl_cleanup rl\<rparr>"

definition pathRateLimitConfigRead :: "(('d, 's, 'l, 'z) server_world_scheme, hres) act" where
  "pathRateLimitConfigRead = bnd (on_limiter (\<lambda>rl. ((limiter_GetConfig rl, rl_enabled rl), rl))) (\<lambda>(cfg, enabled).
     okH (data_response [(''enabled'', VB enabled), (''requests_per_second'', VF (lc_RequestsPerSecond cfg)),
       (''burst_size'', VI (lc_BurstSize cfg)),
       (''cleanup_interval_seconds'', VI (int_seconds (lc_CleanupInterval cfg)))]))"

text \<open>\<open>raw\<close> is \<open>Raw["enabled"]\<close> when it is a boolean.\<close>

definition pathRateLimitConfigWrite :: "bool option \<Rightarrow> (('d, 's, 'l, 'z) server_world_scheme, hres) act" where
  "pathRateLimitConfigWrite raw =
     seq (case raw of None \<Rightarrow> ret () | Some enabled \<Rightarrow> SetRateLimiterEnabled enabled) pathRateLimitConfigRead"

definition pathRateLimitStatusRead :: "(('d, 's, 'l, 'z) server_world_scheme, hres) act" where
  "pathRateLimitStatusRead = bnd (on_limiter (\<lambda>rl. ((limiter_GetConfig rl, rl_enabled rl), rl))) (\<lambda>(cfg, enabled).
     okH (data_response [(''enabled'', VB enabled), (''requests_per_second'', VF (lc_RequestsPerSecond cfg)),
       (''burst_size'', VI (lc_BurstSize cfg)),
       (''cleanup_interval_seconds'', VI (int_seconds (lc_CleanupInterval cfg)))]))"

end
