(* ===== verification/Static_Roles.thy ===== *)
theory Static_Roles
  imports Pools
begin

text \<open>
  Static roles (\<open>plugin/path_static_roles.go\<close>, \<open>plugin/path_static_creds.go\<close>): a database user whose
  password the plugin sets when the role is created and on every manual rotation.

  What a rotation sends and through which configuration, and when the password in storage is the one that was
  sent last, is shown in \<open>Static_Rotation\<close> and \<open>Service\<close>.
\<close>

definition static_role_key :: "string \<Rightarrow> string" where
  "static_role_key name = ''static-roles/'' @ name"

definition static_cred_key :: "string \<Rightarrow> string" where
  "static_cred_key name = ''static-creds/'' @ name"

definition getStaticRole :: "('d, 's) env \<Rightarrow> string
    \<Rightarrow> (('d, 's, 'z) world_scheme, go_err + StaticRole option) act" where
  "getStaticRole E name = get_as as_static_role E (static_role_key name)"

definition getStaticCredential :: "('d, 's) env \<Rightarrow> string
    \<Rightarrow> (('d, 's, 'z) world_scheme, go_err + StaticCredential option) act" where
  "getStaticCredential E name = get_as as_static_cred E (static_cred_key name)"

definition computeNextRotation :: "StaticRole \<Rightarrow> int" where
  "computeNextRotation sr = (if 0 < sr_RotationPeriod sr then i64 (sr_LastRotation sr + sr_RotationPeriod sr) else 0)"

text \<open>Both verbs of each format are filled from the left.\<close>

definition replaceStaticRoleVars :: "string \<Rightarrow> string \<Rightarrow> string \<Rightarrow> string" where
  "replaceStaticRoleVars stmt username password =
     (let stmt1 = ''REPLACE ALL OCCURRENCES OF '' @ apostrophed ''{{username}}'' @ '' IN STR('' @ stmt @ '') WITH ''
            @ apostrophed username @ ''.''
      in ''REPLACE ALL OCCURRENCES OF '' @ apostrophed ''{{password}}'' @ '' IN STR('' @ stmt1 @ '') WITH ''
            @ apostrophed password @ ''.'')"

definition set_password_sql :: "string \<Rightarrow> string \<Rightarrow> string" where
  "set_password_sql username password =
     ''MODIFY USER '' @ username @ '' AS PASSWORD = '' @ apostrophed password"

definition pathStaticRoleExistenceCheck :: "('d, 's) env \<Rightarrow> FieldData
    \<Rightarrow> (('d, 's, 'z) world_scheme, go_err + bool) act" where
  "pathStaticRoleExistenceCheck E data = bnd (getS data ''name'') (\<lambda>name.
     bndE (storage_Get E (static_role_key name)) id (\<lambda>entry. ret (Inr (entry \<noteq> None))))"

definition static_config :: "('d, 's) env \<Rightarrow> string \<Rightarrow> (('d, 's, 'z) world_scheme, go_err + Config) act" where
  "static_config E dbName =
     (if dbName \<noteq> []
      then bndE (getConfigByName E dbName) id (\<lambda>c. ret (case c of
          None \<Rightarrow> Inl (Errorf (''database configuration '' @ qq dbName @ '' not found''))
        | Some cfg \<Rightarrow> Inr cfg))
      else bndE (getConfig E) id (\<lambda>c. ret (case c of
          None \<Rightarrow> Inl (Errorf ''database configuration not found'')
        | Some cfg \<Rightarrow> Inr cfg)))"

text \<open>The first password: nothing is done when there is one already; an error of the read counts as none.\<close>

definition initial_password :: "('d, 's) env \<Rightarrow> ctx \<Rightarrow> Config \<Rightarrow> StaticRole
    \<Rightarrow> (('d, 's, 'z) world_scheme, go_err + unit) act" where
  "initial_password E ctx cfg sr =
     bnd (getStaticCredential E (sr_Name sr)) (\<lambda>existing. case existing of
       Inr (Some _) \<Rightarrow> ret (Inr ())
     | _ \<Rightarrow> bnd (generatePassword (e_rand_ok E)) (\<lambda>password.
         bndE (executeSQL E ctx cfg (set_password_sql (sr_Username sr) password))
           (wrapped ''failed to create initial password for static user'') (\<lambda>_.
         bnd time_Now (\<lambda>t.
         bndE (storage_Put E (static_cred_key (sr_Name sr)) (SStaticCred
             \<lparr>sc_Username = sr_Username sr, sc_Password = password, sc_RoleName = sr_Name sr,
              sc_DBName = sr_DBName sr, sc_LastRotated = unix t, sc_NextRotation = computeNextRotation sr\<rparr>)) id (\<lambda>_.
         ret (Inr ()))))))"

definition static_fields :: "string \<Rightarrow> StaticRole \<Rightarrow> (string \<times> fval) list" where
  "static_fields name sr =
     [(''name'', VS name), (''username'', VS (sr_Username sr)), (''db_name'', VS (sr_DBName sr)),
      (''rotation_period'', VI (sr_RotationPeriod sr)), (''rotation_schedule'', VS (sr_RotationSchedule sr)),
      (''rotation_window'', VI (sr_RotationWindow sr)), (''rotation_statements'', VL (sr_RotationStatements sr))]"

definition pathStaticRoleCreate :: "('d, 's) env \<Rightarrow> ctx \<Rightarrow> FieldData
    \<Rightarrow> (('d, 's, 'z) world_scheme, hres) act" where
  "pathStaticRoleCreate E ctx data =
     bnd (getS data ''name'') (\<lambda>name. bnd (getS data ''username'') (\<lambda>username.
     bnd (getS data ''db_name'') (\<lambda>dbName. bnd (getI data ''rotation_period'') (\<lambda>period.
     bnd (getS data ''rotation_schedule'') (\<lambda>schedule. bnd (getI data ''rotation_window'') (\<lambda>window.
     bnd (getL data ''rotation_statements'') (\<lambda>statements.
     tryH (static_config E dbName) id (\<lambda>cfg.
     guardH (odbc_ValidateUsername (e_U E) username) (wrapped ''invalid username'') (
     bnd time_Now (\<lambda>t.
     let sr = \<lparr>sr_Name = name, sr_Username = username, sr_DBName = dbName, sr_RotationPeriod = period,
           sr_RotationSchedule = schedule, sr_RotationWindow = window, sr_RotationStatements = statements,
           sr_LastRotation = unix t, sr_RotationCount = 0, sr_Version = StaticRoleVersion\<rparr> in
     tryH (storage_Put E (static_role_key name) (SStaticRole sr)) id (\<lambda>_.
     tryH (initial_password E ctx cfg sr) id (\<lambda>_.
     okH (data_response (static_fields name sr))))))))))))))"

definition pathStaticRoleRead :: "('d, 's) env \<Rightarrow> FieldData \<Rightarrow> (('d, 's, 'z) world_scheme, hres) act" where
  "pathStaticRoleRead E data = bnd (getS data ''name'') (\<lambda>name.
     tryH (get_as as_static_role E (static_role_key name)) id (\<lambda>found. case found of
       None \<Rightarrow> nilH
     | Some sr \<Rightarrow> okH (data_response (static_fields (sr_Name sr) sr
         @ [(''last_rotation'', VI (sr_LastRotation sr)), (''rotation_count'', VI (sr_RotationCount sr)),
            (''version'', VI (sr_Version sr))]))))"

text \<open>The fields of an update that the raw request holds with the right type.\<close>

record static_raw =
  ra_db_name :: "string option"
  ra_rotation_period :: "int option"
  ra_rotation_schedule :: "string option"
  ra_rotation_window :: "int option"
  ra_rotation_statements :: "string list option"

definition given :: "'a option \<Rightarrow> 'a \<Rightarrow> 'a" where
  "given x old = (case x of Some a \<Rightarrow> a | None \<Rightarrow> old)"

definition static_updated :: "string \<Rightarrow> static_raw \<Rightarrow> StaticRole \<Rightarrow> StaticRole" where
  "static_updated username raw sr = sr\<lparr>
     sr_Username := (if username \<noteq> [] then username else sr_Username sr),
     sr_DBName := given (ra_db_name raw) (sr_DBName sr),
     sr_RotationPeriod := given (ra_rotation_period raw) (sr_RotationPeriod sr),
     sr_RotationSchedule := given (ra_rotation_schedule raw) (sr_RotationSchedule sr),
     sr_RotationWindow := given (ra_rotation_window raw) (sr_RotationWindow sr),
     sr_RotationStatements := given (ra_rotation_statements raw) (sr_RotationStatements sr)\<rparr>"

definition pathStaticRoleUpdate :: "('d, 's) env \<Rightarrow> FieldData \<Rightarrow> static_raw
    \<Rightarrow> (('d, 's, 'z) world_scheme, hres) act" where
  "pathStaticRoleUpdate E data raw =
     bnd (getS data ''name'') (\<lambda>name.
     tryH (getStaticRole E name) id (\<lambda>found. case found of
       None \<Rightarrow> failH (Errorf (''static role '' @ qq name @ '' not found''))
     | Some existing \<Rightarrow>
     bnd (getS data ''username'') (\<lambda>username.
     guardH (if username \<noteq> [] then odbc_ValidateUsername (e_U E) username else None) (wrapped ''invalid username'') (
     let sr = static_updated username raw existing in
     tryH (storage_Put E (static_role_key name) (SStaticRole sr)) id (\<lambda>_.
     okH (data_response (static_fields (sr_Name sr) sr)))))))"

definition pathStaticRoleDelete :: "('d, 's) env \<Rightarrow> ctx \<Rightarrow> FieldData
    \<Rightarrow> (('d, 's, 'z) world_scheme, hres) act" where
  "pathStaticRoleDelete E ctx data =
     bnd (getS data ''name'') (\<lambda>name.
     tryH (getStaticRole E name) id (\<lambda>found. case found of
       None \<Rightarrow> nilH
     | Some sr \<Rightarrow>
     tryH (getConfig E) id (\<lambda>c.
     seq (case c of None \<Rightarrow> ret ()
          | Some cfg \<Rightarrow> seq (executeSQL E ctx cfg (''DROP USER '' @ sr_Username sr)) (ret ()))
     (tryH (storage_Delete E (static_role_key name)) (wrapped ''error deleting static role'') (\<lambda>_.
     seq (storage_Delete E (static_cred_key name)) nilH)))))"

definition pathStaticRoleListHandler :: "('d, 's) env \<Rightarrow> (('d, 's, 'z) world_scheme, hres) act" where
  "pathStaticRoleListHandler E = tryH (storage_List E ''static-roles/'') id (\<lambda>entries. okH (ListResponse entries))"

definition rotated :: "StaticRole \<Rightarrow> int \<Rightarrow> StaticRole" where
  "rotated sr t = sr\<lparr>sr_LastRotation := unix t, sr_RotationCount := i64 (sr_RotationCount sr + 1)\<rparr>"

definition pathRotateStaticRoleHandler :: "('d, 's) env \<Rightarrow> ctx \<Rightarrow> FieldData
    \<Rightarrow> (('d, 's, 'z) world_scheme, hres) act" where
  "pathRotateStaticRoleHandler E ctx data =
     bnd (getS data ''name'') (\<lambda>name.
     tryH (getStaticRole E name) id (\<lambda>found. case found of
       None \<Rightarrow> failH (Errorf (''static role '' @ qq name @ '' not found''))
     | Some sr0 \<Rightarrow>
     tryH (getConfig E) id (\<lambda>c. case c of
       None \<Rightarrow> failH (Errorf ''database configuration not found'')
     | Some cfg \<Rightarrow>
     bnd (generatePassword (e_rand_ok E)) (\<lambda>password.
     tryH (executeSQL E ctx cfg (set_password_sql (sr_Username sr0) password)) (wrapped ''failed to rotate password'') (\<lambda>_.
     seq (for_each (sr_RotationStatements sr0) (\<lambda>stmt.
       seq (executeSQL E ctx cfg (replaceStaticRoleVars stmt (sr_Username sr0) password)) (ret ())))
     (bnd time_Now (\<lambda>t1.
     let sr = rotated sr0 t1 in
     tryH (storage_Put E (static_role_key name) (SStaticRole sr)) id (\<lambda>_.
     bnd time_Now (\<lambda>t2.
     tryH (storage_Put E (static_cred_key name) (SStaticCred
         \<lparr>sc_Username = sr_Username sr, sc_Password = password, sc_RoleName = name, sc_DBName = sr_DBName sr,
          sc_LastRotated = unix t2, sc_NextRotation = computeNextRotation sr\<rparr>)) id (\<lambda>_.
     okH (data_response [(''username'', VS (sr_Username sr)), (''password'', VS password),
       (''last_rotated'', VI (sr_LastRotation sr)), (''rotation_count'', VI (sr_RotationCount sr))])))))))))))"

definition pathStaticCredsRead :: "('d, 's) env \<Rightarrow> FieldData \<Rightarrow> (('d, 's, 'z) world_scheme, hres) act" where
  "pathStaticCredsRead E data =
     bnd (getS data ''name'') (\<lambda>name.
     tryH (getStaticRole E name) id (\<lambda>role. case role of
       None \<Rightarrow> failH (Errorf (''static role '' @ qq name @ '' not found''))
     | Some _ \<Rightarrow>
     tryH (getStaticCredential E name) id (\<lambda>found. case found of
       None \<Rightarrow> failH (Errorf (''credentials for static role '' @ qq name @ '' not found''))
     | Some cred \<Rightarrow> okH (data_response [(''username'', VS (sc_Username cred)), (''password'', VS (sc_Password cred)),
         (''role_name'', VS (sc_RoleName cred)), (''db_name'', VS (sc_DBName cred)),
         (''last_rotated'', VI (sc_LastRotated cred)), (''next_rotation'', VI (sc_NextRotation cred))]))))"

end
