(* ===== verification/Config_Backup.thy ===== *)
theory Config_Backup
  imports Static_Roles
begin

text \<open>
  Backup and restore of the configuration (\<open>plugin/path_config_backup.go\<close>). The encoding of a backup is
  \<open>encoding/json\<close>'s and a parameter, as is the rendering of the error response for a text it cannot
  decode.

  That restoring a backup brings back what it was taken of is shown in \<open>Backup_Roundtrip\<close>.
\<close>

record ConfigBackup =
  bk_Config :: "Config option"
  bk_Roles :: "(string \<times> Role) list"
  bk_Statements :: "(string \<times> Statement) list"
  bk_Version :: string
  bk_PluginName :: string

record codec =
  cd_encode :: "ConfigBackup \<Rightarrow> string"
  cd_decode :: "string \<Rightarrow> go_err + ConfigBackup"
  cd_errtext :: "go_err \<Rightarrow> string"

fun backup_loop :: "(string \<Rightarrow> (('d, 's, 'z) world_scheme, go_err + 'a option) act) \<Rightarrow> string \<Rightarrow> string list
    \<Rightarrow> (('d, 's, 'z) world_scheme, go_err + (string \<times> 'a) list) act" where
  "backup_loop get what [] = ret (Inr [])"
| "backup_loop get what (name # names) =
     bndE (get name) (wrapped (what @ name)) (\<lambda>found.
     bndE (backup_loop get what names) id (\<lambda>rest.
     ret (Inr (case found of None \<Rightarrow> rest | Some a \<Rightarrow> (name, a) # rest))))"

definition take_backup :: "('d, 's) env \<Rightarrow> (('d, 's, 'z) world_scheme, go_err + ConfigBackup) act" where
  "take_backup E =
     bndE (getConfig E) (wrapped ''failed to get config'') (\<lambda>cfg.
     bndE (storage_List E ''roles/'') (wrapped ''failed to list roles'') (\<lambda>roleNames.
     bndE (backup_loop (getRole E) ''failed to get role '' roleNames) id (\<lambda>roles.
     bndE (storage_List E ''statements/'') (wrapped ''failed to list statements'') (\<lambda>statementNames.
     bndE (backup_loop (getStatement E) ''failed to get statement '' statementNames) id (\<lambda>statements.
     ret (Inr \<lparr>bk_Config = cfg, bk_Roles = roles, bk_Statements = statements, bk_Version = ''1.0.0'',
       bk_PluginName = ''teradata''\<rparr>))))))"

definition pathConfigBackupRead :: "codec \<Rightarrow> ('d, 's) env \<Rightarrow> (('d, 's, 'z) world_scheme, hres) act" where
  "pathConfigBackupRead J E = tryH (take_backup E) id (\<lambda>backup.
     okH (data_response [(''backup'', VS (cd_encode J backup)), (''version'', VS (bk_Version backup)),
       (''plugin_name'', VS (bk_PluginName backup)), (''roles_count'', VI (int (length (bk_Roles backup)))),
       (''statements_count'', VI (int (length (bk_Statements backup)))),
       (''config_exists'', VB (bk_Config backup \<noteq> None))]))"

definition error_response :: "string \<Rightarrow> response" where
  "error_response msg = data_response [(''error'', VS msg)]"

text \<open>The visits of a map: the entries of its keys in the order of this run.\<close>

definition visits :: "(string list \<Rightarrow> string list) \<Rightarrow> (string \<times> 'a) list \<Rightarrow> (string \<times> 'a) list" where
  "visits ord m = List.map_filter (\<lambda>k. map_option (Pair k) (map_of m k)) (ord (map fst m))"

fun restore_loop :: "('d, 's) env \<Rightarrow> string \<Rightarrow> string \<Rightarrow> (string \<times> stored) list
    \<Rightarrow> (('d, 's, 'z) world_scheme, go_err + unit) act" where
  "restore_loop E pre what [] = ret (Inr ())"
| "restore_loop E pre what ((name, v) # entries) =
     bndE (storage_Put E (pre @ name) v) (wrapped (what @ name)) (\<lambda>_. restore_loop E pre what entries)"

definition restore :: "('d, 's) env \<Rightarrow> ConfigBackup \<Rightarrow> (('d, 's, 'z) world_scheme, go_err + unit) act" where
  "restore E backup =
     bndE (case bk_Config backup of None \<Rightarrow> ret (Inr ()) | Some cfg \<Rightarrow> storage_Put E ''config'' (SConfig cfg))
       (wrapped ''failed to restore config'') (\<lambda>_.
     bndE (restore_loop E ''roles/'' ''failed to restore role '' (map (apsnd SRole) (visits (e_ord E) (bk_Roles backup)))) id (\<lambda>_.
     restore_loop E ''statements/'' ''failed to restore statement ''
       (map (apsnd SStatement) (visits (e_ord E) (bk_Statements backup)))))"

definition pathConfigRestoreWrite :: "codec \<Rightarrow> ('d, 's) env \<Rightarrow> FieldData
    \<Rightarrow> (('d, 's, 'z) world_scheme, hres) act" where
  "pathConfigRestoreWrite J E data = bnd (getS data ''backup'') (\<lambda>backupStr.
     if backupStr = [] then okH (error_response ''backup data is required'')
     else case cd_decode J backupStr of
       Inl err \<Rightarrow> okH (error_response (cd_errtext J err))
     | Inr backup \<Rightarrow>
         if bk_PluginName backup \<noteq> ''teradata'' then okH (error_response ''backup is not from teradata plugin'')
         else tryH (restore E backup) id (\<lambda>_.
           okH (data_response [(''restored'', VB True), (''config_restored'', VB (bk_Config backup \<noteq> None)),
             (''roles_restored'', VI (int (length (bk_Roles backup)))),
             (''statements_restored'', VI (int (length (bk_Statements backup)))),
             (''version'', VS (bk_Version backup))])))"

end
