(* ===== verification/Operational.thy ===== *)
theory Operational
  imports Config_Backup
begin

text \<open>
  The operational paths (\<open>plugin/path_operational.go\<close>): health, readiness, liveness, degradation, version
  and information about the database, with the constants of \<open>plugin/version.go\<close>. The log lines are left
  out.
\<close>

definition Version :: string where "Version = ''0.1.0''"
definition APIVersion :: string where "APIVersion = ''v1''"

text \<open>What the health path finds of one pool.\<close>

record pool_view =
  pv_name :: string
  pv_state :: ConnectionState
  pv_open :: int
  pv_idle :: int
  pv_checked :: int
  pv_err :: "go_err option"

definition pool_view :: "('d, 's) env \<Rightarrow> DBRegistry \<Rightarrow> string \<Rightarrow> (('d, 's, 'z) world_scheme, pool_view) act" where
  "pool_view E rg name =
     bnd (GetConnectionStats (e_D E) name rg) (\<lambda>(st, op, idle, err).
     ret \<lparr>pv_name = name, pv_state = st, pv_open = op, pv_idle = idle,
          pv_checked = (case GetConnection name rg of None \<Rightarrow> zero_time | Some c \<Rightarrow> dc_lastHealthCheck c),
          pv_err = err\<rparr>)"

fun pool_views :: "('d, 's) env \<Rightarrow> DBRegistry \<Rightarrow> string list \<Rightarrow> (('d, 's, 'z) world_scheme, pool_view list) act" where
  "pool_views E rg [] = ret []"
| "pool_views E rg (n # ns) = bnd (pool_view E rg n) (\<lambda>v. bnd (pool_views E rg ns) (\<lambda>vs. ret (v # vs)))"

definition pv_healthy :: "pool_view \<Rightarrow> bool" where
  "pv_healthy v \<longleftrightarrow> pv_err v = None \<and> pv_state v = StateHealthy"

definition pool_info :: "pool_view \<Rightarrow> fval" where
  "pool_info v = VM ([(''state'', VS (stateToString (pv_state v))), (''open_connections'', VI (pv_open v)),
     (''idle_connections'', VI (pv_idle v)), (''in_use'', VI (pv_open v - pv_idle v)),
     (''last_health_check'', VTime (pv_checked v))]
     @ (case pv_err v of None \<Rightarrow> [] | Some e \<Rightarrow> [(''error'', VS (err_text e))]))"

text \<open>The state of the degradation as the two paths report it: when it is on, since when and for how long.\<close>

definition degraded_fields :: "(('d, 's, 'z) plugin_world_scheme, (string \<times> fval) list) act" where
  "degraded_fields = bnd (gets b_gracefulDegradation) (\<lambda>on. bnd (gets b_degradedSince) (\<lambda>since. case since of
       Some t \<Rightarrow> if on then bnd time_Now (\<lambda>now. ret [(''degraded_since'', VTime t),
           (''degradation_duration_seconds'', VF (rat_of_int (max (- (2 ^ 63)) (min (2 ^ 63 - 1) (now - t))) / rat_of_int second))])
         else ret []
     | None \<Rightarrow> ret []))"

definition health_verdict :: "bool \<Rightarrow> nat \<Rightarrow> string" where
  "health_verdict healthy pools = (if pools = 0 then ''configured_no_connections''
     else if healthy then ''healthy'' else ''degraded'')"

definition pathHealthRead :: "('d, 's) env \<Rightarrow> (('d, 's, 'z) plugin_world_scheme, hres) act" where
  "pathHealthRead E =
     bnd (getConfig E) (\<lambda>c. case c of
       Inl err \<Rightarrow> bnd (gets b_gracefulDegradation) (\<lambda>g.
         okH (data_response [(''status'', VS ''unhealthy''), (''initialized'', VB False), (''error'', VS (err_text err)),
           (''graceful_degradation'', VB g)]))
     | Inr None \<Rightarrow> bnd (gets b_gracefulDegradation) (\<lambda>g.
         okH (data_response [(''status'', VS ''uninitialized''), (''initialized'', VB False),
           (''graceful_degradation'', VB g)]))
     | Inr (Some cfg) \<Rightarrow>
         seq (if cf_GracefulDegradationMode cfg then SetGracefulDegradation True else ret ())
        (bnd (gets b_registry) (\<lambda>r. case r of
           None \<Rightarrow> panic ''nil pointer dereference''
         | Some rg \<Rightarrow>
         bnd (pool_views E rg (ListConnections rg)) (\<lambda>views.
         let overallHealthy = list_all pv_healthy views; pools = length views in
         seq (if \<not> overallHealthy then SetGracefulDegradation True else ret ())
        (seq (if overallHealthy \<and> 0 < pools then SetGracefulDegradation False else ret ())
        (bnd time_Now (\<lambda>t.
         bnd (gets b_gracefulDegradation) (\<lambda>g. bnd (gets b_manuallyEnabledDegradation) (\<lambda>m.
         bnd degraded_fields (\<lambda>since.
         okH (data_response ([(''status'', VS (health_verdict overallHealthy pools)), (''initialized'', VB True),
           (''pool_count'', VI (int pools)), (''pool_status'', VM (map (\<lambda>v. (pv_name v, pool_info v)) views)),
           (''checked_at'', VTime t), (''graceful_degradation'', VB g), (''manually_enabled_degradation'', VB m),
           (''degraded_pools'', VL (map pv_name (filter (\<lambda>v. \<not> pv_healthy v) views))),
           (''healthy_pools'', VL (map pv_name (filter pv_healthy views)))]
           @ since
           @ (if cf_GracefulDegradationMode cfg
              then [(''graceful_degradation_mode_enabled'', VB True), (''graceful_degradation_note'',
                VS ''Plugin is operating in graceful degradation mode. Credential operations may be limited.'')]
              else [])))))))))))))"

definition pathVersionRead :: "('w, hres) act" where
  "pathVersionRead = okH (data_response [(''version'', VS Version)])"

definition pathAPIVersionRead :: "('w, hres) act" where
  "pathAPIVersionRead = okH (data_response [(''api_version'', VS APIVersion), (''api_version_major'', VI 1),
     (''api_version_minor'', VI 0), (''plugin_version'', VS Version), (''min_supported_major'', VI 1),
     (''min_supported_minor'', VI 0)])"

definition not_ready :: "bool \<Rightarrow> string option \<Rightarrow> response" where
  "not_ready initialized err = data_response ([(''status'', VS ''not ready''), (''ready'', VB False),
     (''initialized'', VB initialized)] @ (case err of None \<Rightarrow> [] | Some e \<Rightarrow> [(''error'', VS e)]))"

definition probe_conn_string :: "Config \<Rightarrow> string" where
  "probe_conn_string cfg =
     AppendSessionTimeout (AppendQueryTimeout (cf_ConnectionString cfg) (cf_QueryTimeout cfg)) (cf_SessionTimeout cfg)"

definition pathReadinessRead :: "('d, 's) env \<Rightarrow> (('d, 's, 'z) plugin_world_scheme, hres) act" where
  "pathReadinessRead E =
     bnd (getConfig E) (\<lambda>c. case c of
       Inl err \<Rightarrow> okH (not_ready False (Some (err_text err)))
     | Inr None \<Rightarrow> okH (not_ready False None)
     | Inr (Some cfg) \<Rightarrow> bnd (Connect (e_D E) (probe_conn_string cfg)) (\<lambda>r. case r of
         Inl err \<Rightarrow> okH (not_ready True (Some (''database connection failed: '' @ err_text err)))
       | Inr conn \<Rightarrow> with_defer (seq (CloseConn (e_D E) conn) (ret ()))
           (bnd (PingConn (e_D E) conn) (\<lambda>e. case e of
             Some err \<Rightarrow> okH (not_ready True (Some (''database ping failed: '' @ err_text err)))
           | None \<Rightarrow> okH (data_response [(''status'', VS ''ready''), (''ready'', VB True), (''initialized'', VB True)])))))"

definition pathLivenessRead :: "('w, hres) act" where
  "pathLivenessRead = okH (data_response [(''status'', VS ''alive''), (''alive'', VB True), (''version'', VS Version)])"

definition pathDegradationRead :: "('d, 's) env \<Rightarrow> (('d, 's, 'z) plugin_world_scheme, hres) act" where
  "pathDegradationRead E =
     tryH (getConfig E) (wrapped ''failed to get config'') (\<lambda>c.
     bnd (gets b_gracefulDegradation) (\<lambda>isDegraded. bnd (gets b_manuallyEnabledDegradation) (\<lambda>manual.
     bnd (gets b_registry) (\<lambda>r.
     let names = (case r of None \<Rightarrow> [] | Some rg \<Rightarrow> ListConnections rg) in
     bnd degraded_fields (\<lambda>since.
     okH (data_response ([(''degraded'', VB isDegraded), (''manually_enabled'', VB manual),
       (''automatically_triggered'', VB (isDegraded \<and> \<not> manual)),
       (''config_graceful_degradation'', VB (case c of None \<Rightarrow> False | Some cfg \<Rightarrow> cf_GracefulDegradationMode cfg)),
       (''degraded_pools'', VL (filter (\<lambda>n. \<not> IsPoolHealthy r n) names)),
       (''healthy_pools'', VL (filter (IsPoolHealthy r) names))] @ since)))))))"

definition pathDegradationUpdate :: "('d, 's) env \<Rightarrow> FieldData \<Rightarrow> (('d, 's, 'z) plugin_world_scheme, hres) act" where
  "pathDegradationUpdate E data = bnd (getB data ''enabled'') (\<lambda>enabled.
     seq (if enabled then SetManuallyEnabledDegradation True
          else seq (SetGracefulDegradation False) (SetManuallyEnabledDegradation False))
     (pathDegradationRead E))"

definition info_failed :: "string \<Rightarrow> string \<Rightarrow> response" where
  "info_failed status msg = data_response [(''status'', VS status), (''initialized'', VB True), (''error'', VS msg)]"

definition pathInfoRead :: "('d, 's) env \<Rightarrow> (('d, 's, 'z) plugin_world_scheme, hres) act" where
  "pathInfoRead E =
     tryH (getConfig E) (wrapped ''failed to get config'') (\<lambda>c. case c of
       None \<Rightarrow> okH (data_response [(''status'', VS ''unconfigured''), (''initialized'', VB False)])
     | Some cfg \<Rightarrow> bnd (Connect (e_D E) (probe_conn_string cfg)) (\<lambda>r. case r of
         Inl err \<Rightarrow> okH (info_failed ''disconnected'' (''database connection failed: '' @ err_text err))
       | Inr conn \<Rightarrow> with_defer (seq (CloseConn (e_D E) conn) (ret ()))
           (bnd (GetDatabaseInfo (e_D E) conn) (\<lambda>i. case i of
             Inl err \<Rightarrow> okH (info_failed ''error'' (''failed to get database info: '' @ err_text err))
           | Inr dbInfo \<Rightarrow> okH (data_response [(''status'', VS ''connected''), (''initialized'', VB True),
               (''driver_name'', VS (di_DriverName dbInfo)), (''driver_version'', VS (di_DriverVersion dbInfo)),
               (''db_version'', VS (di_DBVersion dbInfo)), (''db_name'', VS (di_DBName dbInfo)),
               (''plugin_version'', VS Version)])))))"

end
