(* ===== verification/Routes.thy ===== *)
theory Routes
  imports Rate_Limit Operational
begin

text \<open>
  The table of paths (\<open>paths\<close> of \<open>plugin/backend.go\<close> and the functions it calls): for every path its
  pattern, the fields of its schema with their types and defaults, and the callback of every operation.
  A pattern is a text and, where the code appends \<open>framework.GenericNameRegex\<close>, the name it captures.

  The theorem shows which paths can never be reached, because an earlier pattern takes their requests.
\<close>

datatype operation = CreateOp | ReadOp | UpdateOp | DeleteOp | ListOp

datatype ftype = TString | TInt | TBool | TFloat | TList | TMap

text \<open>One constructor per callback.\<close>

datatype handler =
    HConfigWrite | HConfigRead | HConfigDelete | HConfigListHandler | HConfigResetHandler
  | HConfigReloadHandler | HConfigBackupRead | HConfigRestoreWrite | HReloadConfigHandler | HReloadPluginHandler
  | HWebhookWrite | HWebhookRead | HWebhookDelete | HRoleCreate | HRoleRead
  | HRoleUpdate | HRoleDelete | HRoleListHandler | HStatementWrite | HStatementRead
  | HStatementDelete | HStatementListHandler | HRotateRootHandler | HCredsRead | HCredsBatchRead
  | HRenewCredsHandler | HRenewCredsBatchHandler | HRevokeCredsHandler | HBulkRevokeCredsHandler | HBulkRevokeByRoleHandler
  | HRevokeAllCredsHandler | HLeasesList | HLeaseInfoRead | HCleanupExpiredHandler | HLeaseLookupHandler
  | HExtendLeaseHandler | HStaticRoleCreate | HStaticRoleRead | HStaticRoleUpdate | HStaticRoleDelete
  | HStaticRoleListHandler | HStaticCredsRead | HRotateStaticRoleHandler | HHealthRead | HReadinessRead
  | HLivenessRead | HDegradationRead | HDegradationUpdate | HVersionRead | HAPIVersionRead
  | HInfoRead | HPoolStatsRead | HMetricsRead | HRateLimitConfigRead | HRateLimitConfigWrite
  | HRateLimitStatusRead

record path =
  pt_lit :: string
  pt_name :: "string option"
  pt_fields :: "(string \<times> ftype \<times> fval option) list"
  pt_ops :: "(operation \<times> handler) list"

definition pathConfig :: path where
  "pathConfig = \<lparr>pt_lit = ''config/'', pt_name = Some ''name'',
     pt_fields = [(''name'', TString, None), (''plugin_name'', TString, None),
       (''plugin_version'', TString, None), (''verify_connection'', TBool, Some (VB True)),
       (''allowed_roles'', TList, None), (''root_rotation_statements'', TList, None),
       (''password_policy'', TString, None), (''connection_url'', TString, None),
       (''connection_string'', TString, None), (''username'', TString, None),
       (''password'', TString, None), (''disable_escaping'', TBool, Some (VB False)),
       (''min_connections'', TInt, Some (VI 0)),
       (''max_open_connections'', TInt, Some (VI 5)),
       (''max_idle_connections'', TInt, Some (VI 2)),
       (''connection_timeout'', TInt, Some (VI 30)), (''session_timeout'', TInt, None),
       (''max_connection_lifetime'', TInt, Some (VI 3600)),
       (''idle_timeout'', TInt, Some (VI 300)),
       (''ssl_mode'', TString, Some (VS ''disable'')), (''ssl_cert'', TString, None),
       (''ssl_key'', TString, None), (''ssl_root_cert'', TString, None),
       (''ssl_key_password'', TString, None), (''ssl_cipher_suites'', TString, None),
       (''ssl_secure'', TBool, Some (VB False)), (''ssl_version'', TString, None),
       (''max_retries'', TInt, Some (VI 3)),
       (''initial_retry_interval'', TInt, Some (VI 100)),
       (''max_retry_interval'', TInt, Some (VI 5000)),
       (''retry_multiplier'', TFloat, Some (VF 2)), (''session_variables'', TMap, None),
       (''graceful_degradation_mode'', TBool, Some (VB False)),
       (''max_result_rows'', TInt, Some (VI 0)),
       (''eviction_policy'', TString, Some (VS ''lifo'')),
       (''eviction_batch_size'', TInt, Some (VI 1)),
       (''eviction_grace_period'', TInt, Some (VI 30)),
       (''min_evictable_idle_time'', TInt, Some (VI 300)), (''timezone'', TString, None),
       (''character_set'', TString, None)],
     pt_ops = [(CreateOp, HConfigWrite), (ReadOp, HConfigRead), (UpdateOp, HConfigWrite),
       (DeleteOp, HConfigDelete)]\<rparr>"

definition pathConfigList :: path where
  "pathConfigList = \<lparr>pt_lit = ''config'', pt_name = None,
     pt_fields = [],
     pt_ops = [(ListOp, HConfigListHandler)]\<rparr>"

definition pathConfigReset :: path where
  "pathConfigReset = \<lparr>pt_lit = ''reset/'', pt_name = Some ''name'',
     pt_fields = [(''name'', TString, None)],
     pt_ops = [(UpdateOp, HConfigResetHandler)]\<rparr>"

definition pathConfigReload :: path where
  "pathConfigReload = \<lparr>pt_lit = ''reload/'', pt_name = Some ''plugin_name'',
     pt_fields = [(''plugin_name'', TString, None)],
     pt_ops = [(UpdateOp, HConfigReloadHandler)]\<rparr>"

definition pathConfigV1 :: path where
  "pathConfigV1 = \<lparr>pt_lit = ''v1/config'', pt_name = None,
     pt_fields = [(''connection_string'', TString, None), (''max_open_connections'', TInt, Some (VI 5)),
       (''max_idle_connections'', TInt, Some (VI 2)),
       (''connection_timeout'', TInt, Some (VI 30))],
     pt_ops = [(CreateOp, HConfigWrite), (ReadOp, HConfigRead), (UpdateOp, HConfigWrite),
       (DeleteOp, HConfigDelete)]\<rparr>"

definition pathConfigBackup :: path where
  "pathConfigBackup = \<lparr>pt_lit = ''config/backup'', pt_name = None,
     pt_fields = [],
     pt_ops = [(ReadOp, HConfigBackupRead)]\<rparr>"

definition pathConfigRestore :: path where
  "pathConfigRestore = \<lparr>pt_lit = ''config/restore'', pt_name = None,
     pt_fields = [(''backup'', TString, None)],
     pt_ops = [(CreateOp, HConfigRestoreWrite), (UpdateOp, HConfigRestoreWrite)]\<rparr>"

definition pathReloadConfig :: path where
  "pathReloadConfig = \<lparr>pt_lit = ''reload-config'', pt_name = None,
     pt_fields = [(''region'', TString, None)],
     pt_ops = [(UpdateOp, HReloadConfigHandler), (ReadOp, HReloadConfigHandler)]\<rparr>"

definition pathReloadConfigV1 :: path where
  "pathReloadConfigV1 = \<lparr>pt_lit = ''config/reload'', pt_name = None,
     pt_fields = [(''region'', TString, None)],
     pt_ops = [(UpdateOp, HReloadConfigHandler), (ReadOp, HReloadConfigHandler)]\<rparr>"

definition pathReloadPlugin :: path where
  "pathReloadPlugin = \<lparr>pt_lit = ''reload/plugin'', pt_name = None,
     pt_fields = [],
     pt_ops = [(UpdateOp, HReloadPluginHandler), (ReadOp, HReloadPluginHandler)]\<rparr>"

definition pathWebhook :: path where
  "pathWebhook = \<lparr>pt_lit = ''webhook/config'', pt_name = None,
     pt_fields = [(''url'', TString, None), (''enabled'', TBool, Some (VB False)),
       (''timeout_seconds'', TInt, Some (VI 30)), (''retry_count'', TInt, Some (VI 3)),
       (''events'', TList, None)],
     pt_ops = [(CreateOp, HWebhookWrite), (ReadOp, HWebhookRead), (UpdateOp, HWebhookWrite),
       (DeleteOp, HWebhookDelete)]\<rparr>"

definition pathRoles :: path where
  "pathRoles = \<lparr>pt_lit = ''roles/'', pt_name = Some ''name'',
     pt_fields = [(''name'', TString, None), (''version'', TInt, None), (''db_user'', TString, None),
       (''db_password'', TString, None), (''username_prefix'', TString, Some (VS [])),
       (''username_suffix'', TString, Some (VS [])), (''default_ttl'', TInt, Some (VI 3600)),
       (''max_ttl'', TInt, Some (VI 86400)), (''renewal_period'', TInt, Some (VI 0)),
       (''statement_template'', TString, None),
       (''default_database'', TString, Some (VS ''USER'')),
       (''perm_space'', TInt, Some (VI 0)), (''spool_space'', TInt, Some (VI 0)),
       (''account'', TString, None), (''fallback'', TBool, Some (VB False)),
       (''creation_statement'', TString, None),
       (''revocation_statement'', TString, Some (VS [])),
       (''rollback_statement'', TString, Some (VS [])),
       (''renewal_statement'', TString, Some (VS [])),
       (''max_credentials'', TInt, Some (VI 0)), (''session_variables'', TMap, None)],
     pt_ops = [(CreateOp, HRoleCreate), (ReadOp, HRoleRead), (UpdateOp, HRoleUpdate),
       (DeleteOp, HRoleDelete)]\<rparr>"

definition pathRolesV1 :: path where
  "pathRolesV1 = \<lparr>pt_lit = ''v1/roles/'', pt_name = Some ''name'',
     pt_fields = [(''name'', TString, None), (''db_user'', TString, None),
       (''db_password'', TString, None), (''default_ttl'', TInt, Some (VI 3600)),
       (''max_ttl'', TInt, Some (VI 86400)), (''renewal_period'', TInt, Some (VI 0)),
       (''statement_template'', TString, None),
       (''default_database'', TString, Some (VS ''USER'')),
       (''perm_space'', TInt, Some (VI 0)), (''spool_space'', TInt, Some (VI 0)),
       (''account'', TString, None), (''fallback'', TBool, Some (VB False)),
       (''creation_statement'', TString, None),
       (''revocation_statement'', TString, Some (VS [])),
       (''rollback_statement'', TString, Some (VS [])),
       (''renewal_statement'', TString, Some (VS [])), (''max_credentials'', TInt, Some (VI 0))],
     pt_ops = [(CreateOp, HRoleCreate), (ReadOp, HRoleRead), (UpdateOp, HRoleUpdate),
       (DeleteOp, HRoleDelete)]\<rparr>"

definition pathRoleList :: path where
  "pathRoleList = \<lparr>pt_lit = ''roles'', pt_name = None,
     pt_fields = [],
     pt_ops = [(ListOp, HRoleListHandler)]\<rparr>"

definition pathRoleListV1 :: path where
  "pathRoleListV1 = \<lparr>pt_lit = ''v1/roles'', pt_name = None,
     pt_fields = [],
     pt_ops = [(ListOp, HRoleListHandler)]\<rparr>"

definition pathStatements :: path where
  "pathStatements = \<lparr>pt_lit = ''statements/'', pt_name = Some ''name'',
     pt_fields = [(''name'', TString, None), (''creation_statement'', TString, None),
       (''revocation_statement'', TString, None), (''rollback_statement'', TString, None),
       (''renewal_statement'', TString, None)],
     pt_ops = [(CreateOp, HStatementWrite), (ReadOp, HStatementRead), (UpdateOp, HStatementWrite),
       (DeleteOp, HStatementDelete)]\<rparr>"

definition pathStatementList :: path where
  "pathStatementList = \<lparr>pt_lit = ''statements'', pt_name = None,
     pt_fields = [],
     pt_ops = [(ListOp, HStatementListHandler)]\<rparr>"

definition pathRotateRoot :: path where
  "pathRotateRoot = \<lparr>pt_lit = ''rotate-root'', pt_name = None,
     pt_fields = [],
     pt_ops = [(UpdateOp, HRotateRootHandler)]\<rparr>"

definition pathRotateRootV1 :: path where
  "pathRotateRootV1 = \<lparr>pt_lit = ''v1/rotate-root'', pt_name = None,
     pt_fields = [],
     pt_ops = [(UpdateOp, HRotateRootHandler)]\<rparr>"

definition pathCreds :: path where
  "pathCreds = \<lparr>pt_lit = ''creds/'', pt_name = Some ''name'',
     pt_fields = [(''name'', TString, None), (''region'', TString, None)],
     pt_ops = [(ReadOp, HCredsRead)]\<rparr>"

definition pathCredsV1 :: path where
  "pathCredsV1 = \<lparr>pt_lit = ''v1/creds/'', pt_name = Some ''name'',
     pt_fields = [(''name'', TString, None)],
     pt_ops = [(ReadOp, HCredsRead)]\<rparr>"

definition pathCredsBatch :: path where
  "pathCredsBatch = \<lparr>pt_lit = ''creds/batch/'', pt_name = Some ''name'',
     pt_fields = [(''name'', TString, None), (''count'', TInt, None), (''region'', TString, None)],
     pt_ops = [(ReadOp, HCredsBatchRead)]\<rparr>"

definition pathRenewCreds :: path where
  "pathRenewCreds = \<lparr>pt_lit = ''renew-cred/'', pt_name = Some ''username'',
     pt_fields = [(''username'', TString, None)],
     pt_ops = [(UpdateOp, HRenewCredsHandler)]\<rparr>"

definition pathRenewCredsBatch :: path where
  "pathRenewCredsBatch = \<lparr>pt_lit = ''renew-cred/batch/'', pt_name = Some ''name'',
     pt_fields = [(''name'', TString, None), (''count'', TInt, None), (''usernames'', TList, None)],
     pt_ops = [(UpdateOp, HRenewCredsBatchHandler)]\<rparr>"

definition pathRevokeCreds :: path where
  "pathRevokeCreds = \<lparr>pt_lit = ''revoke-cred/'', pt_name = Some ''username'',
     pt_fields = [(''username'', TString, None)],
     pt_ops = [(DeleteOp, HRevokeCredsHandler)]\<rparr>"

definition pathBulkRevokeCreds :: path where
  "pathBulkRevokeCreds = \<lparr>pt_lit = ''bulk-revoke-creds'', pt_name = None,
     pt_fields = [(''usernames'', TList, None)],
     pt_ops = [(UpdateOp, HBulkRevokeCredsHandler)]\<rparr>"

definition pathBulkRevokeByRole :: path where
  "pathBulkRevokeByRole = \<lparr>pt_lit = ''bulk-revoke-creds/role/'', pt_name = Some ''role'',
     pt_fields = [(''role'', TString, None)],
     pt_ops = [(DeleteOp, HBulkRevokeByRoleHandler)]\<rparr>"

definition pathRevokeAllCreds :: path where
  "pathRevokeAllCreds = \<lparr>pt_lit = ''bulk-revoke-creds/all'', pt_name = None,
     pt_fields = [],
     pt_ops = [(DeleteOp, HRevokeAllCredsHandler)]\<rparr>"

definition pathLeases :: path where
  "pathLeases = \<lparr>pt_lit = ''leases'', pt_name = None,
     pt_fields = [],
     pt_ops = [(ListOp, HLeasesList)]\<rparr>"

definition pathLeaseInfo :: path where
  "pathLeaseInfo = \<lparr>pt_lit = ''leases/'', pt_name = Some ''lease_id'',
     pt_fields = [(''lease_id'', TString, None)],
     pt_ops = [(ReadOp, HLeaseInfoRead)]\<rparr>"

definition pathCleanupExpired :: path where
  "pathCleanupExpired = \<lparr>pt_lit = ''leases/cleanup'', pt_name = None,
     pt_fields = [],
     pt_ops = [(UpdateOp, HCleanupExpiredHandler)]\<rparr>"

definition pathLeaseLookup :: path where
  "pathLeaseLookup = \<lparr>pt_lit = ''lookup-lease'', pt_name = None,
     pt_fields = [(''lease_id'', TString, None)],
     pt_ops = [(UpdateOp, HLeaseLookupHandler)]\<rparr>"

definition pathExtendLease :: path where
  "pathExtendLease = \<lparr>pt_lit = ''leases/extend/'', pt_name = Some ''lease_id'',
     pt_fields = [(''lease_id'', TString, None), (''ttl'', TInt, None)],
     pt_ops = [(UpdateOp, HExtendLeaseHandler)]\<rparr>"

definition pathStaticRoles :: path where
  "pathStaticRoles = \<lparr>pt_lit = ''static-roles/'', pt_name = Some ''name'',
     pt_fields = [(''name'', TString, None), (''username'', TString, None), (''db_name'', TString, None),
       (''rotation_period'', TInt, Some (VI 0)), (''rotation_schedule'', TString, None),
       (''rotation_window'', TInt, Some (VI 3600)), (''rotation_statements'', TList, None)],
     pt_ops = [(CreateOp, HStaticRoleCreate), (ReadOp, HStaticRoleRead),
       (UpdateOp, HStaticRoleUpdate), (DeleteOp, HStaticRoleDelete)]\<rparr>"

definition pathStaticRoleList :: path where
  "pathStaticRoleList = \<lparr>pt_lit = ''static-roles'', pt_name = None,
     pt_fields = [],
     pt_ops = [(ListOp, HStaticRoleListHandler)]\<rparr>"

definition pathStaticCreds :: path where
  "pathStaticCreds = \<lparr>pt_lit = ''static-creds/'', pt_name = Some ''name'',
     pt_fields = [(''name'', TString, None)],
     pt_ops = [(ReadOp, HStaticCredsRead)]\<rparr>"

definition pathRotateStaticRole :: path where
  "pathRotateStaticRole = \<lparr>pt_lit = ''rotate-role/'', pt_name = Some ''name'',
     pt_fields = [(''name'', TString, None)],
     pt_ops = [(UpdateOp, HRotateStaticRoleHandler)]\<rparr>"

definition pathHealth :: path where
  "pathHealth = \<lparr>pt_lit = ''health'', pt_name = None,
     pt_fields = [],
     pt_ops = [(ReadOp, HHealthRead)]\<rparr>"

definition pathReadiness :: path where
  "pathReadiness = \<lparr>pt_lit = ''readiness'', pt_name = None,
     pt_fields = [],
     pt_ops = [(ReadOp, HReadinessRead)]\<rparr>"

definition pathLiveness :: path where
  "pathLiveness = \<lparr>pt_lit = ''liveness'', pt_name = None,
     pt_fields = [],
     pt_ops = [(ReadOp, HLivenessRead)]\<rparr>"

definition pathDegradation :: path where
  "pathDegradation = \<lparr>pt_lit = ''degradation'', pt_name = None,
     pt_fields = [(''enabled'', TBool, None)],
     pt_ops = [(ReadOp, HDegradationRead), (UpdateOp, HDegradationUpdate),
       (CreateOp, HDegradationUpdate)]\<rparr>"

definition pathVersion :: path where
  "pathVersion = \<lparr>pt_lit = ''version'', pt_name = None,
     pt_fields = [],
     pt_ops = [(ReadOp, HVersionRead)]\<rparr>"

definition pathAPIVersion :: path where
  "pathAPIVersion = \<lparr>pt_lit = ''api-version'', pt_name = None,
     pt_fields = [],
     pt_ops = [(ReadOp, HAPIVersionRead)]\<rparr>"

definition pathInfo :: path where
  "pathInfo = \<lparr>pt_lit = ''info'', pt_name = None,
     pt_fields = [],
     pt_ops = [(ReadOp, HInfoRead)]\<rparr>"

definition pathPoolStats :: path where
  "pathPoolStats = \<lparr>pt_lit = ''pool-stats'', pt_name = None,
     pt_fields = [],
     pt_ops = [(ReadOp, HPoolStatsRead)]\<rparr>"

definition pathMetrics :: path where
  "pathMetrics = \<lparr>pt_lit = ''metrics'', pt_name = None,
     pt_fields = [],
     pt_ops = [(ReadOp, HMetricsRead)]\<rparr>"

definition pathRateLimitConfig :: path where
  "pathRateLimitConfig = \<lparr>pt_lit = ''rate-limit/config'', pt_name = None,
     pt_fields = [(''enabled'', TBool, None), (''requests_per_second'', TFloat, None),
       (''burst_size'', TInt, None)],
     pt_ops = [(ReadOp, HRateLimitConfigRead), (UpdateOp, HRateLimitConfigWrite)]\<rparr>"

definition pathRateLimitStatus :: path where
  "pathRateLimitStatus = \<lparr>pt_lit = ''rate-limit/status'', pt_name = None,
     pt_fields = [],
     pt_ops = [(ReadOp, HRateLimitStatusRead)]\<rparr>"

definition paths :: "path list" where
  "paths = [pathConfig, pathConfigList, pathConfigReset, pathConfigReload, pathConfigV1, pathConfigBackup, pathConfigRestore, pathReloadConfig, pathReloadConfigV1, pathReloadPlugin, pathWebhook, pathRoles, pathRolesV1, pathRoleList, pathRoleListV1, pathStatements, pathStatementList, pathRotateRoot, pathRotateRootV1, pathCreds, pathCredsV1, pathCredsBatch, pathRenewCreds, pathRenewCredsBatch, pathRevokeCreds, pathBulkRevokeCreds, pathBulkRevokeByRole, pathRevokeAllCreds, pathLeases, pathLeaseInfo, pathCleanupExpired, pathLeaseLookup, pathExtendLease, pathStaticRoles, pathStaticRoleList, pathStaticCreds, pathRotateStaticRole, pathHealth, pathReadiness, pathLiveness, pathDegradation, pathVersion, pathAPIVersion, pathInfo, pathPoolStats, pathMetrics, pathRateLimitConfig, pathRateLimitStatus]"

text \<open>A request's path matches a pattern when it is the text, followed by a name where the pattern has
  one; \<open>N\<close> tells the names the framework's expression accepts. The match gives the captured field.\<close>

definition pattern_match :: "(string \<Rightarrow> bool) \<Rightarrow> path \<Rightarrow> string \<Rightarrow> (string \<times> fval) list option" where
  "pattern_match N pt p =
     (case pt_name pt of
        None \<Rightarrow> if p = pt_lit pt then Some [] else None
      | Some f \<Rightarrow> if take (length (pt_lit pt)) p = pt_lit pt \<and> N (drop (length (pt_lit pt)) p)
                 then Some [(f, VS (drop (length (pt_lit pt)) p))] else None)"

text \<open>The router of the framework is a parameter: \<open>route ps p\<close> is the position of the path that serves
  \<open>p\<close> with the captured fields. Its documented behaviour is that the first matching pattern serves,
  and that a generic name is a non-empty text of word characters, dots and hyphens, without a slash.\<close>

definition first_match :: "(string \<Rightarrow> bool) \<Rightarrow> (path list \<Rightarrow> string \<Rightarrow> (nat \<times> (string \<times> fval) list) option) \<Rightarrow> bool" where
  "first_match N route \<longleftrightarrow>
     (\<forall>ps p i caps. route ps p = Some (i, caps) \<longrightarrow>
        i < length ps \<and> pattern_match N (ps ! i) p = Some caps \<and> (\<forall>j<i. pattern_match N (ps ! j) p = None))"

definition word_names :: "(string \<Rightarrow> bool) \<Rightarrow> bool" where
  "word_names N \<longleftrightarrow> (\<forall>s. N s \<longrightarrow> CHR ''/'' \<notin> set s) \<and>
     (\<forall>s. s \<noteq> [] \<longrightarrow> set s \<subseteq> set ''abcdefghijklmnopqrstuvwxyz'' \<longrightarrow> N s)"

lemma length_paths: "length paths = 48"
  by (simp add: paths_def)

definition shadowed :: "handler list" where
  "shadowed = [HConfigBackupRead, HConfigRestoreWrite, HReloadPluginHandler, HCleanupExpiredHandler]"

lemma where_shadowed:
  "list_all (\<lambda>i. list_all (\<lambda>(op, h). h \<in> set shadowed \<longrightarrow> i \<in> {5, 6, 9, 30}) (pt_ops (paths ! i))) [0..<48]"
  by code_simp

lemma literal_match:
  "pt_name pt = None \<Longrightarrow> pattern_match N pt p = Some caps \<Longrightarrow> p = pt_lit pt"
  by (simp add: pattern_match_def split: if_splits)

lemma named_match:
  "pt_name pt = Some f \<Longrightarrow> p = pt_lit pt @ n \<Longrightarrow> N n \<Longrightarrow> pattern_match N pt p \<noteq> None"
  by (simp add: pattern_match_def)

lemma paths_nth:
  "paths ! 0 = pathConfig" "paths ! 3 = pathConfigReload" "paths ! 5 = pathConfigBackup"
  "paths ! 6 = pathConfigRestore" "paths ! 9 = pathReloadPlugin" "paths ! 29 = pathLeaseInfo"
  "paths ! 30 = pathCleanupExpired"
  by (simp_all add: paths_def)

lemma word_name: "word_names N \<Longrightarrow> s \<noteq> [] \<Longrightarrow> set s \<subseteq> set ''abcdefghijklmnopqrstuvwxyz'' \<Longrightarrow> N s"
  unfolding word_names_def by blast

lemma shadows:
  assumes "word_names N"
  shows "pattern_match N (paths ! 0) (pt_lit (paths ! 5)) \<noteq> None" "pattern_match N (paths ! 0) (pt_lit (paths ! 6)) \<noteq> None"
    "pattern_match N (paths ! 3) (pt_lit (paths ! 9)) \<noteq> None" "pattern_match N (paths ! 29) (pt_lit (paths ! 30)) \<noteq> None"
  unfolding paths_nth
  by (rule named_match [OF _ _ word_name [OF assms]],
    simp add: pathConfig_def pathConfigReload_def pathLeaseInfo_def,
    simp add: pathConfig_def pathConfigReload_def pathLeaseInfo_def pathConfigBackup_def pathConfigRestore_def
      pathReloadPlugin_def pathCleanupExpired_def, simp, simp)+

lemma shadowed_never_run:
  assumes "first_match N route" and "word_names N"
    and "route paths p = Some (i, caps)" and "(op, h) \<in> set (pt_ops (paths ! i))"
  shows "h \<notin> {HConfigBackupRead, HConfigRestoreWrite, HReloadPluginHandler, HCleanupExpiredHandler}"
proof
  assume h: "h \<in> {HConfigBackupRead, HConfigRestoreWrite, HReloadPluginHandler, HCleanupExpiredHandler}"
  from assms(1,3) have i: "i < 48" "pattern_match N (paths ! i) p = Some caps"
    "\<forall>j<i. pattern_match N (paths ! j) p = None"
    unfolding first_match_def length_paths [symmetric] by blast+
  with where_shadowed assms(4) h have which: "i \<in> {5, 6, 9, 30}"
    by (force simp: list_all_iff shadowed_def)
  then have "pt_name (paths ! i) = None"
    by (auto simp: paths_nth pathConfigBackup_def pathConfigRestore_def pathReloadPlugin_def pathCleanupExpired_def)
  from literal_match [OF this i(2)] have "p = pt_lit (paths ! i)" .
  with i(3) have "\<forall>j<i. pattern_match N (paths ! j) (pt_lit (paths ! i)) = None" by simp
  with which shadows [OF assms(2)] show False by auto
qed

text \<open>C14. Four callbacks are never run, whatever is requested: those that take a backup, restore one, reload
  the plugin and remove the expired credentials. The patterns of their paths are taken by \<open>config/<name>\<close>,
  \<open>reload/<plugin_name>\<close> and \<open>leases/<lease_id>\<close>, which come first in the table.\<close>
theorem shadowed_callbacks_never_run:
  assumes "first_match N route" and "word_names N"
    and "route paths p = Some (i, caps)" and "(op, h) \<in> set (pt_ops (paths ! i))"
  shows "h \<notin> {HConfigBackupRead, HConfigRestoreWrite, HReloadPluginHandler, HCleanupExpiredHandler}"
  by (rule shadowed_never_run [OF assms])

text \<open>A router that takes the first match, and the expression of the names.\<close>

definition first_route :: "(string \<Rightarrow> bool) \<Rightarrow> path list \<Rightarrow> string \<Rightarrow> (nat \<times> (string \<times> fval) list) option" where
  "first_route N ps p = (case dropWhile (\<lambda>i. pattern_match N (ps ! i) p = None) [0..<length ps] of
     [] \<Rightarrow> None | i # _ \<Rightarrow> map_option (Pair i) (pattern_match N (ps ! i) p))"

definition plain_name :: "string \<Rightarrow> bool" where
  "plain_name s \<longleftrightarrow> s \<noteq> [] \<and> CHR ''/'' \<notin> set s"

lemma first_route_first: "first_match N (first_route N)"
  unfolding first_match_def
proof (intro allI impI)
  fix ps p i caps
  assume r: "first_route N ps p = Some (i, caps)"
  let ?P = "\<lambda>i. pattern_match N (ps ! i) p = None"
  from r obtain rest where d: "dropWhile ?P [0..<length ps] = i # rest" and m: "pattern_match N (ps ! i) p = Some caps"
    by (auto simp: first_route_def split: list.splits option.splits)
  have split: "[0..<length ps] = takeWhile ?P [0..<length ps] @ i # rest" using d by (metis takeWhile_dropWhile_id)
  then have "i \<in> set [0..<length ps]" by (metis in_set_conv_decomp)
  then have i: "i < length ps" by simp
  have "j \<in> set (takeWhile ?P [0..<length ps])" if "j < i" for j
  proof -
    have "sorted ([0..<length ps])" by simp
    with split have s: "\<forall>y\<in>set rest. i \<le> y" by (metis sorted_append sorted_wrt.simps(2))
    from that i have "j \<in> set [0..<length ps]" by simp
    then have "j \<in> set (takeWhile ?P [0..<length ps] @ i # rest)" using split by metis
    with s that show ?thesis by auto
  qed
  then have "\<forall>j<i. ?P j" by (auto dest: set_takeWhileD)
  with i m show "i < length ps \<and> pattern_match N (ps ! i) p = Some caps \<and> (\<forall>j<i. pattern_match N (ps ! j) p = None)" by blast
qed

lemma plain_names: "word_names plain_name"
  by (auto simp: word_names_def plain_name_def)

theorem shadowed_callbacks_never_run_witness:
  "HConfigWrite \<notin> {HConfigBackupRead, HConfigRestoreWrite, HReloadPluginHandler, HCleanupExpiredHandler}"
proof (rule shadowed_callbacks_never_run [OF first_route_first plain_names])
  show "first_route plain_name paths ''config/restore'' = Some (0, [(''name'', VS ''restore'')])"
    by (simp add: first_route_def length_paths upt_rec [of 0] paths_nth pattern_match_def pathConfig_def plain_name_def)
  show "(CreateOp, HConfigWrite) \<in> set (pt_ops (paths ! 0))" by (simp add: paths_nth pathConfig_def)
qed

end
