(* ===== verification/Pool_Metrics.thy ===== *)
theory Pool_Metrics
  imports Operational
begin

text \<open>
  The metrics path and the summary of the pools (\<open>plugin/path_metrics.go\<close>), with \<open>UpdatePoolMetrics\<close> of
  \<open>storage/db_registry.go\<close>. The collectors of the imported package are written and never read, so a
  gauge is the value it is set to, and the text that the package writes is a parameter.

  The theorems show that the summary of the pools counts and adds up what the list of pools says, on
  which registries it panics, and what its verdict means.
\<close>

subsection \<open>The path\<close>

text \<open>The gauges of a pool: its name, its open, its idle and its active connections.\<close>

type_synonym gauges = "string \<times> int \<times> int \<times> int"

definition updateMetrics :: "'d driver \<Rightarrow> DBConnection \<Rightarrow> (('d, 's, 'z) world_scheme, gauges list) act" where
  "updateMetrics D c =
     (case dc_Database c of
        None \<Rightarrow> ret []
      | Some db \<Rightarrow> bnd (db_Stats D db) (\<lambda>stats.
          ret [(db_Name (dc_Config c), ds_Open stats, ds_Idle stats, ds_Open stats - ds_Idle stats)]))"

definition UpdatePoolMetrics :: "'d driver \<Rightarrow> DBRegistry \<Rightarrow> (('d, 's, 'z) world_scheme, gauges list) act" where
  "UpdatePoolMetrics D rg = fold_act (\<lambda>gs (name, c). bnd (updateMetrics D c) (\<lambda>g. ret (gs @ g))) [] (rg_connections rg)"

definition collectPoolMetrics :: "'d driver \<Rightarrow> (('d, 's, 'z) plugin_world_scheme, gauges list) act" where
  "collectPoolMetrics D = bnd (gets b_registry) (\<lambda>r. case r of None \<Rightarrow> ret [] | Some rg \<Rightarrow> UpdatePoolMetrics D rg)"

record writerResponse =
  wr_Writer :: string
  wr_headers :: "(string \<times> string list) list"
  wr_status :: int

definition newWriterResponse :: writerResponse where
  "newWriterResponse = \<lparr>wr_Writer = [], wr_headers = [], wr_status = 200\<rparr>"

definition WriteHeader :: "int \<Rightarrow> writerResponse \<Rightarrow> writerResponse" where
  "WriteHeader statusCode w = w\<lparr>wr_status := statusCode\<rparr>"

definition wr_Write :: "string \<Rightarrow> writerResponse \<Rightarrow> int \<times> writerResponse" where
  "wr_Write b w = (int (length b), w\<lparr>wr_Writer := wr_Writer w @ b\<rparr>)"

text \<open>\<open>text\<close> is what the handler of the imported package writes.\<close>

definition pathMetricsRead :: "'d driver \<Rightarrow> string \<Rightarrow> (('d, 's, 'z) plugin_world_scheme, hres) act" where
  "pathMetricsRead D text = bnd (collectPoolMetrics D) (\<lambda>_.
     let recorder = snd (wr_Write text newWriterResponse) in
     okH (data_response [(''format'', VS ''prometheus''), (''content'', VS (wr_Writer recorder))]))"

subsection \<open>The summary of the pools\<close>

record PoolMetrics =
  pm_Name :: string
  pm_OpenConnections :: int
  pm_IdleConnections :: int
  pm_ActiveConnections :: int
  pm_State :: string
  pm_LastHealthCheck :: int
  pm_HealthCheckErrors :: int
  pm_InUseConnections :: int
  pm_WaitQueueLength :: int
  pm_MaxOpenConnections :: int
  pm_MinConnections :: int
  pm_ConnectionTimeout :: int
  pm_IdleTimeout :: int
  pm_HealthCheckInterval :: int

record MetricsSummary =
  ms_TotalPools :: int
  ms_TotalOpenConns :: int
  ms_TotalIdleConns :: int
  ms_TotalActiveConns :: int
  ms_HealthyPools :: int
  ms_UnhealthyPools :: int
  ms_TotalHealthErrors :: int

record MetricsResponse =
  mr_Timestamp :: int
  mr_PoolMetrics :: "PoolMetrics list"
  mr_Summary :: MetricsSummary

definition state_name :: "ConnectionState \<Rightarrow> string" where
  "state_name state = (case state of StateHealthy \<Rightarrow> ''healthy'' | StateUnhealthy \<Rightarrow> ''unhealthy''
     | StateClosed \<Rightarrow> ''closed'' | StateUnknown \<Rightarrow> ''unknown'')"

text \<open>The body of the loop: the entry of one pool.\<close>

definition poolMetric :: "string \<Rightarrow> ConnectionState \<Rightarrow> int \<Rightarrow> int \<Rightarrow> go_err option \<Rightarrow> DBConnection option \<Rightarrow> PoolMetrics" where
  "poolMetric name state openConns idleConns err conn =
     (let bare = \<lparr>pm_Name = name, pm_OpenConnections = openConns, pm_IdleConnections = idleConns,
        pm_ActiveConnections = openConns - idleConns, pm_State = state_name state,
        pm_LastHealthCheck = zero_time, pm_HealthCheckErrors = (if err = None then 0 else 1),
        pm_InUseConnections = openConns - idleConns, pm_WaitQueueLength = 0, pm_MaxOpenConnections = 0,
        pm_MinConnections = 0, pm_ConnectionTimeout = 0, pm_IdleTimeout = 0, pm_HealthCheckInterval = 0\<rparr>
      in case conn of
        None \<Rightarrow> bare
      | Some c \<Rightarrow> bare\<lparr>pm_LastHealthCheck := dc_lastHealthCheck c,
          pm_MaxOpenConnections := db_MaxOpenConnections (dc_Config c),
          pm_MinConnections := db_MinConnections (dc_Config c),
          pm_ConnectionTimeout := db_ConnectionTimeout (dc_Config c),
          pm_IdleTimeout := db_IdleTimeout (dc_Config c),
          pm_HealthCheckInterval := db_HealthCheckInterval (dc_Config c)\<rparr>)"

text \<open>The variables the loop adds to: open, idle, active, errors, healthy and unhealthy.\<close>

definition collect_step :: "'d driver \<Rightarrow> DBRegistry \<Rightarrow> PoolMetrics list \<times> MetricsSummary \<Rightarrow> string
    \<Rightarrow> (('d, 's, 'z) world_scheme, PoolMetrics list \<times> MetricsSummary) act" where
  "collect_step D reg acc name = bnd (GetConnectionStats D name reg) (\<lambda>(state, openConns, idleConns, err).
     let ms = snd acc in
     ret (fst acc @ [poolMetric name state openConns idleConns err (GetConnection name reg)],
       ms\<lparr>ms_TotalOpenConns := ms_TotalOpenConns ms + openConns,
          ms_TotalIdleConns := ms_TotalIdleConns ms + idleConns,
          ms_TotalActiveConns := ms_TotalActiveConns ms + (openConns - idleConns),
          ms_HealthyPools := ms_HealthyPools ms + (if state = StateHealthy then 1 else 0),
          ms_UnhealthyPools := ms_UnhealthyPools ms + (if state = StateUnhealthy then 1 else 0),
          ms_TotalHealthErrors := ms_TotalHealthErrors ms + (if state = StateUnhealthy then 1 else 0)\<rparr>))"

definition CollectPoolMetricsForRegistry :: "'d driver \<Rightarrow> DBRegistry option
    \<Rightarrow> (('d, 's, 'z) world_scheme, MetricsResponse option) act" where
  "CollectPoolMetricsForRegistry D r =
     (case r of
        None \<Rightarrow> ret None
      | Some reg \<Rightarrow> bnd time_Now (\<lambda>now.
          let connectionNames = ListConnections reg in
          bnd (fold_act (collect_step D reg)
            ([], \<lparr>ms_TotalPools = int (length connectionNames), ms_TotalOpenConns = 0, ms_TotalIdleConns = 0,
              ms_TotalActiveConns = 0, ms_HealthyPools = 0, ms_UnhealthyPools = 0, ms_TotalHealthErrors = 0\<rparr>)
            connectionNames) (\<lambda>(pools, summary).
          ret (Some \<lparr>mr_Timestamp = now, mr_PoolMetrics = pools, mr_Summary = summary\<rparr>))))"

definition getHealthStatus :: "MetricsSummary \<Rightarrow> string" where
  "getHealthStatus s = (if ms_TotalPools s = 0 then ''uninitialized''
     else if ms_UnhealthyPools s > 0 then ''degraded''
     else if ms_HealthyPools s = ms_TotalPools s then ''healthy'' else ''unknown'')"

text \<open>The registry of the backend cannot be found from a request: the function returns nil for any.\<close>

definition getDBRegistryFromBackend :: "'r option \<Rightarrow> DBRegistry option" where
  "getDBRegistryFromBackend req = (case req of None \<Rightarrow> None | Some _ \<Rightarrow> None)"

definition getCacheStats :: "'r option \<Rightarrow> (string \<times> fval) list" where
  "getCacheStats req = [(''credential_cache'', VM [(''enabled'', VB True)]), (''query_cache'', VM [(''enabled'', VB True)])]"

text \<open>\<open>encode\<close> makes fields of the Go values that the framework serialises.\<close>

definition getDetailedPoolStats :: "'d driver \<Rightarrow> (MetricsResponse \<Rightarrow> (string \<times> fval) list) \<Rightarrow> 'r option
    \<Rightarrow> (('d, 's, 'z) world_scheme, hres) act" where
  "getDetailedPoolStats D encode req =
     (case getDBRegistryFromBackend req of
        None \<Rightarrow> failH (Errorf ''database registry not available'')
      | Some reg \<Rightarrow> bnd (CollectPoolMetricsForRegistry D (Some reg)) (\<lambda>m. case m of
          None \<Rightarrow> panic ''nil pointer dereference''
        | Some metricsResp \<Rightarrow> okH (data_response (encode metricsResp
            @ [(''health_status'', VS (getHealthStatus (mr_Summary metricsResp))), (''cache_stats'', VM (getCacheStats req))]))))"

subsection \<open>What the summary says\<close>

text \<open>The entry of a pool whose \<open>*sql.DB\<close> is there, and the addition of one entry to a summary.\<close>

definition pool_entry :: "'d driver \<Rightarrow> ('d, 's, 'z) world_scheme \<Rightarrow> string \<times> DBConnection \<Rightarrow> PoolMetrics" where
  "pool_entry D w nc = (let s = drv_stats D (the (dc_Database (snd nc))) (w_db w) in
     poolMetric (fst nc) (dc_state (snd nc)) (ds_Open s) (ds_Idle s) (dc_healthCheckErr (snd nc)) (Some (snd nc)))"

definition pools_in :: "ConnectionState \<Rightarrow> (string \<times> DBConnection) list \<Rightarrow> int" where
  "pools_in st cs = int (length (filter (\<lambda>nc. dc_state (snd nc) = st) cs))"

definition total_of :: "(PoolMetrics \<Rightarrow> int) \<Rightarrow> PoolMetrics list \<Rightarrow> int" where
  "total_of f ps = sum_list (map f ps)"

definition summarised :: "(string \<times> DBConnection) list \<Rightarrow> PoolMetrics list \<Rightarrow> MetricsSummary \<Rightarrow> MetricsSummary" where
  "summarised cs ps ms = ms\<lparr>ms_TotalOpenConns := ms_TotalOpenConns ms + total_of pm_OpenConnections ps,
     ms_TotalIdleConns := ms_TotalIdleConns ms + total_of pm_IdleConnections ps,
     ms_TotalActiveConns := ms_TotalActiveConns ms + total_of pm_ActiveConnections ps,
     ms_HealthyPools := ms_HealthyPools ms + pools_in StateHealthy cs,
     ms_UnhealthyPools := ms_UnhealthyPools ms + pools_in StateUnhealthy cs,
     ms_TotalHealthErrors := ms_TotalHealthErrors ms + pools_in StateUnhealthy cs\<rparr>"

lemma pool_entry_fields [simp]:
  "pm_Name (pool_entry D w nc) = fst nc"
  "pm_State (pool_entry D w nc) = state_name (dc_state (snd nc))"
  "pm_ActiveConnections (pool_entry D w nc) = pm_OpenConnections (pool_entry D w nc) - pm_IdleConnections (pool_entry D w nc)"
  "pm_OpenConnections (pool_entry D w nc) = ds_Open (drv_stats D (the (dc_Database (snd nc))) (w_db w))"
  "pm_IdleConnections (pool_entry D w nc) = ds_Idle (drv_stats D (the (dc_Database (snd nc))) (w_db w))"
  by (simp_all add: pool_entry_def poolMetric_def Let_def)

lemma collect_step_entry:
  assumes "map_of (rg_connections reg) (fst nc) = Some (snd nc)" and "dc_Database (snd nc) \<noteq> None"
  shows "collect_step D reg (ps, ms) (fst nc) w
    = (Ret (ps @ [pool_entry D w nc], summarised [nc] [pool_entry D w nc] ms), w)"
  using assms
  by (auto simp: collect_step_def GetConnectionStats_def GetConnection_def db_Stats_def bnd_def gets_def ret_def
      pool_entry_def summarised_def total_of_def pools_in_def poolMetric_def Let_def)

lemma summarised_Cons:
  "summarised cs ps (summarised [c] [p] ms) = summarised (c # cs) (p # ps) ms"
  by (simp add: summarised_def total_of_def pools_in_def)

lemma collect_all:
  assumes "\<forall>nc \<in> set cs. map_of (rg_connections reg) (fst nc) = Some (snd nc) \<and> dc_Database (snd nc) \<noteq> None"
  shows "fold_act (collect_step D reg) (ps, ms) (map fst cs) w
    = (Ret (ps @ map (pool_entry D w) cs, summarised cs (map (pool_entry D w) cs) ms), w)"
  using assms
proof (induction cs arbitrary: ps ms)
  case Nil
  then show ?case by (simp add: ret_def summarised_def total_of_def pools_in_def)
next
  case (Cons nc cs)
  then have "collect_step D reg (ps, ms) (fst nc) w
      = (Ret (ps @ [pool_entry D w nc], summarised [nc] [pool_entry D w nc] ms), w)"
    by (intro collect_step_entry) simp_all
  with Cons show ?case by (simp add: bnd_def summarised_Cons)
qed

lemma registry_lookup:
  assumes "registry_ok reg"
  shows "\<forall>nc \<in> set (rg_connections reg). map_of (rg_connections reg) (fst nc) = Some (snd nc) \<and> dc_Database (snd nc) \<noteq> None"
  using assms by (auto simp: registry_ok_def dbc_ok_def)

lemma pool_entry_cong: "w_db w = w_db w' \<Longrightarrow> pool_entry D w = pool_entry D w'"
  by (simp add: pool_entry_def fun_eq_iff)

definition no_pools :: "(string \<times> DBConnection) list \<Rightarrow> MetricsSummary" where
  "no_pools cs = \<lparr>ms_TotalPools = int (length cs), ms_TotalOpenConns = 0, ms_TotalIdleConns = 0,
     ms_TotalActiveConns = 0, ms_HealthyPools = 0, ms_UnhealthyPools = 0, ms_TotalHealthErrors = 0\<rparr>"

definition metrics_of :: "'d driver \<Rightarrow> ('d, 's, 'z) world_scheme \<Rightarrow> DBRegistry \<Rightarrow> int \<Rightarrow> MetricsResponse" where
  "metrics_of D w reg t = (let ps = map (pool_entry D w) (rg_connections reg) in
     \<lparr>mr_Timestamp = t, mr_PoolMetrics = ps,
      mr_Summary = summarised (rg_connections reg) ps (no_pools (rg_connections reg))\<rparr>)"

lemma CollectPoolMetrics_value:
  fixes w :: "('d, 's, 'z) world_scheme"
  assumes "registry_ok reg"
  shows "\<exists>t w'. CollectPoolMetricsForRegistry D (Some reg) w = (Ret (Some (metrics_of D w reg t)), w')"
proof -
  obtain t w' where t: "time_Now w = (Ret t, w')" "w_db w' = w_db w"
    by (simp add: time_Now_def tick_def bnd_def gets_def ret_def modify_def seq_def Let_def)
  show ?thesis
    using collect_all [OF registry_lookup [OF assms], of D "[]" _ w'] pool_entry_cong [OF t(2), of D]
    by (simp add: CollectPoolMetricsForRegistry_def bnd_def t ListConnections_def ret_def Let_def metrics_of_def no_pools_def)
qed

text \<open>The verdict about a registry: each word is given exactly when it fits.\<close>

lemma pools_in_nonneg: "0 \<le> pools_in st cs"
  by (simp add: pools_in_def)

lemma pools_in_pos: "0 < pools_in st cs \<longleftrightarrow> (\<exists>nc \<in> set cs. dc_state (snd nc) = st)"
  by (simp add: pools_in_def filter_empty_conv)

lemma pools_in_all: "pools_in st cs = int (length cs) \<longleftrightarrow> (\<forall>nc \<in> set cs. dc_state (snd nc) = st)"
proof
  assume all: "pools_in st cs = int (length cs)"
  show "\<forall>nc \<in> set cs. dc_state (snd nc) = st"
  proof (rule ccontr)
    assume "\<not> (\<forall>nc \<in> set cs. dc_state (snd nc) = st)"
    then obtain nc where "nc \<in> set cs" "dc_state (snd nc) \<noteq> st" by blast
    from length_filter_less [of nc cs "\<lambda>nc. dc_state (snd nc) = st", OF this] all show False
      by (simp add: pools_in_def)
  qed
qed (simp add: pools_in_def)

lemma health_verdicts:
  assumes "ms_TotalPools ms = int (length cs)" "ms_HealthyPools ms = pools_in StateHealthy cs"
    "ms_UnhealthyPools ms = pools_in StateUnhealthy cs"
  shows "getHealthStatus ms = ''degraded'' \<longleftrightarrow> (\<exists>nc \<in> set cs. dc_state (snd nc) = StateUnhealthy)" (is ?degraded)
    and "getHealthStatus ms = ''healthy'' \<longleftrightarrow> cs \<noteq> [] \<and> (\<forall>nc \<in> set cs. dc_state (snd nc) = StateHealthy)" (is ?healthy)
proof -
  have none: "pools_in StateUnhealthy cs = 0" if "\<not> (\<exists>nc \<in> set cs. dc_state (snd nc) = StateUnhealthy)"
    using that pools_in_pos [of StateUnhealthy cs] pools_in_nonneg [of StateUnhealthy cs] by linarith
  show ?degraded
    using assms none pools_in_pos [of StateUnhealthy cs]
    by (cases "\<exists>nc \<in> set cs. dc_state (snd nc) = StateUnhealthy")
      (simp_all only: getHealthStatus_def length_greater_0_conv, auto)
  show ?healthy
  proof (cases "\<exists>nc \<in> set cs. dc_state (snd nc) = StateUnhealthy")
    case True
    with assms pools_in_pos [of StateUnhealthy cs] have "getHealthStatus ms \<noteq> ''healthy''"
      by (simp add: getHealthStatus_def)
    with True show ?thesis by force
  next
    case False
    have "getHealthStatus ms = ''healthy'' \<longleftrightarrow> cs \<noteq> [] \<and> pools_in StateHealthy cs = int (length cs)"
      by (simp add: getHealthStatus_def assms none [OF False])
    then show ?thesis by (simp add: pools_in_all)
  qed
qed



text \<open>The detailed statistics can never be had, whatever the state of the pools.\<close>

lemma getDetailedPoolStats_fails:
  "getDetailedPoolStats D encode req w = (Ret (Inl (Errorf ''database registry not available'', None)), w)"
  by (cases req) (simp_all add: getDetailedPoolStats_def getDBRegistryFromBackend_def failH_def ret_def)

text \<open>Reading the metrics changes nothing the program looks at.\<close>

lemma keeps_UpdatePoolMetrics: "keeps I (UpdatePoolMetrics D rg)"
  unfolding UpdatePoolMetrics_def updateMetrics_def db_Stats_def by (intro keeps_rules)

lemma keeps_pathMetricsRead: "keeps I (pathMetricsRead D text)"
  unfolding pathMetricsRead_def collectPoolMetrics_def okH_def Let_def
  by (intro keeps_rules keeps_UpdatePoolMetrics)

end
