(* ===== verification/Server.thy ===== *)
theory Server
  imports Routes Pool_Metrics
begin

text \<open>
  The plugin as a whole (\<open>plugin/backend.go\<close>): \<open>Setup\<close>, one request from the rate limiter to the callback,
  the background jobs, and the states that requests and jobs can reach. A request is atomic: requests
  that run at the same time are taken one after the other.

  What OpenBao's framework does between \<open>HandleRequest\<close> and the callback is the record
  \<open>framework\<close>: the router, the check of the request data against the schema, the reading of a field,
  and its answer when no callback runs; with it come the text of the Prometheus metrics and the encoding of backups.
\<close>

record request =
  rq_Operation :: operation
  rq_Path :: string
  rq_Data :: "(string \<times> fval) list"
  rq_Addr :: "string option"

type_synonym schema = "(string \<times> ftype \<times> fval option) list"

record framework =
  fw_route :: "path list \<Rightarrow> string \<Rightarrow> (nat \<times> (string \<times> fval) list) option"
  fw_valid :: "schema \<Rightarrow> (string \<times> fval) list \<Rightarrow> bool"
  fw_get :: "schema \<Rightarrow> (string \<times> fval) list \<Rightarrow> string \<Rightarrow> fval option"
  fw_answer :: "request \<Rightarrow> hres"
  fw_metrics :: string
  fw_json :: codec

subsection \<open>Setting up and shutting down\<close>

definition Setup :: "('d, 's) env \<Rightarrow> (('d, 's, 'l, 'z) server_world_scheme, go_err + unit) act" where
  "Setup E =
     seq new_registry
    (seq (modify (\<lambda>w. w\<lparr>b_credCache := Some (newCredentialCache cache_ttl 10000),
       b_queryCache := Some (newQueryResultCache cache_ttl 1000)\<rparr>))
    (seq (modify (\<lambda>w. w\<lparr>b_rateLimiter := Some (NewRateLimiter DefaultRateLimitConfig True)\<rparr>))
    (bndE (prewarmPools E) (wrapped ''failed to prewarm connection pools'') (\<lambda>_. ret (Inr ())))))"

definition close_limiter :: "(('d, 's, 'l, 'z) server_world_scheme, unit) act" where
  "close_limiter w = (case b_rateLimiter w of
       None \<Rightarrow> (Ret (), w)
     | Some rl \<Rightarrow> (case limiter_Close rl of
         Ret rl' \<Rightarrow> (Ret (), w\<lparr>b_rateLimiter := Some rl'\<rparr>)
       | Panic s \<Rightarrow> (Panic s, w)
       | Block \<Rightarrow> (Block, w)))"

definition backend_Shutdown :: "('d, 's) env \<Rightarrow> (('d, 's, 'l, 'z) server_world_scheme, unit) act" where
  "backend_Shutdown E =
     seq (shutdown_registry E) (seq close_cred_cache (seq close_query_cache close_limiter))"

subsection \<open>Serving a request\<close>

definition raw_string :: "(string \<times> fval) list \<Rightarrow> string \<Rightarrow> string option" where
  "raw_string raw k = (case map_of raw k of Some (VS s) \<Rightarrow> Some s | _ \<Rightarrow> None)"

definition raw_int :: "(string \<times> fval) list \<Rightarrow> string \<Rightarrow> int option" where
  "raw_int raw k = (case map_of raw k of Some (VI n) \<Rightarrow> Some n | _ \<Rightarrow> None)"

definition raw_bool :: "(string \<times> fval) list \<Rightarrow> string \<Rightarrow> bool option" where
  "raw_bool raw k = (case map_of raw k of Some (VB b) \<Rightarrow> Some b | _ \<Rightarrow> None)"

definition raw_list :: "(string \<times> fval) list \<Rightarrow> string \<Rightarrow> string list option" where
  "raw_list raw k = (case map_of raw k of Some (VL l) \<Rightarrow> Some l | _ \<Rightarrow> None)"

definition raw_map :: "(string \<times> fval) list \<Rightarrow> string \<Rightarrow> (string \<times> fval) list option" where
  "raw_map raw k = (case map_of raw k of Some (VM m) \<Rightarrow> Some m | _ \<Rightarrow> None)"

definition field_data :: "framework \<Rightarrow> schema \<Rightarrow> (string \<times> fval) list \<Rightarrow> FieldData" where
  "field_data F sch raw = \<lparr>fd_Get = fw_get F sch raw, fd_session = raw_map raw ''session_variables''\<rparr>"

definition static_raw_of :: "(string \<times> fval) list \<Rightarrow> static_raw" where
  "static_raw_of raw = \<lparr>ra_db_name = raw_string raw ''db_name'', ra_rotation_period = raw_int raw ''rotation_period'',
     ra_rotation_schedule = raw_string raw ''rotation_schedule'', ra_rotation_window = raw_int raw ''rotation_window'',
     ra_rotation_statements = raw_list raw ''rotation_statements''\<rparr>"

text \<open>The callbacks. \<open>GetOk\<close> of the user names gives the field when the request has it.\<close>

fun run_handler :: "framework \<Rightarrow> ('d, 's) env \<Rightarrow> ctx \<Rightarrow> schema \<Rightarrow> (string \<times> fval) list \<Rightarrow> handler
    \<Rightarrow> (('d, 's, 'l, 'z) server_world_scheme, hres) act" where
  "run_handler F E ctx sch raw HConfigWrite = pathConfigWrite E (field_data F sch raw)"
| "run_handler F E ctx sch raw HConfigRead = pathConfigRead E (field_data F sch raw)"
| "run_handler F E ctx sch raw HConfigDelete = pathConfigDelete E (field_data F sch raw)"
| "run_handler F E ctx sch raw HConfigListHandler = pathConfigListHandler E"
| "run_handler F E ctx sch raw HConfigResetHandler = pathConfigResetHandler E (field_data F sch raw)"
| "run_handler F E ctx sch raw HConfigReloadHandler = pathConfigReloadHandler E (field_data F sch raw)"
| "run_handler F E ctx sch raw HConfigBackupRead = pathConfigBackupRead (fw_json F) E"
| "run_handler F E ctx sch raw HConfigRestoreWrite = pathConfigRestoreWrite (fw_json F) E (field_data F sch raw)"
| "run_handler F E ctx sch raw HReloadConfigHandler =
     pathReloadConfigHandler E (case raw_string raw ''region'' of Some r \<Rightarrow> r | None \<Rightarrow> [])"
| "run_handler F E ctx sch raw HReloadPluginHandler = pathReloadPluginHandler E"
| "run_handler F E ctx sch raw HWebhookWrite = pathWebhookWrite E (field_data F sch raw)"
| "run_handler F E ctx sch raw HWebhookRead = pathWebhookRead E"
| "run_handler F E ctx sch raw HWebhookDelete = pathWebhookDelete E"
| "run_handler F E ctx sch raw HRoleCreate = pathRoleCreate E ctx (field_data F sch raw)"
| "run_handler F E ctx sch raw HRoleRead = pathRoleRead E (field_data F sch raw)"
| "run_handler F E ctx sch raw HRoleUpdate = pathRoleUpdate E ctx (field_data F sch raw)"
| "run_handler F E ctx sch raw HRoleDelete = pathRoleDelete E ctx (field_data F sch raw)"
| "run_handler F E ctx sch raw HRoleListHandler = pathRoleListHandler E"
| "run_handler F E ctx sch raw HStatementWrite = pathStatementWrite E (field_data F sch raw)"
| "run_handler F E ctx sch raw HStatementRead = pathStatementRead E (field_data F sch raw)"
| "run_handler F E ctx sch raw HStatementDelete = pathStatementDelete E (field_data F sch raw)"
| "run_handler F E ctx sch raw HStatementListHandler = pathStatementListHandler E"
| "run_handler F E ctx sch raw HRotateRootHandler = pathRotateRootHandler E ctx"
| "run_handler F E ctx sch raw HCredsRead = pathCredsRead E ctx (field_data F sch raw)"
| "run_handler F E ctx sch raw HCredsBatchRead = pathCredsBatchRead E ctx (field_data F sch raw)"
| "run_handler F E ctx sch raw HRenewCredsHandler = pathRenewCredsHandler E ctx (field_data F sch raw)"
| "run_handler F E ctx sch raw HRenewCredsBatchHandler = pathRenewCredsBatchHandler E ctx (field_data F sch raw)"
| "run_handler F E ctx sch raw HRevokeCredsHandler = pathRevokeCredsHandler E ctx (field_data F sch raw)"
| "run_handler F E ctx sch raw HBulkRevokeCredsHandler = pathBulkRevokeCredsHandler E ctx
     (if map_of raw ''usernames'' = None then None else fw_get F sch raw ''usernames'')"
| "run_handler F E ctx sch raw HBulkRevokeByRoleHandler = pathBulkRevokeByRoleHandler E ctx (field_data F sch raw)"
| "run_handler F E ctx sch raw HRevokeAllCredsHandler = pathRevokeAllCredsHandler E ctx"
| "run_handler F E ctx sch raw HLeasesList = pathLeasesList E"
| "run_handler F E ctx sch raw HLeaseInfoRead = pathLeaseInfoRead E (field_data F sch raw)"
| "run_handler F E ctx sch raw HCleanupExpiredHandler = pathCleanupExpiredHandler E ctx"
| "run_handler F E ctx sch raw HLeaseLookupHandler = pathLeaseLookupHandler E (field_data F sch raw)"
| "run_handler F E ctx sch raw HExtendLeaseHandler = pathExtendLeaseHandler E (field_data F sch raw)"
| "run_handler F E ctx sch raw HStaticRoleCreate = pathStaticRoleCreate E ctx (field_data F sch raw)"
| "run_handler F E ctx sch raw HStaticRoleRead = pathStaticRoleRead E (field_data F sch raw)"
| "run_handler F E ctx sch raw HStaticRoleUpdate =
     pathStaticRoleUpdate E (field_data F sch raw) (static_raw_of raw)"
| "run_handler F E ctx sch raw HStaticRoleDelete = pathStaticRoleDelete E ctx (field_data F sch raw)"
| "run_handler F E ctx sch raw HStaticRoleListHandler = pathStaticRoleListHandler E"
| "run_handler F E ctx sch raw HStaticCredsRead = pathStaticCredsRead E (field_data F sch raw)"
| "run_handler F E ctx sch raw HRotateStaticRoleHandler = pathRotateStaticRoleHandler E ctx (field_data F sch raw)"
| "run_handler F E ctx sch raw HHealthRead = pathHealthRead E"
| "run_handler F E ctx sch raw HReadinessRead = pathReadinessRead E"
| "run_handler F E ctx sch raw HLivenessRead = pathLivenessRead"
| "run_handler F E ctx sch raw HDegradationRead = pathDegradationRead E"
| "run_handler F E ctx sch raw HDegradationUpdate = pathDegradationUpdate E (field_data F sch raw)"
| "run_handler F E ctx sch raw HVersionRead = pathVersionRead"
| "run_handler F E ctx sch raw HAPIVersionRead = pathAPIVersionRead"
| "run_handler F E ctx sch raw HInfoRead = pathInfoRead E"
| "run_handler F E ctx sch raw HPoolStatsRead = pathPoolStatsRead E"
| "run_handler F E ctx sch raw HMetricsRead = pathMetricsRead (e_D E) (fw_metrics F)"
| "run_handler F E ctx sch raw HRateLimitConfigRead = pathRateLimitConfigRead"
| "run_handler F E ctx sch raw HRateLimitConfigWrite = pathRateLimitConfigWrite (raw_bool raw ''enabled'')"
| "run_handler F E ctx sch raw HRateLimitStatusRead = pathRateLimitStatusRead"

definition serve :: "framework \<Rightarrow> ('d, 's) env \<Rightarrow> ctx \<Rightarrow> request
    \<Rightarrow> (('d, 's, 'l, 'z) server_world_scheme, hres) act" where
  "serve F E ctx req =
     (case fw_route F paths (rq_Path req) of
        None \<Rightarrow> ret (fw_answer F req)
      | Some (i, captured) \<Rightarrow>
          let pt = paths ! i; raw = captured @ rq_Data req in
          (case map_of (pt_ops pt) (rq_Operation req) of
             None \<Rightarrow> ret (fw_answer F req)
           | Some h \<Rightarrow>
               if fw_valid F (pt_fields pt) raw then run_handler F E ctx (pt_fields pt) raw h
               else ret (fw_answer F req)))"

definition HandleRequest :: "'l limiter_lib \<Rightarrow> framework \<Rightarrow> ('d, 's) env \<Rightarrow> ctx \<Rightarrow> request
    \<Rightarrow> (('d, 's, 'l, 'z) server_world_scheme, hres) act" where
  "HandleRequest L F E ctx req = bnd (RateLimit L (rq_Addr req) (rq_Path req)) (\<lambda>e. case e of
       Some err \<Rightarrow> failH err
     | None \<Rightarrow> serve F E ctx req)"

subsection \<open>Background jobs\<close>

text \<open>The ticks of the goroutines the backend starts: the health checks of the pools, and the clean-ups of
  the two caches and of the rate limiter.\<close>

datatype job = HealthChecks | CredentialCleanup | QueryCleanup | LimiterCleanup

fun run_job :: "('d, 's) env \<Rightarrow> job \<Rightarrow> (('d, 's, 'l, 'z) server_world_scheme, unit) act" where
  "run_job E HealthChecks = on_registry (\<lambda>rg. bnd (runHealthChecks (e_D E) rg) (\<lambda>rg'. ret ((), rg')))"
| "run_job E CredentialCleanup = bnd time_Now (\<lambda>t.
     modify (\<lambda>w. w\<lparr>b_credCache := map_option (cred_cleanupExpired t) (b_credCache w)\<rparr>))"
| "run_job E QueryCleanup = bnd time_Now (\<lambda>t.
     modify (\<lambda>w. w\<lparr>b_queryCache := map_option (query_cleanupExpired t) (b_queryCache w)\<rparr>))"
| "run_job E LimiterCleanup =
     modify (\<lambda>w. w\<lparr>b_rateLimiter := map_option limiter_cleanupExpired (b_rateLimiter w)\<rparr>)"

text \<open>What requests and jobs that return can make of a state.\<close>

inductive served :: "'l limiter_lib \<Rightarrow> framework \<Rightarrow> ('d, 's) env
    \<Rightarrow> ('d, 's, 'l, 'z) server_world_scheme \<Rightarrow> ('d, 's, 'l, 'z) server_world_scheme \<Rightarrow> bool"
  for L :: "'l limiter_lib" and F :: framework and E :: "('d, 's) env"
    and w0 :: "('d, 's, 'l, 'z) server_world_scheme" where
  start: "served L F E w0 w0"
| request: "served L F E w0 w \<Longrightarrow> HandleRequest L F E ctx req w = (Ret r, w') \<Longrightarrow> served L F E w0 w'"
| job: "served L F E w0 w \<Longrightarrow> run_job E j w = (Ret (), w') \<Longrightarrow> served L F E w0 w'"

end
