(* ===== verification/Backend_Invariant.thy ===== *)
theory Backend_Invariant
  imports Server
begin

text \<open>
  The invariant of the backend that every request and every job keeps: what storage holds passed the
  checks of the path that writes it, the registry's pools are well formed, the degradation knows when
  it began, and the credential cache agrees with storage.
\<close>

subsection \<open>Well-formed entries\<close>

definition config_ok_entry :: "('d, 's) env \<Rightarrow> Config \<Rightarrow> bool" where
  "config_ok_entry E cfg \<longleftrightarrow>
     connection_given E (cf_ConnectionString cfg) (cf_ConnectionURL cfg) = None
     \<and> session_check E (cf_SessionVariables cfg) = None \<and> first_failed (config_checks cfg) = None"

definition role_ok_entry :: "('d, 's) env \<Rightarrow> Role \<Rightarrow> bool" where
  "role_ok_entry E role \<longleftrightarrow>
     template_check E (ro_CreationStatement role) (ro_RevocationStatement role) (ro_RollbackStatement role)
       (ro_RenewalStatement role) = None
     \<and> session_check E (ro_SessionVariables role) = None \<and> ro_Version role = RoleVersion"

definition statement_ok_entry :: "('d, 's) env \<Rightarrow> Statement \<Rightarrow> bool" where
  "statement_ok_entry E st \<longleftrightarrow>
     template_check E (sm_CreationStatement st) (sm_RevocationStatement st) (sm_RollbackStatement st)
       (sm_RenewalStatement st) = None"

definition cred_ok_entry :: "('d, 's) env \<Rightarrow> Credential \<Rightarrow> bool" where
  "cred_ok_entry E c \<longleftrightarrow> cr_LeaseID c = lease_id (cr_RoleName c) (cr_Username c)
     \<and> odbc_ValidateUsername (e_U E) (cr_Username c) = None"

definition static_ok_entry :: "('d, 's) env \<Rightarrow> StaticRole \<Rightarrow> bool" where
  "static_ok_entry E sr \<longleftrightarrow> odbc_ValidateUsername (e_U E) (sr_Username sr) = None"

text \<open>The password of a static role is a generated one and is not checked again, so it is empty when the
  system's random source failed.\<close>

definition password_ok :: "('d, 's) env \<Rightarrow> string \<Rightarrow> bool" where
  "password_ok E p \<longleftrightarrow> (if e_rand_ok E then ValidatePassword p = None else p = [])"

definition static_cred_ok_entry :: "('d, 's) env \<Rightarrow> StaticCredential \<Rightarrow> bool" where
  "static_cred_ok_entry E sc \<longleftrightarrow> odbc_ValidateUsername (e_U E) (sc_Username sc) = None
     \<and> password_ok E (sc_Password sc)"

text \<open>What may stand at a key. Nothing writes the default configuration, which is read at \<open>config\<close>.\<close>

fun value_ok :: "('d, 's) env \<Rightarrow> stored \<Rightarrow> bool" where
  "value_ok E (SConfig c) = config_ok_entry E c"
| "value_ok E (SRole r) = role_ok_entry E r"
| "value_ok E (SStatement st) = statement_ok_entry E st"
| "value_ok E (SCred c) = cred_ok_entry E c"
| "value_ok E (SStaticRole sr) = static_ok_entry E sr"
| "value_ok E (SStaticCred sc) = static_cred_ok_entry E sc"
| "value_ok E (SWebhook wc) = (0 < wh_TimeoutSeconds wc \<and> 0 \<le> wh_RetryCount wc)"
| "value_ok E (SAudit ev) = True"

fun key_kind :: "stored \<Rightarrow> string" where
  "key_kind (SConfig c) = ''config/''"
| "key_kind (SRole r) = ''roles/''"
| "key_kind (SStatement st) = ''statements/''"
| "key_kind (SCred c) = ''creds/''"
| "key_kind (SStaticRole sr) = ''static-roles/''"
| "key_kind (SStaticCred sc) = ''static-creds/''"
| "key_kind (SWebhook wc) = ''webhook/config''"
| "key_kind (SAudit ev) = ''audit/''"

definition stored_ok :: "('d, 's) env \<Rightarrow> (string \<Rightarrow> stored option) \<Rightarrow> bool" where
  "stored_ok E V \<longleftrightarrow> (\<forall>k v. V k = Some v \<longrightarrow> prefix (key_kind v) k \<and> value_ok E v)"

lemma stored_okD: "stored_ok E V \<Longrightarrow> V k = Some v \<Longrightarrow> prefix (key_kind v) k \<and> value_ok E v"
  unfolding stored_ok_def by blast

lemma stored_ok_put: "stored_ok E V \<Longrightarrow> prefix (key_kind v) k \<Longrightarrow> value_ok E v \<Longrightarrow> stored_ok E (V(k \<mapsto> v))"
  by (auto simp: stored_ok_def)

lemma stored_ok_delete: "stored_ok E V \<Longrightarrow> stored_ok E (V(k := None))"
  by (auto simp: stored_ok_def)

definition backend_ok :: "('d, 's) env \<Rightarrow> ('s \<Rightarrow> string \<Rightarrow> stored option) \<Rightarrow> ('d, 's, 'z) plugin_world_scheme \<Rightarrow> bool" where
  "backend_ok E view w \<longleftrightarrow> stored_ok E (stored_entries view w)
     \<and> (\<forall>rg. b_registry w = Some rg \<longrightarrow> registry_ok rg) \<and> degradation_ok w"

subsection \<open>What keeps it\<close>

text \<open>An invariant of storage and the backend's own state.\<close>

definition rests_on :: "('s \<Rightarrow> string \<Rightarrow> stored option) \<Rightarrow> (('d, 's, 'z) world_scheme \<Rightarrow> bool) \<Rightarrow> bool" where
  "rests_on view I \<longleftrightarrow> (\<forall>w w'. stored_entries view w' = stored_entries view w \<longrightarrow> world.more w' = world.more w
     \<longrightarrow> I w \<longrightarrow> I w')"

lemma rests_onD:
  "rests_on view I \<Longrightarrow> stored_entries view w' = stored_entries view w \<Longrightarrow> world.more w' = world.more w \<Longrightarrow> I w \<Longrightarrow> I w'"
  unfolding rests_on_def by blast

lemma rests_on_backend:
  fixes view :: "'s \<Rightarrow> string \<Rightarrow> stored option" and E :: "('d, 's) env"
  shows "rests_on view (backend_ok E view :: ('d, 's, 'z) plugin_world_scheme \<Rightarrow> bool)"
  unfolding rests_on_def
proof (intro allI impI)
  fix w w' :: "('d, 's, 'z) plugin_world_scheme"
  assume "stored_entries view w' = stored_entries view w" and m: "world.more w' = world.more w"
  moreover from same_backend_fields [of w' w] m have "b_registry w' = b_registry w" "b_degradedSince w' = b_degradedSince w"
    "b_gracefulDegradation w' = b_gracefulDegradation w" by (simp_all add: same_backend_def)
  ultimately show "backend_ok E view w \<Longrightarrow> backend_ok E view w'" by (simp add: backend_ok_def degradation_ok_def)
qed

lemma rests_on_quiet:
  fixes m :: "(('d, 's, 'z) world_scheme, 'a) act"
  assumes "rests_on view I" and "quiet view m"
  shows "keeps I m"
  unfolding keeps_def
proof (intro allI impI)
  fix w :: "('d, 's, 'z) world_scheme"
  assume "I w"
  with quietD [OF assms(2), of w] rests_onD [OF assms(1), of "snd (m w)" w] show "I (snd (m w))"
    by (simp add: visible_def)
qed

lemma rests_on_out:
  fixes m :: "(('d, 's, 'z) world_scheme, 'a) act"
  assumes "rests_on view I"
    and "\<And>V L z. out view (V, L, z) m (\<lambda>_ (V', L', z'). V' = V \<and> z' = z) (\<lambda>(V', L', z'). V' = V \<and> z' = z)"
  shows "keeps I m"
  unfolding keeps_def
proof (intro allI impI)
  fix w :: "('d, 's, 'z) world_scheme"
  assume i: "I w"
  obtain r w' where r: "m w = (r, w')" by (cases "m w")
  from out_run [OF assms(2) r] have "stored_entries view w' = stored_entries view w \<and> world.more w' = world.more w"
    by (cases r) simp_all
  with i rests_onD [OF assms(1), of w' w] r show "I (snd (m w))" by simp
qed

lemma rests_on_executeSQL: "rests_on view I \<Longrightarrow> keeps I (executeSQL E ctx cfg sql)"
  by (rule rests_on_out, assumption, rule out_executeSQL_ignored) simp

lemma rests_on_sends: "rests_on view I \<Longrightarrow> sends cs P m \<Longrightarrow> keeps I m"
  by (rule rests_on_out, assumption, rule sends_out, assumption) simp_all

text \<open>Changing storage.\<close>

lemma put_run:
  fixes w :: "('d, 's, 'z) world_scheme"
  assumes "lawful_storage view (e_S E)" and "audit_free key"
  shows "world.more (snd (storage_Put E key v w)) = world.more w \<and>
    (stored_entries view (snd (storage_Put E key v w)) = stored_entries view w
     \<or> stored_entries view (snd (storage_Put E key v w)) = (stored_entries view w)(key \<mapsto> v))"
proof -
  obtain r w' where r: "storage_Put E key v w = (r, w')" by (cases "storage_Put E key v w")
  have "out view (stored_entries view w, w_sql w, world.more w) (storage_Put E key v)
    (\<lambda>_ (V', L', z'). z' = world.more w \<and> (V' = stored_entries view w \<or> V' = (stored_entries view w)(key \<mapsto> v)))
    (\<lambda>(V', L', z'). z' = world.more w \<and> (V' = stored_entries view w \<or> V' = (stored_entries view w)(key \<mapsto> v)))"
    by (rule out_Put [OF assms]) simp_all
  from out_run [OF this r] r show ?thesis by (cases r) simp_all
qed

lemma delete_run:
  fixes w :: "('d, 's, 'z) world_scheme"
  assumes "lawful_storage view (e_S E)" and "audit_free key"
  shows "world.more (snd (storage_Delete E key w)) = world.more w \<and>
    (stored_entries view (snd (storage_Delete E key w)) = stored_entries view w
     \<or> stored_entries view (snd (storage_Delete E key w)) = (stored_entries view w)(key := None))"
proof -
  obtain r w' where r: "storage_Delete E key w = (r, w')" by (cases "storage_Delete E key w")
  have "out view (stored_entries view w, w_sql w, world.more w) (storage_Delete E key)
    (\<lambda>_ (V', L', z'). z' = world.more w \<and> (V' = stored_entries view w \<or> V' = (stored_entries view w)(key := None)))
    (\<lambda>(V', L', z'). z' = world.more w \<and> (V' = stored_entries view w \<or> V' = (stored_entries view w)(key := None)))"
    by (rule out_Delete [OF assms]) simp_all
  from out_run [OF this r] r show ?thesis by (cases r) simp_all
qed

lemma backend_ok_change:
  fixes w w' :: "('d, 's, 'z) plugin_world_scheme"
  assumes "backend_ok E view w" and "world.more w' = world.more w" and "stored_ok E (stored_entries view w')"
  shows "backend_ok E view w'"
  using assms same_backend_fields [of w' w] by (simp add: backend_ok_def degradation_ok_def same_backend_def)

lemma backend_ok_Put:
  fixes view :: "'s \<Rightarrow> string \<Rightarrow> stored option" and E :: "('d, 's) env"
  assumes "lawful_storage view (e_S E)" and "audit_free key" and "prefix (key_kind v) key" and "value_ok E v"
  shows "keeps (backend_ok E view) (storage_Put E key v :: (('d, 's, 'z) plugin_world_scheme, go_err + unit) act)"
  unfolding keeps_def
proof (intro allI impI)
  fix w :: "('d, 's, 'z) plugin_world_scheme"
  assume w: "backend_ok E view w"
  then have "stored_ok E (stored_entries view w)" by (simp add: backend_ok_def)
  with put_run [OF assms(1,2), of v w] stored_ok_put [OF _ assms(3,4)]
  have "stored_ok E (stored_entries view (snd (storage_Put E key v w)))" by metis
  with w put_run [OF assms(1,2), of v w] show "backend_ok E view (snd (storage_Put E key v w))"
    by (metis backend_ok_change)
qed

lemma backend_ok_Delete:
  fixes view :: "'s \<Rightarrow> string \<Rightarrow> stored option" and E :: "('d, 's) env"
  assumes "lawful_storage view (e_S E)" and "audit_free key"
  shows "keeps (backend_ok E view) (storage_Delete E key :: (('d, 's, 'z) plugin_world_scheme, go_err + unit) act)"
  unfolding keeps_def
proof (intro allI impI)
  fix w :: "('d, 's, 'z) plugin_world_scheme"
  assume w: "backend_ok E view w"
  then have "stored_ok E (stored_entries view w)" by (simp add: backend_ok_def)
  with delete_run [OF assms, of w] stored_ok_delete
  have "stored_ok E (stored_entries view (snd (storage_Delete E key w)))" by metis
  with w delete_run [OF assms, of w] show "backend_ok E view (snd (storage_Delete E key w))"
    by (metis backend_ok_change)
qed

text \<open>What an action gives from a good state.\<close>

definition yields :: "('w \<Rightarrow> bool) \<Rightarrow> ('a \<Rightarrow> bool) \<Rightarrow> ('w, 'a) act \<Rightarrow> bool" where
  "yields I P m \<longleftrightarrow> (\<forall>w. I w \<longrightarrow> I (snd (m w)) \<and> (\<forall>a. fst (m w) = Ret a \<longrightarrow> P a))"

abbreviation yieldsE :: "('w \<Rightarrow> bool) \<Rightarrow> ('a \<Rightarrow> bool) \<Rightarrow> ('w, 'e + 'a) act \<Rightarrow> bool" where
  "yieldsE I P m \<equiv> yields I (\<lambda>r. \<forall>a. r = Inr a \<longrightarrow> P a) m"

lemma yields_keeps: "yields I P m \<Longrightarrow> keeps I m"
  by (simp add: yields_def keeps_def)

lemma yields_returns: "keeps I m \<Longrightarrow> returns P m \<Longrightarrow> yields I P m"
  by (simp add: yields_def keeps_def returns_def)

lemma yields_weak: "yields I P m \<Longrightarrow> (\<And>a. P a \<Longrightarrow> Q a) \<Longrightarrow> yields I Q m"
  by (simp add: yields_def)

lemma bnd_yields:
  assumes m: "yields I P m" and k: "\<And>a. P a \<Longrightarrow> keeps I (k a)"
  shows "keeps I (bnd m k)"
  unfolding keeps_def
proof (intro allI impI)
  fix w assume "I w"
  obtain r w' where r: "m w = (r, w')" by (cases "m w")
  with m \<open>I w\<close> have "I w'" "\<And>a. r = Ret a \<Longrightarrow> P a" unfolding yields_def by (metis snd_conv, metis fst_conv)
  with k r show "I (snd (bnd m k w))" by (cases r) (simp_all add: bnd_def keeps_def)
qed

lemma yields_bnd:
  assumes m: "yields I P m" and k: "\<And>a. P a \<Longrightarrow> yields I Q (k a)"
  shows "yields I Q (bnd m k)"
  unfolding yields_def
proof (intro allI impI)
  fix w assume "I w"
  obtain r w' where r: "m w = (r, w')" by (cases "m w")
  with m \<open>I w\<close> have "I w'" "\<And>a. r = Ret a \<Longrightarrow> P a" unfolding yields_def by (metis snd_conv, metis fst_conv)
  with k r show "I (snd (bnd m k w)) \<and> (\<forall>a. fst (bnd m k w) = Ret a \<longrightarrow> Q a)"
    by (cases r) (auto simp: bnd_def yields_def)
qed

lemma yields_ret: "P a \<Longrightarrow> yields I P (ret a)"
  by (simp add: yields_def ret_def)

lemma bndE_yields: "yieldsE I P m \<Longrightarrow> (\<And>a. P a \<Longrightarrow> keeps I (k a)) \<Longrightarrow> keeps I (bndE m wrap k)"
  unfolding bndE_def by (erule bnd_yields) (auto intro: keeps_ret split: sum.splits)

lemma tryH_yields: "yieldsE I P m \<Longrightarrow> (\<And>a. P a \<Longrightarrow> keeps I (k a)) \<Longrightarrow> keeps I (tryH m wrap k)"
  unfolding tryH_def by (erule bnd_yields) (auto intro: keeps_handlers split: sum.splits)

lemma yields_bndE: "yieldsE I P m \<Longrightarrow> (\<And>a. P a \<Longrightarrow> yieldsE I Q (k a)) \<Longrightarrow> yieldsE I Q (bndE m wrap k)"
  unfolding bndE_def by (erule yields_bnd) (auto intro: yields_ret split: sum.splits)

lemma yields_get_as:
  fixes view :: "'s \<Rightarrow> string \<Rightarrow> stored option" and E :: "('d, 's) env"
  assumes law: "lawful_storage view (e_S E)" and "audit_free key"
    and dec: "\<And>v a. dec v = Some a \<Longrightarrow> value_ok E v \<Longrightarrow> P a"
  shows "yieldsE (backend_ok E view) (\<lambda>x. \<forall>a. x = Some a \<longrightarrow> P a)
    (get_as dec E key :: (('d, 's, 'z) plugin_world_scheme, go_err + 'a option) act)"
  unfolding yields_def
proof (intro allI impI conjI)
  fix w :: "('d, 's, 'z) plugin_world_scheme"
  assume i: "backend_ok E view w"
  with rests_on_quiet [OF rests_on_backend quiet_get_as [OF law], of E dec key] show "backend_ok E view (snd (get_as dec E key w))"
    unfolding keeps_def by blast
  fix r x a
  assume r: "fst (get_as dec E key w) = Ret r" "r = Inr x" "x = Some a"
  have "out view (stored_entries view w, w_sql w, world.more w) (get_as dec E key)
     (\<lambda>r _. \<forall>a. r = Inr (Some a) \<longrightarrow> (\<exists>v. stored_entries view w key = Some v \<and> dec v = Some a)) (\<lambda>_. True)"
    by (rule out_get_as [OF law assms(2)]) auto
  moreover from r have "get_as dec E key w = (Ret (Inr (Some a)), snd (get_as dec E key w))" by (metis prod.collapse)
  ultimately obtain v where "stored_entries view w key = Some v" "dec v = Some a"
    using out_run by fastforce
  with i stored_okD [of E "stored_entries view w" key v] dec show "P a" by (simp add: backend_ok_def)
qed

lemma rests_on_store:
  fixes m :: "(('d, 's, 'z) world_scheme, 'a) act"
  assumes "rests_on view I" and "\<And>s z. keeps (store_is s z) m"
  shows "keeps I m"
  unfolding keeps_def
proof (intro allI impI)
  fix w :: "('d, 's, 'z) world_scheme"
  assume i: "I w"
  from assms(2) [of "w_st w" "world.more w"] have "store_is (w_st w) (world.more w) (snd (m w))"
    unfolding keeps_def by (simp add: store_is_def)
  with i rests_onD [OF assms(1), of "snd (m w)" w] show "I (snd (m w))" by (simp add: store_is_def)
qed

subsection \<open>The parts of the handlers\<close>

named_theorems ok_rules \<open>what keeps the invariant of the backend\<close>

lemmas [ok_rules] = keeps_rules keeps_handlers(1-4,6-)

lemma keeps_guard [ok_rules]: "(x = None \<Longrightarrow> keeps I n) \<Longrightarrow> keeps I (guardH x wrap n)"
  unfolding guardH_def by (auto intro: keeps_handlers split: option.splits)

lemmas backend_quiet = rests_on_quiet [OF rests_on_backend]
lemmas backend_sends = rests_on_sends [OF rests_on_backend]
lemmas backend_store = rests_on_store [OF rests_on_backend]

lemma backend_silent: "silent view m \<Longrightarrow> keeps (backend_ok E view) m"
  by (rule backend_quiet) (simp add: silent_def)

lemmas [ok_rules] = rests_on_executeSQL [OF rests_on_backend] silent_effects [THEN backend_silent]
  silent_logs [THEN backend_silent] silent_webhooks [THEN backend_silent] silent_generateUsername [THEN backend_silent]
  silent_generatePassword [THEN backend_silent]

lemma backend_reads [ok_rules]:
  assumes "lawful_storage view (e_S E)"
  shows "keeps (backend_ok E view) (getRole E name)" "keeps (backend_ok E view) (getConfig E)"
    "keeps (backend_ok E view) (getConfigByName E region)" "keeps (backend_ok E view) (getStatement E name)"
    "keeps (backend_ok E view) (getCredential E u)" "keeps (backend_ok E view) (storage_List E p)"
    "keeps (backend_ok E view) (get_as dec E key)" "keeps (backend_ok E view) (storage_Get E key)"
  by (intro backend_quiet quiet_getRole quiet_reads quiet_List quiet_get_as quiet_storage_Get assms)+

lemma backend_caches [ok_rules]:
  "keeps (backend_ok E view) (invalidateCachedCredential u)" "keeps (backend_ok E view) (query_cache_delete k)"
  "keeps (backend_ok E view) (invalidateConfigCache r)" "keeps (backend_ok E view) (invalidateRoleCache n)"
  "keeps (backend_ok E view) (invalidateStatementCache n)" "keeps (backend_ok E view) (cacheCredential u c)"
  "keeps (backend_ok E view) (cache_lookup u)"
proof -
  note d = backend_ok_def degradation_ok_def
  show del: "keeps (backend_ok E view) (query_cache_delete k)" for k
    unfolding query_cache_delete_def by (rule keeps_modify) (simp add: d)
  show "keeps (backend_ok E view) (invalidateConfigCache r)" "keeps (backend_ok E view) (invalidateRoleCache n)"
    "keeps (backend_ok E view) (invalidateStatementCache n)"
    unfolding invalidateConfigCache_def invalidateRoleCache_def invalidateStatementCache_def
    by (intro keeps_if del)+
  show "keeps (backend_ok E view) (invalidateCachedCredential u)"
    unfolding invalidateCachedCredential_def by (rule keeps_modify) (simp add: d)
  show "keeps (backend_ok E view) (cacheCredential u c)"
    unfolding cacheCredential_def by (intro ok_rules keeps_modify) (simp add: d)
  have "keeps (backend_ok E view) (\<lambda>w. case b_credCache w of None \<Rightarrow> (Ret None, w)
    | Some c \<Rightarrow> (case cred_Get t u c of (r, c') \<Rightarrow> (Ret r, w\<lparr>b_credCache := Some c'\<rparr>)))" for t
    by (simp add: keeps_def d split: option.split prod.split)
  then show "keeps (backend_ok E view) (cache_lookup u)"
    unfolding cache_lookup_def by (intro ok_rules)
qed

lemma backend_connection [ok_rules]:
  "keeps (backend_ok E view) (Connect D cs)" "keeps (backend_ok E view) (CloseConn D c)"
  "keeps (backend_ok E view) (PingConn D c)" "keeps (backend_ok E view) (GetDatabaseInfo D c)"
proof -
  show "keeps (backend_ok E view) (Connect D cs)" "keeps (backend_ok E view) (CloseConn D c)"
    by (rule backend_sends [where P = "\<lambda>_. True"], rule sends_Connect sends_Close)+
  show "keeps (backend_ok E view) (PingConn D c)"
    unfolding PingConn_def by (rule backend_store) (intro keeps_rules)
  have "keeps (store_is s z) (first_answer D db qs)" for s z db qs
    by (induction qs) (auto intro!: keeps_rules)
  then show "keeps (backend_ok E view) (GetDatabaseInfo D c)"
    unfolding GetDatabaseInfo_def by (intro backend_store keeps_rules)
qed

text \<open>The registry.\<close>

lemma keeps_on_registry [ok_rules]:
  fixes view :: "'s \<Rightarrow> string \<Rightarrow> stored option" and E :: "('d, 's) env"
    and f :: "DBRegistry \<Rightarrow> (('d, 's, 'z) plugin_world_scheme, 'a \<times> DBRegistry) act"
  assumes "\<And>rg s z. keeps (store_is s z) (f rg)" and "\<And>rg. registry_ok rg \<Longrightarrow> returns (\<lambda>p. registry_ok (snd p)) (f rg)"
  shows "keeps (backend_ok E view) (on_registry f)"
  unfolding keeps_def
proof (intro allI impI)
  fix w :: "('d, 's, 'z) plugin_world_scheme"
  assume w: "backend_ok E view w"
  show "backend_ok E view (snd (on_registry f w))"
  proof (cases "b_registry w")
    case (Some rg)
    with w have rg: "registry_ok rg" by (simp add: backend_ok_def)
    obtain r w' where r: "f rg w = (r, w')" by (cases "f rg w")
    from backend_store [OF assms(1), of E view rg] w r have "backend_ok E view w'"
      unfolding keeps_def by (metis snd_conv)
    moreover from assms(2) [OF rg] r have "\<And>a rg'. r = Ret (a, rg') \<Longrightarrow> registry_ok rg'"
      by (auto dest: returnsD)
    ultimately show ?thesis
      using Some r by (cases r) (auto simp: on_registry_def bnd_def gets_def seq_def modify_def ret_def backend_ok_def
        degradation_ok_def split: prod.splits)
  qed (use w in \<open>simp add: on_registry_def bnd_def gets_def panic_def\<close>)
qed

end
