(* ===== verification/Handler_Invariants.thy ===== *)
theory Handler_Invariants
  imports Backend_Invariant
begin

text \<open>
  Every callback of the table, but for the shadowed ones, keeps the invariant of the backend, and so do
  a whole request and every background job.
\<close>

subsection \<open>The configuration\<close>

lemma keeps_getters [ok_rules]:
  "keeps I (config_head data)" "keeps I (config_pool data c)" "keeps I (config_ssl data c)" "keeps I (config_rest data c)"
  unfolding config_head_def config_pool_def config_ssl_def config_rest_def by (intro ok_rules)+

definition same_connection :: "Config \<Rightarrow> Config \<Rightarrow> bool" where
  "same_connection c c' \<longleftrightarrow> cf_ConnectionString c' = cf_ConnectionString c \<and> cf_ConnectionURL c' = cf_ConnectionURL c"

lemma returns_config_parts:
  "returns (same_connection c) (config_pool data c)" "returns (same_connection c) (config_ssl data c)"
  "returns (same_connection c) (config_rest data c)"
  unfolding config_pool_def config_ssl_def config_rest_def
  by (intro returns_rules, simp add: same_connection_def)+

lemma same_connection_trans: "same_connection a b \<Longrightarrow> same_connection b c \<Longrightarrow> same_connection a c"
  by (simp add: same_connection_def)

lemma backend_config_Put:
  assumes "lawful_storage view (e_S E)" and "config_ok_entry E cfg"
  shows "keeps (backend_ok E view) (storage_Put E (config_key name) (SConfig cfg))"
  unfolding config_key_def
  by (rule backend_ok_Put [OF assms(1) audit_free_keys(3)]) (simp_all add: assms(2))

lemma ok_pathConfigRead [ok_rules]:
  "lawful_storage view (e_S E) \<Longrightarrow> keeps (backend_ok E view) (pathConfigRead E data)"
  unfolding pathConfigRead_def by (intro ok_rules)

lemma ok_verifyConfig [ok_rules]: "keeps (backend_ok E view) (verifyConfigConnection E cfg)"
  unfolding verifyConfigConnection_def by (intro ok_rules)

lemma ok_pathConfigWrite [ok_rules]:
  assumes law: "lawful_storage view (e_S E)"
  shows "keeps (backend_ok E view) (pathConfigWrite E data)"
proof -
  note parts = yields_returns [OF keeps_getters(2) returns_config_parts(1)]
    yields_returns [OF keeps_getters(3) returns_config_parts(2)]
    yields_returns [OF keeps_getters(4) returns_config_parts(3)]
  show ?thesis
    unfolding pathConfigWrite_def
    by (rule keeps_bnd [OF keeps_getters(1)], rule keeps_guard, rule bnd_yields [OF parts(1)], rule bnd_yields [OF parts(2)],
      rule bnd_yields [OF parts(3)], intro keeps_guard, rule keeps_handlers(4), rule backend_config_Put [OF law])
      (simp add: config_ok_entry_def same_connection_def, intro ok_rules law)
qed

lemma backend_Deletes [ok_rules]:
  assumes "lawful_storage view (e_S E)"
  shows "keeps (backend_ok E view) (storage_Delete E (config_key n))" "keeps (backend_ok E view) (storage_Delete E (role_key n))"
    "keeps (backend_ok E view) (storage_Delete E (statement_key n))" "keeps (backend_ok E view) (deleteCredential E u)"
    "keeps (backend_ok E view) (storage_Delete E (static_role_key n))" "keeps (backend_ok E view) (storage_Delete E (static_cred_key n))"
    "keeps (backend_ok E view) (storage_Delete E ''webhook/config'')"
  unfolding config_key_def role_key_def statement_key_def deleteCredential_def credentialPrefix_def static_role_key_def
    static_cred_key_def
  by (rule backend_ok_Delete [OF assms], rule audit_free_keys)+

lemma ok_config_paths [ok_rules]:
  assumes "lawful_storage view (e_S E)"
  shows "keeps (backend_ok E view) (pathConfigDelete E data)" "keeps (backend_ok E view) (pathConfigListHandler E)"
  unfolding pathConfigDelete_def pathConfigListHandler_def by (intro ok_rules assms)+

subsection \<open>The pools\<close>

lemma store_pools:
  "keeps (store_is s z) (UpdateConnection D n c rg)" "keeps (store_is s z) (RemoveConnection D n rg)"
  "keeps (store_is s z) (CheckHealth D dc)" "keeps (store_is s z) (runHealthChecks D rg)"
proof -
  show rm: "keeps (store_is s z) (RemoveConnection D n rg)" for rg
    unfolding RemoveConnection_def Let_def by (intro keeps_rules)
  show "keeps (store_is s z) (UpdateConnection D n c rg)"
    unfolding UpdateConnection_def Let_def by (intro keeps_rules rm)
  show ch: "keeps (store_is s z) (CheckHealth D dc)" for dc
    unfolding CheckHealth_def Let_def by (intro keeps_rules)
  have pools: "keeps (store_is s z) (over_pools f cs)" if "\<And>c. keeps (store_is s z) (f c)" for f cs
    using that by (induction f cs rule: over_pools.induct) (auto intro!: keeps_rules)
  show "keeps (store_is s z) (runHealthChecks D rg)"
    unfolding runHealthChecks_def by (intro keeps_rules pools ch)
qed

lemma ok_UpdateConnection [ok_rules]: "keeps (backend_ok E view) (on_registry (UpdateConnection D n c))"
  by (rule keeps_on_registry [OF store_pools(1)])
    (rule returns_mono [OF UpdateConnection_ok], assumption, simp add: added_ok_def)

lemma ok_reload_loop [ok_rules]:
  "lawful_storage view (e_S E) \<Longrightarrow> keeps (backend_ok E view) (reload_loop E p es)"
  by (induction es) (auto intro!: ok_rules)

lemma ok_pool_paths [ok_rules]:
  assumes "lawful_storage view (e_S E)"
  shows "keeps (backend_ok E view) (pathConfigResetHandler E data)" "keeps (backend_ok E view) (pathConfigReloadHandler E data)"
    "keeps (backend_ok E view) (pathReloadConfigHandler E region)"
  unfolding pathConfigResetHandler_def pathConfigReloadHandler_def pathReloadConfigHandler_def Let_def
  by (intro ok_rules assms)+

lemma ok_pathPoolStats [ok_rules]:
  assumes "lawful_storage view (e_S E)"
  shows "keeps (backend_ok E view) (pathPoolStatsRead E)"
proof -
  have "keeps (backend_ok E view) (GetDetailedConnectionStats D n rg)" for D n rg
    unfolding GetDetailedConnectionStats_def db_Stats_def by (intro ok_rules)
  then have "keeps (backend_ok E view) (stats_loop E rg ns)" for rg ns
    by (induction ns) (auto intro!: ok_rules)
  then show ?thesis unfolding pathPoolStatsRead_def Let_def by (intro ok_rules assms)
qed

subsection \<open>Roles, statements and webhooks\<close>

lemma ok_role_Put:
  assumes "lawful_storage view (e_S E)" and "role_ok_entry E role"
  shows "keeps (backend_ok E view) (storage_Put E (role_key name) (SRole role))"
  unfolding role_key_def
  by (rule backend_ok_Put [OF assms(1) audit_free_keys(2)]) (simp_all add: assms(2))

lemma migrate_current: "ro_Version role = RoleVersion \<Longrightarrow> migrateRole role = Inr role"
  by (simp add: migrateRole_def RoleVersion_def)

lemma yields_getRole:
  assumes "lawful_storage view (e_S E)"
  shows "yieldsE (backend_ok E view) (\<lambda>x. \<forall>r. x = Some r \<longrightarrow> role_ok_entry E r) (getRole E name)"
proof -
  have "as_role v = Some a \<Longrightarrow> value_ok E v \<Longrightarrow> role_ok_entry E a" for v a by (cases v) simp_all
  from yields_get_as [OF assms audit_free_keys(2), where dec = as_role, OF this]
  show ?thesis
    unfolding getRole_def
    by (rule yields_bnd)
      (auto intro!: yields_ret simp: role_ok_entry_def migrate_current split: sum.splits option.splits)
qed

lemma ok_pathRoleCreate [ok_rules]:
  assumes "lawful_storage view (e_S E)"
  shows "keeps (backend_ok E view) (pathRoleCreate E ctx data)"
  unfolding pathRoleCreate_def Let_def
  by (intro ok_rules ok_role_Put assms) (simp_all add: role_ok_entry_def)

lemma ok_pathRoleUpdate [ok_rules]:
  assumes "lawful_storage view (e_S E)"
  shows "keeps (backend_ok E view) (pathRoleUpdate E ctx data)"
  unfolding pathRoleUpdate_def Let_def
  by (rule keeps_bnd [OF keeps_handlers(6)], rule tryH_yields [OF yields_getRole [OF assms]],
      intro ok_rules ok_role_Put assms)
    (auto simp: role_ok_entry_def keep_existing_def split: option.split)

lemma ok_role_paths [ok_rules]:
  assumes "lawful_storage view (e_S E)"
  shows "keeps (backend_ok E view) (pathRoleRead E data)" "keeps (backend_ok E view) (pathRoleDelete E ctx data)"
    "keeps (backend_ok E view) (pathRoleListHandler E)"
  unfolding pathRoleRead_def pathRoleDelete_def pathRoleListHandler_def Let_def simp_thms if_False
  by (simp_all) (intro ok_rules assms)+

lemma ok_pathStatementWrite [ok_rules]:
  assumes "lawful_storage view (e_S E)"
  shows "keeps (backend_ok E view) (pathStatementWrite E data)"
  unfolding pathStatementWrite_def Let_def statement_key_def
  by (intro ok_rules backend_ok_Put audit_free_keys assms) (simp_all add: statement_ok_entry_def)

lemma ok_statement_paths [ok_rules]:
  assumes "lawful_storage view (e_S E)"
  shows "keeps (backend_ok E view) (pathStatementRead E data)" "keeps (backend_ok E view) (pathStatementDelete E data)"
    "keeps (backend_ok E view) (pathStatementListHandler E)"
  unfolding pathStatementRead_def pathStatementDelete_def pathStatementListHandler_def by (intro ok_rules assms)+

lemma ok_webhook_paths [ok_rules]:
  assumes "lawful_storage view (e_S E)"
  shows "keeps (backend_ok E view) (pathWebhookWrite E data)" "keeps (backend_ok E view) (pathWebhookRead E)"
    "keeps (backend_ok E view) (pathWebhookDelete E)"
proof -
  show "keeps (backend_ok E view) (pathWebhookWrite E data)"
    unfolding pathWebhookWrite_def StoreWebhookConfig_def Let_def
    by (intro ok_rules backend_ok_Put audit_free_keys assms) simp_all
  show "keeps (backend_ok E view) (pathWebhookRead E)" "keeps (backend_ok E view) (pathWebhookDelete E)"
    unfolding pathWebhookRead_def GetWebhookConfig_def pathWebhookDelete_def by (intro ok_rules assms)+
qed

subsection \<open>Credentials\<close>

lemma ok_cred_Put:
  assumes "lawful_storage view (e_S E)" and "cred_ok_entry E c"
  shows "keeps (backend_ok E view) (storeCredential E u c)"
  unfolding storeCredential_def credentialPrefix_def
  by (rule backend_ok_Put [OF assms(1) audit_free_keys(1)]) (simp_all add: assms(2))

lemma ok_record [ok_rules]:
  assumes "lawful_storage view (e_S E)" and "odbc_ValidateUsername (e_U E) u = None"
  shows "keeps (backend_ok E view) (record_credential E tag name region role u)"
  unfolding record_credential_def Let_def
  by (intro ok_rules ok_cred_Put assms) (simp add: cred_ok_entry_def new_credential_def assms(2))

lemma yields_draw:
  "yieldsE (backend_ok E view) (\<lambda>p. odbc_ValidateUsername (e_U E) (fst p) = None \<and> ValidatePassword (snd p) = None)
     (draw_identity E role)"
  by (rule yields_weak [OF yields_returns [OF backend_silent [OF silent_draw_identity] returns_draw_identity]])
    (simp add: drawn_ok_def split: prod.splits)

lemma ok_create [ok_rules]: "keeps (backend_ok E view) (create_user E ctx tag tag2 cfg role creation rollback u p)"
  unfolding create_user_def run_creation_def by (intro ok_rules)

lemma ok_admit [ok_rules]:
  assumes "lawful_storage view (e_S E)" and "\<And>cfg c r. keeps (backend_ok E view) (k cfg c r)"
  shows "keeps (backend_ok E view) (admit E warning name region role k)"
  unfolding admit_def resolve_config_def role_statements_def by (intro ok_rules assms)

lemma ok_count [ok_rules]:
  assumes "lawful_storage view (e_S E)"
  shows "keeps (backend_ok E view) (countCredentialsByRole E name)"
proof -
  have "keeps (backend_ok E view) (count_loop E name n es)" for n es
    by (induction es arbitrary: n) (auto intro!: ok_rules assms)
  then show ?thesis unfolding countCredentialsByRole_def by (intro ok_rules assms)
qed

lemma ok_batch [ok_rules]:
  assumes "lawful_storage view (e_S E)"
  shows "keeps (backend_ok E view) (batch_loop E ctx name region role cfg creation rollback n)"
proof (induction n)
  case (Suc n)
  have "keeps (backend_ok E view) (batch_one E ctx name region role cfg creation rollback)"
    unfolding batch_one_def
    by (rule bndE_yields [OF yields_draw]) (auto intro!: ok_rules assms)
  with Suc show ?case by (auto intro!: ok_rules)
qed (simp add: keeps_ret)

lemma ok_creds [ok_rules]:
  assumes "lawful_storage view (e_S E)"
  shows "keeps (backend_ok E view) (pathCredsRead E ctx data)" "keeps (backend_ok E view) (pathCredsBatchRead E ctx data)"
proof -
  have draw: "keeps (backend_ok E view) (tryH (draw_identity E role) id (\<lambda>(username, password). k username password))"
    if "\<And>u p. odbc_ValidateUsername (e_U E) u = None \<Longrightarrow> keeps (backend_ok E view) (k u p)" for role k
    by (rule tryH_yields [OF yields_draw]) (auto intro: that split: prod.split)
  show "keeps (backend_ok E view) (pathCredsRead E ctx data)"
    unfolding pathCredsRead_def by (intro draw ok_rules assms)
  show "keeps (backend_ok E view) (pathCredsBatchRead E ctx data)"
    unfolding pathCredsBatchRead_def Let_def by (intro ok_rules assms)
qed

subsection \<open>Leases\<close>

lemma ok_loops [ok_rules]:
  assumes "lawful_storage view (e_S E)"
  shows "keeps (backend_ok E view) (leases_loop E es)" "keeps (backend_ok E view) (users_loop E P es)"
    "keeps (backend_ok E view) (by_role_loop E name limit creds es)"
proof -
  show "keeps (backend_ok E view) (leases_loop E es)" by (induction es) (auto intro!: ok_rules assms)
  show "keeps (backend_ok E view) (users_loop E P es)" by (induction es) (auto intro!: ok_rules assms)
  show "keeps (backend_ok E view) (by_role_loop E name limit creds es)"
    by (induction es arbitrary: creds) (auto intro!: ok_rules assms)
qed

lemma yields_lease:
  assumes "lawful_storage view (e_S E)"
  shows "yieldsE (backend_ok E view) (\<lambda>x. \<forall>c u. x = Some (c, u) \<longrightarrow> cred_ok_entry E c) (getCredentialByLeaseID E l)"
proof -
  let ?P = "\<lambda>x. \<forall>c u. x = Some (c, u) \<longrightarrow> cred_ok_entry E c"
  have "as_cred v = Some c \<Longrightarrow> value_ok E v \<Longrightarrow> cred_ok_entry E c" for v c by (cases v) simp_all
  from yields_get_as [OF assms audit_free_keys(1), where dec = as_cred, OF this]
  have get: "yieldsE (backend_ok E view) (\<lambda>x. \<forall>c. x = Some c \<longrightarrow> cred_ok_entry E c) (getCredential E u)" for u
    unfolding getCredential_def credentialPrefix_def .
  have loop: "yieldsE (backend_ok E view) ?P (lease_loop E l es)" for es
  proof (induction es)
    case (Cons e es)
    then show ?case
      by (auto intro!: yields_bndE [OF get] yields_ret split: option.split)
  qed (simp add: yields_ret)
  show ?thesis
    unfolding getCredentialByLeaseID_def
    by (rule yields_bndE [where P = "\<lambda>_. True", OF _ loop])
      (rule yields_weak [OF yields_returns [OF backend_reads(6) [OF assms] returns_any]], simp)
qed

lemmas ok_lease [ok_rules] = yields_lease [THEN yields_keeps]

lemma ok_cleanup [ok_rules]:
  "lawful_storage view (e_S E) \<Longrightarrow> keeps (backend_ok E view) (cleanupExpiredCredentials E ctx cfg)"
  unfolding cleanupExpiredCredentials_def cleanup_loop_def cleanup_one_def by (intro ok_rules)

lemma ok_lease_paths [ok_rules]:
  assumes "lawful_storage view (e_S E)"
  shows "keeps (backend_ok E view) (pathLeasesList E)" "keeps (backend_ok E view) (pathLeaseInfoRead E data)"
    "keeps (backend_ok E view) (pathCleanupExpiredHandler E ctx)" "keeps (backend_ok E view) (pathLeaseLookupHandler E data)"
    "keeps (backend_ok E view) (pathRotateRootHandler E ctx)"
  unfolding pathLeasesList_def listAllLeases_def pathLeaseInfoRead_def role_or_nil_def pathCleanupExpiredHandler_def
    pathLeaseLookupHandler_def time_Until_def Let_def pathRotateRootHandler_def
  by (intro ok_rules assms)+

lemma ok_pathExtend [ok_rules]:
  assumes "lawful_storage view (e_S E)"
  shows "keeps (backend_ok E view) (pathExtendLeaseHandler E data)"
proof -
  have ttl: "keeps (backend_ok E view) (extension_ttl l role n c)" for l role n c
    unfolding extension_ttl_def Let_def time_Since_def by (intro ok_rules)
  show ?thesis
    unfolding pathExtendLeaseHandler_def Let_def
    by (rule keeps_bnd [OF keeps_handlers(6)], rule keeps_bnd [OF keeps_handlers(7)], rule keeps_if, rule keeps_handlers,
      rule tryH_yields [OF yields_lease [OF assms]], intro ok_rules ttl ok_cred_Put assms) (simp add: cred_ok_entry_def)
qed

lemma ok_revoking [ok_rules]:
  assumes "lawful_storage view (e_S E)"
  shows "keeps (backend_ok E view) (pathRevokeCredsHandler E ctx data)"
    "keeps (backend_ok E view) (pathBulkRevokeCredsHandler E ctx raw)"
    "keeps (backend_ok E view) (pathBulkRevokeByRoleHandler E ctx data)"
    "keeps (backend_ok E view) (pathRevokeAllCredsHandler E ctx)"
    "keeps (backend_ok E view) (pathRenewCredsHandler E ctx data)"
    "keeps (backend_ok E view) (pathRenewCredsBatchHandler E ctx data)"
proof -
  note s = ok_rules assms
  have cached: "keeps (backend_ok E view) (getCachedCredential E u)" for u
    unfolding getCachedCredential_def by (intro s)
  have all: "keeps (backend_ok E view) (all_loop E ctx cs rc creds)" for cs rc creds
    by (induction creds arbitrary: rc) (auto simp: revoke_round_panics intro!: s)
  have bulk: "keeps (backend_ok E view) (bulk_loop f xs)" if "\<And>x. keeps (backend_ok E view) (f x)" for f xs
    using that by (induction xs) (auto intro!: s)
  have renew: "keeps (backend_ok E view) (renew_loop E ctx conn role st us)" for conn role st us
  proof (induction us)
    case (Cons u us)
    have "keeps (backend_ok E view) (renew_one E ctx conn role st u)"
      unfolding renew_one_def never_connects by (intro s cached)
    with Cons show ?case by (auto intro!: s)
  qed (simp add: keeps_ret)
  show "keeps (backend_ok E view) (pathRevokeCredsHandler E ctx data)"
    "keeps (backend_ok E view) (pathRenewCredsHandler E ctx data)"
    unfolding pathRevokeCredsHandler_def pathRenewCredsHandler_def never_connects by (intro s cached)+
  show "keeps (backend_ok E view) (pathBulkRevokeCredsHandler E ctx raw)"
    unfolding pathBulkRevokeCredsHandler_def bulk_one_def Let_def revoke_round_panics
    by (auto intro!: s bulk cached split: fval.split list.split)
  show "keeps (backend_ok E view) (pathBulkRevokeByRoleHandler E ctx data)"
    "keeps (backend_ok E view) (pathRevokeAllCredsHandler E ctx)"
    unfolding pathBulkRevokeByRoleHandler_def pathRevokeAllCredsHandler_def Let_def revoke_round_panics
    by (intro s all bulk)+
  show "keeps (backend_ok E view) (pathRenewCredsBatchHandler E ctx data)"
    unfolding pathRenewCredsBatchHandler_def renew_usernames_def getCredentialsByRole_def renewal_statement_def
      close_conn_def Let_def
    by (intro s renew)
qed

subsection \<open>Static roles\<close>

lemma ok_static_Put:
  assumes "lawful_storage view (e_S E)"
  shows "static_ok_entry E sr \<Longrightarrow> keeps (backend_ok E view) (storage_Put E (static_role_key n) (SStaticRole sr))"
    and "static_cred_ok_entry E sc \<Longrightarrow> keeps (backend_ok E view) (storage_Put E (static_cred_key n) (SStaticCred sc))"
proof -
  show "keeps (backend_ok E view) (storage_Put E (static_role_key n) (SStaticRole sr))" if "static_ok_entry E sr"
    unfolding static_role_key_def by (rule backend_ok_Put [OF assms audit_free_keys(7)]) (simp_all add: that)
  show "keeps (backend_ok E view) (storage_Put E (static_cred_key n) (SStaticCred sc))" if "static_cred_ok_entry E sc"
    unfolding static_cred_key_def by (rule backend_ok_Put [OF assms audit_free_keys(8)]) (simp_all add: that)
qed

lemma yields_static:
  assumes "lawful_storage view (e_S E)"
  shows "yieldsE (backend_ok E view) (\<lambda>x. \<forall>sr. x = Some sr \<longrightarrow> static_ok_entry E sr) (getStaticRole E n)"
proof -
  have "as_static_role v = Some sr \<Longrightarrow> value_ok E v \<Longrightarrow> static_ok_entry E sr" for v sr by (cases v) simp_all
  from yields_get_as [OF assms audit_free_keys(7), where dec = as_static_role, OF this]
  show ?thesis unfolding getStaticRole_def static_role_key_def .
qed

lemmas ok_getStatic [ok_rules] = yields_static [THEN yields_keeps]

lemma returns_wp:
  assumes "\<And>w. wp m (\<lambda>a _. P a) w"
  shows "returns P m"
  unfolding returns_def using assms [unfolded wp_returns] by (metis fst_conv res.inject(1))

lemma returns_password: "returns (password_ok E) (generatePassword (e_rand_ok E))"
proof (cases "e_rand_ok E")
  case True
  have "returns (\<lambda>p. ValidatePassword p = None) (generatePassword True)"
    by (rule returns_wp, rule wp_mono [OF wp_generatePassword]) (auto intro: generated_accepted)
  from returns_mono [OF this, of "password_ok E"] True show ?thesis by (simp add: password_ok_def)
next
  case False
  then show ?thesis
    by (auto simp: password_ok_def returns_def generatePassword_def mrand_Intn_def bnd_def draw_def ret_def)
qed

lemma yields_password:
  "yields (backend_ok E view) (password_ok E) (generatePassword (e_rand_ok E))"
  by (rule yields_returns [OF backend_silent [OF silent_generatePassword] returns_password])

lemma ok_static_paths [ok_rules]:
  assumes "lawful_storage view (e_S E)"
  shows "keeps (backend_ok E view) (pathStaticRoleRead E data)" "keeps (backend_ok E view) (pathStaticRoleDelete E ctx data)"
    "keeps (backend_ok E view) (pathStaticRoleListHandler E)" "keeps (backend_ok E view) (pathStaticCredsRead E data)"
  unfolding pathStaticRoleRead_def pathStaticRoleDelete_def pathStaticRoleListHandler_def pathStaticCredsRead_def
    getStaticCredential_def
  by (intro ok_rules assms)+

lemma ok_pathStaticCreate [ok_rules]:
  assumes "lawful_storage view (e_S E)"
  shows "keeps (backend_ok E view) (pathStaticRoleCreate E ctx data)"
proof -
  have cfg: "keeps (backend_ok E view) (static_config E n)" for n
    unfolding static_config_def by (intro ok_rules assms)
  have init: "keeps (backend_ok E view) (initial_password E ctx cfg sr)" if "static_ok_entry E sr" for cfg sr
    unfolding initial_password_def getStaticCredential_def
    by (intro keeps_bnd backend_reads assms keeps_case_sum keeps_case_option keeps_ret bnd_yields [OF yields_password]
        keeps_bndE' rests_on_executeSQL [OF rests_on_backend] silent_effects [THEN backend_silent] ok_static_Put)
      (use that in \<open>simp_all add: static_cred_ok_entry_def static_ok_entry_def\<close>)
  show ?thesis
    unfolding pathStaticRoleCreate_def Let_def
    by (intro ok_rules cfg init ok_static_Put assms) (simp_all add: static_ok_entry_def)
qed

lemma ok_pathStaticUpdate [ok_rules]:
  assumes "lawful_storage view (e_S E)"
  shows "keeps (backend_ok E view) (pathStaticRoleUpdate E data raw)"
  unfolding pathStaticRoleUpdate_def Let_def
  by (rule keeps_bnd [OF keeps_handlers(6)], rule tryH_yields [OF yields_static [OF assms]],
      intro ok_rules ok_static_Put assms)
    (auto simp: static_ok_entry_def static_updated_def)

lemma ok_pathRotateStatic [ok_rules]:
  assumes "lawful_storage view (e_S E)"
  shows "keeps (backend_ok E view) (pathRotateStaticRoleHandler E ctx data)"
  unfolding pathRotateStaticRoleHandler_def Let_def
  by (rule keeps_bnd [OF keeps_handlers(6)], rule tryH_yields [OF yields_static [OF assms]], rule keeps_case_option,
      rule keeps_handlers, rule keeps_handlers(4), rule backend_reads(2) [OF assms], rule keeps_case_option, rule keeps_handlers,
      rule bnd_yields [OF yields_password], intro ok_rules ok_static_Put assms)
    (auto simp: static_ok_entry_def static_cred_ok_entry_def rotated_def)

subsection \<open>The operational paths\<close>

lemma ok_degradation [ok_rules]:
  "keeps (backend_ok E view) (SetGracefulDegradation b)" "keeps (backend_ok E view) (SetManuallyEnabledDegradation b)"
  "keeps (backend_ok E view) degraded_fields"
proof -
  have set: "keeps (backend_ok E view) m" if "\<And>w. degradation_ok w \<Longrightarrow> degradation_ok (snd (m w))"
    "\<And>w. b_registry (snd (m w)) = b_registry w \<and> w_st (snd (m w)) = w_st w" for m
    using that unfolding keeps_def backend_ok_def by metis
  note run = time_Now_def tick_def bnd_def seq_def gets_def modify_def ret_def degradation_ok_def
  show "keeps (backend_ok E view) (SetGracefulDegradation b)"
    by (rule set) (auto simp: SetGracefulDegradation_def run)
  show "keeps (backend_ok E view) (SetManuallyEnabledDegradation b)"
    by (rule set) (auto simp: SetManuallyEnabledDegradation_def run split: option.split)
  show "keeps (backend_ok E view) degraded_fields"
    unfolding degraded_fields_def by (intro ok_rules)
qed

lemma ok_pool_views [ok_rules]: "keeps (backend_ok E view) (pool_views E' rg ns)"
  by (induction ns) (auto intro!: ok_rules simp: pool_view_def GetConnectionStats_def db_Stats_def)

lemma ok_operational [ok_rules]:
  assumes "lawful_storage view (e_S E)"
  shows "keeps (backend_ok E view) (pathHealthRead E)" "keeps (backend_ok E view) (pathReadinessRead E)"
    "keeps (backend_ok E view) (pathDegradationRead E)" "keeps (backend_ok E view) (pathDegradationUpdate E data)"
    "keeps (backend_ok E view) (pathInfoRead E)"
proof -
  show read: "keeps (backend_ok E view) (pathDegradationRead E)"
    unfolding pathDegradationRead_def Let_def by (intro ok_rules assms)
  show "keeps (backend_ok E view) (pathHealthRead E)" "keeps (backend_ok E view) (pathReadinessRead E)"
    "keeps (backend_ok E view) (pathInfoRead E)"
    unfolding pathHealthRead_def pathReadinessRead_def pathInfoRead_def Let_def by (intro ok_rules assms)+
  show "keeps (backend_ok E view) (pathDegradationUpdate E data)"
    unfolding pathDegradationUpdate_def by (intro ok_rules read)
qed

lemma ok_answers [ok_rules]:
  "keeps I pathVersionRead" "keeps I pathAPIVersionRead" "keeps I pathLivenessRead"
  unfolding pathVersionRead_def pathAPIVersionRead_def pathLivenessRead_def by (rule keeps_handlers)+

text \<open>The rate limiter.\<close>

lemma ok_limiter [ok_rules]:
  "keeps (backend_ok E view) (on_limiter f)" "keeps (backend_ok E view) (RateLimit L addr p)"
  "keeps (backend_ok E view) pathRateLimitConfigRead" "keeps (backend_ok E view) (pathRateLimitConfigWrite raw)"
  "keeps (backend_ok E view) pathRateLimitStatusRead"
proof -
  have set: "keeps (backend_ok E view) (modify (\<lambda>w. w\<lparr>b_rateLimiter := x\<rparr>))" for x
    by (rule keeps_modify) (simp add: backend_ok_def degradation_ok_def)
  show on: "keeps (backend_ok E view) (on_limiter f)" for f
    unfolding on_limiter_def by (intro ok_rules set)
  show "keeps (backend_ok E view) (RateLimit L addr p)"
    unfolding RateLimit_def by (intro ok_rules set)
  show read: "keeps (backend_ok E view) pathRateLimitConfigRead" "keeps (backend_ok E view) pathRateLimitStatusRead"
    unfolding pathRateLimitConfigRead_def pathRateLimitStatusRead_def by (intro ok_rules on)+
  show "keeps (backend_ok E view) (pathRateLimitConfigWrite raw)"
    unfolding pathRateLimitConfigWrite_def SetRateLimiterEnabled_def by (intro ok_rules on read)
qed

subsection \<open>Every request and every job\<close>

text \<open>The callbacks that are not shadowed.\<close>

lemmas ok_pathMetricsRead [ok_rules] = keeps_pathMetricsRead

lemma ok_run_handler:
  fixes view :: "'s \<Rightarrow> string \<Rightarrow> stored option" and E :: "('d, 's) env"
  assumes "lawful_storage view (e_S E)" and "h \<notin> set shadowed"
  shows "keeps (backend_ok E view) (run_handler F E ctx sch raw h :: (('d, 's, 'l, 'z) server_world_scheme, hres) act)"
  using assms(2)
  by (cases h) (simp_all only: run_handler.simps, (intro ok_rules assms(1) | simp add: shadowed_def)+)

lemma ok_run_job:
  fixes view :: "'s \<Rightarrow> string \<Rightarrow> stored option" and E :: "('d, 's) env"
  shows "keeps (backend_ok E view) (run_job E j :: (('d, 's, 'l, 'z) server_world_scheme, unit) act)"
proof (cases j)
  case HealthChecks
  show ?thesis
    unfolding HealthChecks run_job.simps
  proof (rule keeps_on_registry)
    show "keeps (store_is s z) (bnd (runHealthChecks (e_D E) rg) (\<lambda>rg'. ret ((), rg')))" for rg and s :: 's and z :: "('l, 'z) server_world_ext plugin_world_ext"
      by (intro keeps_rules store_pools)
    show "returns (\<lambda>p. registry_ok (snd p)) (bnd (runHealthChecks (e_D E) rg) (\<lambda>rg'. ret ((), rg')))"
      if "registry_ok rg" for rg
      by (rule returns_bnd [OF runHealthChecks_ok [OF that]]) (simp add: returns_ret)
  qed
qed (auto intro!: ok_rules keeps_modify simp: backend_ok_def degradation_ok_def)

lemma ok_serve:
  fixes view :: "'s \<Rightarrow> string \<Rightarrow> stored option" and E :: "('d, 's) env"
  assumes law: "lawful_storage view (e_S E)" and route: "first_match N (fw_route F)" "word_names N"
  shows "keeps (backend_ok E view) (HandleRequest L F E ctx req :: (('d, 's, 'l, 'z) server_world_scheme, hres) act)"
proof -
  have "keeps (backend_ok E view) (serve F E ctx req)"
  proof (cases "fw_route F paths (rq_Path req)")
    case (Some r)
    then obtain i captured where r: "fw_route F paths (rq_Path req) = Some (i, captured)" by (cases r) auto
    have "keeps (backend_ok E view) (run_handler F E ctx (pt_fields (paths ! i)) (captured @ rq_Data req) h)"
      if "map_of (pt_ops (paths ! i)) (rq_Operation req) = Some h" for h
    proof -
      from that have "(rq_Operation req, h) \<in> set (pt_ops (paths ! i))" by (rule map_of_SomeD)
      from shadowed_never_run [OF route r this] have "h \<notin> set shadowed" by (simp add: shadowed_def)
      then show ?thesis by (rule ok_run_handler [OF law])
    qed
    with r show ?thesis by (auto simp: serve_def Let_def intro!: ok_rules)
  qed (simp add: serve_def keeps_ret)
  then show ?thesis unfolding HandleRequest_def by (intro ok_rules)
qed

end
