(* ===== verification/Cache_Invariants.thy ===== *)
theory Cache_Invariants
  imports Handler_Invariants
begin

text \<open>
  No handler, request or background job of the backend lets the credential cache disagree with storage: the
  handlers of \<open>Cache_Coherence\<close> change credentials and their cached copies together, and the others, here,
  write elsewhere or only read.
\<close>

lemma agrees_put_other:
  fixes view :: "'s \<Rightarrow> string \<Rightarrow> stored option" and E :: "('d, 's) env"
  assumes law: "lawful_storage view (e_S E)" and "audit_free key" and k: "\<And>u. key \<noteq> ''creds/'' @ u"
  shows "keeps (cache_agrees view) (storage_Put E key v :: (('d, 's, 'z) plugin_world_scheme, go_err + unit) act)"
    and "keeps (cache_agrees view) (storage_Delete E key :: (('d, 's, 'z) plugin_world_scheme, go_err + unit) act)"
proof -
  have other: "cred_at (V(key := x)) = cred_at V" for V x
    using k by (auto simp: cred_at_def credentialPrefix_def fun_eq_iff)
  have keep: "cache_agrees view w'" if "cache_agrees view w" "world.more w' = world.more w"
    "stored_entries view w' = stored_entries view w \<or> (\<exists>x. stored_entries view w' = (stored_entries view w)(key := x))"
    for w w' :: "('d, 's, 'z) plugin_world_scheme"
  proof -
    from that(3) other have "cred_at (stored_entries view w') = cred_at (stored_entries view w)" by auto
    with that(1,2) same_backend_fields(2) [of w' w] show ?thesis by (simp add: cache_agrees_def same_backend_def)
  qed
  show "keeps (cache_agrees view) (storage_Put E key v :: (('d, 's, 'z) plugin_world_scheme, go_err + unit) act)"
    unfolding keeps_def using put_run [OF law assms(2)] keep by blast
  show "keeps (cache_agrees view) (storage_Delete E key :: (('d, 's, 'z) plugin_world_scheme, go_err + unit) act)"
    unfolding keeps_def using delete_run [OF law assms(2)] keep by blast
qed

lemma agrees_keys [agrees_rules]:
  assumes "lawful_storage view (e_S E)"
  shows "keeps (cache_agrees view) (storage_Put E (config_key n) v)" "keeps (cache_agrees view) (storage_Delete E (config_key n))"
    "keeps (cache_agrees view) (storage_Put E (role_key n) v)" "keeps (cache_agrees view) (storage_Delete E (role_key n))"
    "keeps (cache_agrees view) (storage_Put E (statement_key n) v)" "keeps (cache_agrees view) (storage_Delete E (statement_key n))"
    "keeps (cache_agrees view) (storage_Put E (static_role_key n) v)" "keeps (cache_agrees view) (storage_Delete E (static_role_key n))"
    "keeps (cache_agrees view) (storage_Put E (static_cred_key n) v)" "keeps (cache_agrees view) (storage_Delete E (static_cred_key n))"
    "keeps (cache_agrees view) (storage_Put E ''webhook/config'' v)" "keeps (cache_agrees view) (storage_Delete E ''webhook/config'')"
  unfolding config_key_def role_key_def statement_key_def static_role_key_def static_cred_key_def
  by (rule agrees_put_other [OF assms], rule audit_free_keys, simp)+

lemma rests_on_agrees:
  fixes view :: "'s \<Rightarrow> string \<Rightarrow> stored option"
  shows "rests_on view (cache_agrees view :: ('d, 's, 'z) plugin_world_scheme \<Rightarrow> bool)"
  unfolding rests_on_def using agrees_visible by blast

lemma agrees_gets [agrees_rules]:
  assumes "lawful_storage view (e_S E)"
  shows "keeps (cache_agrees view) (get_as dec E key)" "keeps (cache_agrees view) (storage_Get E key)"
  by (intro agrees_quiet quiet_get_as quiet_storage_Get assms)+

lemma agrees_more [agrees_rules]:
  "keeps (cache_agrees view) (query_cache_delete k)" "keeps (cache_agrees view) (invalidateConfigCache r)"
  "keeps (cache_agrees view) (invalidateRoleCache n)" "keeps (cache_agrees view) (invalidateStatementCache n)"
  "keeps (cache_agrees view) (Connect D cs)" "keeps (cache_agrees view) (CloseConn D c)"
  "keeps (cache_agrees view) (PingConn D c)" "keeps (cache_agrees view) (GetDatabaseInfo D c)"
proof -
  show del: "keeps (cache_agrees view) (query_cache_delete k)" for k
    unfolding query_cache_delete_def by (rule keeps_modify) (simp add: cache_agrees_def)
  show "keeps (cache_agrees view) (invalidateConfigCache r)" "keeps (cache_agrees view) (invalidateRoleCache n)"
    "keeps (cache_agrees view) (invalidateStatementCache n)"
    unfolding invalidateConfigCache_def invalidateRoleCache_def invalidateStatementCache_def
    by (intro keeps_if del)+
  show "keeps (cache_agrees view) (Connect D cs)" "keeps (cache_agrees view) (CloseConn D c)"
    by (rule rests_on_sends [OF rests_on_agrees, where P = "\<lambda>_. True"], rule sends_Connect sends_Close)+
  show "keeps (cache_agrees view) (PingConn D c)"
    unfolding PingConn_def by (rule rests_on_store [OF rests_on_agrees]) (intro keeps_rules)
  have "keeps (store_is s z) (first_answer D db qs)" for s z db qs
    by (induction qs) (auto intro!: keeps_rules)
  then show "keeps (cache_agrees view) (GetDatabaseInfo D c)"
    unfolding GetDatabaseInfo_def by (intro rests_on_store [OF rests_on_agrees] keeps_rules)
qed

lemma agrees_on_registry [agrees_rules]:
  assumes "\<And>rg s z. keeps (store_is s z) (f rg)"
  shows "keeps (cache_agrees view) (on_registry f)"
  unfolding on_registry_def
  by (intro agrees_rules keeps_modify rests_on_store [OF rests_on_agrees] assms) (simp add: cache_agrees_def)

lemma agrees_plain [agrees_rules]:
  assumes "lawful_storage view (e_S E)"
  shows "keeps (cache_agrees view) (pathConfigRead E data)" "keeps (cache_agrees view) (pathConfigDelete E data)"
    "keeps (cache_agrees view) (pathConfigListHandler E)" "keeps (cache_agrees view) (pathConfigResetHandler E data)"
    "keeps (cache_agrees view) (pathReloadConfigHandler E region)"
  unfolding pathConfigRead_def pathConfigDelete_def pathConfigListHandler_def pathConfigResetHandler_def
    pathReloadConfigHandler_def Let_def
  by (intro agrees_rules store_pools assms)+

lemma agrees_config_paths [agrees_rules]:
  assumes "lawful_storage view (e_S E)"
  shows "keeps (cache_agrees view) (pathConfigWrite E data)" "keeps (cache_agrees view) (pathConfigReloadHandler E data)"
    "keeps (cache_agrees view) (pathPoolStatsRead E)"
proof -
  have reload: "keeps (cache_agrees view) (reload_loop E p es)" for p es
    by (induction es) (auto intro!: agrees_rules store_pools assms)
  have "keeps (cache_agrees view) (GetDetailedConnectionStats D n rg)" for D n rg
    unfolding GetDetailedConnectionStats_def db_Stats_def by (intro agrees_rules)
  then have stats: "keeps (cache_agrees view) (stats_loop E rg ns)" for rg ns
    by (induction ns) (auto intro!: agrees_rules)
  show "keeps (cache_agrees view) (pathConfigWrite E data)"
    unfolding pathConfigWrite_def verifyConfigConnection_def by (intro agrees_rules keeps_getters assms)
  show "keeps (cache_agrees view) (pathConfigReloadHandler E data)" "keeps (cache_agrees view) (pathPoolStatsRead E)"
    unfolding pathConfigReloadHandler_def pathPoolStatsRead_def Let_def by (intro agrees_rules reload stats assms)+
qed

lemma agrees_role_paths [agrees_rules]:
  assumes "lawful_storage view (e_S E)"
  shows "keeps (cache_agrees view) (pathRoleCreate E ctx data)" "keeps (cache_agrees view) (pathRoleUpdate E ctx data)"
    "keeps (cache_agrees view) (pathRoleDelete E ctx data)" "keeps (cache_agrees view) (pathRoleRead E data)"
    "keeps (cache_agrees view) (pathRoleListHandler E)"
  unfolding pathRoleCreate_def pathRoleUpdate_def pathRoleDelete_def pathRoleRead_def pathRoleListHandler_def Let_def
  by (intro agrees_rules assms)+

lemma agrees_statement_paths [agrees_rules]:
  assumes "lawful_storage view (e_S E)"
  shows "keeps (cache_agrees view) (pathStatementWrite E data)" "keeps (cache_agrees view) (pathStatementRead E data)"
    "keeps (cache_agrees view) (pathStatementDelete E data)" "keeps (cache_agrees view) (pathStatementListHandler E)"
    "keeps (cache_agrees view) (pathWebhookWrite E data)" "keeps (cache_agrees view) (pathWebhookRead E)"
    "keeps (cache_agrees view) (pathWebhookDelete E)"
  unfolding pathStatementWrite_def pathStatementRead_def pathStatementDelete_def pathStatementListHandler_def
    pathWebhookWrite_def StoreWebhookConfig_def pathWebhookRead_def GetWebhookConfig_def pathWebhookDelete_def Let_def
  by (intro agrees_rules assms)+

lemma agrees_loops [agrees_rules]:
  assumes "lawful_storage view (e_S E)"
  shows "keeps (cache_agrees view) (leases_loop E es)" "keeps (cache_agrees view) (by_role_loop E name limit creds es)"
    "keeps (cache_agrees view) (lease_loop E l es)"
proof -
  show "keeps (cache_agrees view) (leases_loop E es)" by (induction es) (auto intro!: agrees_rules assms)
  show "keeps (cache_agrees view) (by_role_loop E name limit creds es)"
    by (induction es arbitrary: creds) (auto intro!: agrees_rules assms)
  show "keeps (cache_agrees view) (lease_loop E l es)" by (induction es) (auto intro!: agrees_rules assms)
qed

lemma agrees_lease_paths [agrees_rules]:
  assumes "lawful_storage view (e_S E)"
  shows "keeps (cache_agrees view) (pathLeasesList E)" "keeps (cache_agrees view) (pathLeaseInfoRead E data)"
    "keeps (cache_agrees view) (pathCleanupExpiredHandler E ctx)" "keeps (cache_agrees view) (pathLeaseLookupHandler E data)"
    "keeps (cache_agrees view) (pathRotateRootHandler E ctx)"
  unfolding pathLeasesList_def listAllLeases_def pathLeaseInfoRead_def role_or_nil_def pathCleanupExpiredHandler_def
    pathLeaseLookupHandler_def getCredentialByLeaseID_def time_Until_def Let_def pathRotateRootHandler_def
  by (intro agrees_rules assms)+

lemma agrees_renewing [agrees_rules]:
  assumes "lawful_storage view (e_S E)"
  shows "keeps (cache_agrees view) (pathRenewCredsHandler E ctx data)"
    "keeps (cache_agrees view) (pathRenewCredsBatchHandler E ctx data)"
proof -
  have renew: "keeps (cache_agrees view) (renew_loop E ctx conn role st us)" for conn role st us
  proof (induction us)
    case (Cons u us)
    have "keeps (cache_agrees view) (renew_one E ctx conn role st u)"
      unfolding renew_one_def never_connects by (intro agrees_rules assms)
    with Cons show ?case by (auto intro!: agrees_rules)
  qed (simp add: keeps_ret)
  show "keeps (cache_agrees view) (pathRenewCredsHandler E ctx data)"
    unfolding pathRenewCredsHandler_def never_connects by (intro agrees_rules assms)
  show "keeps (cache_agrees view) (pathRenewCredsBatchHandler E ctx data)"
    unfolding pathRenewCredsBatchHandler_def renew_usernames_def getCredentialsByRole_def renewal_statement_def
      close_conn_def Let_def
    by (intro agrees_rules renew assms)
qed

lemma agrees_static [agrees_rules]:
  assumes "lawful_storage view (e_S E)"
  shows "keeps (cache_agrees view) (pathStaticRoleCreate E ctx data)" "keeps (cache_agrees view) (pathStaticRoleRead E data)"
    "keeps (cache_agrees view) (pathStaticRoleUpdate E data raw)" "keeps (cache_agrees view) (pathStaticRoleDelete E ctx data)"
    "keeps (cache_agrees view) (pathStaticRoleListHandler E)" "keeps (cache_agrees view) (pathStaticCredsRead E data)"
    "keeps (cache_agrees view) (pathRotateStaticRoleHandler E ctx data)"
  unfolding pathStaticRoleCreate_def static_config_def initial_password_def getStaticCredential_def pathStaticRoleRead_def
    pathStaticRoleUpdate_def pathStaticRoleDelete_def pathStaticRoleListHandler_def pathStaticCredsRead_def
    pathRotateStaticRoleHandler_def getStaticRole_def Let_def
  by (intro agrees_rules assms)+

lemma agrees_operational [agrees_rules]:
  assumes "lawful_storage view (e_S E)"
  shows "keeps (cache_agrees view) (pathHealthRead E)" "keeps (cache_agrees view) (pathReadinessRead E)"
    "keeps (cache_agrees view) (pathDegradationRead E)" "keeps (cache_agrees view) (pathDegradationUpdate E data)"
    "keeps (cache_agrees view) (pathInfoRead E)"
proof -
  have set: "keeps (cache_agrees view) (SetGracefulDegradation b)" "keeps (cache_agrees view) (SetManuallyEnabledDegradation b)"
    "keeps (cache_agrees view) degraded_fields" for b
    unfolding SetGracefulDegradation_def SetManuallyEnabledDegradation_def degraded_fields_def
    by (intro agrees_rules keeps_modify; simp add: cache_agrees_def)+
  have views: "keeps (cache_agrees view) (pool_views E' rg ns)" for E' rg ns
    by (induction ns) (auto intro!: agrees_rules simp: pool_view_def GetConnectionStats_def db_Stats_def)
  show "keeps (cache_agrees view) (pathHealthRead E)" "keeps (cache_agrees view) (pathReadinessRead E)"
    "keeps (cache_agrees view) (pathDegradationRead E)" "keeps (cache_agrees view) (pathDegradationUpdate E data)"
    "keeps (cache_agrees view) (pathInfoRead E)"
    unfolding pathHealthRead_def pathReadinessRead_def pathInfoRead_def pathDegradationUpdate_def pathDegradationRead_def Let_def
    by (intro agrees_rules set views assms)+
qed

lemma agrees_limiter [agrees_rules]:
  "keeps (cache_agrees view) (RateLimit L addr p)" "keeps (cache_agrees view) pathRateLimitConfigRead"
  "keeps (cache_agrees view) (pathRateLimitConfigWrite raw)" "keeps (cache_agrees view) pathRateLimitStatusRead"
proof -
  have set: "keeps (cache_agrees view) (modify (\<lambda>w. w\<lparr>b_rateLimiter := x\<rparr>))" for x
    by (rule keeps_modify) (simp add: cache_agrees_def)
  have on: "keeps (cache_agrees view) (on_limiter f)" for f
    unfolding on_limiter_def by (intro agrees_rules set)
  show "keeps (cache_agrees view) (RateLimit L addr p)"
    unfolding RateLimit_def by (intro agrees_rules set)
  show "keeps (cache_agrees view) pathRateLimitConfigRead" "keeps (cache_agrees view) (pathRateLimitConfigWrite raw)"
    "keeps (cache_agrees view) pathRateLimitStatusRead"
    unfolding pathRateLimitConfigRead_def pathRateLimitConfigWrite_def SetRateLimiterEnabled_def pathRateLimitStatusRead_def
    by (intro agrees_rules on)+
qed

lemmas agrees_pathMetricsRead [agrees_rules] = keeps_pathMetricsRead

lemma agrees_run_handler:
  fixes view :: "'s \<Rightarrow> string \<Rightarrow> stored option" and E :: "('d, 's) env"
  assumes "lawful_storage view (e_S E)" and "h \<notin> set shadowed"
  shows "keeps (cache_agrees view) (run_handler F E ctx sch raw h :: (('d, 's, 'l, 'z) server_world_scheme, hres) act)"
  using assms(2)
  by (cases h) (simp_all only: run_handler.simps, (intro agrees_rules ok_answers assms(1) | simp add: shadowed_def)+)

lemma agrees_run_job:
  fixes view :: "'s \<Rightarrow> string \<Rightarrow> stored option" and E :: "('d, 's) env"
  shows "keeps (cache_agrees view) (run_job E j :: (('d, 's, 'l, 'z) server_world_scheme, unit) act)"
proof (cases j)
  case HealthChecks
  show ?thesis
    unfolding HealthChecks run_job.simps by (intro agrees_on_registry keeps_rules store_pools)
next
  case CredentialCleanup
  have "cred_cache.coherent m (cred_cleanupExpired t cc)" if "cred_cache.coherent m cc" "cred_wf cc" for m t cc
    using that cred_cleanupExpired_view [OF that(2)] by (auto simp: cred_cache.coherent_def)
  with CredentialCleanup show ?thesis
    by (auto intro!: agrees_rules keeps_modify simp: cache_agrees_def cred_cleanupExpired_wf)
qed (auto intro!: agrees_rules keeps_modify simp: cache_agrees_def)

lemma agrees_serve:
  fixes view :: "'s \<Rightarrow> string \<Rightarrow> stored option" and E :: "('d, 's) env"
  assumes law: "lawful_storage view (e_S E)" and route: "first_match N (fw_route F)" "word_names N"
  shows "keeps (cache_agrees view) (HandleRequest L F E ctx req :: (('d, 's, 'l, 'z) server_world_scheme, hres) act)"
proof -
  have "keeps (cache_agrees view) (serve F E ctx req)"
  proof (cases "fw_route F paths (rq_Path req)")
    case (Some r)
    then obtain i captured where r: "fw_route F paths (rq_Path req) = Some (i, captured)" by (cases r) auto
    have "keeps (cache_agrees view) (run_handler F E ctx (pt_fields (paths ! i)) (captured @ rq_Data req) h)"
      if "map_of (pt_ops (paths ! i)) (rq_Operation req) = Some h" for h
    proof -
      from that have "(rq_Operation req, h) \<in> set (pt_ops (paths ! i))" by (rule map_of_SomeD)
      from shadowed_never_run [OF route r this] have "h \<notin> set shadowed" by (simp add: shadowed_def)
      then show ?thesis by (rule agrees_run_handler [OF law])
    qed
    with r show ?thesis by (auto simp: serve_def Let_def intro!: agrees_rules)
  qed (simp add: serve_def keeps_ret)
  then show ?thesis unfolding HandleRequest_def by (intro agrees_rules)
qed

end
