(* ===== verification/Running.thy ===== *)
theory Running
  imports Cache_Invariants
begin

text \<open>
  The states a running backend can be in: from \<open>Setup\<close> on a storage that holds what the plugin itself
  writes, through any sequence of requests and background jobs. The theorems are the invariant of these
  states and what follows from it for the requests that depend on the default configuration, which no
  path writes.
\<close>

subsection \<open>After Setup\<close>

lemma store_first_ping:
  fixes s :: 's and z :: 'z and op :: "(('d, 's, 'z \<times> go_err option) world_scheme, go_err option) act"
  assumes "op = bnd (db_Ping D cs) (\<lambda>p. seq (set_var p) (ret p))"
  shows "keeps (store_is s z) (local_var x (Do c (Some (plain_retry n i mx f)) op))"
proof -
  have v: "store_is s z (with_var_out w) \<longleftrightarrow> w_st w = s \<and> fst (world.more w) = z"
    for w :: "('d, 's, 'z \<times> go_err option) world_scheme"
    by (simp add: store_is_def with_var_out_def world.defs)
  have "keeps (\<lambda>w. store_is s z (with_var_out w)) (set_var p :: (('d, 's, 'z \<times> go_err option) world_scheme, unit) act)" for p
    unfolding v set_var_def by (simp add: keeps_def modify_def)
  moreover have "keeps (\<lambda>w. store_is s z (with_var_out w)) (db_Ping D cs :: (('d, 's, 'z \<times> go_err option) world_scheme, go_err option) act)"
    unfolding v db_Ping_def on_db_def
    by (intro keeps_seq keeps_tick) (simp_all add: keeps_def clock_blind_def split: prod.split)
  ultimately have op: "keeps (\<lambda>w. store_is s z (with_var_out w)) op"
    unfolding assms by (intro keeps_bnd keeps_seq keeps_ret)
  have "clock_blind (\<lambda>w :: ('d, 's, 'z \<times> go_err option) world_scheme. store_is s z (with_var_out w))"
    by (simp add: v clock_blind_def)
  then show ?thesis by (intro keeps_local_var do_run.run_keeps op)
qed

lemma store_Add: "keeps (store_is s z) (AddConnection D n c rg)"
  unfolding AddConnection_def Let_def by (intro keeps_rules store_first_ping [OF refl])

lemma ok_open_pools:
  assumes "lawful_storage view (e_S E)"
  shows "keeps (backend_ok E view) (open_pools E ks)" and "keeps (cache_agrees view) (open_pools E ks)"
proof -
  have add: "keeps (backend_ok E view) (on_registry (AddConnection D n c))" for D n c
    by (rule keeps_on_registry [OF store_Add])
      (rule returns_mono [OF AddConnection_ok], assumption, simp add: added_ok_def)
  have wait: "keeps I (WaitForWarmup c)" for I c unfolding WaitForWarmup_def by (intro keeps_rules)
  have "keeps (backend_ok E view) (open_pool E k)" "keeps (cache_agrees view) (open_pool E k)" for k
    unfolding open_pool_def by (intro ok_rules add wait assms) (intro agrees_rules store_Add wait assms)
  then show "keeps (backend_ok E view) (open_pools E ks)" "keeps (cache_agrees view) (open_pools E ks)"
    by (induction ks) (auto intro!: keeps_rules)
qed

lemma registry_start: "registry_ok (StartHealthChecks NewDBRegistry)"
  by (simp add: registry_ok_def StartHealthChecks_def NewDBRegistry_def)

lemma Setup_ok:
  fixes view :: "'s \<Rightarrow> string \<Rightarrow> stored option" and E :: "('d, 's) env" and w :: "('d, 's, 'l, 'z) server_world_scheme"
  assumes "lawful_storage view (e_S E)" and "stored_ok E (stored_entries view w)" and "degradation_ok w"
    and "Setup E w = (r, w0)"
  shows "backend_ok E view w0 \<and> cache_agrees view w0"
proof -
  let ?w = "w\<lparr>b_registry := Some (StartHealthChecks NewDBRegistry), b_credCache := Some (newCredentialCache cache_ttl 10000),
    b_queryCache := Some (newQueryResultCache cache_ttl 1000),
    b_rateLimiter := Some (NewRateLimiter DefaultRateLimitConfig True)\<rparr>"
  let ?rest = "bndE (prewarmPools E) (wrapped ''failed to prewarm connection pools'') (\<lambda>_. ret (Inr ()))"
  have s: "Setup E w = ?rest ?w"
    by (simp add: Setup_def new_registry_def seq_def bnd_def modify_def)
  have "keeps (backend_ok E view) ?rest" "keeps (cache_agrees view) ?rest"
    unfolding prewarmPools_def by (intro ok_rules ok_open_pools assms(1)) (intro agrees_rules ok_open_pools assms(1))
  moreover have "backend_ok E view ?w"
    using assms(2,3) registry_start by (simp add: backend_ok_def degradation_ok_def)
  moreover have "cache_agrees view ?w"
    by (simp add: cache_agrees_def newCredentialCache_def cred_wf_def cred_cache.coherent_def cred_view_def)
  ultimately show ?thesis using s assms(4) unfolding keeps_def by (metis snd_conv)
qed

lemma served_ok:
  fixes view :: "'s \<Rightarrow> string \<Rightarrow> stored option" and E :: "('d, 's) env" and w0 w :: "('d, 's, 'l, 'z) server_world_scheme"
  assumes law: "lawful_storage view (e_S E)" and route: "first_match N (fw_route F)" "word_names N"
    and "backend_ok E view w0" "cache_agrees view w0" and "served L F E w0 w"
  shows "backend_ok E view w \<and> cache_agrees view w"
  using assms(6)
proof (induction rule: served.induct)
  case start
  show ?case using assms(4,5) ..
next
  case (request w ctx req r w')
  then show ?case
    using keepsD [OF ok_serve [OF law route], of w] keepsD [OF agrees_serve [OF law route], of w] by (metis snd_conv)
next
  case (job w j w')
  then show ?case using keepsD [OF ok_run_job, of E view w j] keepsD [OF agrees_run_job, of view w E j] by (metis snd_conv)
qed

text \<open>C1. Whatever is requested and in whatever order, with any interleaving of the background jobs: after
  \<open>Setup\<close> on a storage whose entries passed the checks of the paths that write them, every entry of storage has passed
  them, the pools of the registry are well formed, the degradation knows when it began, and every cached
  credential is the stored one.\<close>
theorem running_backend_invariant:
  fixes view :: "'s \<Rightarrow> string \<Rightarrow> stored option" and E :: "('d, 's) env" and wi w :: "('d, 's, 'l, 'z) server_world_scheme"
  assumes "lawful_storage view (e_S E)" and "first_match N (fw_route F)" "word_names N"
    and "stored_ok E (stored_entries view wi)" and "degradation_ok wi" and "Setup E wi = (r, w0)"
    and "served L F E w0 w"
  shows "stored_ok E (stored_entries view w) \<and> (\<forall>rg. b_registry w = Some rg \<longrightarrow> registry_ok rg)
    \<and> degradation_ok w \<and> cache_agrees view w"
proof -
  from Setup_ok [OF assms(1,4-6)] have "backend_ok E view w0" "cache_agrees view w0" by blast+
  from served_ok [OF assms(1-3) this assms(7)] show ?thesis unfolding backend_ok_def by blast
qed

text \<open>A framework that takes the first match and reads a field from the request or its default, a limiter
  that never refuses, and a backend that was just made.\<close>

fun zero_of :: "ftype \<Rightarrow> fval" where
  "zero_of TString = VS []" | "zero_of TInt = VI 0" | "zero_of TBool = VB False" | "zero_of TFloat = VF 0"
| "zero_of TList = VL []" | "zero_of TMap = VM []"

definition plain_get :: "schema \<Rightarrow> (string \<times> fval) list \<Rightarrow> string \<Rightarrow> fval option" where
  "plain_get sch raw k = (case map_of sch k of
       None \<Rightarrow> None
     | Some (t, d) \<Rightarrow> Some (case map_of raw k of Some v \<Rightarrow> v | None \<Rightarrow> (case d of Some v \<Rightarrow> v | None \<Rightarrow> zero_of t)))"

definition plain_fw :: framework where
  "plain_fw = \<lparr>fw_route = first_route plain_name, fw_valid = (\<lambda>_ _. True), fw_get = plain_get,
     fw_answer = (\<lambda>_. Inl (Errorf ''unsupported path'', None)), fw_metrics = [],
     fw_json = \<lparr>cd_encode = (\<lambda>_. []), cd_decode = (\<lambda>_. Inl json_error), cd_errtext = (\<lambda>_. [])\<rparr>\<rparr>"

definition open_limiter :: "unit limiter_lib" where
  "open_limiter = \<lparr>lib_new = (\<lambda>_ _. ()), lib_allow = (\<lambda>_ _. (True, ()))\<rparr>"

definition fresh_server :: "(string \<times> stored) list \<Rightarrow> (unit, (string \<times> stored) list, unit) server_world" where
  "fresh_server s = \<lparr>w_now = 0, w_ticks = (\<lambda>_. 1), w_tickpos = 0, w_rand = (\<lambda>n. n), w_randpos = 0,
     w_db = (), w_sql = [], w_st = s, b_registry = None, b_credCache = None, b_queryCache = None,
     b_degradedSince = None, b_gracefulDegradation = False, b_manuallyEnabledDegradation = False,
     b_rateLimiter = None\<rparr>"

lemma plain_fw_route: "first_match plain_name (fw_route plain_fw)"
  by (simp add: plain_fw_def first_route_first)

lemma calm_lawful: "lawful_storage map_of (e_S calm_env)"
  by (simp add: calm_env_def map_storage_lawful)

lemma fresh_ok: "stored_ok calm_env (stored_entries map_of (fresh_server []))" "degradation_ok (fresh_server s)"
  by (simp_all add: stored_ok_def fresh_server_def hide_audit_def degradation_ok_def)

definition running :: "(unit, (string \<times> stored) list, unit) server_world" where
  "running = snd (Setup calm_env (fresh_server []))"

lemma running_served: "served open_limiter plain_fw calm_env running (snd (run_job calm_env LimiterCleanup running))"
  by (rule served.job [where j = LimiterCleanup, OF served.start]) (simp add: modify_def)

theorem running_backend_invariant_witness:
  "stored_ok calm_env (stored_entries map_of (snd (run_job calm_env LimiterCleanup running)))"
proof -
  have s: "Setup calm_env (fresh_server []) = (fst (Setup calm_env (fresh_server [])), running)"
    by (simp add: running_def)
  show ?thesis
    using running_backend_invariant [OF calm_lawful plain_fw_route plain_names fresh_ok s running_served] by blast
qed

end
