(* ===== verification/Default_Config.thy ===== *)
theory Default_Config
  imports Running
begin

text \<open>
  The default configuration. Every request without a region, the rotation of static roles, the probes and the
  statistics read it at \<open>config\<close>, but every write of a configuration goes below \<open>config/\<close>. The
  theorems show that a running backend never holds a default configuration, and what those requests then answer.
\<close>

text \<open>A handler ends in an error or a panic and leaves storage and the database alone.\<close>

definition turned_down :: "('s \<Rightarrow> string \<Rightarrow> stored option) \<Rightarrow> (('d, 's, 'z) world_scheme, hres) act
    \<Rightarrow> ('d, 's, 'z) world_scheme \<Rightarrow> bool" where
  "turned_down view m w \<longleftrightarrow> (case m w of (r, w') \<Rightarrow> (\<forall>x. r \<noteq> Ret (Inr x))
     \<and> stored_entries view w' = stored_entries view w \<and> w_sql w' = w_sql w)"

text \<open>A handler answers, and the field has the value, or it returns an error.\<close>

definition answers_with :: "string \<Rightarrow> fval list \<Rightarrow> ('w, hres) act \<Rightarrow> 'w \<Rightarrow> bool" where
  "answers_with k vs m w \<longleftrightarrow> (case fst (m w) of
     Ret (Inr (Some resp)) \<Rightarrow> (\<exists>v\<in>set vs. map_of (rs_Data resp) k = Some v) | Ret (Inl _) \<Rightarrow> True | _ \<Rightarrow> False)"

lemma no_default_config:
  assumes "stored_ok E V"
  shows "V ''config'' = None"
proof (rule ccontr)
  assume "V ''config'' \<noteq> None"
  then obtain v where "V ''config'' = Some v" by blast
  from stored_okD [OF assms this] have "prefix (key_kind v) ''config''" ..
  then show False by (cases v) simp_all
qed

lemma turned_down_out:
  fixes w :: "('d, 's, 'z) world_scheme"
  assumes "\<And>V L z. V ''config'' = None \<Longrightarrow> out view (V, L, z) m (\<lambda>r s'. isl r \<and> s' = (V, L, z)) (\<lambda>s'. s' = (V, L, z))"
    and "stored_entries view w ''config'' = None"
  shows "turned_down view m w"
proof -
  obtain r w' where r: "m w = (r, w')" by (cases "m w")
  from out_run [OF assms(1) r] assms(2) show ?thesis by (cases r) (auto simp: turned_down_def r)
qed

lemma rotation_turned_down:
  assumes law: "lawful_storage view (e_S E)" and V: "V ''config'' = None"
  shows "out view (V, L, z) (pathRotateStaticRoleHandler E ctx data) (\<lambda>r s'. isl r \<and> s' = (V, L, z)) (\<lambda>s'. s' = (V, L, z))"
  unfolding pathRotateStaticRoleHandler_def getS_def getStaticRole_def
  by (rule out_bnd, rule out_case_option)
    (auto intro!: out_rules out_get_as [OF law] out_getConfig [OF law] split: fval.split
      simp: config_at_def V static_role_key_def intro!: audit_free_keys [simplified])

lemma creation_turned_down:
  fixes w :: "('d, 's, 'z) plugin_world_scheme"
  assumes law: "lawful_storage view (e_S E)" and V: "stored_entries view w ''config'' = None"
    and region: "fd_Get data ''region'' = Some (VS [])"
  shows "turned_down view (pathCredsRead E ctx data) w \<and> turned_down view (pathCredsBatchRead E ctx data) w"
proof -
  have none: "\<not> grants E (stored_entries view w) w name [] role cfg" for name role cfg
    by (simp add: grants_def config_at_def V)
  obtain r w' where r: "pathCredsRead E ctx data w = (r, w')" by (cases "pathCredsRead E ctx data w")
  obtain s v' where s: "pathCredsBatchRead E ctx data w = (s, v')" by (cases "pathCredsBatchRead E ctx data w")
  from read_run [OF law r] none region have "turned_down view (pathCredsRead E ctx data) w"
    by (auto simp: turned_down_def r read_result_def split: res.splits sum.splits)
  moreover from batch_run [OF law s] none region have "turned_down view (pathCredsBatchRead E ctx data) w"
    by (auto simp: turned_down_def s batch_result_def split: res.splits)
  ultimately show ?thesis ..
qed

lemma getConfig_none:
  fixes w :: "('d, 's, 'z) world_scheme"
  assumes law: "lawful_storage view (e_S E)" and "stored_entries view w ''config'' = None"
  shows "\<exists>w1. getConfig E w = (Ret (Inr None), w1) \<or> (\<exists>e. getConfig E w = (Ret (Inl e), w1))"
proof -
  obtain r w1 where r: "getConfig E w = (r, w1)" by (cases "getConfig E w")
  have "out view (stored_entries view w, w_sql w, world.more w) (getConfig E) (\<lambda>a _. a = Inr None \<or> isl a) (\<lambda>_. False)"
    by (rule out_getConfig [OF law]) (simp_all add: config_at_def assms(2))
  from out_run [OF this r] r show ?thesis by (cases r) (auto simp: isl_def)
qed

lemma probes_uninitialized:
  fixes w :: "('d, 's, 'z) plugin_world_scheme"
  assumes "lawful_storage view (e_S E)" and "stored_entries view w ''config'' = None"
  shows "answers_with ''status'' [VS ''uninitialized'', VS ''unhealthy''] (pathHealthRead E) w"
    "answers_with ''status'' [VS ''not ready''] (pathReadinessRead E) w"
    "answers_with ''status'' [VS ''unconfigured''] (pathInfoRead E) w"
    "answers_with ''initialized'' [VB False] (pathPoolStatsRead E) w"
  using getConfig_none [OF assms]
  by (auto simp: answers_with_def pathHealthRead_def pathReadinessRead_def pathInfoRead_def pathPoolStatsRead_def
      bnd_def tryH_def failH_def okH_def ret_def gets_def data_response_def not_ready_def)

text \<open>C16. A running backend has no default configuration, whatever was requested: every request for credentials without a
  region and every rotation of a static role ends in an error, leaving storage and the database alone; and
  whichever configurations were written, the health path reports an uninitialized plugin, the readiness path one that is not ready, the
  information path an unconfigured one and the statistics no pools.\<close>
theorem default_config_never_exists:
  fixes view :: "'s \<Rightarrow> string \<Rightarrow> stored option" and E :: "('d, 's) env" and wi w :: "('d, 's, 'l, 'z) server_world_scheme"
  assumes "lawful_storage view (e_S E)" and "first_match N (fw_route F)" "word_names N"
    and "stored_ok E (stored_entries view wi)" and "degradation_ok wi" and "Setup E wi = (r, w0)"
    and "served L F E w0 w" and "fd_Get data ''region'' = Some (VS [])"
  shows "turned_down view (pathCredsRead E ctx data) w \<and> turned_down view (pathCredsBatchRead E ctx data) w
    \<and> turned_down view (pathRotateStaticRoleHandler E ctx data') w
    \<and> answers_with ''status'' [VS ''uninitialized'', VS ''unhealthy''] (pathHealthRead E) w
    \<and> answers_with ''status'' [VS ''not ready''] (pathReadinessRead E) w
    \<and> answers_with ''status'' [VS ''unconfigured''] (pathInfoRead E) w
    \<and> answers_with ''initialized'' [VB False] (pathPoolStatsRead E) w"
proof -
  from Setup_ok [OF assms(1,4-6)] have "backend_ok E view w0" "cache_agrees view w0" by blast+
  from served_ok [OF assms(1-3) this assms(7)] have "stored_ok E (stored_entries view w)" by (simp add: backend_ok_def)
  from no_default_config [OF this] have none: "stored_entries view w ''config'' = None" .
  from creation_turned_down [OF assms(1) none assms(8)] turned_down_out [OF rotation_turned_down [OF assms(1)] none]
    probes_uninitialized [OF assms(1) none] show ?thesis by blast
qed

theorem default_config_never_exists_witness:
  "answers_with ''status'' [VS ''not ready''] (pathReadinessRead calm_env) running"
proof -
  have s: "Setup calm_env (fresh_server []) = (fst (Setup calm_env (fresh_server [])), running)"
    by (simp add: running_def)
  have "fd_Get \<lparr>fd_Get = (\<lambda>_. Some (VS [])), fd_session = None\<rparr> ''region'' = Some (VS [])" by simp
  from default_config_never_exists [OF calm_lawful plain_fw_route plain_names fresh_ok s served.start this,
      where ctx = Background and data' = "\<lparr>fd_Get = (\<lambda>_. None), fd_session = None\<rparr>"]
  show ?thesis by (elim conjE)
qed

end
