(* ===== verification/Config_Write.thy ===== *)
theory Config_Write
  imports Default_Config
begin

text \<open>
  Writing a configuration: what one request stores, from which fields of the request, and that the
  connection is verified only afterwards.
\<close>

subsection \<open>The fields of the request\<close>

definition head_fields :: "Config \<Rightarrow> (string \<times> fval) list" where
  "head_fields c = [(''name'', VS (cf_Name c)), (''plugin_name'', VS (cf_PluginName c)),
     (''plugin_version'', VS (cf_PluginVersion c)), (''verify_connection'', VB (cf_VerifyConnection c)),
     (''allowed_roles'', VL (cf_AllowedRoles c)), (''root_rotation_statements'', VL (cf_RootRotationStatements c)),
     (''password_policy'', VS (cf_PasswordPolicy c)), (''connection_url'', VS (cf_ConnectionURL c)),
     (''connection_string'', VS (cf_ConnectionString c)), (''username'', VS (cf_Username c)),
     (''password'', VS (cf_Password c)), (''disable_escaping'', VB (cf_DisableEscaping c))]"

definition pool_fields :: "Config \<Rightarrow> (string \<times> fval) list" where
  "pool_fields c = [(''min_connections'', VI (cf_MinConnections c)), (''max_open_connections'', VI (cf_MaxOpenConnections c)),
     (''max_idle_connections'', VI (cf_MaxIdleConnections c)), (''connection_timeout'', VI (cf_ConnectionTimeout c)),
     (''session_timeout'', VI (cf_SessionTimeout c)), (''max_connection_lifetime'', VI (cf_MaxConnectionLifetime c)),
     (''idle_timeout'', VI (cf_IdleTimeout c))]"

definition ssl_fields :: "Config \<Rightarrow> (string \<times> fval) list" where
  "ssl_fields c = [(''ssl_mode'', VS (cf_SSLMode c)), (''ssl_cert'', VS (cf_SSLCert c)), (''ssl_key'', VS (cf_SSLKey c)),
     (''ssl_root_cert'', VS (cf_SSLRootCert c)), (''ssl_key_password'', VS (cf_SSLKeyPassword c)),
     (''ssl_cipher_suites'', VS (cf_SSLCipherSuites c)), (''ssl_secure'', VB (cf_SSLSecure c)),
     (''ssl_version'', VS (cf_SSLVersion c))]"

definition rest_fields :: "Config \<Rightarrow> (string \<times> fval) list" where
  "rest_fields c = [(''max_retries'', VI (cf_MaxRetries c)), (''initial_retry_interval'', VI (cf_InitialRetryInterval c)),
     (''max_retry_interval'', VI (cf_MaxRetryInterval c)), (''retry_multiplier'', VF (cf_RetryMultiplier c)),
     (''graceful_degradation_mode'', VB (cf_GracefulDegradationMode c)), (''max_result_rows'', VI (cf_MaxResultRows c)),
     (''eviction_policy'', VS (cf_EvictionPolicy c)), (''eviction_batch_size'', VI (cf_EvictionBatchSize c)),
     (''eviction_grace_period'', VI (cf_EvictionGracePeriod c)),
     (''min_evictable_idle_time'', VI (cf_MinEvictableIdleTime c)), (''timezone'', VS (cf_TimeZone c)),
     (''character_set'', VS (cf_CharacterSet c))]"

text \<open>The request has these fields with these values.\<close>

definition carried :: "FieldData \<Rightarrow> (string \<times> fval) list \<Rightarrow> bool" where
  "carried data fs \<longleftrightarrow> list_all (\<lambda>(k, v). fd_Get data k = Some v) fs"

lemma out_config_head:
  assumes "\<And>c. carried data (head_fields c) \<Longrightarrow> Q c s" and "Z s"
  shows "out view s (config_head data) Q Z"
  unfolding config_head_def
  by (rule out_bnd out_getS out_getB out_getL out_ret assms(2) | assumption)+
    (rule assms(1), simp_all add: carried_def head_fields_def assms(2))

lemma out_config_pool:
  assumes "\<And>c'. carried data (pool_fields c') \<Longrightarrow> head_fields c' = head_fields c \<Longrightarrow> Q c' s" and "Z s"
  shows "out view s (config_pool data c) Q Z"
  unfolding config_pool_def
  by (rule out_bnd out_getI out_ret assms(2) | assumption)+
    (rule assms(1), simp_all add: carried_def head_fields_def pool_fields_def assms(2))

lemma out_config_ssl:
  assumes "\<And>c'. carried data (ssl_fields c') \<Longrightarrow> head_fields c' = head_fields c \<Longrightarrow> pool_fields c' = pool_fields c \<Longrightarrow> Q c' s"
    and "Z s"
  shows "out view s (config_ssl data c) Q Z"
  unfolding config_ssl_def
  by (rule out_bnd out_getS out_getB out_ret assms(2) | assumption)+
    (rule assms(1), simp_all add: carried_def head_fields_def pool_fields_def ssl_fields_def assms(2))

lemma out_config_rest:
  assumes "\<And>c'. carried data (rest_fields c') \<Longrightarrow> head_fields c' = head_fields c \<Longrightarrow> pool_fields c' = pool_fields c
      \<Longrightarrow> ssl_fields c' = ssl_fields c \<Longrightarrow> cf_SessionVariables c' = session_variables_of data \<Longrightarrow> Q c' s"
    and "Z s"
  shows "out view s (config_rest data c) Q Z"
  unfolding config_rest_def
  by (rule out_bnd out_getS out_getB out_getI out_getF out_ret assms(2) | assumption)+
    (rule assms(1), simp_all add: carried_def head_fields_def pool_fields_def ssl_fields_def rest_fields_def assms(2))

text \<open>The configuration of the request.\<close>

definition requested :: "FieldData \<Rightarrow> Config \<Rightarrow> bool" where
  "requested data c \<longleftrightarrow> carried data (head_fields c @ pool_fields c @ ssl_fields c @ rest_fields c)
     \<and> cf_SessionVariables c = session_variables_of data"

subsection \<open>What is stored\<close>

lemma out_sends_none:
  assumes "\<And>P. sends cs P m" and "\<And>a. Q a (V, L, z)" and "Z (V, L, z)"
  shows "out view (V, L, z) m Q Z"
proof (rule sends_out [OF assms(1) [of "\<lambda>_. False"]])
  fix a l assume "list_all (\<lambda>_. False) (l :: string list)"
  then have "l = []" by (cases l) simp_all
  with assms(2) show "Q a (V, L @ map (Pair cs) l, z)" by simp
next
  fix l assume "list_all (\<lambda>_. False) (l :: string list)"
  then have "l = []" by (cases l) simp_all
  with assms(3) show "Z (V, L @ map (Pair cs) l, z)" by simp
qed

lemma out_verify:
  assumes "\<And>a. Q a (V, L, z)" and "Z (V, L, z)"
  shows "out view (V, L, z) (verifyConfigConnection E cfg) Q Z"
  by (rule out_sends_none [where cs = "[]"])
    (auto simp: verifyConfigConnection_def bndE_def intro!: sends_combinators sends_Connect sends_Close assms split: sum.split)

text \<open>What a write leaves and answers: \<open>V\<close> and \<open>L\<close> are storage and the statements before it.\<close>

definition write_result :: "('d, 's) env \<Rightarrow> FieldData \<Rightarrow> (string \<Rightarrow> stored option) \<Rightarrow> hres
    \<Rightarrow> (string \<Rightarrow> stored option) \<Rightarrow> bool" where
  "write_result E data V r V' \<longleftrightarrow> (V' = V \<and> isl r) \<or>
     (\<exists>cfg. requested data cfg \<and> config_ok_entry E cfg \<and> V' = V(config_key (cf_Name cfg) \<mapsto> SConfig cfg)
        \<and> (\<forall>resp. r = Inr resp \<longrightarrow> resp = Some (config_response (cf_Name cfg) cfg)))"

lemma write_refused: "write_result E data V (Inl e) V"
  by (simp add: write_result_def)

lemma write_stored:
  assumes "requested data cfg" and "config_ok_entry E cfg"
    and "\<And>resp. r = Inr resp \<Longrightarrow> resp = Some (config_response (cf_Name cfg) cfg)"
  shows "write_result E data V r (V(config_key (cf_Name cfg) \<mapsto> SConfig cfg))"
  using assms unfolding write_result_def by blast

lemma out_config_guards:
  assumes "\<And>e. write_result E data V (Inl (e, None)) V'" and "x = None \<Longrightarrow> out view s n Q Z"
    and "\<And>e. x = Some e \<Longrightarrow> Q (Inl (wrap e, None)) s"
  shows "out view s (guardH x wrap n) Q Z"
  using assms(2,3) by (cases x) (simp_all add: guardH_def out_failH)

lemma out_getS_some: "fd_Get d k = Some (VS a) \<Longrightarrow> Q a s \<Longrightarrow> out view s (getS d k) Q Z"
  unfolding getS_def by (simp add: out_ret)

lemma out_read_back:
  assumes law: "lawful_storage view (e_S E)" and "requested data cfg" and "config_ok_entry E cfg"
    and V': "V' = V(config_key (cf_Name cfg) \<mapsto> SConfig cfg)"
  shows "out view (V', L, z) (pathConfigRead E data) (\<lambda>r (V1, L1, z1). write_result E data V r V1 \<and> L1 = L) Z"
proof -
  have name: "fd_Get data ''name'' = Some (VS (cf_Name cfg))"
    using assms(2) by (simp add: requested_def carried_def head_fields_def)
  have res: "write_result E data V r V'" if "\<And>resp. r = Inr resp \<Longrightarrow> resp = Some (config_response (cf_Name cfg) cfg)" for r
    unfolding V' by (rule write_stored [OF assms(2,3)]) (rule that)
  have read: "out view (V', L, z) (get_as as_config E (config_key (cf_Name cfg)))
      (\<lambda>x s'. s' = (V', L, z) \<and> (case x of Inl _ \<Rightarrow> True | Inr y \<Rightarrow> y = Some cfg)) Z"
    unfolding config_key_def
    by (rule out_get_as [OF law audit_free_keys(3)]) (auto simp: V' config_key_def)
  show ?thesis
    unfolding pathConfigRead_def
    by (rule out_bnd, rule out_getS_some [OF name], intro out_if out_failH out_tryH out_conseq [OF read])
      (auto split: sum.splits intro!: out_rules res)
qed

lemma out_invalidateConfig:
  assumes "\<And>z'. Q () (V, L, z')"
  shows "out view (V, L, z) (invalidateConfigCache n) Q Z"
  unfolding invalidateConfigCache_def query_cache_delete_def
  by (intro out_if out_modify) (auto simp: visible_def assms)

lemma out_total:
  fixes m :: "(('d, 's, 'z) world_scheme, 'a) act"
  shows "total m \<Longrightarrow> out view s m Q (\<lambda>_. True) \<Longrightarrow> out view s m Q Z"
  unfolding out_def total_def
proof (intro allI impI)
  fix w :: "('d, 's, 'z) world_scheme"
  assume t: "\<forall>w. \<exists>a w'. m w = (Ret a, w')" and w: "visible view w = s"
    and o: "\<forall>w. visible view w = s \<longrightarrow> (case m w of (Ret a, w') \<Rightarrow> Q a (visible view w') | (_, w') \<Rightarrow> True)"
  from t obtain a w' where "m w = (Ret a, w')" by blast
  with o w show "case m w of (Ret a, w') \<Rightarrow> Q a (visible view w') | (_, w') \<Rightarrow> Z (visible view w')" by fastforce
qed

lemma total_verify: "total (verifyConfigConnection E cfg)"
  unfolding verifyConfigConnection_def bndE_def
  by (intro total_case_sum total_combinators total_Connect total_Close)

lemma out_config_write:
  assumes law: "lawful_storage view (e_S E)"
  shows "out view (V, L, z) (pathConfigWrite E data) (\<lambda>r (V', L', z'). write_result E data V r V' \<and> L' = L)
    (\<lambda>(V', L', z'). V' = V \<and> L' = L)"
proof -
  let ?Q = "\<lambda>r (V', L', z'). write_result E data V r V' \<and> L' = L" and ?Z = "\<lambda>(V', L', z'). V' = V \<and> L' = L"
  have stored: "out view (V(config_key (cf_Name cfg) \<mapsto> SConfig cfg), L, z)
      (seq (invalidateConfigCache (cf_Name cfg))
        (bnd (if cf_VerifyConnection cfg then verifyConfigConnection E cfg else ret (Inr ())) (\<lambda>v. case v of
           Inl err \<Rightarrow> seq (invalidateConfigCache (cf_Name cfg))
             (failH (wrapped ''connection verification failed'' err))
         | Inr _ \<Rightarrow> pathConfigRead E data))) ?Q (\<lambda>_. False)"
    if c: "requested data cfg" "config_ok_entry E cfg" for cfg
  proof (rule out_seq, rule out_invalidateConfig, rule out_bnd, rule out_total, rule total_combinators(6))
    fix z'
    show "out view (V(config_key (cf_Name cfg) \<mapsto> SConfig cfg), L, z')
      (if cf_VerifyConnection cfg then verifyConfigConnection E cfg else ret (Inr ()))
      (\<lambda>v s'. out view s' (case v of
           Inl err \<Rightarrow> seq (invalidateConfigCache (cf_Name cfg)) (failH (wrapped ''connection verification failed'' err))
         | Inr _ \<Rightarrow> pathConfigRead E data) ?Q (\<lambda>_. False)) (\<lambda>_. True)"
      by (intro out_if out_verify out_ret out_case_sum)
        (auto intro!: out_seq out_invalidateConfig out_failH write_stored c
          out_conseq [OF out_read_back [OF law c refl]])
  qed (rule total_verify, simp add: total_def ret_def)
  have checked: "requested data c4 \<and> config_ok_entry E c4"
    if "carried data (head_fields c1)" "connection_given E (cf_ConnectionString c1) (cf_ConnectionURL c1) = None"
      "carried data (pool_fields c2)" "head_fields c2 = head_fields c1"
      "carried data (ssl_fields c3)" "head_fields c3 = head_fields c2" "pool_fields c3 = pool_fields c2"
      "carried data (rest_fields c4)" "head_fields c4 = head_fields c3" "pool_fields c4 = pool_fields c3"
      "ssl_fields c4 = ssl_fields c3" "cf_SessionVariables c4 = session_variables_of data"
      "session_check E (cf_SessionVariables c4) = None" "first_failed (config_checks c4) = None" for c1 c2 c3 c4
  proof -
    from that(4,6,9) have "head_fields c4 = head_fields c1" by simp
    then have "cf_ConnectionString c4 = cf_ConnectionString c1" "cf_ConnectionURL c4 = cf_ConnectionURL c1"
      by (simp_all add: head_fields_def)
    with that show ?thesis by (simp add: requested_def config_ok_entry_def carried_def)
  qed
  have put: "out view (V, L, z) (tryH (storage_Put E (config_key (cf_Name cfg)) (SConfig cfg)) id (\<lambda>_.
      seq (invalidateConfigCache (cf_Name cfg))
        (bnd (if cf_VerifyConnection cfg then verifyConfigConnection E cfg else ret (Inr ())) (\<lambda>v. case v of
           Inl err \<Rightarrow> seq (invalidateConfigCache (cf_Name cfg))
             (failH (wrapped ''connection verification failed'' err))
         | Inr _ \<Rightarrow> pathConfigRead E data)))) ?Q ?Z"
    if "requested data cfg \<and> config_ok_entry E cfg" for cfg
  proof (rule out_tryH, rule out_Put [OF law, where key = "config_key (cf_Name cfg)"])
    show "audit_free (config_key (cf_Name cfg))" unfolding config_key_def by (rule audit_free_keys(3))
  qed (simp add: write_refused, unfold sum.case, rule out_conseq [OF stored], use that in simp_all)
  show ?thesis
    unfolding pathConfigWrite_def
    by (rule out_bnd, rule out_config_head, rule out_guardH, simp add: write_refused, rule out_bnd, rule out_config_pool,
        rule out_bnd, rule out_config_ssl, rule out_bnd, rule out_config_rest, rule out_guardH, simp add: write_refused,
        rule out_guardH, simp add: write_refused, rule put, rule checked)
      simp_all
qed

text \<open>C11. A write of a configuration stores exactly the configuration of the request under its name, after every
  check has passed, or leaves storage as it was and answers an error; it sends no statement; and
  its answer, when it is not an error, shows the stored configuration without its secrets. The connection is verified
  after the write and is not undone: an error of the verification comes with either outcome.\<close>
theorem pathConfigWrite_stores_checked:
  fixes w :: "('d, 's, 'z) plugin_world_scheme"
  assumes "lawful_storage view (e_S E)"
  shows "case pathConfigWrite E data w of
     (Ret r, w') \<Rightarrow> write_result E data (stored_entries view w) r (stored_entries view w') \<and> w_sql w' = w_sql w
   | (_, w') \<Rightarrow> stored_entries view w' = stored_entries view w \<and> w_sql w' = w_sql w"
proof -
  obtain r w' where r: "pathConfigWrite E data w = (r, w')" by (cases "pathConfigWrite E data w")
  from out_run [OF out_config_write [OF assms] r] r show ?thesis by (cases r) simp_all
qed

text \<open>A request with the least it needs, and what it stores.\<close>

definition sample_request :: FieldData where
  "sample_request = field_data plain_fw (pt_fields pathConfig)
     [(''name'', VS ''c''), (''connection_url'', VS ''u''), (''verify_connection'', VB False)]"

lemma sample_gets:
  "fd_Get sample_request k = plain_get (pt_fields pathConfig)
     [(''name'', VS ''c''), (''connection_url'', VS ''u''), (''verify_connection'', VB False)] k"
  "session_variables_of sample_request = None"
  by (simp_all add: sample_request_def field_data_def plain_fw_def session_variables_of_def raw_map_def)

lemma no_session_vars: "session_check calm_env None = None"
  by (simp add: session_check_def entries_of_def map_entries_def ValidateSessionVariables_def calm_env_def)

lemma calm_env_sel: "e_S calm_env = map_storage" "e_ord calm_env = id"
  by (simp_all add: calm_env_def)

lemma sample_write:
  "\<exists>r w'. pathConfigWrite calm_env sample_request (start_backend []) = (Ret (Inr r), w')"
  by (simp add: pathConfigWrite_def config_head_def config_pool_def config_ssl_def config_rest_def getS_def getI_def getB_def
      getL_def getF_def sample_gets plain_get_def pathConfig_def bnd_def ret_def guardH_def connection_given_def
      no_session_vars first_failed_def config_checks_def first_err.simps(2) validSSLModes_def zero_config_def
      tryH_def storage_Put_def on_st_def calm_env_sel map_storage_def seq_def tick_def modify_def start_backend_def
      err_to_sum_def invalidateConfigCache_def query_cache_delete_def pathConfigRead_def get_as_def storage_Get_def okH_def)
theorem pathConfigWrite_stores_checked_witness:
  "\<exists>resp cfg w'. pathConfigWrite calm_env sample_request (start_backend []) = (Ret (Inr resp), w')
     \<and> requested sample_request cfg \<and> config_ok_entry calm_env cfg
     \<and> stored_entries map_of w' = (\<lambda>k. if k = config_key (cf_Name cfg) then Some (SConfig cfg) else None)"
proof -
  from sample_write obtain resp w' where r: "pathConfigWrite calm_env sample_request (start_backend []) = (Ret (Inr resp), w')"
    by blast
  have empty: "stored_entries map_of (start_backend []) = (\<lambda>_. None)"
    by (simp add: start_backend_def hide_audit_def fun_eq_iff)
  from pathConfigWrite_stores_checked [OF calm_lawful, where data = sample_request and w = "start_backend []"] r
  have "write_result calm_env sample_request (\<lambda>_. None) (Inr resp) (stored_entries map_of w')" by (simp add: empty)
  with r show ?thesis by (auto simp: write_result_def fun_eq_iff)
qed

end
