(* ===== verification/Static_Rotation.thy ===== *)
theory Static_Rotation
  imports Config_Write
begin

text \<open>
  The passwords of static roles: what a rotation and the creation of a role send and store, and when the
  stored password is the one that the database was given last.
\<close>

lemma out_password:
  assumes "\<And>p. password_ok E p \<Longrightarrow> Q p s"
  shows "out view s (generatePassword (e_rand_ok E)) Q Z"
  by (rule out_silent [OF silent_generatePassword returns_password]) (rule assms)

subsection \<open>What is sent\<close>

lemma set_password_not_blank: "TrimSpace (set_password_sql u p) \<noteq> []"
  unfolding set_password_sql_def append_Cons by (rule TrimSpace_nonblank) (simp_all add: space_char_def IsSpace_def)

text \<open>The texts of a rotation: the new password, and the statements of the role as they are rewritten.\<close>

definition rotation_texts :: "StaticRole \<Rightarrow> string \<Rightarrow> string set" where
  "rotation_texts sr password = insert (set_password_sql (sr_Username sr) password)
     ((\<lambda>stmt. replaceStaticRoleVars stmt (sr_Username sr) password) ` set (sr_RotationStatements sr))"

lemma out_ignored_each:
  fixes z :: 'z and E :: "('d, 's) env"
  assumes "\<And>l. set l \<subseteq> sendable (f ` set stmts) \<Longrightarrow> Q () (V, L @ map (Pair (conn_of E cfg)) l, z)"
  shows "out view (V, L, z) (for_each stmts (\<lambda>stmt. seq (executeSQL E ctx cfg (f stmt)) (ret ()))) Q Z"
  using assms
proof (induction stmts arbitrary: L)
  case Nil
  from Nil [of "[]"] show ?case by (simp add: out_ret)
next
  case (Cons stmt stmts)
  show ?case
    unfolding for_each.simps
  proof (rule out_seq, rule out_seq, rule out_executeSQL_ignored, rule out_ret)
    fix l assume l: "set l \<subseteq> set (statements_of (f stmt))"
    show "out view (V, L @ map (Pair (conn_of E cfg)) l, z)
      (for_each stmts (\<lambda>stmt. seq (executeSQL E ctx cfg (f stmt)) (ret ()))) Q Z"
    proof (rule Cons.IH)
      fix l' assume "set l' \<subseteq> sendable (f ` set stmts)"
      with l have "set (l @ l') \<subseteq> sendable (f ` set (stmt # stmts))" by (auto simp: sendable_def)
      from Cons.prems [OF this] show "Q () (V, (L @ map (Pair (conn_of E cfg)) l) @ map (Pair (conn_of E cfg)) l', z)"
        by simp
    qed
  qed
qed

subsection \<open>Rotation\<close>

text \<open>The statements of a rotation that succeeded: the password was set, and only statements of the role followed.\<close>

definition password_set :: "StaticRole \<Rightarrow> string \<Rightarrow> string list \<Rightarrow> bool" where
  "password_set sr password l \<longleftrightarrow> (\<exists>k m. l = k @ statements_of (set_password_sql (sr_Username sr) password) @ m
     \<and> set m \<subseteq> sendable ((\<lambda>stmt. replaceStaticRoleVars stmt (sr_Username sr) password) ` set (sr_RotationStatements sr)))"

definition rotated_cred :: "string \<Rightarrow> StaticRole \<Rightarrow> string \<Rightarrow> int \<Rightarrow> StaticCredential" where
  "rotated_cred name sr password t = \<lparr>sc_Username = sr_Username sr, sc_Password = password, sc_RoleName = name,
     sc_DBName = sr_DBName sr, sc_LastRotated = unix t, sc_NextRotation = computeNextRotation sr\<rparr>"

text \<open>What a rotation leaves and answers, when it reached the database: it failed there; or the password was set and
  then nothing was stored, or the role alone, or the role and the credential, which is the only success.\<close>

definition rotation_left :: "('d, 's) env \<Rightarrow> (string \<Rightarrow> stored option) \<Rightarrow> string \<Rightarrow> StaticRole \<Rightarrow> string \<Rightarrow> hres
    \<Rightarrow> (string \<Rightarrow> stored option) \<Rightarrow> string list \<Rightarrow> bool" where
  "rotation_left E V name sr password r V' l \<longleftrightarrow>
     (isl r \<and> V' = V) \<or>
     (password_set sr password l \<and>
       (\<exists>t1 t2. let V1 = V(static_role_key name \<mapsto> SStaticRole (rotated sr t1)) in
          isl r \<and> V' = V1 \<or>
          V' = V1(static_cred_key name \<mapsto> SStaticCred (rotated_cred name (rotated sr t1) password t2))
            \<and> (\<exists>resp. r = Inr (Some resp) \<and> map_of (rs_Data resp) ''password'' = Some (VS password))))"

definition rotation_result :: "('d, 's) env \<Rightarrow> FieldData \<Rightarrow> (string \<Rightarrow> stored option) \<Rightarrow> (string \<times> string) list \<Rightarrow> hres
    \<Rightarrow> (string \<Rightarrow> stored option) \<Rightarrow> (string \<times> string) list \<Rightarrow> bool" where
  "rotation_result E data V L r V' L' \<longleftrightarrow> (isl r \<and> V' = V \<and> L' = L) \<or>
     (\<exists>name sr cfg password l. fd_Get data ''name'' = Some (VS name) \<and> V (static_role_key name) = Some (SStaticRole sr)
        \<and> config_at V [] = Some cfg \<and> password_ok E password
        \<and> L' = L @ map (Pair (conn_of E cfg)) l \<and> set l \<subseteq> sendable (rotation_texts sr password)
        \<and> rotation_left E V name sr password r V' l)"

lemma out_getS_name:
  assumes "\<And>a. fd_Get d k = Some (VS a) \<Longrightarrow> out view s (g a) Q Z" and "Z s"
  shows "out view s (bnd (getS d k) g) Q Z"
  unfolding getS_def
  by (rule out_bnd) (auto intro!: out_ret out_panic assms split: option.split fval.split)

lemma out_getStaticRole:
  assumes "lawful_storage view (e_S E)" and "\<And>e. Q (Inl e) (V, L, z)" and "Q (Inr None) (V, L, z)"
    and "\<And>sr. V (static_role_key name) = Some (SStaticRole sr) \<Longrightarrow> Q (Inr (Some sr)) (V, L, z)"
  shows "out view (V, L, z) (getStaticRole E name) Q Z"
  unfolding getStaticRole_def
  by (rule out_get_as [OF assms(1)])
    (auto simp: static_role_key_def intro!: assms(2,3) assms(4) [unfolded static_role_key_def] audit_free_keys [simplified]
      elim!: as_static_role.elims)

lemma rotation_resultI:
  assumes "fd_Get data ''name'' = Some (VS name)" "V (static_role_key name) = Some (SStaticRole sr)"
    "config_at V [] = Some cfg" "password_ok E password"
    and l: "set l \<subseteq> set (statements_of (set_password_sql (sr_Username sr) password))"
    and m: "set m \<subseteq> sendable ((\<lambda>stmt. replaceStaticRoleVars stmt (sr_Username sr) password) ` set (sr_RotationStatements sr))"
    and "rotation_left E V name sr password r V' (l @ m)"
  shows "rotation_result E data V L r V' (L @ map (Pair (conn_of E cfg)) l @ map (Pair (conn_of E cfg)) m)"
proof -
  have "set (l @ m) \<subseteq> sendable (rotation_texts sr password)"
    using l m by (auto simp: sendable_def rotation_texts_def)
  moreover have "L @ map (Pair (conn_of E cfg)) l @ map (Pair (conn_of E cfg)) m = L @ map (Pair (conn_of E cfg)) (l @ m)"
    by simp
  ultimately show ?thesis unfolding rotation_result_def using assms(1-4,7) by blast
qed

lemma out_rotate:
  assumes law: "lawful_storage view (e_S E)"
  shows "out view (V, L, z) (pathRotateStaticRoleHandler E ctx data)
    (\<lambda>r (V', L', z'). rotation_result E data V L r V' L' \<and> z' = z) (\<lambda>(V', L', z'). V' = V \<and> L' = L \<and> z' = z)"
  (is "out _ _ _ ?Q ?Z")
proof -
  have refused: "?Q (Inl (e, x)) (V, L, z)" for e x by (simp add: rotation_result_def)
  have put: "out view (V, L @ map (Pair (conn_of E cfg)) l @ map (Pair (conn_of E cfg)) m, z)
      (bnd time_Now (\<lambda>t1. let sr = rotated sr0 t1 in
       tryH (storage_Put E (static_role_key name) (SStaticRole sr)) id (\<lambda>_.
       bnd time_Now (\<lambda>t2.
       tryH (storage_Put E (static_cred_key name) (SStaticCred
         \<lparr>sc_Username = sr_Username sr, sc_Password = password, sc_RoleName = name, sc_DBName = sr_DBName sr,
          sc_LastRotated = unix t2, sc_NextRotation = computeNextRotation sr\<rparr>)) id (\<lambda>_.
       okH (data_response [(''username'', VS (sr_Username sr)), (''password'', VS password),
         (''last_rotated'', VI (sr_LastRotation sr)), (''rotation_count'', VI (sr_RotationCount sr))]))))))
      ?Q ?Z"
    if c: "fd_Get data ''name'' = Some (VS name)" "V (static_role_key name) = Some (SStaticRole sr0)"
      "config_at V [] = Some cfg" "password_ok E password"
      "set l \<subseteq> set (statements_of (set_password_sql (sr_Username sr0) password))"
      "set m \<subseteq> sendable ((\<lambda>stmt. replaceStaticRoleVars stmt (sr_Username sr0) password) ` set (sr_RotationStatements sr0))"
      "\<exists>k. l = k @ statements_of (set_password_sql (sr_Username sr0) password)" for name sr0 cfg password l m
  proof -
    have ps: "password_set sr0 password (l @ m)" using c(6,7) unfolding password_set_def by (metis append.assoc)
    have free: "audit_free (static_role_key name)" "audit_free (static_cred_key name)"
      by (simp_all add: static_role_key_def static_cred_key_def audit_free_keys [simplified])
    show ?thesis
      unfolding Let_def
    proof (rule out_bnd_silent [OF silent_effects(1)], rule out_tryH, rule out_Put [OF law free(1)])
      fix e t1
      show "case Inl e of Inl e \<Rightarrow> ?Q (Inl (id e, None)) (V, L @ map (Pair (conn_of E cfg)) l @ map (Pair (conn_of E cfg)) m, z)
        | Inr a \<Rightarrow> out view (V, L @ map (Pair (conn_of E cfg)) l @ map (Pair (conn_of E cfg)) m, z) (k a) ?Q ?Z" for k
        unfolding sum.case prod.case by (rule conjI [OF rotation_resultI [OF c(1-6)] refl]) (simp add: rotation_left_def)
    next
      fix t1
      let ?V1 = "V(static_role_key name \<mapsto> SStaticRole (rotated sr0 t1))"
        and ?L1 = "L @ map (Pair (conn_of E cfg)) l @ map (Pair (conn_of E cfg)) m"
      have half: "?Q (Inl (id e, None)) (?V1, ?L1, z)" for e
        unfolding prod.case by (rule conjI [OF rotation_resultI [OF c(1-6)] refl]) (use ps in \<open>auto simp: rotation_left_def Let_def\<close>)
      have stored: "?Q (Inr (Some (data_response [(''username'', VS (sr_Username (rotated sr0 t1))), (''password'', VS password),
            (''last_rotated'', VI (sr_LastRotation (rotated sr0 t1))), (''rotation_count'', VI (sr_RotationCount (rotated sr0 t1)))])))
          (?V1(static_cred_key name \<mapsto> SStaticCred (rotated_cred name (rotated sr0 t1) password t2)), ?L1, z)" for t2
        unfolding prod.case by (rule conjI [OF rotation_resultI [OF c(1-6)] refl]) (use ps in \<open>auto simp: rotation_left_def Let_def data_response_def\<close>)
      show "case Inr () of Inl e \<Rightarrow> ?Q (Inl (id e, None)) (?V1, ?L1, z)
        | Inr a \<Rightarrow> out view (?V1, ?L1, z) (bnd time_Now (\<lambda>t2.
       tryH (storage_Put E (static_cred_key name) (SStaticCred
         \<lparr>sc_Username = sr_Username (rotated sr0 t1), sc_Password = password, sc_RoleName = name, sc_DBName = sr_DBName (rotated sr0 t1),
          sc_LastRotated = unix t2, sc_NextRotation = computeNextRotation (rotated sr0 t1)\<rparr>)) id (\<lambda>_.
       okH (data_response [(''username'', VS (sr_Username (rotated sr0 t1))), (''password'', VS password),
         (''last_rotated'', VI (sr_LastRotation (rotated sr0 t1))), (''rotation_count'', VI (sr_RotationCount (rotated sr0 t1)))])))) ?Q ?Z"
        unfolding sum.case
        by (rule out_bnd_silent [OF silent_effects(1)], rule out_tryH, rule out_Put [OF law free(2)])
          (unfold sum.case, rule half, rule out_okH, rule stored [unfolded rotated_cred_def])
    qed
  qed
  show ?thesis
    unfolding pathRotateStaticRoleHandler_def
  proof (rule out_getS_name, rule out_tryH, rule out_getStaticRole [OF law], unfold sum.case option.case)
    fix name sr0
    assume name: "fd_Get data ''name'' = Some (VS name)" and sr: "V (static_role_key name) = Some (SStaticRole sr0)"
    have changed: "out view (V, L, z) (tryH (executeSQL E ctx cfg (set_password_sql (sr_Username sr0) password)) wrap k) ?Q ?Z"
      if cfg: "config_at V [] = Some cfg" and p: "password_ok E password"
        and k: "\<And>l. set l \<subseteq> set (statements_of (set_password_sql (sr_Username sr0) password))
            \<Longrightarrow> \<exists>k. l = k @ statements_of (set_password_sql (sr_Username sr0) password)
            \<Longrightarrow> out view (V, L @ map (Pair (conn_of E cfg)) l, z) (k ()) ?Q ?Z" for cfg password wrap k
    proof (rule out_tryH, rule out_executeSQL, unfold sum.case prod.case)
      fix e l assume l: "set l \<subseteq> set (statements_of (set_password_sql (sr_Username sr0) password))"
      have "rotation_result E data V L (Inl (wrap e, None)) V (L @ map (Pair (conn_of E cfg)) l @ map (Pair (conn_of E cfg)) [])"
        by (rule rotation_resultI [OF name sr cfg p l]) (simp_all add: rotation_left_def)
      then show "rotation_result E data V L (Inl (wrap e, None)) V (L @ map (Pair (conn_of E cfg)) l) \<and> z = z" by simp
    qed (rule k, assumption, simp add: set_password_not_blank)
    show "out view (V, L, z) (tryH (getConfig E) id (\<lambda>c. case c of
       None \<Rightarrow> failH (Errorf ''database configuration not found'')
     | Some cfg \<Rightarrow>
     bnd (generatePassword (e_rand_ok E)) (\<lambda>password.
     tryH (executeSQL E ctx cfg (set_password_sql (sr_Username sr0) password)) (wrapped ''failed to rotate password'') (\<lambda>_.
     seq (for_each (sr_RotationStatements sr0) (\<lambda>stmt.
       seq (executeSQL E ctx cfg (replaceStaticRoleVars stmt (sr_Username sr0) password)) (ret ())))
     (bnd time_Now (\<lambda>t1.
     let sr = rotated sr0 t1 in
     tryH (storage_Put E (static_role_key name) (SStaticRole sr)) id (\<lambda>_.
     bnd time_Now (\<lambda>t2.
     tryH (storage_Put E (static_cred_key name) (SStaticCred
         \<lparr>sc_Username = sr_Username sr, sc_Password = password, sc_RoleName = name, sc_DBName = sr_DBName sr,
          sc_LastRotated = unix t2, sc_NextRotation = computeNextRotation sr\<rparr>)) id (\<lambda>_.
     okH (data_response [(''username'', VS (sr_Username sr)), (''password'', VS password),
       (''last_rotated'', VI (sr_LastRotation sr)), (''rotation_count'', VI (sr_RotationCount sr))])))))))))) ?Q ?Z"
      by (rule out_tryH, rule out_getConfig [OF law], unfold sum.case option.case, rule refused, rule out_failH, rule refused,
          rule out_bnd, rule out_password, rule changed, assumption, assumption, rule out_seq, rule out_ignored_each,
          unfold append_assoc, rule put [OF name sr])
  qed (rule refused, rule out_failH, rule refused, simp)
qed

end
