(* ===== verification/Service.thy ===== *)
theory Service
  imports Static_Rotation
begin

text \<open>
  When the database and storage answer. The theorems on the outcomes of the handlers allow an error on every
  path; here the database accepts every call, storage fails on none and the context has no deadline, and the
  requests that are granted succeed.
\<close>

subsection \<open>A database that answers\<close>

definition ready :: "'d driver \<Rightarrow> bool" where
  "ready D \<longleftrightarrow> (\<forall>cs d. fst (drv_open D cs d) = None \<and> fst (drv_ping D cs d) = None
     \<and> (\<forall>q. fst (drv_exec D cs q d) = None))"

lemma returns_on_db: "(\<And>d. P (fst (f d))) \<Longrightarrow> returns P (on_db f)"
  by (auto simp: returns_def on_db_def seq_def bnd_def tick_def modify_def split: prod.splits) (metis fst_conv)

lemma out_answered:
  assumes "\<And>d. fst (f d) = a" and "Q a s"
  shows "out view s (on_db f) Q Z"
  by (rule out_silent [OF silent_effects(2) returns_on_db [where P = "\<lambda>x. x = a"]]) (simp_all add: assms)

lemma out_ready_Exec:
  assumes "ready D" and "Q None (V, L @ [(cs, q)], z)"
  shows "out view (V, L, z) (db_Exec D cs q) Q Z"
  unfolding db_Exec_def
  by (rule out_seq, rule out_modify, rule out_answered [where a = None])
    (use assms in \<open>auto simp: ready_def visible_def\<close>)

lemma out_ready_each:
  assumes "ready D" and "Q None (V, L @ map (Pair cs) qs, z)"
  shows "out view (V, L, z) (for_err qs (db_Exec D cs)) Q Z"
  using assms(2)
proof (induction qs arbitrary: L)
  case Nil
  then show ?case by (simp add: out_ret)
next
  case (Cons q qs)
  show ?case
    unfolding for_err.simps
    by (rule out_bnd, rule out_ready_Exec [OF assms(1)], unfold option.case, rule Cons.IH) (use Cons.prems in simp)
qed

lemma out_poll_Background: "Q None s \<Longrightarrow> out view s (ctx_poll Background) Q Z"
  by (rule out_silent [OF silent_effects(6), where P = "\<lambda>d. d = None"])
    (auto simp: returns_def ctx_poll_def seq_def bnd_def tick_def modify_def gets_def)

lemma out_with_defer:
  fixes m :: "(('d, 's, 'z) world_scheme, 'a) act"
  assumes "out view s m (\<lambda>a s'. out view s' fin (\<lambda>_. Q a) (\<lambda>_. False)) (\<lambda>_. False)"
  shows "out view s (with_defer fin m) Q Z"
  unfolding out_def
proof (intro allI impI)
  fix w :: "('d, 's, 'z) world_scheme"
  assume w: "visible view w = s"
  obtain r w1 where m: "m w = (r, w1)" by (cases "m w")
  with assms w obtain a where r: "r = Ret a" and f: "out view (visible view w1) fin (\<lambda>_. Q a) (\<lambda>_. False)"
    by (cases r) (auto simp: out_def)
  obtain r' w2 where fin: "fin w1 = (r', w2)" by (cases "fin w1")
  with f have "r' = Ret ()" "Q a (visible view w2)" by (cases r'; auto simp: out_def)+
  then show "case with_defer fin m w of (Ret a, w') \<Rightarrow> Q a (visible view w') | (_, w') \<Rightarrow> Z (visible view w')"
    by (simp add: with_defer_def m r fin)
qed

lemma out_ready_Connect:
  assumes "ready D" and "Q (Inr (new_connection cs)) s"
  shows "out view s (Connect D cs) Q Z"
proof -
  obtain n where n: "nat (cc_MaxRetries (connect_defaults None)) = Suc n"
    by (simp add: connect_defaults_def DefaultConnectConfig_def odbc_DefaultMaxRetries_def Let_def)
  have o: "fst (drv_open D cs d) = None" "fst (drv_ping D cs d) = None" for d using assms(1) by (simp_all add: ready_def)
  show ?thesis
    unfolding Connect_def odbc_ConnectWithRetry_def Let_def n connect_loop.simps [where left = "Suc n"] nat.case
      connect_once_def sql_Open_def db_Ping_def
    by (rule out_bnd, rule out_bnd, rule out_answered [OF o(1)], unfold option.case, rule out_bnd,
        rule out_answered [OF o(2)], unfold option.case, rule out_ret, unfold option.case, rule out_ret, rule assms(2))
qed

lemma out_Close: "(\<And>a. Q a s) \<Longrightarrow> out view s (CloseConn D c) Q Z"
  unfolding CloseConn_def db_Close_def
  by (intro out_case_option out_if out_ret out_bnd_silent silent_effects) auto

definition ready_sent :: "string \<Rightarrow> string list" where
  "ready_sent sql = (if TrimSpace sql = [] then [] else statements_of sql)"

lemma out_ready_Multiple:
  assumes "ready D" and "co_connected c" "co_db c = Some cs" "co_retryConfig c = None"
    and "Q None (V, L @ map (Pair cs) (ready_sent sql), z)"
  shows "out view (V, L, z) (ExecuteMultipleStatements D Background c sql) Q Z"
proof -
  obtain n where n: "nat (qr_MaxRetries DefaultQueryRetryConfig) = Suc n"
    by (simp add: DefaultQueryRetryConfig_def odbc_DefaultMaxRetries_def)
  have sent: "out view (V, L, z) (retry_statements Background DefaultQueryRetryConfig
      (executeMultipleStatementsOnce D cs sql)) Q Z" if "Q None (V, L @ map (Pair cs) (statements_of sql), z)"
    unfolding retry_statements_def n odbc_retry.simps [where left = "Suc n"] nat.case executeMultipleStatementsOnce_def
      exec_each_def statements_of_def [symmetric]
    by (rule out_bnd, rule out_bnd, rule out_poll_Background, unfold option.case, rule out_bnd, rule out_bnd,
        rule out_ready_each [OF assms(1)], rule out_ret, unfold err_to_sum_def option.case sum.case, rule out_ret,
        rule out_ret, unfold sum_to_err_def sum.case, rule that)
  show ?thesis
    unfolding ExecuteMultipleStatements_def with_handle_def query_config_def
    by (rule out_if, use assms(2) in simp, rule out_if, rule out_ret)
      (use assms(5) sent in \<open>simp_all add: assms(3,4) ready_sent_def\<close>)
qed

lemma out_ready_executeSQL:
  fixes z :: 'z and E :: "('d, 's) env"
  assumes "ready (e_D E)" and "buildConnectionString (e_ord E) cfg = Inr cs"
    and "Q (Inr ()) (V, L @ map (Pair cs) (ready_sent sql), z)"
  shows "out view (V, L, z) (executeSQL E Background cfg sql) Q Z"
proof -
  obtain n i m f where cfg: "(buildRetryConfig cfg :: ('d, 's, 'z) world_scheme RetryConfig) = plain_retry n i m f"
    by (simp add: buildRetryConfig_def Let_def)
  obtain k where k: "attempts_of n = Suc k" using attempts_of_pos [of n] by (cases "attempts_of n") auto
  have conn: "co_connected (conn_limit cfg (new_connection cs))" "co_db (conn_limit cfg (new_connection cs)) = Some cs"
    "co_retryConfig (conn_limit cfg (new_connection cs)) = None"
    by (simp_all add: conn_limit_def SetMaxResultRows_def new_connection_def)
  show ?thesis
    unfolding executeSQL_def assms(2) sum.case cfg Do_plain k do_loop.simps [where left = "Suc k"] nat.case with_connection_def
    by (rule out_bnd, rule out_bnd, rule out_poll_Background, unfold option.case, rule out_bnd, rule out_bnd,
        rule out_ready_Connect [OF assms(1)], unfold sum.case, rule out_with_defer,
        rule out_ready_Multiple [OF assms(1) conn], rule out_bnd, rule out_Close, rule out_ret, unfold option.case, rule out_ret,
        rule out_ret, unfold option.case, rule assms(3))
qed

subsection \<open>A storage that never fails\<close>

definition reliable :: "'s storage \<Rightarrow> bool" where
  "reliable S \<longleftrightarrow> (\<forall>k s. \<exists>x. fst (st_Get S k s) = Inr x) \<and> (\<forall>k v s. fst (st_Put S k v s) = None)
     \<and> (\<forall>k s. fst (st_Delete S k s) = None) \<and> (\<forall>p s. \<exists>ks. fst (st_List S p s) = Inr ks)"

lemma out_reliable_Get:
  assumes law: "lawful_storage view (e_S E)" and "reliable (e_S E)" and "audit_free key" and "Q (Inr (V key)) (V, L, z)"
  shows "out view (V, L, z) (storage_Get E key) Q Z"
  unfolding storage_Get_def
proof (rule out_on_st)
  fix st assume "hide_audit (view st) = V"
  moreover from assms(2) obtain x where "fst (st_Get (e_S E) key st) = Inr x" unfolding reliable_def by blast
  ultimately show "Q (fst (st_Get (e_S E) key st)) (hide_audit (view (snd (st_Get (e_S E) key st))), L, z)"
    using law assms(3,4) by (auto simp: lawful_storage_def hide_audit_upd(3))
qed

lemma out_reliable_Put:
  assumes law: "lawful_storage view (e_S E)" and "reliable (e_S E)" and "audit_free key"
    and "Q (Inr ()) (V(key \<mapsto> v), L, z)"
  shows "out view (V, L, z) (storage_Put E key v) Q Z"
  unfolding storage_Put_def
proof (rule out_bnd, rule out_on_st, rule out_ret)
  fix st assume "hide_audit (view st) = V"
  moreover have "fst (st_Put (e_S E) key v st) = None" using assms(2) by (simp add: reliable_def)
  ultimately show "Q (err_to_sum (fst (st_Put (e_S E) key v st))) (hide_audit (view (snd (st_Put (e_S E) key v st))), L, z)"
    using law assms(3,4) by (simp add: lawful_storage_def hide_audit_upd err_to_sum_def)
qed

lemma out_reliable_get_as:
  assumes "lawful_storage view (e_S E)" "reliable (e_S E)" "audit_free key"
    and "Option.bind (V key) dec = Some a" and "Q (Inr (Some a)) (V, L, z)"
  shows "out view (V, L, z) (get_as dec E key) Q Z"
proof -
  from assms(4) obtain x where "V key = Some x" "dec x = Some a" by (auto simp: bind_eq_Some_conv)
  then show ?thesis
    unfolding get_as_def
    by (intro out_bnd out_reliable_Get [OF assms(1-3)] out_ret) (simp add: assms(5))
qed

lemma out_reliable_Role:
  assumes law: "lawful_storage view (e_S E)" "reliable (e_S E)" and "role_at V name = Some role"
    and Q: "Q (Inr (Some role)) (V, L, z)"
  shows "out view (V, L, z) (getRole E name) Q Z"
proof -
  from assms(3) obtain r where r: "Option.bind (V (''roles/'' @ name)) as_role = Some r" "migrateRole r = Inr role"
    unfolding role_at_def by (simp split: option.splits sum.splits)
  show ?thesis
    unfolding getRole_def
    by (rule out_bnd, rule out_reliable_get_as [OF law], rule audit_free_keys, rule r(1), rule out_ret)
      (simp add: r(2) Q)
qed

lemma out_reliable_config:
  assumes law: "lawful_storage view (e_S E)" "reliable (e_S E)" and c: "config_at V region = Some cfg"
    and Q: "Q (Inr cfg) (V, L, z)"
  shows "out view (V, L, z) (resolve_config E region) Q Z"
proof (cases "region = []")
  case True
  with c have v: "Option.bind (V ''config'') as_config = Some cfg" unfolding config_at_def by simp
  have "out view (V, L, z) (bndE (getConfig E) id (\<lambda>c. ret (case c of
          None \<Rightarrow> Inl (Errorf ''database configuration not found'') | Some cfg \<Rightarrow> Inr cfg))) Q Z"
    unfolding getConfig_def
    by (rule out_bndE, rule out_reliable_get_as [OF law], rule audit_free_keys, rule v, unfold sum.case option.case,
        rule out_ret, rule Q)
  with True show ?thesis unfolding resolve_config_def by simp
next
  case False
  with c have v: "Option.bind (V (''config/'' @ region)) as_config = Some cfg" unfolding config_at_def by simp
  have "out view (V, L, z) (bndE (get_as as_config E (''config/'' @ region)) (wrapped ''failed to get region config'') (\<lambda>c. ret (case c of
          None \<Rightarrow> Inl (Errorf (''configuration for region '' @ qq region @ '' not found''))
        | Some cfg \<Rightarrow> Inr cfg))) Q Z"
    by (rule out_bndE, rule out_reliable_get_as [OF law], rule audit_free_keys, rule v, unfold sum.case option.case,
        rule out_ret, rule Q)
  with False show ?thesis unfolding resolve_config_def getConfigByName_def by (simp only: if_False simp_thms if_True)
qed

lemma out_reliable_statements:
  assumes law: "lawful_storage view (e_S E)" "reliable (e_S E)" and s: "statements_at V role = Some st"
    and Q: "Q (Inr st) (V, L, z)"
  shows "out view (V, L, z) (role_statements E role) Q Z"
proof (cases "ro_StatementTemplate role = []")
  case True
  with s Q show ?thesis by (simp add: role_statements_def statements_at_def out_ret)
next
  case False
  with s obtain statement where v: "Option.bind (V (''statements/'' @ ro_StatementTemplate role)) as_statement = Some statement"
    and st: "(if sm_CreationStatement statement \<noteq> [] then sm_CreationStatement statement else ro_CreationStatement role,
         if sm_RollbackStatement statement \<noteq> [] then sm_RollbackStatement statement else ro_RollbackStatement role) = st"
    unfolding statements_at_def by (simp only: if_False map_option_eq_Some) blast
  show ?thesis
    unfolding role_statements_def getStatement_def
    by (rule out_if, rule out_bndE, rule out_reliable_get_as [OF law], rule audit_free_keys, rule v,
        unfold sum.case option.case st, rule out_ret, rule Q, simp add: False)
qed

subsection \<open>Names and passwords\<close>

text \<open>The names that the role's prefix and suffix lead to are accepted.\<close>

definition name_possible :: "unicode \<Rightarrow> Role \<Rightarrow> bool" where
  "name_possible U role \<longleftrightarrow> (if ro_UsernameSuffix role \<noteq> []
     then odbc_ValidateUsername U ((if ro_UsernamePrefix role = [] then ''vault'' else ro_UsernamePrefix role)
       @ ''_'' @ ro_UsernameSuffix role) = None
     else ro_UsernamePrefix role = [] \<or> odbc_ValidateUsername U (ro_UsernamePrefix role) = None
       \<and> length (ro_UsernamePrefix role) \<le> 13 \<and> \<not> suffix ''XP'' (map upper_char (ro_UsernamePrefix role))
       \<and> \<not> suffix ''SP'' (map upper_char (ro_UsernamePrefix role)))"

lemma returns_possible_name:
  assumes "name_possible U role"
  shows "returns (\<lambda>u. odbc_ValidateUsername U u = None)
    (generateUsername True (ro_UsernamePrefix role) (ro_UsernameSuffix role))"
proof (cases "ro_UsernameSuffix role = []")
  case True
  have vault: "odbc_ValidateUsername U ''vault'' = None"
    by (simp add: odbc_ValidateUsername_None usernameChars_def odbc_sqlInjectionPatterns_def odbc_sqlKeywords_def go_eval)
  have "odbc_ValidateUsername U ((if ro_UsernamePrefix role = [] then ''vault'' else ro_UsernamePrefix role) @ ''_'' @ h) = None"
    if "length h = 16" "set h \<subseteq> set hexChars" for h
    using assms True generated_name_accepted [OF vault that(2,1)] generated_name_accepted [OF _ that(2,1), of U "ro_UsernamePrefix role"]
    by (auto simp: name_possible_def upper_char_def char_of_def bit_0 suffix_to_prefix)
  then show ?thesis
    unfolding True by (intro returns_wp wp_mono [OF wp_generateUsername]) auto
next
  case False
  with assms show ?thesis by (simp add: name_possible_def generateUsername_def Let_def returns_ret)
qed

lemma returns_drawn:
  assumes "e_rand_ok E" and "name_possible (e_U E) role"
  shows "returns (\<lambda>r. \<exists>u p. r = Inr (u, p) \<and> odbc_ValidateUsername (e_U E) u = None \<and> ValidatePassword p = None) (draw_identity E role)"
proof -
  have p: "returns (\<lambda>p. ValidatePassword p = None) (generatePassword True)"
    by (rule returns_wp, rule wp_mono [OF wp_generatePassword]) (auto intro: generated_accepted)
  then have policy: "returns (\<lambda>r. \<exists>p. r = Inr p \<and> ValidatePassword p = None)
      (if ro_PasswordPolicy role \<noteq> [] then generatePasswordWithPolicy True (ro_PasswordPolicy role) else ret (Inr password0))"
    if "ValidatePassword password0 = None" for password0
    unfolding generatePasswordWithPolicy_def
    by (intro returns_if returns_bnd [OF p] returns_ret) (use that in auto)
  from assms(1) have ok: "e_rand_ok E = True" by simp
  show ?thesis
    unfolding draw_identity_def bndE_def ok
    by (rule returns_bnd [OF returns_possible_name [OF assms(2)]], rule returns_bnd [OF p], rule returns_bnd [OF policy],
        assumption) (auto intro!: returns_ret)
qed

lemma out_drawn:
  assumes "e_rand_ok E" and "name_possible (e_U E) role"
    and "\<And>u p. odbc_ValidateUsername (e_U E) u = None \<Longrightarrow> ValidatePassword p = None \<Longrightarrow> Q (Inr (u, p)) s"
  shows "out view s (draw_identity E role) Q Z"
  by (rule out_silent [OF silent_draw_identity returns_drawn [OF assms(1,2)]]) (use assms(3) in blast)

lemma out_ready_create:
  fixes z :: 'z and E :: "('d, 's) env"
  assumes "ready (e_D E)" "buildConnectionString (e_ord E) cfg = Inr cs" and "\<And>L'. Q (Inr ()) (V, L', z)"
  shows "out view (V, L, z) (create_user E Background tag tag2 cfg role creation rollback u p) Q Z"
  unfolding create_user_def run_creation_def
  by (rule out_bndE, rule out_ready_executeSQL [OF assms(1,2)], unfold sum.case, rule out_if, rule out_ret, rule assms(3),
      rule out_bnd, rule out_ready_executeSQL [OF assms(1,2)], unfold sum.case, rule out_ret, rule assms(3))

subsection \<open>The two phases of a request\<close>

definition creds_check :: "('d, 's) env \<Rightarrow> FieldData
    \<Rightarrow> (('d, 's, 'z) plugin_world_scheme, hres + string \<times> string \<times> Role) act" where
  "creds_check E data =
     bnd (getS data ''name'') (\<lambda>name. bnd (getS data ''region'') (\<lambda>region.
     bnd (getRole E name) (\<lambda>found. case found of
       Inl e \<Rightarrow> ret (Inl (Inl (e, None)))
     | Inr None \<Rightarrow> ret (Inl (Inl (Errorf (''role '' @ qq name @ '' not found''), None)))
     | Inr (Some role) \<Rightarrow>
         bnd (if 0 < ro_MaxCredentials role
              then bndE (countCredentialsByRole E name) (wrapped ''failed to count credentials'') (\<lambda>currentCount.
                ret (if ro_MaxCredentials role \<le> currentCount then Inl (quota_error name role currentCount) else Inr ()))
              else ret (Inr ())) (\<lambda>quota. case quota of
           Inl e \<Rightarrow> ret (Inl (Inl (e, None)))
         | Inr _ \<Rightarrow> ret (Inr (name, region, role))))))"

definition creds_issue :: "('d, 's) env \<Rightarrow> ctx \<Rightarrow> hres + string \<times> string \<times> Role
    \<Rightarrow> (('d, 's, 'z) plugin_world_scheme, hres) act" where
  "creds_issue E ctx checked = (case checked of
       Inl answer \<Rightarrow> ret answer
     | Inr (name, region, role) \<Rightarrow>
     admit E ''Database is currently unavailable. Credential creation is not possible in graceful degradation mode.''
       name region role (\<lambda>cfg creation rollback.
     tryH (draw_identity E role) id (\<lambda>(username, password).
     tryH (create_user E ctx [] [] cfg role creation rollback username password) id (\<lambda>_.
     tryH (record_credential E [] name region role username) id (\<lambda>_.
     seq (LogCredentialCreation E username name (lease_id name username) None)
     (seq (SendCredentialCreatedWebhook E ctx username name (lease_id name username) None)
     (okH (creation_response name role cfg username password))))))))"

lemma bnd_bnd: "bnd (bnd m k) k' = bnd m (\<lambda>a. bnd (k a) k')"
  by (auto simp: bnd_def fun_eq_iff split: res.split prod.split)

lemma bnd_ret: "bnd (ret a) k = k a"
  by (simp add: bnd_def ret_def fun_eq_iff)

lemma creds_issue_Inl: "creds_issue E ctx (Inl answer) = ret answer"
  by (simp add: creds_issue_def)

lemma pathCredsRead_phases: "pathCredsRead E ctx data = bnd (creds_check E data) (creds_issue E ctx)"
proof -
  have step: "(case found of Inl e \<Rightarrow> failH (id e) | Inr None \<Rightarrow> failH (Errorf (''role '' @ qq name @ '' not found''))
      | Inr (Some role) \<Rightarrow> tryH (q role) id (\<lambda>_. creds_issue E ctx (Inr (name, region, role))))
    = bnd (case found of
       Inl e \<Rightarrow> ret (Inl (Inl (e, None)))
     | Inr None \<Rightarrow> ret (Inl (Inl (Errorf (''role '' @ qq name @ '' not found''), None)))
     | Inr (Some role) \<Rightarrow> bnd (q role) (\<lambda>quota. case quota of
           Inl e \<Rightarrow> ret (Inl (Inl (e, None)))
         | Inr _ \<Rightarrow> ret (Inr (name, region, role)))) (creds_issue E ctx)" for found name region
    and q :: "Role \<Rightarrow> (('a, 'b, 'c) plugin_world_scheme, go_err + unit) act"
  proof (cases found)
    case (Inr r)
    have e: "(case x of Inl e \<Rightarrow> failH (id e) | Inr _ \<Rightarrow> creds_issue E ctx (Inr (name, region, role)))
        = bnd (case x of Inl e \<Rightarrow> ret (Inl (Inl (e, None))) | Inr _ \<Rightarrow> ret (Inr (name, region, role))) (creds_issue E ctx)"
      for x :: "go_err + unit" and role
      by (cases x) (simp_all add: bnd_ret failH_def creds_issue_Inl)
    show ?thesis
    proof (cases r)
      case (Some role)
      show ?thesis unfolding Inr Some sum.case option.case tryH_def bnd_bnd e ..
    qed (simp add: Inr bnd_ret failH_def creds_issue_Inl)
  qed (simp add: bnd_ret failH_def creds_issue_Inl)
  have issue: "creds_issue E ctx (Inr (name, region, role)) =
     admit E ''Database is currently unavailable. Credential creation is not possible in graceful degradation mode.''
       name region role (\<lambda>cfg creation rollback.
     tryH (draw_identity E role) id (\<lambda>(username, password).
     tryH (create_user E ctx [] [] cfg role creation rollback username password) id (\<lambda>_.
     tryH (record_credential E [] name region role username) id (\<lambda>_.
     seq (LogCredentialCreation E username name (lease_id name username) None)
     (seq (SendCredentialCreatedWebhook E ctx username name (lease_id name username) None)
     (okH (creation_response name role cfg username password)))))))" for name region role
    unfolding creds_issue_def sum.case prod.case ..
  show ?thesis
    unfolding pathCredsRead_def creds_check_def bnd_bnd step [symmetric] issue
    unfolding tryH_def [where m = "getRole E n" for n] ..
qed


subsection \<open>A checked request is served\<close>

text \<open>The verdict on a region is one of the backend's own state.\<close>

definition refusal_of :: "'z plugin_world_ext \<Rightarrow> string \<Rightarrow> (string \<times> int option) option" where
  "refusal_of z region = refusal region (world.extend \<lparr>w_now = 0, w_ticks = (\<lambda>_. 0), w_tickpos = 0, w_rand = (\<lambda>_. 0),
     w_randpos = 0, w_db = (), w_sql = [], w_st = ()\<rparr> z)"

lemma refusal_more: "refusal region w = refusal_of (world.more w) region"
  by (cases w) (simp add: refusal_of_def world.extend_def refusal_def ShouldUseDegradation_def split: prod.split)

lemma out_willing_cache:
  fixes z :: "'z plugin_world_ext"
    and Q :: "unit \<Rightarrow> (string \<Rightarrow> stored option) \<times> (string \<times> string) list \<times> 'z plugin_world_ext \<Rightarrow> bool"
    and view :: "'s \<Rightarrow> string \<Rightarrow> stored option"
  assumes "\<And>z'. refusal_of z' = refusal_of z \<Longrightarrow> Q () (V, L, z')"
  shows "out view (V, L, z) (cacheCredential u cred :: (('d, 's, 'z) plugin_world_scheme, unit) act) Q Z"
proof -
  have "Q () (visible view (w\<lparr>b_credCache := f (b_credCache w)\<rparr>))" if "visible view w = (V, L, z)"
    for w :: "('d, 's, 'z) plugin_world_scheme" and f
  proof -
    from that have v: "stored_entries view w = V" "w_sql w = L" "world.more w = z" by (simp_all add: visible_def)
    have "refusal region (w\<lparr>b_credCache := f (b_credCache w)\<rparr>) = refusal region w" for region
      by (simp add: refusal_def ShouldUseDegradation_def split: prod.split)
    then have "refusal_of (world.more (w\<lparr>b_credCache := f (b_credCache w)\<rparr>)) = refusal_of z"
      unfolding refusal_more v(3) by (rule ext)
    from assms [OF this] show ?thesis using v(1,2) by (simp add: visible_def)
  qed
  note changed = this
  show ?thesis
    unfolding cacheCredential_def
    by (rule out_bnd, rule out_gets, rule out_case_option)
      (intro out_ret assms refl, intro out_bnd_silent silent_effects out_modify changed)
qed

lemma out_willing_record:
  assumes law: "lawful_storage view (e_S E)" "reliable (e_S E)"
    and Q: "\<And>t1 t2 z'. refusal_of z' = refusal_of z \<Longrightarrow> Q (Inr ()) (V(credentialPrefix @ u
      \<mapsto> SCred (new_credential name region u t2 (t1 + seconds (ro_DefaultTTL role)))), L, z')"
  shows "out view (V, L, z) (record_credential E tag2 name region role u) Q Z"
  unfolding record_credential_def Let_def storeCredential_def credentialPrefix_def
  by (rule out_bnd_silent [OF silent_effects(1)], rule out_bnd_silent [OF silent_effects(1)], rule out_bndE,
      rule out_reliable_Put [OF law audit_free_keys(1)], unfold sum.case, rule out_seq,
      rule out_willing_cache, rule out_ret, rule Q [unfolded credentialPrefix_def])

definition issuable :: "('d, 's) env \<Rightarrow> (string \<Rightarrow> stored option) \<Rightarrow> string \<Rightarrow> string \<Rightarrow> Role \<Rightarrow> Config \<Rightarrow> bool" where
  "issuable E V name region role cfg \<longleftrightarrow> config_at V region = Some cfg \<and> role_allowed cfg name
     \<and> (ro_UsernamePrefix role \<noteq> [] \<longrightarrow> odbc_ValidateUsername (e_U E) (ro_UsernamePrefix role) = None)
     \<and> statements_at V role \<noteq> None \<and> name_possible (e_U E) role \<and> (\<exists>cs. buildConnectionString (e_ord E) cfg = Inr cs)"

lemma out_issue:
  fixes w :: "('d, 's, 'z) plugin_world_scheme" and E :: "('d, 's) env"
  assumes law: "lawful_storage view (e_S E)" "reliable (e_S E)" and db: "ready (e_D E)" and rand: "e_rand_ok E"
    and can: "issuable E V name region role cfg" "refusal region w = None" and z: "world.more w = z"
    and Q: "\<And>u p t1 t2 L' z'. odbc_ValidateUsername (e_U E) u = None \<Longrightarrow> refusal_of z' = refusal_of z
      \<Longrightarrow> Q (Inr (Some (creation_response name role cfg u p))) (V(credentialPrefix @ u
        \<mapsto> SCred (new_credential name region u t2 (t1 + seconds (ro_DefaultTTL role)))), L', z')"
  shows "out view (V, L, z) (creds_issue E Background (Inr (name, region, role))) Q Z"
proof -
  from can obtain cs creation rollback where g: "config_at V region = Some cfg"
      "role_allowed cfg name" "statements_at V role = Some (creation, rollback)" "name_possible (e_U E) role"
      "buildConnectionString (e_ord E) cfg = Inr cs"
      "ro_UsernamePrefix role \<noteq> [] \<longrightarrow> odbc_ValidateUsername (e_U E) (ro_UsernamePrefix role) = None"
    by (auto simp: issuable_def)
  have verdict: "out view (V, L, z) (gets (refusal region) :: (('d, 's, 'z) plugin_world_scheme, (string \<times> int option) option) act) Q Z"
    if "Q None (V, L, z)" for Q Z
  proof (rule out_gets)
    fix w' :: "('d, 's, 'z) plugin_world_scheme" assume "visible view w' = (V, L, z)"
    with z have "refusal region w' = refusal region w" by (intro refusal_same) (simp add: visible_def)
    with that can(2) show "Q (refusal region w') (V, L, z)" by simp
  qed
  have prefix: "(if ro_UsernamePrefix role \<noteq> [] then odbc_ValidateUsername (e_U E) (ro_UsernamePrefix role) else None) = None"
    using g(6) by simp
  show ?thesis
    unfolding creds_issue_def sum.case prod.case admit_def prefix
    by (rule out_guardH, simp, rule out_tryH, rule out_reliable_config [OF law g(1)],
        unfold sum.case, rule out_if, simp add: g(2), rule out_bnd, rule verdict, unfold option.case,
        rule out_tryH, rule out_reliable_statements [OF law g(3)], unfold sum.case prod.case,
        rule out_tryH, rule out_drawn [OF rand g(4)], unfold sum.case prod.case,
        rule out_tryH, rule out_ready_create [OF db g(5)], unfold sum.case,
        rule out_tryH, rule out_willing_record [OF law], unfold sum.case,
        intro out_seq_silent silent_logs silent_webhooks law(1) out_okH Q)
qed

text \<open>What a granted request needs: a role without a quota, a configuration that can be connected to, and names
  that are accepted.\<close>

definition can_issue :: "('d, 's) env \<Rightarrow> (string \<Rightarrow> stored option) \<Rightarrow> ('d, 's, 'z) plugin_world_scheme \<Rightarrow> string \<Rightarrow> string
    \<Rightarrow> Role \<Rightarrow> Config \<Rightarrow> bool" where
  "can_issue E V w name region role cfg \<longleftrightarrow> grants E V w name region role cfg \<and> ro_MaxCredentials role \<le> 0
     \<and> statements_at V role \<noteq> None \<and> name_possible (e_U E) role \<and> (\<exists>cs. buildConnectionString (e_ord E) cfg = Inr cs)"

lemma out_checked:
  assumes law: "lawful_storage view (e_S E)" "reliable (e_S E)"
    and data: "fd_Get data ''name'' = Some (VS name)" "fd_Get data ''region'' = Some (VS region)"
    and role: "role_at V name = Some role" "\<not> 0 < ro_MaxCredentials role" and Q: "Q (Inr (name, region, role)) (V, L, z)"
  shows "out view (V, L, z) (creds_check E data) Q Z"
  unfolding creds_check_def
  by (rule out_bnd, rule out_getS_some [OF data(1)], rule out_bnd, rule out_getS_some [OF data(2)],
      rule out_bnd, rule out_reliable_Role [OF law role(1)], unfold sum.case option.case if_not_P [OF role(2)],
      rule out_bnd, rule out_ret, unfold sum.case, rule out_ret, rule Q)

lemma out_issued:
  fixes w :: "('d, 's, 'z) plugin_world_scheme" and E :: "('d, 's) env"
  assumes law: "lawful_storage view (e_S E)" "reliable (e_S E)" and db: "ready (e_D E)" and rand: "e_rand_ok E"
    and data: "fd_Get data ''name'' = Some (VS name)" "fd_Get data ''region'' = Some (VS region)"
    and can: "can_issue E V w name region role cfg" and z: "world.more w = z"
  shows "out view (V, L, z) (pathCredsRead E Background data) (\<lambda>r _. \<exists>resp. r = Inr resp) (\<lambda>_. False)"
proof -
  from can have g: "role_at V name = Some role" "\<not> 0 < ro_MaxCredentials role" "issuable E V name region role cfg"
      "refusal region w = None"
    by (auto simp: can_issue_def grants_def issuable_def)
  show ?thesis
    unfolding pathCredsRead_phases
    by (rule out_bnd, rule out_checked [OF law data g(1,2)], rule out_issue [OF law db rand g(3,4) z]) blast
qed

text \<open>C3. A request that is granted is served: with a database that answers, a storage that does not fail and a random
  source, and a role without a quota whose names are possible, the request returns a credential, which is stored
  with the role's lifetime and whose user was created in the configured database.\<close>
theorem granted_credential_is_issued:
  fixes w :: "('d, 's, 'z) plugin_world_scheme" and E :: "('d, 's) env"
  assumes "lawful_storage view (e_S E)" "reliable (e_S E)" "ready (e_D E)" "e_rand_ok E"
    and "fd_Get data ''name'' = Some (VS name)" "fd_Get data ''region'' = Some (VS region)"
    and "can_issue E (stored_entries view w) w name region role cfg"
  shows "\<exists>u p t1 t2 w'. pathCredsRead E Background data w = (Ret (Inr (Some (creation_response name role cfg u p))), w')
    \<and> stored_entries view w' = (stored_entries view w)(credentialPrefix @ u
        \<mapsto> SCred (new_credential name region u t2 (t1 + seconds (ro_DefaultTTL role))))
    \<and> (conn_of E cfg, buildTeradataCreateUserSQL role u p) \<in> set (w_sql w')"
proof -
  obtain r w' where r: "pathCredsRead E Background data w = (r, w')" by (cases "pathCredsRead E Background data w")
  from out_run [OF out_issued [OF assms(1-7) refl, of "w_sql w"] r] obtain resp where resp: "r = Ret (Inr resp)"
    by (cases r) auto
  from read_run [OF assms(1) r] have res: "read_result E data (stored_entries view w) (w_sql w) w (Inr resp)
      (stored_entries view w') (w_sql w')" by (simp add: resp)
  from assms(7) have at: "role_at (stored_entries view w) name = Some role" "config_at (stored_entries view w) region = Some cfg"
    by (simp_all add: can_issue_def grants_def)
  from res obtain name' region' role' cfg' u p t1 t2 k l where d: "fd_Get data ''name'' = Some (VS name')"
      "fd_Get data ''region'' = Some (VS region')" "grants E (stored_entries view w) w name' region' role' cfg'"
    and i': "resp = Some (creation_response name' role' cfg' u p)"
      "stored_entries view w' = (stored_entries view w)(credentialPrefix @ u
        \<mapsto> SCred (new_credential name' region' u t2 (t1 + seconds (ro_DefaultTTL role'))))"
      "w_sql w' = w_sql w @ map (Pair (conn_of E cfg')) (k @ buildTeradataCreateUserSQL role' u p # l)"
    unfolding read_result_def sum.case by blast
  from d(1,2) assms(5,6) have "name' = name" "region' = region" by simp_all
  moreover from this d(3) at have "role' = role" "cfg' = cfg" by (simp_all add: grants_def)
  ultimately have i: "resp = Some (creation_response name role cfg u p)"
      "stored_entries view w' = (stored_entries view w)(credentialPrefix @ u
        \<mapsto> SCred (new_credential name region u t2 (t1 + seconds (ro_DefaultTTL role))))"
      "w_sql w' = w_sql w @ map (Pair (conn_of E cfg)) (k @ buildTeradataCreateUserSQL role u p # l)"
    using i' by simp_all
  show ?thesis
    by (rule exI [of _ u], rule exI [of _ p], rule exI [of _ t1], rule exI [of _ t2], rule exI [of _ w'])
      (simp add: r resp i(1,3), rule i(2))
qed

text \<open>The least that a request needs, in a backend that was just set up.\<close>

definition small_role :: Role where
  "small_role = zero_role\<lparr>ro_Version := RoleVersion\<rparr>"

definition small_backend :: "(unit, (string \<times> stored) list) plugin_world" where
  "small_backend = (start_backend [(''roles/r'', SRole small_role),
       (''config/c'', SConfig (zero_config\<lparr>cf_ConnectionString := ''DSN=x''\<rparr>))])
     \<lparr>b_registry := Some (put_conn ''c'' ((new_dbc sample_db_config 0 0)\<lparr>dc_state := StateHealthy\<rparr>) NewDBRegistry)\<rparr>"

lemma small_healthy: "refusal ''c'' small_backend = None"
  by (simp add: refusal_def ShouldUseDegradation_def small_backend_def start_backend_def IsPoolHealthy_def pool_healthy_def
      GetConnection_def put_conn_def NewDBRegistry_def GetState_def new_dbc_def)

lemma small_entries:
  "stored_entries map_of small_backend ''roles/r'' = Some (SRole small_role)"
  "stored_entries map_of small_backend ''config/c'' = Some (SConfig (zero_config\<lparr>cf_ConnectionString := ''DSN=x''\<rparr>))"
  by (simp_all add: small_backend_def start_backend_def hide_audit_def auditPrefix_def)

definition small_request :: FieldData where
  "small_request = \<lparr>fd_Get = (\<lambda>k. if k = ''name'' then Some (VS ''r'') else Some (VS ''c'')), fd_session = None\<rparr>"

theorem granted_credential_is_issued_witness:
  "\<exists>resp w'. pathCredsRead calm_env Background small_request small_backend = (Ret (Inr (Some resp)), w')"
proof -
  have "reliable (e_S calm_env)" by (simp add: reliable_def calm_env_def map_storage_def)
  moreover have "ready (e_D calm_env)" by (simp add: ready_def calm_env_def steady_driver_def)
  moreover have "e_rand_ok calm_env" by (simp add: calm_env_def)
  moreover have "fd_Get small_request ''name'' = Some (VS ''r'')" "fd_Get small_request ''region'' = Some (VS ''c'')"
    by (simp_all add: small_request_def)
  moreover have "can_issue calm_env (stored_entries map_of small_backend) small_backend ''r'' ''c'' small_role
      (zero_config\<lparr>cf_ConnectionString := ''DSN=x''\<rparr>)"
    using small_healthy
    by (simp add: can_issue_def grants_def role_at_def config_at_def small_entries
        auditPrefix_def role_allowed_def small_healthy small_role_def zero_role_def zero_config_def migrateRole_def
        RoleVersion_def statements_at_def name_possible_def buildConnectionString_def as_role.simps)
  ultimately show ?thesis
    using granted_credential_is_issued [OF calm_lawful] by blast
qed

subsection \<open>A static password is rotated\<close>

lemma out_ready_each_statement:
  fixes z :: 'z and E :: "('d, 's) env"
  assumes "ready (e_D E)" "buildConnectionString (e_ord E) cfg = Inr cs" and "\<And>L'. Q () (V, L', z)"
  shows "out view (V, L, z) (for_each stmts (\<lambda>stmt. seq (executeSQL E Background cfg (f stmt)) (ret ()))) Q Z"
proof (induction stmts arbitrary: L)
  case Nil
  then show ?case by (simp add: out_ret assms(3))
next
  case (Cons stmt stmts)
  show ?case
    unfolding for_each.simps
    by (rule out_seq, rule out_seq, rule out_ready_executeSQL [OF assms(1,2)], rule out_ret, rule Cons.IH)
qed

lemma out_rotated:
  fixes E :: "('d, 's) env"
  assumes law: "lawful_storage view (e_S E)" "reliable (e_S E)" and db: "ready (e_D E)"
    and name: "fd_Get data ''name'' = Some (VS name)" and sr: "V (static_role_key name) = Some (SStaticRole sr)"
    and cfg: "config_at V [] = Some cfg" "buildConnectionString (e_ord E) cfg = Inr cs"
  shows "out view (V, L, z) (pathRotateStaticRoleHandler E Background data) (\<lambda>r _. \<exists>resp. r = Inr resp) (\<lambda>_. False)"
proof -
  have role: "Option.bind (V (''static-roles/'' @ name)) as_static_role = Some sr"
    using sr by (simp add: static_role_key_def)
  have conf: "Option.bind (V ''config'') as_config = Some cfg" using cfg(1) by (simp add: config_at_def)
  show ?thesis
    unfolding pathRotateStaticRoleHandler_def getStaticRole_def static_role_key_def static_cred_key_def getConfig_def Let_def
    by (rule out_bnd, rule out_getS_some [OF name], rule out_tryH, rule out_reliable_get_as [OF law], rule audit_free_keys,
        rule role, unfold sum.case option.case, rule out_tryH, rule out_reliable_get_as [OF law], rule audit_free_keys,
        rule conf, unfold sum.case option.case, rule out_bnd, rule out_password, rule out_tryH,
        rule out_ready_executeSQL [OF db cfg(2)], unfold sum.case, rule out_seq, rule out_ready_each_statement [OF db cfg(2)],
        rule out_bnd_silent [OF silent_effects(1)], rule out_tryH, rule out_reliable_Put [OF law], rule audit_free_keys,
        unfold sum.case, rule out_bnd_silent [OF silent_effects(1)], rule out_tryH, rule out_reliable_Put [OF law],
        rule audit_free_keys, unfold sum.case, rule out_okH) simp
qed


text \<open>C7. A rotation of a static role leaves storage and the database as they were, or it has set a password there:
  the answer is then an error and storage holds the old credential, or the answer shows the new password and
  storage holds exactly that one, with the role's counter advanced; only the MODIFY USER statement
  for the role's user and the rewritten statements of the role are sent, to the connection of the default
  configuration. With a database and a storage that answer, and a role and a default configuration, the
  rotation succeeds.\<close>
theorem static_rotation:
  fixes w :: "('d, 's, 'z) world_scheme" and E :: "('d, 's) env"
  assumes "lawful_storage view (e_S E)"
  shows "(case pathRotateStaticRoleHandler E ctx data w of
       (Ret r, w') \<Rightarrow> rotation_result E data (stored_entries view w) (w_sql w) r (stored_entries view w') (w_sql w')
     | (_, w') \<Rightarrow> stored_entries view w' = stored_entries view w \<and> w_sql w' = w_sql w)
   \<and> (\<forall>name sr cfg cs. reliable (e_S E) \<longrightarrow> ready (e_D E) \<longrightarrow> ctx = Background \<longrightarrow> fd_Get data ''name'' = Some (VS name)
       \<longrightarrow> stored_entries view w (static_role_key name) = Some (SStaticRole sr)
       \<longrightarrow> config_at (stored_entries view w) [] = Some cfg \<longrightarrow> buildConnectionString (e_ord E) cfg = Inr cs
       \<longrightarrow> (\<exists>resp. fst (pathRotateStaticRoleHandler E ctx data w) = Ret (Inr resp)))"
proof -
  obtain r w' where r: "pathRotateStaticRoleHandler E ctx data w = (r, w')"
    by (cases "pathRotateStaticRoleHandler E ctx data w")
  have live: "\<exists>resp. r = Ret (Inr resp)"
    if "reliable (e_S E)" "ready (e_D E)" "ctx = Background" "fd_Get data ''name'' = Some (VS name)"
      "stored_entries view w (static_role_key name) = Some (SStaticRole sr)"
      "config_at (stored_entries view w) [] = Some cfg" "buildConnectionString (e_ord E) cfg = Inr cs" for name sr cfg cs
    using out_run [OF out_rotated [OF assms that(1,2,4-7)] r [unfolded that(3)]] by (cases r) auto
  have "case r of Ret a \<Rightarrow> rotation_result E data (stored_entries view w) (w_sql w) a (stored_entries view w') (w_sql w')
      | _ \<Rightarrow> stored_entries view w' = stored_entries view w \<and> w_sql w' = w_sql w"
    using out_run [OF out_rotate [OF assms] r] by (cases r) simp_all
  moreover from this have "case (r, w') of (Ret a, w') \<Rightarrow> rotation_result E data (stored_entries view w) (w_sql w) a
        (stored_entries view w') (w_sql w') | (_, w') \<Rightarrow> stored_entries view w' = stored_entries view w \<and> w_sql w' = w_sql w"
    by (cases r) simp_all
  ultimately show ?thesis unfolding r fst_conv using live by blast
qed

text \<open>A rotation that succeeds, and what it stores.\<close>

definition small_static :: StaticRole where
  "small_static = \<lparr>sr_Name = ''s'', sr_Username = ''u'', sr_DBName = [], sr_RotationPeriod = 0, sr_RotationSchedule = [],
     sr_RotationWindow = 0, sr_RotationStatements = [], sr_LastRotation = 0, sr_RotationCount = 0,
     sr_Version = StaticRoleVersion\<rparr>"

definition static_backend :: "(unit, (string \<times> stored) list) plugin_world" where
  "static_backend = start_backend [(''static-roles/s'', SStaticRole small_static),
     (''config'', SConfig (zero_config\<lparr>cf_ConnectionString := ''DSN=x''\<rparr>))]"

theorem static_rotation_witness:
  "\<exists>resp w' password sc. pathRotateStaticRoleHandler calm_env Background \<lparr>fd_Get = (\<lambda>_. Some (VS ''s'')), fd_session = None\<rparr>
        static_backend = (Ret (Inr resp), w')
     \<and> stored_entries map_of w' (static_cred_key ''s'') = Some (SStaticCred sc) \<and> sc_Password sc = password
     \<and> ValidatePassword password = None"
proof -
  let ?d = "\<lparr>fd_Get = (\<lambda>_. Some (VS ''s'')), fd_session = None\<rparr>"
  note t = static_rotation [OF calm_lawful, where ctx = Background and data = ?d and w = static_backend]
  have at: "stored_entries map_of static_backend (static_role_key ''s'') = Some (SStaticRole small_static)"
    "config_at (stored_entries map_of static_backend) [] = Some (zero_config\<lparr>cf_ConnectionString := ''DSN=x''\<rparr>)"
    by (simp_all add: static_backend_def start_backend_def hide_audit_def auditPrefix_def static_role_key_def config_at_def)
  moreover have "reliable (e_S calm_env)" by (simp add: reliable_def calm_env_def map_storage_def)
  moreover have "ready (e_D calm_env)" by (simp add: ready_def calm_env_def steady_driver_def)
  moreover have "buildConnectionString (e_ord calm_env) (zero_config\<lparr>cf_ConnectionString := ''DSN=x''\<rparr>)
      = Inr (append_settings (zero_config\<lparr>cf_ConnectionString := ''DSN=x''\<rparr>) ''DSN=x'')"
    by (simp add: buildConnectionString_def append_settings_def)
  moreover have "fd_Get ?d ''name'' = Some (VS ''s'')" by simp
  ultimately obtain resp where "fst (pathRotateStaticRoleHandler calm_env Background ?d static_backend) = Ret (Inr resp)"
    using conjunct2 [OF t] by blast
  then obtain w' where r: "pathRotateStaticRoleHandler calm_env Background ?d static_backend = (Ret (Inr resp), w')"
    by (cases "pathRotateStaticRoleHandler calm_env Background ?d static_backend") auto
  with conjunct1 [OF t] have "rotation_result calm_env ?d (stored_entries map_of static_backend) (w_sql static_backend) (Inr resp)
      (stored_entries map_of w') (w_sql w')" by simp
  then obtain sr password t1 t2 where "password_ok calm_env password"
    "stored_entries map_of w' (static_cred_key ''s'') = Some (SStaticCred (rotated_cred ''s'' (rotated sr t1) password t2))"
    by (auto simp: rotation_result_def rotation_left_def Let_def)
  with r show ?thesis by (auto simp: rotated_cred_def password_ok_def calm_env_def)
qed

end
