(* ===== verification/Role_Write.thy ===== *)
theory Role_Write
  imports Config_Write Service
begin

text \<open>
  Writing and reading roles: what a create or an update of a role stores, from which fields of the request,
  and what a read of it answers.
\<close>

subsection \<open>The fields of the request\<close>

definition role_fields :: "Role \<Rightarrow> (string \<times> fval) list" where
  "role_fields r = [(''name'', VS (ro_Name r)), (''db_user'', VS (ro_DBUser r)),
     (''default_ttl'', VI (ro_DefaultTTL r)), (''max_ttl'', VI (ro_MaxTTL r)), (''renewal_period'', VI (ro_RenewalPeriod r)),
     (''statement_template'', VS (ro_StatementTemplate r)), (''creation_statement'', VS (ro_CreationStatement r)),
     (''revocation_statement'', VS (ro_RevocationStatement r)), (''rollback_statement'', VS (ro_RollbackStatement r)),
     (''renewal_statement'', VS (ro_RenewalStatement r)), (''max_credentials'', VI (ro_MaxCredentials r))]"

text \<open>The fields no write reads from a request, though the schema declares five of them, and what an update
  takes from the role it replaces.\<close>

definition unread_of :: "Role \<Rightarrow> Role \<Rightarrow> bool" where
  "unread_of old r \<longleftrightarrow> ro_DefaultDatabase r = ro_DefaultDatabase old \<and> ro_PermSpace r = ro_PermSpace old
     \<and> ro_SpoolSpace r = ro_SpoolSpace old \<and> ro_Account r = ro_Account old \<and> ro_Fallback r = ro_Fallback old
     \<and> ro_BatchSize r = ro_BatchSize old"

definition kept_of :: "Role \<Rightarrow> Role \<Rightarrow> bool" where
  "kept_of old r \<longleftrightarrow> ro_UsernamePrefix r = ro_UsernamePrefix old \<and> ro_UsernameSuffix r = ro_UsernameSuffix old
     \<and> unread_of old r"

definition role_requested :: "('d, 's) env \<Rightarrow> FieldData \<Rightarrow> Role \<Rightarrow> bool" where
  "role_requested E data r \<longleftrightarrow> carried data ((''db_password'', VS (ro_DBPassword r)) # role_fields r)
     \<and> ro_Version r = RoleVersion
     \<and> template_check E (ro_CreationStatement r) (ro_RevocationStatement r) (ro_RollbackStatement r) (ro_RenewalStatement r) = None
     \<and> session_check E (session_variables_of data) = None"

definition role_created :: "FieldData \<Rightarrow> Role \<Rightarrow> bool" where
  "role_created data r \<longleftrightarrow> carried data [(''username_prefix'', VS (ro_UsernamePrefix r)), (''username_suffix'', VS (ro_UsernameSuffix r))]
     \<and> unread_of zero_role r \<and> ro_SessionVariables r = session_variables_of data"

definition role_updated :: "FieldData \<Rightarrow> Role option \<Rightarrow> Role \<Rightarrow> bool" where
  "role_updated data existing r \<longleftrightarrow> kept_of (case existing of None \<Rightarrow> zero_role | Some old \<Rightarrow> old) r
     \<and> ro_SessionVariables r = (case (session_variables_of data, existing) of
         (None, Some old) \<Rightarrow> ro_SessionVariables old | (vars, _) \<Rightarrow> vars)"

text \<open>What a write leaves: storage before, the answer, and storage after.\<close>

definition role_result :: "('d, 's) env \<Rightarrow> FieldData \<Rightarrow> (Role \<Rightarrow> bool) \<Rightarrow> (string \<Rightarrow> stored option) \<Rightarrow> hres
    \<Rightarrow> (string \<Rightarrow> stored option) \<Rightarrow> bool" where
  "role_result E data from V r V' \<longleftrightarrow> (case r of
       Inl _ \<Rightarrow> V' = V
     | Inr _ \<Rightarrow> \<exists>role. role_requested E data role \<and> from role \<and> V' = V(role_key (ro_Name role) \<mapsto> SRole role))"

lemma out_invalidateRole:
  assumes "\<And>z'. Q () (V, L, z')"
  shows "out view (V, L, z) (invalidateRoleCache n) Q Z"
  unfolding invalidateRoleCache_def query_cache_delete_def
  by (rule out_modify) (auto simp: visible_def assms)


text \<open>What is read back of a role.\<close>

definition role_answer :: "Role \<Rightarrow> response" where
  "role_answer r = data_response ([(''name'', VS (ro_Name r)), (''version'', VI (ro_Version r)),
     (''db_user'', VS (ro_DBUser r)), (''username_prefix'', VS (ro_UsernamePrefix r)),
     (''username_suffix'', VS (ro_UsernameSuffix r)), (''default_ttl'', VI (ro_DefaultTTL r)),
     (''max_ttl'', VI (ro_MaxTTL r)), (''renewal_period'', VI (ro_RenewalPeriod r)),
     (''statement_template'', VS (ro_StatementTemplate r)), (''creation_statement'', VS (ro_CreationStatement r)),
     (''revocation_statement'', VS (ro_RevocationStatement r)), (''rollback_statement'', VS (ro_RollbackStatement r)),
     (''renewal_statement'', VS (ro_RenewalStatement r)), (''max_credentials'', VI (ro_MaxCredentials r)),
     (''session_variables'', VSM (ro_SessionVariables r))]
     @ (if ro_DBPassword r \<noteq> [] then [(''db_password'', VS ''***'')] else []))"

subsection \<open>What is stored\<close>

lemma audit_free_role: "audit_free (role_key n)"
  unfolding role_key_def by (rule audit_free_keys)

lemma out_role_Put:
  assumes "lawful_storage view (e_S E)" and "\<And>e. Q (Inl e) (V, L, z)" "Q (Inr ()) (V(role_key n \<mapsto> v), L, z)"
  shows "out view (V, L, z) (storage_Put E (role_key n) v) Q Z"
  by (rule out_Put [OF assms(1) audit_free_role]) (rule assms)+

lemma out_role_store:
  assumes law: "lawful_storage view (e_S E)" and "role_requested E data role" "from role" "n = ro_Name role"
    and s: "silent view a" "silent view b"
  shows "out view (V, L, z) (tryH (storage_Put E (role_key n) (SRole role)) id (\<lambda>_.
      seq (invalidateRoleCache n) (seq a (seq b (okH resp)))))
    (\<lambda>r (V', L', z'). role_result E data from V r V' \<and> L' = L) (\<lambda>(V', L', z'). V' = V \<and> L' = L)"
proof (rule out_tryH, rule out_role_Put [OF law])
  show "case Inr () of Inl e \<Rightarrow> case (V(role_key n \<mapsto> SRole role), L, z) of
        (V', L', z') \<Rightarrow> role_result E data from V (Inl (id e, None)) V' \<and> L' = L
    | Inr _ \<Rightarrow> out view (V(role_key n \<mapsto> SRole role), L, z) (seq (invalidateRoleCache n) (seq a (seq b (okH resp))))
        (\<lambda>r (V', L', z'). role_result E data from V r V' \<and> L' = L) (\<lambda>(V', L', z'). V' = V \<and> L' = L)"
    unfolding sum.case
    by (intro out_seq [OF out_invalidateRole] out_seq_silent s out_okH)
      (use assms(2-4) in \<open>auto simp: role_result_def\<close>)
qed (simp add: role_result_def)

lemma out_role_guard:
  assumes "c = None \<Longrightarrow> out view (V, L, z) k (\<lambda>r (V', L', z'). role_result E data from V r V' \<and> L' = L) Z"
  shows "out view (V, L, z) (guardH c wrap k) (\<lambda>r (V', L', z'). role_result E data from V r V' \<and> L' = L) Z"
  by (rule out_guardH, simp add: role_result_def) (rule assms)

lemma unchanged: "case (V, L, z) of (V', L', z') \<Rightarrow> V' = V \<and> L' = L"
  by simp

lemma out_role_create:
  assumes law: "lawful_storage view (e_S E)"
  shows "out view (V, L, z) (pathRoleCreate E ctx data)
    (\<lambda>r (V', L', z'). role_result E data (role_created data) V r V' \<and> L' = L) (\<lambda>(V', L', z'). V' = V \<and> L' = L)"
  unfolding pathRoleCreate_def Let_def
  by (rule out_bnd out_getS out_getI out_role_guard unchanged out_role_store [OF law] silent_logs [OF law] silent_webhooks [OF law]
      | assumption)+
    (simp_all add: silent_logs [OF law] silent_webhooks [OF law] role_requested_def role_created_def unread_of_def role_fields_def carried_def)

lemma out_getRole_at:
  assumes "lawful_storage view (e_S E)" and "\<And>e. Q (Inl e) (V, L, z)" and "Q (Inr (role_at V name)) (V, L, z)"
  shows "out view (V, L, z) (getRole E name) Q Z"
  unfolding getRole_def
  by (rule out_bnd, rule out_get_as [OF assms(1) audit_free_keys(2)])
    (use assms(2,3) in \<open>auto simp: role_at_def intro!: out_ret split: sum.split\<close>)

lemma out_role_update:
  assumes law: "lawful_storage view (e_S E)"
  shows "out view (V, L, z) (pathRoleUpdate E ctx data)
    (\<lambda>r (V', L', z'). role_result E data (\<lambda>role. role_updated data (role_at V (ro_Name role)) role) V r V' \<and> L' = L)
    (\<lambda>(V', L', z'). V' = V \<and> L' = L)"
  unfolding pathRoleUpdate_def Let_def
  by (rule out_bnd, rule out_getS, rule out_tryH, rule out_getRole_at [OF law], simp add: role_result_def, unfold sum.case,
      (rule out_bnd out_getS out_getI out_role_guard unchanged out_role_store [OF law] | assumption)+)
    (simp_all add: silent_logs [OF law] silent_webhooks [OF law] role_requested_def role_updated_def role_fields_def
      carried_def keep_existing_def kept_of_def unread_of_def split: option.split)

lemma role_at_current: "V (role_key n) = Some (SRole role) \<Longrightarrow> ro_Version role = RoleVersion \<Longrightarrow> role_at V n = Some role"
  by (simp add: role_at_def role_key_def migrate_current)

lemma out_role_read:
  assumes law: "lawful_storage view (e_S E)" and "fd_Get data ''name'' = Some (VS n)" and at: "role_at V n = Some role"
    and v: "ro_Version role = RoleVersion"
  shows "out view (V, L, z) (pathRoleRead E data)
    (\<lambda>r s'. s' = (V, L, z) \<and> (\<forall>a. r = Inr a \<longrightarrow> a = Some (role_answer role))) (\<lambda>_. False)"
  unfolding pathRoleRead_def
  by (rule out_bnd, rule out_getS_some [OF assms(2)], rule out_tryH, rule out_getRole_at [OF law], simp,
      unfold sum.case at option.case, rule out_tryH, rule out_ret, unfold migrate_current [OF v] sum.case Let_def)
    (auto simp: role_answer_def intro!: out_tryH out_ret out_okH)

subsection \<open>Written, and read back\<close>

definition reads_back :: "('s \<Rightarrow> string \<Rightarrow> stored option) \<Rightarrow> ('d, 's) env \<Rightarrow> FieldData \<Rightarrow> Role
    \<Rightarrow> ('d, 's, 'z) plugin_world_scheme \<Rightarrow> bool" where
  "reads_back view E data role w \<longleftrightarrow> (case pathRoleRead E data w of
       (Ret r, w') \<Rightarrow> stored_entries view w' = stored_entries view w \<and> (\<forall>a. r = Inr a \<longrightarrow> a = Some (role_answer role))
     | _ \<Rightarrow> False)"

definition writes_role :: "('s \<Rightarrow> string \<Rightarrow> stored option) \<Rightarrow> ('d, 's) env \<Rightarrow> FieldData \<Rightarrow> (Role \<Rightarrow> bool)
    \<Rightarrow> ('d, 's, 'z) plugin_world_scheme \<Rightarrow> hres res \<times> ('d, 's, 'z) plugin_world_scheme \<Rightarrow> bool" where
  "writes_role view E data from w m \<longleftrightarrow> (case m of
       (Ret (Inr _), w') \<Rightarrow> \<exists>role. role_requested E data role \<and> from role
          \<and> stored_entries view w' = (stored_entries view w)(role_key (ro_Name role) \<mapsto> SRole role)
          \<and> w_sql w' = w_sql w \<and> reads_back view E data role w'
     | (_, w') \<Rightarrow> stored_entries view w' = stored_entries view w \<and> w_sql w' = w_sql w)"

lemma result_writes:
  fixes w w' :: "('d, 's, 'z) plugin_world_scheme"
  assumes law: "lawful_storage view (e_S E)"
    and "role_result E data from (stored_entries view w) r (stored_entries view w')" and "w_sql w' = w_sql w"
  shows "writes_role view E data from w (Ret r, w')"
proof (cases r)
  case (Inr resp)
  with assms(2) obtain role where role: "role_requested E data role" "from role"
    and s: "stored_entries view w' = (stored_entries view w)(role_key (ro_Name role) \<mapsto> SRole role)"
    unfolding role_result_def by auto
  from role(1) have n: "fd_Get data ''name'' = Some (VS (ro_Name role))" and v: "ro_Version role = RoleVersion"
    by (simp_all add: role_requested_def carried_def role_fields_def)
  have at: "role_at (stored_entries view w') (ro_Name role) = Some role"
    by (rule role_at_current) (simp_all add: s v)
  obtain r2 w2 where r2: "pathRoleRead E data w' = (r2, w2)" by (cases "pathRoleRead E data w'")
  from out_run [OF out_role_read [OF law n at v] r2] have "reads_back view E data role w'"
    unfolding reads_back_def r2 by (cases r2) simp_all
  with role s assms(3) Inr show ?thesis unfolding writes_role_def by auto
qed (use assms in \<open>simp add: role_result_def writes_role_def\<close>)

lemma outcome_writes:
  fixes w :: "('d, 's, 'z) plugin_world_scheme"
  assumes law: "lawful_storage view (e_S E)"
    and "out view (stored_entries view w, w_sql w, world.more w) m (\<lambda>r (V', L', z'). role_result E data from (stored_entries view w) r V' \<and> L' = w_sql w)
      (\<lambda>(V', L', z'). V' = stored_entries view w \<and> L' = w_sql w)"
  shows "writes_role view E data from w (m w)"
proof -
  obtain r w' where r: "m w = (r, w')" by (cases "m w")
  from out_run [OF assms(2) r] show ?thesis
    unfolding r by (cases r) (simp_all add: result_writes [OF law], simp_all add: writes_role_def)
qed

text \<open>C12. A create or an update of a role that answers no error has stored, under its name and nothing else, the role
  of the request after its statements and session variables have passed the checks, and sent no statement; reading
  that role back answers exactly what was stored, its password masked, or an error of the storage. On a create the
  prefix and suffix of user names come from the request; on an update they are those of the replaced role, whatever
  the request says, and the session variables are kept when the request has none. A write that ends in any other way leaves
  storage as it was.\<close>
theorem role_writes_read_back:
  fixes w :: "('d, 's, 'z) plugin_world_scheme"
  assumes "lawful_storage view (e_S E)"
  shows "writes_role view E data (role_created data) w (pathRoleCreate E ctx data w)
    \<and> writes_role view E data (\<lambda>role. role_updated data (role_at (stored_entries view w) (ro_Name role)) role) w
        (pathRoleUpdate E ctx data w)"
proof (rule conjI)
  show "writes_role view E data (role_created data) w (pathRoleCreate E ctx data w)"
    by (rule outcome_writes [OF assms], rule out_role_create [OF assms])
  show "writes_role view E data (\<lambda>role. role_updated data (role_at (stored_entries view w) (ro_Name role)) role) w
      (pathRoleUpdate E ctx data w)"
    by (rule outcome_writes [OF assms], rule out_role_update [OF assms])
qed

text \<open>A request with nothing but a name and a prefix.\<close>

definition sample_role_request :: FieldData where
  "sample_role_request = field_data plain_fw (pt_fields pathRoles) [(''name'', VS ''r''), (''username_prefix'', VS ''p'')]"

lemma out_getI_some: "fd_Get d k = Some (VI a) \<Longrightarrow> Q a s \<Longrightarrow> out view s (getI d k) Q Z"
  unfolding getI_def by (simp add: out_ret)

lemma guard_none: "c = None \<Longrightarrow> out view s k Q Z \<Longrightarrow> out view s (guardH c wrap k) Q Z"
  by (simp add: guardH_def)

lemma sample_role_gets:
  "fd_Get sample_role_request k = plain_get (pt_fields pathRoles) [(''name'', VS ''r''), (''username_prefix'', VS ''p'')] k"
  "session_variables_of sample_role_request = None"
  by (simp_all add: sample_role_request_def field_data_def plain_fw_def session_variables_of_def raw_map_def)

lemma no_templates: "template_check E [] [] [] [] = None"
  by (simp add: template_check_def ValidateStatementTemplates_def)

lemma sample_role_created:
  "\<exists>resp w'. pathRoleCreate calm_env Background sample_role_request (start_backend []) = (Ret (Inr resp), w')"
proof -
  have reliable: "reliable (e_S calm_env)" by (simp add: reliable_def calm_env_def map_storage_def)
  have "out map_of (V, L, z) (pathRoleCreate calm_env Background sample_role_request) (\<lambda>r _. \<exists>resp. r = Inr resp) (\<lambda>_. False)"
    for V L z
    unfolding pathRoleCreate_def Let_def
    by (rule out_bnd out_getS_some out_getI_some guard_none out_tryH out_reliable_Put [OF calm_lawful reliable audit_free_role]
      out_seq [OF out_invalidateRole] out_seq_silent silent_logs [OF calm_lawful] silent_webhooks [OF calm_lawful] out_okH
     | simp add: sample_role_gets plain_get_def pathRoles_def no_templates no_session_vars; fail | unfold sum.case)+
  note o = out_run [OF this]
  obtain r w' where r: "pathRoleCreate calm_env Background sample_role_request (start_backend []) = (r, w')"
    by (cases "pathRoleCreate calm_env Background sample_role_request (start_backend [])")
  from o [OF r] show ?thesis unfolding r by (cases r) simp_all
qed

theorem role_writes_read_back_witness:
  "\<exists>resp w'. pathRoleCreate calm_env Background sample_role_request (start_backend []) = (Ret (Inr resp), w')
     \<and> (\<exists>role. stored_entries map_of w' = [role_key ''r'' \<mapsto> SRole role] \<and> ro_UsernamePrefix role = ''p''
          \<and> reads_back map_of calm_env sample_role_request role w')"
proof -
  from sample_role_created obtain resp w'
    where r: "pathRoleCreate calm_env Background sample_role_request (start_backend []) = (Ret (Inr resp), w')" by blast
  have empty: "stored_entries map_of (start_backend []) = (\<lambda>_. None)"
    by (simp add: start_backend_def hide_audit_def fun_eq_iff)
  from conjunct1 [OF role_writes_read_back [OF calm_lawful, of sample_role_request "start_backend []" Background]]
  obtain role where "role_requested calm_env sample_role_request role" "role_created sample_role_request role"
    "stored_entries map_of w' = [role_key (ro_Name role) \<mapsto> SRole role]"
    "reads_back map_of calm_env sample_role_request role w'"
    unfolding writes_role_def r by (auto simp: empty)
  moreover from this(1,2) have "ro_Name role = ''r''" "ro_UsernamePrefix role = ''p''"
    by (simp_all add: role_requested_def role_created_def carried_def role_fields_def sample_role_gets plain_get_def pathRoles_def)
  ultimately show ?thesis using r by metis
qed

end
