(* ===== verification/Interface_Gaps.thy ===== *)
theory Interface_Gaps
  imports Role_Write Running
begin

text \<open>
  Places where the code does less than its interface offers, each as a lemma over the definitions of the handlers.
\<close>

subsection \<open>Roles\<close>

text \<open>There is a migration from the versions 1 and 2 and none from 3, so no role of an older version is ever
  migrated to the current one.\<close>

lemma migrateRole_old_fails:
  assumes "ro_Version role < RoleVersion"
  shows "\<exists>e. migrateRole role = Inl e"
proof -
  have three: "\<exists>e. migrate_loop (Suc n) 3 r = Inl e" for n r
    by (simp add: roleMigrations_def)
  have two: "\<exists>e. migrate_loop (Suc (Suc n)) 2 r = Inl e" for n r
    using three by (simp add: roleMigrations_def migrateRoleV2toV3_def)
  have one: "\<exists>e. migrate_loop (Suc (Suc (Suc n))) 1 r = Inl e" for n r
    using two by (simp add: roleMigrations_def migrateRoleV1toV2_def Let_def)
  have low: "\<exists>e. migrate_loop (Suc n) v r = Inl e" if "v < 0" for n v r
    using that by (simp add: roleMigrations_def)
  from assms consider "ro_Version role < 0" | "ro_Version role = 0 \<or> ro_Version role = 1" | "ro_Version role = 2" | "ro_Version role = 3"
    unfolding RoleVersion_def by linarith
  then show ?thesis
  proof cases
    case 1
    then have "nat (RoleVersion - ro_Version role) = Suc (nat (3 - ro_Version role))" by (simp add: RoleVersion_def)
    with 1 low show ?thesis by (simp add: migrateRole_def RoleVersion_def)
  next
    case 2
    then show ?thesis using one [of 0] by (auto simp: migrateRole_def RoleVersion_def eval_nat_numeral)
  next
    case 3
    then show ?thesis using two [of 0] by (simp add: migrateRole_def RoleVersion_def eval_nat_numeral)
  next
    case 4
    then show ?thesis using three [of 0] by (simp add: migrateRole_def RoleVersion_def eval_nat_numeral)
  qed
qed

subsection \<open>The first version of the paths\<close>

text \<open>The framework answers nothing for a field outside a path's schema, and the callbacks panic. The role path of the first version
  has no prefix, which the callback reads before it stores: no role is created there. The configuration path has no name,
  which every callback reads first.\<close>

lemma v1_schemas: "''username_prefix'' \<notin> fst ` set (pt_fields pathRolesV1)" "''name'' \<notin> fst ` set (pt_fields pathConfigV1)"
  by (simp_all add: pathRolesV1_def pathConfigV1_def)

lemma out_getS_none: "fd_Get data k = None \<Longrightarrow> Z s \<Longrightarrow> out view s (getS data k) Q Z"
  by (simp add: getS_def out_panic)

lemma role_create_needs_prefix:
  assumes "fd_Get data ''username_prefix'' = None"
  shows "out view s (pathRoleCreate E ctx data) (\<lambda>r s'. isl r \<and> s' = s) (\<lambda>s'. s' = s)"
  unfolding pathRoleCreate_def Let_def
  by (rule out_bnd out_getS_none [OF assms] out_getS out_guardH refl | simp; fail)+

lemma getS_none: "fd_Get data k = None \<Longrightarrow> getS data k = panic (''field '' @ k @ '' not in the schema'')"
  by (simp add: getS_def)

lemma config_callbacks_need_name:
  assumes "fd_Get data ''name'' = None"
  shows "\<exists>p. pathConfigWrite E data = panic p \<and> pathConfigRead E data = panic p \<and> pathConfigDelete E data = panic p"
  unfolding pathConfigWrite_def config_head_def pathConfigRead_def pathConfigDelete_def getS_none [OF assms]
  by (simp only: bnd_panic) blast

subsection \<open>Leases\<close>

text \<open>The router captures no text with a slash, and every lease identifier has one: neither the lookup of a lease by its path
  nor its extension is ever called with the identifier of a lease.\<close>

lemma lease_never_captured:
  assumes "first_match N route" and "word_names N" and "route paths p = Some (i, caps)"
  shows "(f, VS (lease_id role u)) \<notin> set caps"
proof
  assume c: "(f, VS (lease_id role u)) \<in> set caps"
  from assms(1,3) have "pattern_match N (paths ! i) p = Some caps" unfolding first_match_def by blast
  with c have "N (lease_id role u)" by (auto simp: pattern_match_def split: option.splits if_splits)
  with assms(2) have "CHR ''/'' \<notin> set (lease_id role u)" unfolding word_names_def by blast
  then show False by (simp add: lease_id_def)
qed

subsection \<open>Root rotation, rate limits, webhooks\<close>

text \<open>When the context has ended before the first attempt, a webhook is not sent and yet there is no error.\<close>

lemma Do_ended:
  fixes w :: "('d, 's, 'z) world_scheme"
  assumes "ctx_err ctx (w_now w) = Some e" and "0 < rc_MaxAttempts cfg"
  shows "Do ctx (Some cfg) op w = (Ret (Some e), snd (tick w))"
proof -
  from ctx_err_mono [OF assms(1)] have "ctx_poll ctx w = (Ret (Some e), snd (tick w))"
    by (simp add: ctx_poll_def seq_def tick_def bnd_def modify_def gets_def)
  moreover obtain n where "nat (rc_MaxAttempts cfg) = Suc n" "\<not> rc_MaxAttempts cfg \<le> 0"
    using assms(2) by (metis gr0_implies_Suc not_le zero_less_nat_eq)
  ultimately show ?thesis by (simp add: Do_def Let_def do_loop.simps bnd_def ret_def)
qed

lemma webhook_unsent_without_error:
  assumes "ctx_err ctx (w_now w) = Some e"
  shows "fst (SendWebhook E ctx config ev data w) = Ret None \<and> w_db (snd (SendWebhook E ctx config ev data w)) = w_db w"
proof -
  have retry: "0 < rc_MaxAttempts (webhook_retry config)"
    by (simp add: webhook_retry_def plain_retry_def defaultRetries_def)
  have later: "ctx_err ctx (w_now w + int n) = Some e" for n
    by (rule ctx_err_mono [OF assms]) simp
  note d = Do_ended [OF _ retry, where op = "webhook_attempt E config (event_name ev) data"]
  show ?thesis
    unfolding SendWebhook_def
    by (simp add: ret_def seq_def bnd_def time_Now_def local_var_def d later with_var_in_def with_var_out_def tick_def modify_def gets_def world.defs)
qed

text \<open>The rotation of the root password sends nothing to the database, changes nothing that is stored and answers that it
  rotated.\<close>

lemma root_rotation_does_nothing:
  assumes "lawful_storage view (e_S E)"
  shows "out view s (pathRotateRootHandler E ctx)
    (\<lambda>r s'. s' = s \<and> r = Inr (Some (data_response [(''rotated'', VB True)]))) (\<lambda>_. False)"
  unfolding pathRotateRootHandler_def
  by (intro out_seq_silent silent_logs silent_webhooks assms out_okH) simp

lemma rate_limit_write_reads_enabled_only:
  assumes "raw_bool raw ''enabled'' = raw_bool raw' ''enabled''"
  shows "run_handler F E ctx sch raw HRateLimitConfigWrite = run_handler F E ctx sch raw' HRateLimitConfigWrite"
  using assms by simp

end
