(* ===== verification/Backup_Roundtrip.thy ===== *)
theory Backup_Roundtrip
  imports Service
begin

text \<open>
  Backup and restore: on a storage that does not fail, a backup is taken of what is stored, and restoring it
  brings the configuration, the roles and the statements back into whatever storage it is restored to.
\<close>

subsection \<open>Reading\<close>

lemma out_reliable_maybe:
  assumes "lawful_storage view (e_S E)" "reliable (e_S E)" "audit_free key"
    and "V key \<noteq> None \<longrightarrow> Option.bind (V key) dec \<noteq> None" and "Q (Inr (Option.bind (V key) dec)) (V, L, z)"
  shows "out view (V, L, z) (get_as dec E key) Q Z"
  unfolding get_as_def
  by (rule out_bnd, rule out_reliable_Get [OF assms(1-3)], rule out_ret)
    (use assms(4,5) in \<open>auto split: option.splits\<close>)

lemma out_reliable_List:
  assumes law: "lawful_storage view (e_S E)" "reliable (e_S E)" and p: "\<And>k. audit_free (p @ k)"
    and Q: "\<And>ks. lists_keys p V ks \<Longrightarrow> Q (Inr ks) (V, L, z)"
  shows "out view (V, L, z) (storage_List E p) Q Z"
  unfolding storage_List_def
proof (rule out_on_st)
  fix st assume V: "hide_audit (view st) = V"
  from law(2) obtain ks where ks: "fst (st_List (e_S E) p st) = Inr ks" unfolding reliable_def by blast
  have l: "view (snd (st_List (e_S E) p st)) = view st" "distinct ks"
    "\<And>k. CHR ''/'' \<notin> set k \<Longrightarrow> k \<in> set ks \<longleftrightarrow> view st (p @ k) \<noteq> None"
    using law(1) ks unfolding lawful_storage_def by blast+
  have "V (p @ k) = view st (p @ k)" for k
    using V p [of k] by (auto simp: hide_audit_upd(3))
  with l Q V ks show "Q (fst (st_List (e_S E) p st)) (hide_audit (view (snd (st_List (e_S E) p st))), L, z)"
    by (auto simp: lists_keys_def)
qed

definition read_all :: "(string \<Rightarrow> 'a option) \<Rightarrow> string list \<Rightarrow> (string \<times> 'a) list" where
  "read_all lk ks = List.map_filter (\<lambda>k. map_option (Pair k) (lk k)) ks"

lemma out_backup_loop:
  assumes g: "\<And>k Q. Q (Inr (lk k)) (V, L, z) \<Longrightarrow> out view (V, L, z) (get k) Q Z"
    and Q: "Q (Inr (read_all lk ks)) (V, L, z)"
  shows "out view (V, L, z) (backup_loop get what ks) Q Z"
  using Q
proof (induction ks arbitrary: Q)
  case Nil
  then show ?case by (simp add: out_ret read_all_def List.map_filter_simps)
next
  case (Cons k ks)
  show ?case
    unfolding backup_loop.simps
    by (rule out_bndE, rule g, unfold sum.case, rule out_bndE, rule Cons.IH, unfold sum.case, rule out_ret)
      (use Cons.prems in \<open>auto simp: read_all_def List.map_filter_simps split: option.splits\<close>)
qed

text \<open>What a backup can be taken of: the entries are of the kind of their keys, and the roles are current.\<close>

definition backs_up :: "(string \<Rightarrow> stored option) \<Rightarrow> bool" where
  "backs_up V \<longleftrightarrow> (\<forall>v. V ''config'' = Some v \<longrightarrow> (\<exists>cfg. v = SConfig cfg))
     \<and> (\<forall>n v. V (''roles/'' @ n) = Some v \<longrightarrow> (\<exists>r. v = SRole r \<and> ro_Version r = RoleVersion))
     \<and> (\<forall>n v. V (''statements/'' @ n) = Some v \<longrightarrow> (\<exists>st. v = SStatement st))"

lemma stored_ok_backs_up:
  assumes "stored_ok E V"
  shows "backs_up V"
proof -
  have kind: "prefix (key_kind v) k \<and> value_ok E v" if "V k = Some v" for k v
    using stored_okD [OF assms that] .
  have "\<exists>r. v = SRole r \<and> ro_Version r = RoleVersion" if "V (''roles/'' @ n) = Some v" for n v
    using kind [OF that] by (cases v) (auto simp: role_ok_entry_def)
  moreover have "\<exists>st. v = SStatement st" if "V (''statements/'' @ n) = Some v" for n v
    using kind [OF that] by (cases v) auto
  ultimately show ?thesis
    unfolding backs_up_def using no_default_config [OF assms] by simp
qed

definition roles_in :: "(string \<Rightarrow> stored option) \<Rightarrow> string \<Rightarrow> Role option" where
  "roles_in V n = Option.bind (V (''roles/'' @ n)) as_role"

definition templates_in :: "(string \<Rightarrow> stored option) \<Rightarrow> string \<Rightarrow> Statement option" where
  "templates_in V n = Option.bind (V (''statements/'' @ n)) as_statement"

lemma out_reliable_getRole:
  assumes law: "lawful_storage view (e_S E)" "reliable (e_S E)" and "backs_up V" and Q: "Q (Inr (roles_in V n)) (V, L, z)"
  shows "out view (V, L, z) (getRole E n) Q Z"
proof -
  have r: "\<exists>r. v = SRole r \<and> ro_Version r = RoleVersion" if "V (''roles/'' @ n) = Some v" for v
    using assms(3) that unfolding backs_up_def by blast
  show ?thesis
    unfolding getRole_def
  proof (rule out_bnd, rule out_reliable_maybe [OF law audit_free_keys(2)])
    show "V (''roles/'' @ n) \<noteq> None \<longrightarrow> Option.bind (V (''roles/'' @ n)) as_role \<noteq> None"
      using r by fastforce
    have current: "migrateRole x = Inr x" if "Option.bind (V (''roles/'' @ n)) as_role = Some x" for x
    proof -
      from that obtain v where "V (''roles/'' @ n) = Some v" "as_role v = Some x" by (auto simp: bind_eq_Some_conv)
      with r [of v] show ?thesis by (auto intro: migrate_current)
    qed
    show "out view (V, L, z) (ret (case Inr (Option.bind (V (''roles/'' @ n)) as_role) of Inl e \<Rightarrow> Inl e | Inr None \<Rightarrow> Inr None
        | Inr (Some role) \<Rightarrow> (case migrateRole role of Inl e \<Rightarrow> Inl e | Inr m \<Rightarrow> Inr (Some m)))) Q Z"
      by (rule out_ret, cases "Option.bind (V (''roles/'' @ n)) as_role")
        (use Q current in \<open>simp_all add: roles_in_def\<close>)
  qed
qed

lemma out_reliable_getStatement:
  assumes law: "lawful_storage view (e_S E)" "reliable (e_S E)" and "backs_up V" and Q: "Q (Inr (templates_in V n)) (V, L, z)"
  shows "out view (V, L, z) (getStatement E n) Q Z"
  unfolding getStatement_def
proof (rule out_reliable_maybe [OF law audit_free_keys(5)])
  show "V (''statements/'' @ n) \<noteq> None \<longrightarrow> Option.bind (V (''statements/'' @ n)) as_statement \<noteq> None"
    using assms(3) unfolding backs_up_def by fastforce
qed (use Q in \<open>simp add: templates_in_def\<close>)

text \<open>A backup of \<open>V\<close>.\<close>

definition backup_of :: "(string \<Rightarrow> stored option) \<Rightarrow> ConfigBackup \<Rightarrow> bool" where
  "backup_of V b \<longleftrightarrow> (\<exists>rs ss. lists_keys ''roles/'' V rs \<and> lists_keys ''statements/'' V ss
     \<and> b = \<lparr>bk_Config = Option.bind (V ''config'') as_config, bk_Roles = read_all (roles_in V) rs,
            bk_Statements = read_all (templates_in V) ss, bk_Version = ''1.0.0'', bk_PluginName = ''teradata''\<rparr>)"

lemma out_backup:
  assumes law: "lawful_storage view (e_S E)" "reliable (e_S E)" and V: "backs_up V"
    and Q: "\<And>b. backup_of V b \<Longrightarrow> Q (Inr b) (V, L, z)"
  shows "out view (V, L, z) (take_backup E) Q Z"
proof -
  have cfg: "V ''config'' \<noteq> None \<longrightarrow> Option.bind (V ''config'') as_config \<noteq> None"
    using V unfolding backs_up_def by fastforce
  show ?thesis
    unfolding take_backup_def getConfig_def
    by (rule out_bndE, rule out_reliable_maybe [OF law audit_free_keys(4)], rule cfg, unfold sum.case,
        rule out_bndE, rule out_reliable_List [OF law], rule audit_free_keys, unfold sum.case,
        rule out_bndE, rule out_backup_loop, rule out_reliable_getRole [OF law V], assumption, unfold sum.case,
        rule out_bndE, rule out_reliable_List [OF law], rule audit_free_keys, unfold sum.case,
        rule out_bndE, rule out_backup_loop, rule out_reliable_getStatement [OF law V], assumption, unfold sum.case,
        rule out_ret, rule Q) (auto simp: backup_of_def)
qed


subsection \<open>Writing\<close>

definition put_all :: "string \<Rightarrow> (string \<Rightarrow> stored option) \<Rightarrow> (string \<times> stored) list \<Rightarrow> string \<Rightarrow> stored option" where
  "put_all p V es = foldl (\<lambda>V (n, v). V(p @ n \<mapsto> v)) V es"

lemma out_restore_loop:
  assumes law: "lawful_storage view (e_S E)" "reliable (e_S E)" and p: "\<And>n. audit_free (p @ n)"
    and Q: "Q (Inr ()) (put_all p V es, L, z)"
  shows "out view (V, L, z) (restore_loop E p what es) Q Z"
  using Q
proof (induction es arbitrary: V)
  case Nil
  then show ?case by (simp add: out_ret put_all_def)
next
  case (Cons e es)
  obtain n v where e: "e = (n, v)" by (cases e)
  show ?case
    unfolding e restore_loop.simps
    by (rule out_bndE, rule out_reliable_Put [OF law p], unfold sum.case, rule Cons.IH)
      (use Cons.prems in \<open>simp only: put_all_def e foldl.simps prod.case\<close>)
qed

lemma put_all_other: "\<not> prefix p k \<Longrightarrow> put_all p V es k = V k"
proof (induction es arbitrary: V)
  case (Cons e es)
  then have "k \<noteq> p @ fst e" by auto
  with Cons show ?case by (cases e) (simp add: put_all_def)
qed (simp add: put_all_def)

lemma put_all_at:
  assumes "\<forall>(n, v) \<in> set es. v = g n"
  shows "put_all p V es (p @ n) = (if n \<in> fst ` set es then Some (g n) else V (p @ n))"
  using assms
proof (induction es arbitrary: V)
  case (Cons e es)
  then show ?case by (cases e) (auto simp: put_all_def)
qed (simp add: put_all_def)

text \<open>The visits of a map in any order of its keys.\<close>

lemma visits_restored:
  assumes "\<And>ks. set (ord ks) = set ks"
  shows "put_all p V (map (apsnd f) (visits ord m)) (p @ n)
    = (case map_of m n of Some a \<Rightarrow> Some (f a) | None \<Rightarrow> V (p @ n))"
proof -
  have set: "(k, a) \<in> set (visits ord m) \<longleftrightarrow> map_of m k = Some a" for k a
  proof -
    have "k \<in> fst ` set m" if "map_of m k = Some a" using map_of_SomeD [OF that] by force
    then show ?thesis
      unfolding visits_def List.map_filter_def using assms by (auto simp: image_iff)
  qed
  have dom: "n \<in> fst ` set (map (apsnd f) (visits ord m)) \<longleftrightarrow> map_of m n \<noteq> None"
  proof -
    have "fst ` set (map (apsnd f) (visits ord m)) = fst ` set (visits ord m)" by force
    also have "n \<in> fst ` set (visits ord m) \<longleftrightarrow> (\<exists>a. (n, a) \<in> set (visits ord m))" by force
    finally show ?thesis by (simp add: set)
  qed
  have "\<forall>(n, v) \<in> set (map (apsnd f) (visits ord m)). v = f (the (map_of m n))"
    using set by fastforce
  from put_all_at [OF this, of p V n] show ?thesis
    unfolding dom by (cases "map_of m n") simp_all
qed

lemma read_all_lookup:
  assumes "distinct ks"
  shows "map_of (read_all lk ks) n = (if n \<in> set ks then lk n else None)"
  using assms
  by (induction ks) (auto simp: read_all_def List.map_filter_simps split: option.splits)

definition restored :: "(string list \<Rightarrow> string list) \<Rightarrow> ConfigBackup \<Rightarrow> (string \<Rightarrow> stored option) \<Rightarrow> string \<Rightarrow> stored option" where
  "restored ord b V = put_all ''statements/''
     (put_all ''roles/'' (case bk_Config b of None \<Rightarrow> V | Some cfg \<Rightarrow> V(''config'' \<mapsto> SConfig cfg))
       (map (apsnd SRole) (visits ord (bk_Roles b))))
     (map (apsnd SStatement) (visits ord (bk_Statements b)))"

lemma out_restore:
  assumes law: "lawful_storage view (e_S E)" "reliable (e_S E)" and Q: "Q (Inr ()) (restored (e_ord E) b V, L, z)"
  shows "out view (V, L, z) (restore E b) Q Z"
proof -
  have c: "out view (V, L, z) (case bk_Config b of None \<Rightarrow> ret (Inr ()) | Some cfg \<Rightarrow> storage_Put E ''config'' (SConfig cfg)) R Z"
    if "R (Inr ()) (case bk_Config b of None \<Rightarrow> V | Some cfg \<Rightarrow> V(''config'' \<mapsto> SConfig cfg), L, z)" for R
    using that by (cases "bk_Config b") (simp_all add: out_ret out_reliable_Put [OF law] audit_free_keys [simplified])
  show ?thesis
    unfolding restore_def
    by (rule out_bndE, rule c, unfold sum.case, rule out_bndE, rule out_restore_loop [OF law], rule audit_free_keys,
        unfold sum.case, rule out_restore_loop [OF law], rule audit_free_keys) (use Q in \<open>simp add: restored_def\<close>)
qed

text \<open>What a restored backup of \<open>V\<close> leaves in \<open>V0\<close>.\<close>

definition brought_back :: "(string \<Rightarrow> stored option) \<Rightarrow> (string \<Rightarrow> stored option) \<Rightarrow> (string \<Rightarrow> stored option) \<Rightarrow> bool" where
  "brought_back V V0 V1 \<longleftrightarrow>
     V1 ''config'' = (if V ''config'' = None then V0 ''config'' else V ''config'')
     \<and> (\<forall>n. CHR ''/'' \<notin> set n \<longrightarrow> V1 (''roles/'' @ n) = (if V (''roles/'' @ n) = None then V0 (''roles/'' @ n) else V (''roles/'' @ n)))
     \<and> (\<forall>n. CHR ''/'' \<notin> set n \<longrightarrow> V1 (''statements/'' @ n)
          = (if V (''statements/'' @ n) = None then V0 (''statements/'' @ n) else V (''statements/'' @ n)))
     \<and> (\<forall>k. k \<noteq> ''config'' \<longrightarrow> \<not> prefix ''roles/'' k \<longrightarrow> \<not> prefix ''statements/'' k \<longrightarrow> V1 k = V0 k)"

lemma restored_backup:
  assumes "backup_of V b" and V: "backs_up V" and ord: "\<And>ks. set (ord ks) = set ks"
  shows "brought_back V V0 (restored ord b V0)"
proof -
  from assms(1) obtain rs ss where ks: "lists_keys ''roles/'' V rs" "lists_keys ''statements/'' V ss"
    and b: "bk_Config b = Option.bind (V ''config'') as_config" "bk_Roles b = read_all (roles_in V) rs"
      "bk_Statements b = read_all (templates_in V) ss" by (auto simp: backup_of_def)
  have role: "map_option SRole (roles_in V n) = V (''roles/'' @ n)" for n
    using V unfolding backs_up_def roles_in_def by (cases "V (''roles/'' @ n)") fastforce+
  have template: "map_option SStatement (templates_in V n) = V (''statements/'' @ n)" for n
    using V unfolding backs_up_def templates_in_def by (cases "V (''statements/'' @ n)") fastforce+
  have config: "map_option SConfig (Option.bind (V ''config'') as_config) = V ''config''"
    using V unfolding backs_up_def by (cases "V ''config''") fastforce+
  have lookup: "map_of (bk_Roles b) n = (if n \<in> set rs then roles_in V n else None)"
    "map_of (bk_Statements b) n = (if n \<in> set ss then templates_in V n else None)" for n
    using ks by (simp_all add: b read_all_lookup lists_keys_def)
  have cfg: "(case bk_Config b of None \<Rightarrow> V0 | Some cfg \<Rightarrow> V0(''config'' \<mapsto> SConfig cfg)) k
      = (if k = ''config'' \<and> V k \<noteq> None then V k else V0 k)" for k
    using config by (auto simp: b split: option.splits)
  have plain: "n \<in> set rs \<longleftrightarrow> V (''roles/'' @ n) \<noteq> None" "n \<in> set ss \<longleftrightarrow> V (''statements/'' @ n) \<noteq> None"
    if "CHR ''/'' \<notin> set n" for n
    using ks that unfolding lists_keys_def by blast+
  have apart: "\<not> prefix ''statements/'' (''roles/'' @ n)" "\<not> prefix ''roles/'' (''statements/'' @ n)"
    "''roles/'' @ n \<noteq> ''config''" "''statements/'' @ n \<noteq> ''config''"
    "\<not> prefix ''roles/'' ''config''" "\<not> prefix ''statements/'' ''config''" for n
    by simp_all
  show ?thesis
    unfolding brought_back_def
  proof (intro conjI allI impI)
    fix n :: string assume n: "CHR ''/'' \<notin> set n"
    show "restored ord b V0 (''roles/'' @ n) = (if V (''roles/'' @ n) = None then V0 (''roles/'' @ n) else V (''roles/'' @ n))"
      unfolding restored_def put_all_other [OF apart(1)] visits_restored [OF ord] lookup cfg
      using plain(1) [OF n] role [of n] apart(3) [of n] by (auto split: option.splits)
    show "restored ord b V0 (''statements/'' @ n)
        = (if V (''statements/'' @ n) = None then V0 (''statements/'' @ n) else V (''statements/'' @ n))"
      unfolding restored_def visits_restored [OF ord] lookup put_all_other [OF apart(2)] cfg
      using plain(2) [OF n] template [of n] apart(4) [of n] by (auto split: option.splits)
  qed (simp_all add: restored_def put_all_other apart cfg)
qed


lemma take_backup_of:
  fixes w :: "('d, 's, 'z) world_scheme" and E :: "('d, 's) env"
  assumes law: "lawful_storage view (e_S E)" "reliable (e_S E)" and "backs_up (stored_entries view w)"
  obtains b w' where "take_backup E w = (Ret (Inr b), w')" "backup_of (stored_entries view w) b"
    "stored_entries view w' = stored_entries view w"
proof -
  obtain r w' where r: "take_backup E w = (r, w')" by (cases "take_backup E w")
  have "out view (stored_entries view w, w_sql w, world.more w) (take_backup E)
      (\<lambda>a (V, _). (\<exists>b. a = Inr b \<and> backup_of (stored_entries view w) b) \<and> V = stored_entries view w) (\<lambda>_. False)"
    by (rule out_backup [OF law assms(3)]) simp
  from out_run [OF this r] that r show thesis by (cases r) auto
qed

lemma restore_run:
  fixes v :: "('d, 's, 'z) world_scheme" and E :: "('d, 's) env"
  assumes law: "lawful_storage view (e_S E)" "reliable (e_S E)"
  obtains v' where "restore E b v = (Ret (Inr ()), v')"
    "stored_entries view v' = restored (e_ord E) b (stored_entries view v)" "w_sql v' = w_sql v"
proof -
  obtain r v' where r: "restore E b v = (r, v')" by (cases "restore E b v")
  have "out view (stored_entries view v, w_sql v, world.more v) (restore E b)
      (\<lambda>a (V, L, _). a = Inr () \<and> V = restored (e_ord E) b (stored_entries view v) \<and> L = w_sql v) (\<lambda>_. False)"
    by (rule out_restore [OF law]) simp
  from out_run [OF this r] that r show thesis by (cases r) auto
qed



end
