(* ===== verification/Startup.thy ===== *)
theory Startup
  imports Service
begin

text \<open>
  Starting the plugin. \<open>Setup\<close> opens a pool for every stored configuration with a connection string and waits
  for its warm-up. A pool without a minimum of connections has no warm-up, so the wait for it never ends.
\<close>

subsection \<open>Pools that are warmed up\<close>

definition warm :: "DBRegistry \<Rightarrow> bool" where
  "warm rg \<longleftrightarrow> (\<forall>nc \<in> set (rg_connections rg). dc_warmupStarted (snd nc))"

lemma total_Add: "total (AddConnection D n c rg)"
  unfolding AddConnection_def Let_def sql_Open_def db_Ping_def db_Close_def set_var_def
  by (intro total_combinators total_effects total_local_var total_Do total_case_prod total_on_db)

lemma warm_new: "dc_warmupStarted (new_dbc (normalize_config c) t1 t2) \<longleftrightarrow> 0 < db_MinConnections c \<and> 0 < db_MaxOpenConnections c"
  by (auto simp: new_dbc_warmup normalize_config_def clamp_min_def Let_def)

lemma warm_Add:
  assumes "warm rg" "0 < db_MinConnections c" "0 < db_MaxOpenConnections c"
  shows "returns (\<lambda>p. warm (snd p) \<and> (\<forall>x. fst p = Inr x \<longrightarrow> dc_warmupStarted x)) (AddConnection D n c rg)"
proof -
  have new: "warm (put_conn n (new_dbc (normalize_config c) t1 t2) rg)" for t1 t2
    using assms by (auto simp: warm_def put_conn_def warm_new dest: set_update_conn)
  have old: "dc_warmupStarted x" if "map_of (rg_connections rg) n = Some x" for x
    using assms(1) map_of_SomeD [OF that] by (force simp: warm_def)
  show ?thesis
    unfolding AddConnection_def Let_def
    by (intro returns_rules) (simp_all add: old new assms warm_new)
qed

definition waits :: "('s \<Rightarrow> string \<Rightarrow> stored option) \<Rightarrow> (string \<Rightarrow> stored option)
    \<Rightarrow> (DBRegistry \<Rightarrow> bool) \<Rightarrow> ('d, 's, 'z) plugin_world_scheme \<Rightarrow> bool" where
  "waits view V P w \<longleftrightarrow> stored_entries view w = V \<and> (\<exists>rg. b_registry w = Some rg \<and> P rg)"

lemma same_registry:
  fixes w w' :: "('d, 's, 'z) plugin_world_scheme"
  shows "world.more w' = world.more w \<Longrightarrow> b_registry w' = b_registry w"
  by (cases w; cases w') simp

lemma waits_same:
  fixes w w' :: "('d, 's, 'z) plugin_world_scheme"
  shows "visible view w' = visible view w \<Longrightarrow> waits view V P w' = waits view V P w"
  using same_registry [of w' w] by (simp add: waits_def visible_def)

text \<open>What reading a configuration answers.\<close>

lemma read_config:
  fixes w :: "('d, 's, 'z) plugin_world_scheme" and E :: "('d, 's) env"
  assumes "lawful_storage view (e_S E)" and "audit_free key"
  shows "\<exists>r w'. get_as as_config E key w = (Ret r, w') \<and> visible view w' = visible view w
    \<and> (\<forall>cfg. r = Inr (Some cfg) \<longrightarrow> stored_entries view w key = Some (SConfig cfg))"
proof -
  obtain r w' where run: "get_as as_config E key w = (r, w')" by (cases "get_as as_config E key w")
  have "out view (visible view w) (get_as as_config E key) (\<lambda>r s. s = visible view w
      \<and> (\<forall>cfg. r = Inr (Some cfg) \<longrightarrow> stored_entries view w key = Some (SConfig cfg))) (\<lambda>_. False)"
    unfolding visible_def
  proof (rule out_get_as [OF assms], goal_cases)
    case (3 x a)
    then show ?case by (cases x) auto
  qed auto
  from outD [OF this run] run show ?thesis by (cases r) auto
qed

lemma wp_open_pool:
  fixes w :: "('d, 's, 'z) plugin_world_scheme" and E :: "('d, 's) env"
  assumes law: "lawful_storage view (e_S E)" and key: "audit_free key" and w: "waits view V warm w"
    and min: "\<And>cfg. V key = Some (SConfig cfg) \<Longrightarrow> cf_ConnectionString cfg \<noteq> []
      \<Longrightarrow> 0 < cf_MinConnections cfg \<and> 0 < cf_MaxOpenConnections cfg"
  shows "wp (open_pool E key) (\<lambda>_. waits view V warm) w"
proof -
  obtain r w1 where r: "get_as as_config E key w = (Ret r, w1)" "visible view w1 = visible view w"
    "\<forall>cfg. r = Inr (Some cfg) \<longrightarrow> stored_entries view w key = Some (SConfig cfg)"
    using read_config [OF law key, of w] by (elim exE conjE) simp
  from waits_same [OF r(2)] w have w1: "waits view V warm w1" by simp
  consider "\<forall>cfg. r = Inr (Some cfg) \<longrightarrow> cf_ConnectionString cfg = []"
    | cfg where "r = Inr (Some cfg)" "cf_ConnectionString cfg \<noteq> []" by blast
  then show ?thesis
  proof cases
    case 1
    with r(1) w1 show ?thesis
      by (auto simp: open_pool_def wp_def bnd_def ret_def split: sum.split option.split)
  next
    case (2 cfg)
    let ?c = "pool_config (cf_Name cfg) cfg"
    from w have "stored_entries view w = V" by (simp add: waits_def)
    with 2 r(3) min have "0 < cf_MinConnections cfg" "0 < cf_MaxOpenConnections cfg" by blast+
    then have min: "0 < db_MinConnections ?c" "0 < db_MaxOpenConnections ?c" by (simp_all add: pool_config_def)
    from w1 obtain rg where rg: "b_registry w1 = Some rg" "warm rg" by (auto simp: waits_def)
    obtain p w2 where p: "AddConnection (e_D E) (pool_name cfg) ?c rg w1 = (Ret p, w2)"
      using total_Add unfolding total_def by blast
    have "warm (snd p)" "\<And>x. fst p = Inr x \<Longrightarrow> dc_warmupStarted x"
      using returnsD [OF warm_Add [OF rg(2) min] p] by blast+
    moreover have "store_is (w_st w1) (world.more w1) w2"
      using keepsD [OF store_Add, of "w_st w1" "world.more w1" w1] p by (metis snd_conv store_is_def)
    then have "stored_entries view w2 = V" using w1 by (simp add: waits_def store_is_def)
    ultimately show ?thesis
      using r(1) 2 rg(1) p
      by (auto simp: open_pool_def wp_def bnd_def on_registry_def gets_def seq_def modify_def ret_def WaitForWarmup_def
          waits_def split: sum.split prod.split)
  qed
qed

lemma wp_open_pools:
  fixes w :: "('d, 's, 'z) plugin_world_scheme" and E :: "('d, 's) env"
  assumes law: "lawful_storage view (e_S E)" and "waits view V warm w" and "\<And>k. k \<in> set ks \<Longrightarrow> audit_free k"
    and min: "\<And>k cfg. k \<in> set ks \<Longrightarrow> V k = Some (SConfig cfg) \<Longrightarrow> cf_ConnectionString cfg \<noteq> []
      \<Longrightarrow> 0 < cf_MinConnections cfg \<and> 0 < cf_MaxOpenConnections cfg"
  shows "wp (open_pools E ks) (\<lambda>_. waits view V warm) w"
  using assms(2-)
proof (induction ks arbitrary: w)
  case (Cons k ks)
  have "wp (open_pool E k) (\<lambda>_. waits view V warm) w"
    by (rule wp_open_pool [OF law _ Cons.prems(1)]) (use Cons.prems in auto)
  then obtain a w1 where k: "open_pool E k w = (Ret a, w1)" "waits view V warm w1" by (auto simp: wp_returns)
  have "wp (open_pools E ks) (\<lambda>_. waits view V warm) w1"
    by (rule Cons.IH [OF k(2)]) (use Cons.prems in auto)
  with k(1) show ?case by (auto simp: wp_returns bnd_def ret_def)
qed (simp add: wp_def ret_def)

subsection \<open>Pools that are not\<close>

text \<open>The clock leaves a new connection of \<open>cfg\<close> the time for one ping.\<close>

definition prompt :: "(nat \<Rightarrow> nat) \<Rightarrow> Config \<Rightarrow> bool" where
  "prompt ticks cfg \<longleftrightarrow> (\<forall>i. int (ticks i) < db_ConnectionTimeout (normalize_config (pool_config (cf_Name cfg) cfg)))"

lemma Ret_on_db: "fst (f (w_db w)) = a \<Longrightarrow> \<exists>d. on_db f w = (Ret a, w\<lparr>w_now := w_now w + int (w_ticks w (w_tickpos w)),
    w_tickpos := Suc (w_tickpos w), w_db := d\<rparr>)"
  by (auto simp: on_db_def seq_def bnd_def tick_def modify_def split: prod.split)

lemma ready_Add:
  fixes w :: "('d, 's, 'z) world_scheme"
  assumes D: "ready D" and new: "rg_connections rg = []"
    and prompt: "\<And>i. int (w_ticks w i) < db_ConnectionTimeout (normalize_config c)"
  shows "\<exists>t1 t2 rg' w'. AddConnection D n c rg w = (Ret (Inr (new_dbc (normalize_config c) t1 t2), rg'), w')"
proof -
  have open_ok: "\<exists>d'. drv_open D cs d = (None, d')" and ping_ok: "\<exists>d'. drv_ping D cs d = (None, d')" for cs d
    using D by (metis ready_def prod.collapse)+
  obtain k where k: "attempts_of (db_MaxRetries (normalize_config c)) = Suc k"
    using attempts_of_pos [of "db_MaxRetries (normalize_config c)"] by (cases "attempts_of (db_MaxRetries (normalize_config c))") auto
  let ?t = "w_now w + int (w_ticks w (w_tickpos w))"
  obtain d1 where 1: "drv_open D (db_ConnectionString c) (w_db w) = (None, d1)" using open_ok by blast
  obtain d2 where 2: "drv_ping D (db_ConnectionString c) d1 = (None, d2)" using ping_ok by blast
  show ?thesis
    using prompt [of "Suc (Suc (w_tickpos w))"]
    by (simp add: AddConnection_def new Let_def bnd_def seq_def ret_def sql_Open_def on_db_def tick_def modify_def 1
        time_Now_def gets_def local_var_def with_var_in_def with_var_out_def Do_plain k do_loop.simps ctx_poll_def ctx_err_def
        WithTimeout_def Background_def ctx_done_at_def opt_min_def db_Ping_def 2 set_var_def
        world.extend_def world.truncate_def) blast
qed

lemma same_clock: "keeps (\<lambda>w. w_ticks w = T) (on_st f)"
  by (auto simp: keeps_def on_st_def seq_def bnd_def tick_def modify_def split: prod.split)

lemma same_clock_storage: "keeps (\<lambda>w. w_ticks w = T) (storage_List E p)" "keeps (\<lambda>w. w_ticks w = T) (get_as dec E key)"
  unfolding storage_List_def get_as_def storage_Get_def by (intro keeps_rules same_clock)+

lemma read_stored_config:
  fixes w :: "('d, 's, 'z) plugin_world_scheme" and E :: "('d, 's) env"
  assumes "lawful_storage view (e_S E)" "reliable (e_S E)" and "audit_free key"
  shows "\<exists>r w'. get_as as_config E key w = (Ret r, w') \<and> visible view w' = visible view w \<and> w_ticks w' = w_ticks w
    \<and> (\<forall>cfg. r = Inr (Some cfg) \<longleftrightarrow> stored_entries view w key = Some (SConfig cfg))"
proof -
  obtain r w' where run: "get_as as_config E key w = (r, w')" by (cases "get_as as_config E key w")
  have "as_config v = Some cfg \<longleftrightarrow> v = SConfig cfg" for v cfg by (cases v) auto
  then have o: "out view (visible view w) (get_as as_config E key) (\<lambda>r s. s = visible view w
      \<and> (\<forall>cfg. r = Inr (Some cfg) \<longleftrightarrow> stored_entries view w key = Some (SConfig cfg))) (\<lambda>_. False)"
    unfolding visible_def get_as_def
    by (intro out_bnd out_reliable_Get [OF assms] out_ret) (auto split: option.split)
  have "w_ticks w' = w_ticks w"
    using keepsD [OF same_clock_storage(2) [of "w_ticks w" as_config E key], of w] run by simp
  with outD [OF o run] run show ?thesis by (cases r) auto
qed

definition no_minimum :: "Config \<Rightarrow> bool" where
  "no_minimum cfg \<longleftrightarrow> cf_MinConnections cfg \<le> 0 \<or> cf_MaxOpenConnections cfg \<le> 0"

abbreviation no_pool :: "DBRegistry \<Rightarrow> bool" where
  "no_pool rg \<equiv> rg_connections rg = []"

lemma blocks_open_pool:
  fixes w :: "('d, 's, 'z) plugin_world_scheme" and E :: "('d, 's) env"
  assumes law: "lawful_storage view (e_S E)" "reliable (e_S E)" and D: "ready (e_D E)" and key: "audit_free key"
    and w: "waits view V no_pool w"
    and cold: "\<And>cfg. V key = Some (SConfig cfg) \<Longrightarrow> cf_ConnectionString cfg \<noteq> []
      \<Longrightarrow> no_minimum cfg \<and> prompt (w_ticks w) cfg"
  shows "if \<exists>cfg. V key = Some (SConfig cfg) \<and> cf_ConnectionString cfg \<noteq> [] then fst (open_pool E key w) = Block
    else \<exists>a w'. open_pool E key w = (Ret a, w') \<and> waits view V no_pool w' \<and> w_ticks w' = w_ticks w"
proof -
  obtain r w1 where r: "get_as as_config E key w = (Ret r, w1)" "visible view w1 = visible view w" "w_ticks w1 = w_ticks w"
    "\<forall>cfg. r = Inr (Some cfg) \<longleftrightarrow> stored_entries view w key = Some (SConfig cfg)"
    using read_stored_config [OF law key, of w] by (elim exE conjE) simp
  from w have V: "stored_entries view w = V" by (simp add: waits_def)
  from waits_same [OF r(2)] w have w1: "waits view V no_pool w1" by simp
  show ?thesis
  proof (cases "\<exists>cfg. V key = Some (SConfig cfg) \<and> cf_ConnectionString cfg \<noteq> []")
    case False
    with r(4) V have "\<forall>cfg. r = Inr (Some cfg) \<longrightarrow> cf_ConnectionString cfg = []" by blast
    with r(1,3) w1 False show ?thesis
      by (auto simp: open_pool_def bnd_def ret_def split: sum.split option.split)
  next
    case True
    then obtain cfg where cfg: "V key = Some (SConfig cfg)" "cf_ConnectionString cfg \<noteq> []" by blast
    with r(4) V have found: "r = Inr (Some cfg)" by blast
    let ?c = "pool_config (cf_Name cfg) cfg"
    from cold [OF cfg] have cold: "\<not> (0 < db_MinConnections ?c \<and> 0 < db_MaxOpenConnections ?c)"
      and "\<And>i. int (w_ticks w1 i) < db_ConnectionTimeout (normalize_config ?c)"
      by (auto simp: no_minimum_def pool_config_def prompt_def r(3))
    moreover from w1 obtain rg where rg: "b_registry w1 = Some rg" "no_pool rg" by (auto simp: waits_def)
    ultimately obtain t1 t2 rg' w2 where
      a: "AddConnection (e_D E) (pool_name cfg) ?c rg w1 = (Ret (Inr (new_dbc (normalize_config ?c) t1 t2), rg'), w2)"
      using ready_Add [OF D] by metis
    show ?thesis
      using True r(1) rg(1) a cold cfg(2)
      by (simp add: open_pool_def found bnd_def on_registry_def gets_def seq_def modify_def ret_def WaitForWarmup_def
          block_def warm_new)
  qed
qed

lemma blocks_open_pools:
  fixes w :: "('d, 's, 'z) plugin_world_scheme" and E :: "('d, 's) env"
  assumes law: "lawful_storage view (e_S E)" "reliable (e_S E)" "ready (e_D E)"
    and "waits view V no_pool w" "\<And>k. k \<in> set ks \<Longrightarrow> audit_free k"
    and "\<And>k cfg. k \<in> set ks \<Longrightarrow> V k = Some (SConfig cfg) \<Longrightarrow> cf_ConnectionString cfg \<noteq> []
      \<Longrightarrow> no_minimum cfg \<and> prompt (w_ticks w) cfg"
    and "k \<in> set ks" "V k = Some (SConfig cfg)" "cf_ConnectionString cfg \<noteq> []"
  shows "fst (open_pools E ks w) = Block"
  using assms(4-7)
proof (induction ks arbitrary: w)
  case (Cons k' ks)
  note first = blocks_open_pool [OF law Cons.prems(2) [of k'] Cons.prems(1) Cons.prems(3) [of k'], simplified]
  show ?case
  proof (cases "\<exists>cfg. V k' = Some (SConfig cfg) \<and> cf_ConnectionString cfg \<noteq> []")
    case True
    with first have "fst (open_pool E k' w) = Block" by auto
    then show ?thesis by (cases "open_pool E k' w") (simp add: bnd_def)
  next
    case False
    with first obtain a w1 where r: "open_pool E k' w = (Ret a, w1)" "waits view V no_pool w1" "w_ticks w1 = w_ticks w" by auto
    from False assms(8,9) Cons.prems(4) have "k \<in> set ks" by auto
    with Cons.prems(2,3) r(2,3) have "fst (open_pools E ks w1) = Block" by (intro Cons.IH) auto
    then show ?thesis using r(1) by (cases "open_pools E ks w1") (simp add: bnd_def)
  qed
qed simp


subsection \<open>Starting\<close>

definition pool_at :: "(string \<Rightarrow> stored option) \<Rightarrow> Config \<Rightarrow> bool" where
  "pool_at V cfg \<longleftrightarrow> cf_ConnectionString cfg \<noteq> []
     \<and> (V ''config'' = Some (SConfig cfg) \<or> (\<exists>n. V (config_key n) = Some (SConfig cfg)))"

lemma config_keys_in:
  assumes "k \<in> set (config_keys ks)"
  shows "audit_free k" "V k = Some (SConfig cfg) \<Longrightarrow> cf_ConnectionString cfg \<noteq> [] \<Longrightarrow> pool_at V cfg"
  using assms by (auto simp: config_keys_def pool_at_def config_key_def audit_free_def auditPrefix_def)

lemma Setup_run:
  fixes w :: "('d, 's, 'l, 'z) server_world_scheme" and E :: "('d, 's) env"
  obtains w1 where "Setup E w = bndE (prewarmPools E) (wrapped ''failed to prewarm connection pools'') (\<lambda>_. ret (Inr ())) w1"
    "waits view (stored_entries view w) (\<lambda>rg. rg_connections rg = []) w1" "w_ticks w1 = w_ticks w"
proof
  show "Setup E w = bndE (prewarmPools E) (wrapped ''failed to prewarm connection pools'') (\<lambda>_. ret (Inr ()))
      (w\<lparr>b_registry := Some (StartHealthChecks NewDBRegistry), b_credCache := Some (newCredentialCache cache_ttl 10000),
        b_queryCache := Some (newQueryResultCache cache_ttl 1000),
        b_rateLimiter := Some (NewRateLimiter DefaultRateLimitConfig True)\<rparr>)"
    by (simp add: Setup_def new_registry_def seq_def bnd_def modify_def)
qed (simp_all add: waits_def StartHealthChecks_def NewDBRegistry_def)

lemma list_configs:
  fixes w :: "('d, 's, 'z) plugin_world_scheme" and E :: "('d, 's) env"
  assumes "lawful_storage view (e_S E)"
  shows "\<exists>r w'. storage_List E ''config/'' w = (Ret r, w') \<and> visible view w' = visible view w \<and> w_ticks w' = w_ticks w
    \<and> (\<forall>ks. r = Inr ks \<longrightarrow> lists_keys ''config/'' (stored_entries view w) ks)
    \<and> (reliable (e_S E) \<longrightarrow> (\<exists>ks. r = Inr ks))"
proof -
  obtain r w' where run: "storage_List E ''config/'' w = (r, w')" by (cases "storage_List E ''config/'' w")
  have "out view (visible view w) (storage_List E ''config/'') (\<lambda>r s. s = visible view w
      \<and> (\<forall>ks. r = Inr ks \<longrightarrow> lists_keys ''config/'' (stored_entries view w) ks)) (\<lambda>_. False)"
    unfolding visible_def by (rule out_List [OF assms audit_free_keys(3)]) auto
  note o = outD [OF this run]
  have t: "w_ticks w' = w_ticks w"
    using keepsD [OF same_clock_storage(1) [of "w_ticks w" E "''config/''"], of w] run by simp
  have "\<exists>ks. r = Ret (Inr ks)" if "reliable (e_S E)"
  proof -
    from that obtain ks where "fst (st_List (e_S E) ''config/'' (w_st w)) = Inr ks"
      unfolding reliable_def by blast
    then show ?thesis using run
      by (cases "st_List (e_S E) ''config/'' (w_st w)")
        (auto simp: storage_List_def on_st_def seq_def bnd_def tick_def modify_def)
  qed
  with o t run show ?thesis by (cases r) auto
qed

text \<open>C9. The plugin starts, or hangs: with a minimum of connections in every stored configuration that has a connection
  string, \<open>Setup\<close> returns, whatever the storage and the database answer. When storage and
  database answer and no such configuration has a minimum, which is the default, and there is at least one, \<open>Setup\<close>
  never returns: it waits for the warm-up of the first pool it opens, which was not started.\<close>
theorem Setup_returns_or_hangs:
  fixes w :: "('d, 's, 'l, 'z) server_world_scheme" and E :: "('d, 's) env"
  assumes law: "lawful_storage view (e_S E)"
  shows "((\<forall>cfg. pool_at (stored_entries view w) cfg \<longrightarrow> \<not> no_minimum cfg) \<longrightarrow> (\<exists>r w'. Setup E w = (Ret r, w')))
    \<and> (reliable (e_S E) \<longrightarrow> ready (e_D E)
      \<longrightarrow> (\<exists>n cfg. CHR ''/'' \<notin> set n \<and> stored_entries view w (config_key n) = Some (SConfig cfg) \<and> cf_ConnectionString cfg \<noteq> [])
      \<longrightarrow> (\<forall>cfg. pool_at (stored_entries view w) cfg \<longrightarrow> no_minimum cfg \<and> prompt (w_ticks w) cfg)
      \<longrightarrow> fst (Setup E w) = Block)"
proof -
  obtain w1 where S: "Setup E w = bndE (prewarmPools E) (wrapped ''failed to prewarm connection pools'') (\<lambda>_. ret (Inr ())) w1"
    and w1: "waits view (stored_entries view w) no_pool w1" "w_ticks w1 = w_ticks w" by (rule Setup_run)
  obtain r w2 where r: "storage_List E ''config/'' w1 = (Ret r, w2)" "visible view w2 = visible view w1" "w_ticks w2 = w_ticks w1"
    "\<forall>ks. r = Inr ks \<longrightarrow> lists_keys ''config/'' (stored_entries view w1) ks" "reliable (e_S E) \<longrightarrow> (\<exists>ks. r = Inr ks)"
    using list_configs [OF law, of w1] by (elim exE conjE) simp
  from waits_same [OF r(2)] w1 have w2: "waits view (stored_entries view w) no_pool w2" by simp
  show ?thesis
  proof (intro conjI impI)
    assume min: "\<forall>cfg. pool_at (stored_entries view w) cfg \<longrightarrow> \<not> no_minimum cfg"
    from w2 have w2': "waits view (stored_entries view w) warm w2" by (auto simp: waits_def warm_def)
    show "\<exists>r w'. Setup E w = (Ret r, w')"
    proof (cases r)
      case (Inl e)
      then show ?thesis by (simp add: S prewarmPools_def bndE_def bnd_def ret_def r(1))
    next
      case (Inr ks)
      have "wp (open_pools E (config_keys ks)) (\<lambda>_. waits view (stored_entries view w) warm) w2"
        by (rule wp_open_pools [OF law w2' config_keys_in(1)], assumption, drule config_keys_in(2), assumption+)
          (use min in \<open>auto simp: no_minimum_def\<close>)
      then show ?thesis by (auto simp: S prewarmPools_def bndE_def bnd_def ret_def r(1) Inr wp_returns)
    qed
  next
    assume rel: "reliable (e_S E)" and D: "ready (e_D E)"
      and "\<exists>n cfg. CHR ''/'' \<notin> set n \<and> stored_entries view w (config_key n) = Some (SConfig cfg) \<and> cf_ConnectionString cfg \<noteq> []"
      and cold: "\<forall>cfg. pool_at (stored_entries view w) cfg \<longrightarrow> no_minimum cfg \<and> prompt (w_ticks w) cfg"
    then obtain n cfg where n: "CHR ''/'' \<notin> set n" "stored_entries view w (config_key n) = Some (SConfig cfg)"
      "cf_ConnectionString cfg \<noteq> []" by blast
    from r(5) rel obtain ks where ks: "r = Inr ks" by blast
    with r(4) w1 n have "config_key n \<in> set (config_keys ks)"
      by (auto simp: waits_def lists_keys_def config_keys_def config_key_def)
    then have "fst (open_pools E (config_keys ks) w2) = Block"
      by (rule blocks_open_pools [OF law rel D w2 config_keys_in(1), rotated 2])
        (use n cold w1(2) r(3) in \<open>auto dest: config_keys_in(2)\<close>)
    then show "fst (Setup E w) = Block"
      by (cases "open_pools E (config_keys ks) w2") (simp add: S prewarmPools_def bndE_def bnd_def ret_def r(1) ks)
  qed
qed

text \<open>One configuration with the default minimum.\<close>

definition hanging :: "(unit, (string \<times> stored) list, unit) server_world" where
  "hanging = fresh_server [(''config/c'', SConfig (zero_config\<lparr>cf_ConnectionString := ''DSN=x''\<rparr>))]"

theorem Setup_returns_or_hangs_witness:
  "fst (Setup calm_env hanging) = Block \<and> (\<exists>r w'. Setup calm_env (fresh_server []) = (Ret r, w'))"
proof
  let ?cfg = "zero_config\<lparr>cf_ConnectionString := ''DSN=x''\<rparr>"
  have env: "reliable (e_S calm_env)" "ready (e_D calm_env)"
    by (simp_all add: reliable_def ready_def calm_env_def map_storage_def steady_driver_def)
  have stored: "stored_entries map_of hanging k = (if k = config_key ''c'' then Some (SConfig ?cfg) else None)" for k
    by (simp add: hanging_def fresh_server_def hide_audit_def auditPrefix_def config_key_def)
  have one: "stored_entries map_of hanging (config_key ''c'') = Some (SConfig ?cfg)" by (simp add: stored)
  have some: "\<exists>n cfg. CHR ''/'' \<notin> set n \<and> stored_entries map_of hanging (config_key n) = Some (SConfig cfg)
      \<and> cf_ConnectionString cfg \<noteq> []"
    by (intro exI [of _ "''c''"] exI [of _ ?cfg] conjI one) simp_all
  have all: "no_minimum cfg \<and> prompt (w_ticks hanging) cfg" if "pool_at (stored_entries map_of hanging) cfg" for cfg
  proof -
    from that have c: "cfg = ?cfg" by (auto simp: pool_at_def stored split: if_splits)
    show ?thesis
      unfolding c by (simp add: no_minimum_def prompt_def hanging_def fresh_server_def zero_config_def pool_config_def normalize_config_def
          default_if_def seconds_def i64_def second_def millisecond_def)
  qed
  show "fst (Setup calm_env hanging) = Block"
    by (rule conjunct2 [OF Setup_returns_or_hangs [OF calm_lawful, of hanging], THEN mp, THEN mp, THEN mp, THEN mp, OF env some])
      (intro allI impI, erule all)
  have "stored_entries map_of (fresh_server []) = (\<lambda>_. None)" by (simp add: fresh_server_def hide_audit_def fun_eq_iff)
  then show "\<exists>r w'. Setup calm_env (fresh_server []) = (Ret r, w')"
    using conjunct1 [OF Setup_returns_or_hangs [OF calm_lawful, of "fresh_server []"]] by (simp add: pool_at_def)
qed

end
