(* ===== verification/Overlap.thy ===== *)
theory Overlap
  imports Service
begin

text \<open>
  Requests that overlap. The backend takes no lock around a request, so two requests for credentials of one role can
  both count the stored credentials before either stores its own. By \<open>pathCredsRead_phases\<close> a request is its check
  followed by the rest, and an overlap is two checks followed by the two rests.
\<close>

subsection \<open>The check\<close>

lemma check_run:
  fixes w :: "('d, 's, 'z) plugin_world_scheme" and E :: "('d, 's) env"
  assumes law: "lawful_storage view (e_S E)" and run: "creds_check E data w = (Ret (Inr (name, region, role)), w')"
  shows "visible view w' = visible view w \<and> role_at (stored_entries view w) name = Some role"
proof -
  have "out view (V, L, z) (creds_check E data) (\<lambda>r s. s = (V, L, z)
      \<and> (\<forall>name region role. r = Inr (name, region, role) \<longrightarrow> role_at V name = Some role)) (\<lambda>_. True)" for V L and z :: "'z plugin_world_ext"
    unfolding creds_check_def
    by (rule out_bnd, rule out_getS, rule out_bnd, rule out_getS, rule out_bnd, rule out_getRole [OF law])
      (auto intro!: out_ret out_bnd out_bndE out_countCredentialsByRole [OF law] split: sum.split)
  from outD [OF this [of "stored_entries view w" "w_sql w" "world.more w", folded visible_def] run] show ?thesis
    by (simp add: visible_def)
qed

lemma accepted_plain: "odbc_ValidateUsername U u = None \<Longrightarrow> CHR ''/'' \<notin> set u"
  by (auto simp: odbc_ValidateUsername_None usernameChars_def)

lemma role_users_added:
  assumes "CHR ''/'' \<notin> set u"
  shows "role_users (V(credentialPrefix @ u \<mapsto> SCred (new_credential name region u t2 t))) name = insert u (role_users V name)"
  using assms by (auto simp: role_users_def new_credential_def)

lemma issuable_added: "issuable E (V(credentialPrefix @ u \<mapsto> c)) name region role cfg = issuable E V name region role cfg"
  by (simp add: issuable_def config_at_def statements_at_def credentialPrefix_def)

lemma issue_run:
  fixes w :: "('d, 's, 'z) plugin_world_scheme" and E :: "('d, 's) env"
  assumes "lawful_storage view (e_S E)" "reliable (e_S E)" "ready (e_D E)" "e_rand_ok E"
    and can: "issuable E (stored_entries view w) name region role cfg" "refusal region w = None"
  shows "\<exists>u p t1 t2 w'. creds_issue E Background (Inr (name, region, role)) w = (Ret (Inr (Some (creation_response name role cfg u p))), w')
    \<and> CHR ''/'' \<notin> set u \<and> refusal_of (world.more w') = refusal_of (world.more w)
    \<and> stored_entries view w' = (stored_entries view w)(credentialPrefix @ u
        \<mapsto> SCred (new_credential name region u t2 (t1 + seconds (ro_DefaultTTL role))))"
proof -
  obtain r w' where r: "creds_issue E Background (Inr (name, region, role)) w = (r, w')"
    by (cases "creds_issue E Background (Inr (name, region, role)) w")
  have "out view (stored_entries view w, w_sql w, world.more w) (creds_issue E Background (Inr (name, region, role)))
    (\<lambda>r (V', L', z'). \<exists>u p t1 t2. r = Inr (Some (creation_response name role cfg u p)) \<and> CHR ''/'' \<notin> set u
      \<and> refusal_of z' = refusal_of (world.more w) \<and> V' = (stored_entries view w)(credentialPrefix @ u
        \<mapsto> SCred (new_credential name region u t2 (t1 + seconds (ro_DefaultTTL role))))) (\<lambda>_. False)"
    by (rule out_issue [OF assms refl]) (use accepted_plain in blast)
  from out_run [OF this r] show ?thesis using r by (cases r) auto
qed

subsection \<open>Two requests that overlap\<close>

text \<open>C6. A request is its check followed by the rest, and the check reserves nothing: when two requests for one role have
  both passed the check before either goes on, both are served, whatever the role's maximum, and the
  users of the role are those before and the two new ones. Between the check of
  the first and the rest of the second the count is not looked at again, so a role can end with more
  credentials than its maximum.\<close>
theorem overlapping_requests_pass_the_quota:
  fixes w :: "('d, 's, 'z) plugin_world_scheme" and E :: "('d, 's) env"
  assumes law: "lawful_storage view (e_S E)" "reliable (e_S E)" and env: "ready (e_D E)" "e_rand_ok E"
    and c1: "creds_check E data w = (Ret (Inr (name, region, role)), w1)"
    and c2: "creds_check E data' w1 = (Ret (Inr (name, region', role')), w2)"
    and can: "issuable E (stored_entries view w) name region role cfg" "refusal region w = None"
      "issuable E (stored_entries view w) name region' role' cfg'" "refusal region' w = None"
  shows "pathCredsRead E Background = (\<lambda>data. bnd (creds_check E data) (creds_issue E Background :: _ \<Rightarrow> (('d, 's, 'z) plugin_world_scheme, hres) act))
    \<and> (\<exists>u p u' p' w3 w4. creds_issue E Background (Inr (name, region, role)) w2 = (Ret (Inr (Some (creation_response name role cfg u p))), w3)
        \<and> creds_issue E Background (Inr (name, region', role')) w3 = (Ret (Inr (Some (creation_response name role' cfg' u' p'))), w4)
        \<and> role_users (stored_entries view w4) name = {u, u'} \<union> role_users (stored_entries view w) name)"
proof -
  from check_run [OF law(1) c1] check_run [OF law(1) c2] have same: "visible view w2 = visible view w" by simp
  then have V: "stored_entries view w2 = stored_entries view w" and "world.more w2 = world.more w" by (simp_all add: visible_def)
  then have more: "refusal_of (world.more w2) = refusal_of (world.more w)" by simp
  have "issuable E (stored_entries view w2) name region role cfg" "refusal region w2 = None"
    using can(1,2) by (simp_all add: V refusal_more more)
  from issue_run [OF law env this] obtain u p t1 t2 w3 where
    1: "creds_issue E Background (Inr (name, region, role)) w2 = (Ret (Inr (Some (creation_response name role cfg u p))), w3)"
      "CHR ''/'' \<notin> set u" "refusal_of (world.more w3) = refusal_of (world.more w2)"
      "stored_entries view w3 = (stored_entries view w2)(credentialPrefix @ u
        \<mapsto> SCred (new_credential name region u t2 (t1 + seconds (ro_DefaultTTL role))))" by blast
  have "issuable E (stored_entries view w3) name region' role' cfg'" "refusal region' w3 = None"
    using can(3,4) by (simp_all add: 1(4) V issuable_added refusal_more 1(3) more)
  from issue_run [OF law env this] obtain u' p' t1' t2' w4 where
    2: "creds_issue E Background (Inr (name, region', role')) w3 = (Ret (Inr (Some (creation_response name role' cfg' u' p'))), w4)"
      "CHR ''/'' \<notin> set u'" "stored_entries view w4 = (stored_entries view w3)(credentialPrefix @ u'
        \<mapsto> SCred (new_credential name region' u' t2' (t1' + seconds (ro_DefaultTTL role'))))" by blast
  have "role_users (stored_entries view w4) name = {u, u'} \<union> role_users (stored_entries view w) name"
    unfolding 2(3) role_users_added [OF 2(2)] 1(4) role_users_added [OF 1(2)] V by auto
  with 1(1) 2(1) show ?thesis using pathCredsRead_phases by blast
qed

text \<open>A role with one credential at most, and two requests for it.\<close>

definition single_role :: Role where
  "single_role = small_role\<lparr>ro_MaxCredentials := 1\<rparr>"

definition single_backend :: "(unit, (string \<times> stored) list) plugin_world" where
  "single_backend = small_backend\<lparr>w_st := [(''roles/r'', SRole single_role),
       (''config/c'', SConfig (zero_config\<lparr>cf_ConnectionString := ''DSN=x''\<rparr>))]\<rparr>"

lemma single_check:
  assumes "w_st w = w_st single_backend"
  shows "\<exists>w'. creds_check calm_env small_request w = (Ret (Inr (''r'', ''c'', single_role)), w') \<and> w_st w' = w_st w"
  using assms
  by (simp add: creds_check_def small_request_def getS_def bnd_def ret_def getRole_def get_as_def storage_Get_def on_st_def
      seq_def tick_def modify_def calm_env_def map_storage_def single_backend_def single_role_def small_role_def zero_role_def
      migrateRole_def RoleVersion_def as_role.simps countCredentialsByRole_def storage_List_def bndE_def keys_below_def
      credentialPrefix_def)

theorem overlapping_requests_pass_the_quota_witness:
  "\<exists>w1 w2 w3 w4 a b u u'. creds_check calm_env small_request single_backend = (Ret (Inr (''r'', ''c'', single_role)), w1)
     \<and> creds_check calm_env small_request w1 = (Ret (Inr (''r'', ''c'', single_role)), w2)
     \<and> creds_issue calm_env Background (Inr (''r'', ''c'', single_role)) w2 = (Ret (Inr (Some a)), w3)
     \<and> creds_issue calm_env Background (Inr (''r'', ''c'', single_role)) w3 = (Ret (Inr (Some b)), w4)
     \<and> role_users (stored_entries map_of w4) ''r'' = {u, u'} \<and> ro_MaxCredentials single_role = 1"
proof -
  let ?cfg = "zero_config\<lparr>cf_ConnectionString := ''DSN=x''\<rparr>"
  have env: "reliable (e_S calm_env)" "ready (e_D calm_env)" "e_rand_ok calm_env"
    by (simp_all add: reliable_def ready_def calm_env_def map_storage_def steady_driver_def)
  obtain w1 where c1: "creds_check calm_env small_request single_backend = (Ret (Inr (''r'', ''c'', single_role)), w1)"
    and s1: "w_st w1 = w_st single_backend" using single_check [OF refl] by blast
  obtain w2 where c2: "creds_check calm_env small_request w1 = (Ret (Inr (''r'', ''c'', single_role)), w2)"
    using single_check [OF s1] by blast
  have healthy: "refusal ''c'' single_backend = None"
    by (simp add: single_backend_def refusal_def ShouldUseDegradation_def small_backend_def start_backend_def IsPoolHealthy_def
        pool_healthy_def GetConnection_def put_conn_def NewDBRegistry_def GetState_def new_dbc_def)
  have can: "issuable calm_env (stored_entries map_of single_backend) ''r'' ''c'' single_role ?cfg"
    by (simp add: issuable_def config_at_def single_backend_def single_role_def small_role_def zero_role_def role_allowed_def
        zero_config_def statements_at_def name_possible_def buildConnectionString_def hide_audit_def auditPrefix_def)
  have none: "role_users (stored_entries map_of single_backend) ''r'' = {}"
    by (auto simp: role_users_def single_backend_def hide_audit_def auditPrefix_def credentialPrefix_def)
  from conjunct2 [OF overlapping_requests_pass_the_quota [OF calm_lawful env c1 c2 can healthy can healthy]]
  obtain u p u' p' w3 w4 where
    i: "creds_issue calm_env Background (Inr (''r'', ''c'', single_role)) w2 = (Ret (Inr (Some (creation_response ''r'' single_role ?cfg u p))), w3)"
      "creds_issue calm_env Background (Inr (''r'', ''c'', single_role)) w3 = (Ret (Inr (Some (creation_response ''r'' single_role ?cfg u' p'))), w4)"
      "role_users (stored_entries map_of w4) ''r'' = {u, u'} \<union> role_users (stored_entries map_of single_backend) ''r''"
    by blast
  have "role_users (stored_entries map_of w4) ''r'' = {u, u'}" using i(3) by (simp add: none)
  moreover have "ro_MaxCredentials single_role = 1" by (simp add: single_role_def)
  ultimately show ?thesis using c1 c2 i(1,2) by blast
qed

end
