(* ===== verification/Query_Results.thy ===== *)
theory Query_Results
  imports Path_Roles
begin

text \<open>
  The results of queries in the query cache (\<open>plugin/query_cache.go\<close>, from \<open>getCachedQueryResult\<close>). Both
  caches answer what was stored for as long as its time to live lasts; the lemmas show what that means for the results of
  queries, whose keys run the query and its arguments together.
\<close>

subsection \<open>Caches that keep an entry for its time to live\<close>

locale expiring_cache = forgetful_cache +
  fixes ttl :: "'a \<Rightarrow> int"
  assumes lookup_fresh: "t1 \<le> t2 \<Longrightarrow> now \<le> t1 + ttl c \<Longrightarrow> fst (lookup now t' k (store t1 t2 t3 k v c)) = Some v"
begin

text \<open>An entry that was stored hides the store behind the cache until it is forgotten or expires.\<close>

lemma read_through_stored:
  assumes "t1 \<le> t2" "now \<le> t1 + ttl c"
  shows "fst (read_through now t' t4 t5 t6 m k (store t1 t2 t3 k v c)) = Some v"
  using lookup_fresh [OF assms, of t' k t3 v] unfolding read_through_def
  by (cases "lookup now t' k (store t1 t2 t3 k v c)") simp

lemma read_through_forgotten: "fst (read_through now t' t4 t5 t6 m k (forget k c)) = m k"
proof -
  have "fst (lookup now t' k (forget k c)) = None"
    using lookup_view [of now t' k "forget k c"] by (cases "fst (lookup now t' k (forget k c))") (simp_all add: forget_view)
  then show ?thesis unfolding read_through_def by (auto split: prod.split option.split)
qed

end

interpretation cred_expiry: expiring_cache cred_view "\<lambda>t _. cred_Get t" "cred_Set ord" cred_Delete cc_ttl for ord
  by unfold_locales (auto simp: cred_Get_def cred_Set_def Let_def map_of_update split: option.split)

interpretation query_expiry: expiring_cache query_view query_Get "query_Set ord" query_Delete qc_ttl for ord
  by unfold_locales (auto simp: query_Get_def query_Set_def Let_def map_of_update split: option.split)


subsection \<open>The results of queries\<close>

text \<open>\<open>sha\<close> is the hexadecimal digest and \<open>args\<close> the texts of the arguments, as in \<open>QueryKey\<close>.\<close>

definition as_query_result :: "CacheValue \<Rightarrow> QueryResult option" where
  "as_query_result v = (case v of VQuery r \<Rightarrow> Some r | _ \<Rightarrow> None)"

definition getCachedQueryResult :: "(string \<Rightarrow> string) \<Rightarrow> string \<Rightarrow> string list
    \<Rightarrow> (('d, 's, 'z) plugin_world_scheme, go_err + QueryResult option) act" where
  "getCachedQueryResult sha query args = bnd (gets b_queryCache) (\<lambda>qc. case qc of
       None \<Rightarrow> ret (Inr None)
     | Some _ \<Rightarrow> bnd time_Now (\<lambda>t1. bnd time_Now (\<lambda>t2. bnd (\<lambda>w. case b_queryCache w of
           None \<Rightarrow> (Ret None, w)
         | Some c \<Rightarrow> (case query_Get t1 t2 (QueryKey sha query args) c of
             (r, c') \<Rightarrow> (Ret r, w\<lparr>b_queryCache := Some c'\<rparr>)))
         (\<lambda>hit. ret (Inr (Option.bind hit as_query_result))))))"

definition cacheQueryResult :: "(string \<Rightarrow> string) \<Rightarrow> string \<Rightarrow> QueryResult option \<Rightarrow> string list
    \<Rightarrow> (('d, 's, 'z) plugin_world_scheme, unit) act" where
  "cacheQueryResult sha query result args = bnd (gets b_queryCache) (\<lambda>qc. case (qc, result) of
       (Some _, Some r) \<Rightarrow> bnd time_Now (\<lambda>t1. bnd time_Now (\<lambda>t2. bnd time_Now (\<lambda>t3.
         modify (\<lambda>w. w\<lparr>b_queryCache :=
           map_option (query_Set id t1 t2 t3 (QueryKey sha query args) (VQuery r)) (b_queryCache w)\<rparr>))))
     | _ \<Rightarrow> ret ())"

definition invalidateQueryCache :: "(string \<Rightarrow> string) \<Rightarrow> string \<Rightarrow> string list
    \<Rightarrow> (('d, 's, 'z) plugin_world_scheme, unit) act" where
  "invalidateQueryCache sha query args = query_cache_delete (QueryKey sha query args)"

definition getQueryCacheStats :: "(('d, 's, 'z) plugin_world_scheme, queryCacheStats) act" where
  "getQueryCacheStats = gets (\<lambda>w. case b_queryCache w of
       None \<Rightarrow> \<lparr>qs_Hits = 0, qs_Misses = 0, qs_Evictions = 0, qs_Size = 0, qs_MaxSize = 0, qs_TTL = 0\<rparr>
     | Some c \<Rightarrow> query_Stats c)"

text \<open>A key does not tell where the query ends and its arguments begin, nor where one argument ends: a result is
  answered for every query whose texts run together to the same.\<close>

lemma QueryKey_collides: "query @ concat args = query' @ concat args' \<Longrightarrow> QueryKey sha query args = QueryKey sha query' args'"
  by (simp add: QueryKey_def)

lemma getCachedQueryResult_value:
  fixes w :: "('d, 's, 'z) plugin_world_scheme"
  assumes "b_queryCache w = Some c"
  shows "\<exists>t'. fst (getCachedQueryResult sha query args w) = Ret (Inr (Option.bind
    (fst (query_Get (w_now w + int (w_ticks w (w_tickpos w))) t' (QueryKey sha query args) c)) as_query_result))"
  unfolding getCachedQueryResult_def
  by (rule exI [of _ "w_now w + int (w_ticks w (w_tickpos w)) + int (w_ticks w (w_tickpos w + 1))"])
    (simp add: assms bnd_def gets_def time_Now_def seq_def tick_def modify_def ret_def split: prod.split)

lemma cacheQueryResult_value:
  fixes w :: "('d, 's, 'z) plugin_world_scheme"
  assumes "b_queryCache w = Some c"
  defines "t1 \<equiv> w_now w + int (w_ticks w (w_tickpos w))"
  defines "t2 \<equiv> t1 + int (w_ticks w (w_tickpos w + 1))"
  shows "\<exists>t3 w'. cacheQueryResult sha query (Some r) args w = (Ret (), w')
    \<and> b_queryCache w' = Some (query_Set id t1 t2 t3 (QueryKey sha query args) (VQuery r) c)
    \<and> w_now w' = t2 + int (w_ticks w (w_tickpos w + 2)) \<and> w_ticks w' = w_ticks w \<and> w_tickpos w' = w_tickpos w + 3"
  unfolding cacheQueryResult_def t1_def t2_def
  by (auto simp: assms(1) bnd_def gets_def time_Now_def seq_def tick_def modify_def ret_def)

text \<open>A result that was cached is answered while its time to live lasts, also for the other queries of its key.\<close>

lemma query_result_answered:
  fixes w :: "('d, 's, 'z) plugin_world_scheme"
  assumes c: "b_queryCache w = Some c" and same: "query @ concat args = query' @ concat args'"
    and fresh: "int (w_ticks w (w_tickpos w + 1)) + int (w_ticks w (w_tickpos w + 2)) + int (w_ticks w (w_tickpos w + 3)) \<le> qc_ttl c"
  shows "fst (bnd (cacheQueryResult sha query (Some r) args) (\<lambda>_. getCachedQueryResult sha query' args') w) = Ret (Inr (Some r))"
proof -
  obtain t3 w' where w': "cacheQueryResult sha query (Some r) args w = (Ret (), w')"
    and c': "b_queryCache w' = Some (query_Set id (w_now w + int (w_ticks w (w_tickpos w)))
      (w_now w + int (w_ticks w (w_tickpos w)) + int (w_ticks w (w_tickpos w + 1))) t3 (QueryKey sha query args) (VQuery r) c)"
    and t: "w_now w' + int (w_ticks w' (w_tickpos w')) \<le> w_now w + int (w_ticks w (w_tickpos w)) + qc_ttl c"
    using cacheQueryResult_value [OF c, of sha query r args] fresh by fastforce
  from getCachedQueryResult_value [OF c', of sha query' args'] query_expiry.lookup_fresh [OF _ t]
  have "fst (getCachedQueryResult sha query' args' w') = Ret (Inr (Some r))"
    by (auto simp: QueryKey_collides [OF same, symmetric] as_query_result_def)
  with w' show ?thesis by (simp add: bnd_def)
qed

end
