(* ===== verification/Rate_Isolation.thy ===== *)
theory Rate_Isolation
  imports Rate_Limit
begin

text \<open>
  The clients of the rate limiter do not share a budget: over any sequence of requests and ticks of
  the clean-up, as long as at most a thousand clients are known, the answers to one client are those
  of a limiter of his own that sees his requests only. Beyond a thousand clients a tick forgets
  every budget that was spent.
\<close>

datatype limiter_event = Asks int string | Ticks

fun limiter_run :: "'l limiter_lib \<Rightarrow> limiter_event list \<Rightarrow> 'l rateLimiter \<Rightarrow> (string \<times> bool) list" where
  "limiter_run L [] rl = []"
| "limiter_run L (Asks now key # evs) rl =
     (case Allow L now key rl of (ok, rl') \<Rightarrow> (key, ok) # limiter_run L evs rl')"
| "limiter_run L (Ticks # evs) rl = limiter_run L evs (limiter_cleanupExpired rl)"

text \<open>The reference: a client alone with his own limiter.\<close>

fun budget_run :: "'l limiter_lib \<Rightarrow> int list \<Rightarrow> 'l \<Rightarrow> bool list" where
  "budget_run L [] l = []"
| "budget_run L (now # ts) l = (case lib_allow L now l of (ok, l') \<Rightarrow> ok # budget_run L ts l')"

fun asked_at :: "string \<Rightarrow> limiter_event list \<Rightarrow> int list" where
  "asked_at k [] = []"
| "asked_at k (Asks now key # evs) = (if key = k then now # asked_at k evs else asked_at k evs)"
| "asked_at k (Ticks # evs) = asked_at k evs"

fun askers :: "limiter_event list \<Rightarrow> string set" where
  "askers [] = {}"
| "askers (Asks now key # evs) = insert key (askers evs)"
| "askers (Ticks # evs) = askers evs"

definition clients :: "'l rateLimiter \<Rightarrow> string set" where
  "clients rl = fst ` set (rl_limiters rl)"

definition answers_to :: "string \<Rightarrow> (string \<times> bool) list \<Rightarrow> bool list" where
  "answers_to k rs = [ok. (key, ok) \<leftarrow> rs, key = k]"

lemma answers_to_simps [simp]:
  "answers_to k [] = []"
  "answers_to k ((key, ok) # rs) = (if key = k then ok # answers_to k rs else answers_to k rs)"
  by (auto simp: answers_to_def)

lemma finite_askers [simp]: "finite (askers evs)"
  by (induction evs rule: askers.induct) auto

lemma finite_clients [simp]: "finite (clients rl)"
  by (simp add: clients_def)

lemma getLimiter_rate: "rl_rate (snd (getLimiter L k rl)) = rl_rate rl" "rl_burst (snd (getLimiter L k rl)) = rl_burst rl"
  by (auto simp: getLimiter_def Let_def split: option.splits)

lemma clients_update [simp]:
  "clients (rl\<lparr>rl_limiters := AList.update key l (rl_limiters rl)\<rparr>) = insert key (clients rl)"
  by (simp add: clients_def dom_update)

lemma Allow_budget:
  assumes "Allow L now key rl = (ok, rl')"
  shows "fst (getLimiter L k rl') =
      (if k = key then snd (lib_allow L now (fst (getLimiter L key rl))) else fst (getLimiter L k rl))"
    and "ok = fst (lib_allow L now (fst (getLimiter L key rl)))"
    and "clients rl' = insert key (clients rl)"
    and "distinct (map fst (rl_limiters rl)) \<Longrightarrow> distinct (map fst (rl_limiters rl'))"
  using assms
  by (auto simp: Allow_def getLimiter_def Let_def update_conv' clients_update distinct_update
      split: option.splits prod.splits)

lemma cleanup_small:
  assumes "distinct (map fst (rl_limiters rl))" and "card (clients rl) \<le> 1000"
  shows "limiter_cleanupExpired rl = rl"
proof -
  have "length (rl_limiters rl) = card (clients rl)"
    using distinct_card [OF assms(1)] by (simp add: clients_def)
  with assms(2) show ?thesis by (simp add: limiter_cleanupExpired_def)
qed

lemma limiter_run_isolated:
  assumes "distinct (map fst (rl_limiters rl))" and "card (clients rl \<union> askers evs) \<le> 1000"
  shows "answers_to k (limiter_run L evs rl) = budget_run L (asked_at k evs) (fst (getLimiter L k rl))"
  using assms
proof (induction L evs rl rule: limiter_run.induct)
  case (2 L now key evs rl)
  obtain ok rl' where A: "Allow L now key rl = (ok, rl')" by fastforce
  have "clients rl' \<union> askers evs = clients rl \<union> askers (Asks now key # evs)"
    using Allow_budget(3) [OF A] by auto
  then have IH: "answers_to k (limiter_run L evs rl')
      = budget_run L (asked_at k evs) (fst (getLimiter L k rl'))"
    using 2 A Allow_budget(4) [OF A] by auto
  show ?case
    using A IH Allow_budget(1) [OF A, of k] Allow_budget(2) [OF A] by (auto split: prod.splits)
next
  case (3 L evs rl)
  have "card (clients rl) \<le> card (clients rl \<union> askers evs)" by (rule card_mono) auto
  with 3 have "limiter_cleanupExpired rl = rl" by (intro cleanup_small) auto
  with 3 show ?case by simp
qed simp

text \<open>C22. One client cannot spend the budget of another: after the plugin made its limiter, over any
  requests and clean-up ticks of at most a thousand clients, the answers to a client are exactly
  those of a limiter of his own with the configured rate and burst that sees his requests only.
  Beyond a thousand clients the clean-up gives everybody a new limiter.\<close>
theorem clients_are_isolated:
  assumes "card (askers evs) \<le> 1000"
  shows "answers_to k (limiter_run L evs (NewRateLimiter cfg enabled))
    = budget_run L (asked_at k evs)
        (lib_new L (if lc_RequestsPerSecond cfg \<le> 0 then 100 else lc_RequestsPerSecond cfg)
                   (if lc_BurstSize cfg \<le> 0 then 50 else lc_BurstSize cfg))"
proof -
  have "answers_to k (limiter_run L evs (NewRateLimiter cfg enabled))
      = budget_run L (asked_at k evs) (fst (getLimiter L k (NewRateLimiter cfg enabled)))"
    using assms by (intro limiter_run_isolated) (auto simp: NewRateLimiter_def clients_def)
  then show ?thesis by (simp add: NewRateLimiter_def getLimiter_def Let_def)
qed

definition one_token :: "bool limiter_lib" where
  "one_token = \<lparr>lib_new = (\<lambda>r b. True), lib_allow = (\<lambda>now l. (l, False))\<rparr>"

theorem clients_are_isolated_witness:
  "answers_to ''b'' (limiter_run one_token [Asks 1 ''a'', Asks 2 ''a'', Ticks, Asks 3 ''b'', Asks 4 ''a'', Asks 5 ''b'']
      (NewRateLimiter DefaultRateLimitConfig True)) = [True, False]"
  by (subst clients_are_isolated) (simp_all add: one_token_def insert_commute)

text \<open>With more than a thousand clients a tick of the clean-up hands out full budgets again.\<close>

lemma cleanup_resets_budgets:
  assumes "1000 < length (rl_limiters rl)"
  shows "fst (getLimiter L k (limiter_cleanupExpired rl)) = lib_new L (rl_rate rl) (rl_burst rl)"
  using assms by (simp add: limiter_cleanupExpired_def getLimiter_def Let_def)

text \<open>The paths that are never limited are those that begin with one of four words, which other
  paths do as well.\<close>

lemma isExcluded_iff:
  "isExcluded path \<longleftrightarrow> (\<exists>p \<in> set excludePaths. \<exists>rest. path = p @ rest)"
proof
  assume "isExcluded path"
  then obtain p where "p \<in> set excludePaths" "take (length p) path = p"
    by (auto simp: isExcluded_def list_ex_iff)
  moreover from this have "path = p @ drop (length p) path" by (metis append_take_drop_id)
  ultimately show "\<exists>p \<in> set excludePaths. \<exists>rest. path = p @ rest" by blast
next
  assume "\<exists>p \<in> set excludePaths. \<exists>rest. path = p @ rest"
  then obtain p rest where "p \<in> set excludePaths" "path = p @ rest" by blast
  then show "isExcluded path" unfolding isExcluded_def list_ex_iff by (intro bexI [of _ p]) simp_all
qed

end
