(* ===== verification/Metrics_Collectors.thy ===== *)
theory Metrics_Collectors
  imports Pool_Metrics
begin

text \<open>
  The collectors of \<open>metrics/metrics.go\<close>: what each is registered with, and the updates that the registry
  of pools makes of them (\<open>storage/db_registry.go\<close>). The imported package keeps the values; it panics when
  two collectors with one name are registered, and when an update gives another number of values than the
  collector has labels. The lemmas show that neither happens. Every collector has the namespace
  \<open>teradata\<close>, and a histogram has the default buckets.
\<close>

datatype collector_kind = Gauge | Counter | Histogram

record collector =
  co_kind :: collector_kind
  co_subsystem :: string
  co_name :: string
  co_help :: string
  co_labels :: "string list"

definition PoolOpenConnections :: collector where
  "PoolOpenConnections = \<lparr>co_kind = Gauge, co_subsystem = ''pool'', co_name = ''open_connections'',
     co_help = ''Number of open connections in the pool'',
     co_labels = [''pool_name'']\<rparr>"

definition PoolIdleConnections :: collector where
  "PoolIdleConnections = \<lparr>co_kind = Gauge, co_subsystem = ''pool'', co_name = ''idle_connections'',
     co_help = ''Number of idle connections in the pool'',
     co_labels = [''pool_name'']\<rparr>"

definition PoolActiveConnections :: collector where
  "PoolActiveConnections = \<lparr>co_kind = Gauge, co_subsystem = ''pool'', co_name = ''active_connections'',
     co_help = ''Number of active (in-use) connections in the pool'',
     co_labels = [''pool_name'']\<rparr>"

definition PoolHealthCheckDuration :: collector where
  "PoolHealthCheckDuration = \<lparr>co_kind = Histogram, co_subsystem = ''pool'', co_name = ''health_check_duration_seconds'',
     co_help = ''Duration of health check operations in seconds'',
     co_labels = [''pool_name'', ''status'']\<rparr>"

definition PoolHealthCheckTotal :: collector where
  "PoolHealthCheckTotal = \<lparr>co_kind = Counter, co_subsystem = ''pool'', co_name = ''health_check_total'',
     co_help = ''Total number of health checks performed'',
     co_labels = [''pool_name'', ''status'']\<rparr>"

definition PoolConnectionErrors :: collector where
  "PoolConnectionErrors = \<lparr>co_kind = Counter, co_subsystem = ''pool'', co_name = ''connection_errors_total'',
     co_help = ''Total number of connection errors'',
     co_labels = [''pool_name'', ''error_type'']\<rparr>"

definition PoolIdleClosedTotal :: collector where
  "PoolIdleClosedTotal = \<lparr>co_kind = Counter, co_subsystem = ''pool'', co_name = ''idle_closed_total'',
     co_help = ''Total number of idle connections closed due to timeout'',
     co_labels = [''pool_name'']\<rparr>"

definition CredentialsCreated :: collector where
  "CredentialsCreated = \<lparr>co_kind = Counter, co_subsystem = ''credentials'', co_name = ''created_total'',
     co_help = ''Total number of credentials created'',
     co_labels = [''role_name'']\<rparr>"

definition CredentialsCreationDuration :: collector where
  "CredentialsCreationDuration = \<lparr>co_kind = Histogram, co_subsystem = ''credentials'', co_name = ''creation_duration_seconds'',
     co_help = ''Duration of credential creation operations in seconds'',
     co_labels = [''role_name'']\<rparr>"

definition CredentialsCreationErrors :: collector where
  "CredentialsCreationErrors = \<lparr>co_kind = Counter, co_subsystem = ''credentials'', co_name = ''creation_errors_total'',
     co_help = ''Total number of credential creation errors'',
     co_labels = [''role_name'', ''error_type'']\<rparr>"

definition CredentialsRevoked :: collector where
  "CredentialsRevoked = \<lparr>co_kind = Counter, co_subsystem = ''credentials'', co_name = ''revoked_total'',
     co_help = ''Total number of credentials revoked'',
     co_labels = [''role_name'']\<rparr>"

definition CredentialsExpired :: collector where
  "CredentialsExpired = \<lparr>co_kind = Counter, co_subsystem = ''credentials'', co_name = ''expired_total'',
     co_help = ''Total number of credentials expired and cleaned up'',
     co_labels = [''role_name'']\<rparr>"

definition CacheHits :: collector where
  "CacheHits = \<lparr>co_kind = Counter, co_subsystem = ''cache'', co_name = ''hits_total'',
     co_help = ''Total number of cache hits'',
     co_labels = [''cache_type'']\<rparr>"

definition CacheMisses :: collector where
  "CacheMisses = \<lparr>co_kind = Counter, co_subsystem = ''cache'', co_name = ''misses_total'',
     co_help = ''Total number of cache misses'',
     co_labels = [''cache_type'']\<rparr>"

definition CacheEvictions :: collector where
  "CacheEvictions = \<lparr>co_kind = Counter, co_subsystem = ''cache'', co_name = ''evictions_total'',
     co_help = ''Total number of cache evictions'',
     co_labels = [''cache_type'']\<rparr>"

definition RateLimitAllowed :: collector where
  "RateLimitAllowed = \<lparr>co_kind = Counter, co_subsystem = ''rate_limit'', co_name = ''allowed_total'',
     co_help = ''Total number of requests allowed by rate limiter'',
     co_labels = []\<rparr>"

definition RateLimitRejected :: collector where
  "RateLimitRejected = \<lparr>co_kind = Counter, co_subsystem = ''rate_limit'', co_name = ''rejected_total'',
     co_help = ''Total number of requests rejected by rate limiter'',
     co_labels = []\<rparr>"

definition SQLExecutionDuration :: collector where
  "SQLExecutionDuration = \<lparr>co_kind = Histogram, co_subsystem = ''sql'', co_name = ''execution_duration_seconds'',
     co_help = ''Duration of SQL execution operations in seconds'',
     co_labels = [''operation'']\<rparr>"

definition SQLExecutionErrors :: collector where
  "SQLExecutionErrors = \<lparr>co_kind = Counter, co_subsystem = ''sql'', co_name = ''execution_errors_total'',
     co_help = ''Total number of SQL execution errors'',
     co_labels = [''operation'', ''error_type'']\<rparr>"

definition collectors :: "collector list" where
  "collectors = [PoolOpenConnections, PoolIdleConnections, PoolActiveConnections, PoolHealthCheckDuration, PoolHealthCheckTotal, PoolConnectionErrors, PoolIdleClosedTotal, CredentialsCreated, CredentialsCreationDuration, CredentialsCreationErrors, CredentialsRevoked, CredentialsExpired, CacheHits, CacheMisses, CacheEvictions, RateLimitAllowed, RateLimitRejected, SQLExecutionDuration, SQLExecutionErrors]"

text \<open>\<open>prometheus.BuildFQName\<close>, which the registry of collectors compares.\<close>

definition fq_name :: "collector \<Rightarrow> string" where
  "fq_name c = ''teradata_'' @ co_subsystem c @ ''_'' @ co_name c"

fun register_all :: "collector list \<Rightarrow> string list \<Rightarrow> string list res" where
  "register_all [] known = Ret known"
| "register_all (c # cs) known = (if fq_name c \<in> set known then Panic ''duplicate metrics collector registration attempted''
     else register_all cs (fq_name c # known))"

text \<open>An update: the collector, the values of its labels, and what is set, added or observed.\<close>

definition update_metric :: "collector \<Rightarrow> string list \<Rightarrow> rat \<Rightarrow> (string \<times> string list \<times> rat) res" where
  "update_metric c values v = (if length values = length (co_labels c) then Ret (fq_name c, values, v)
     else Panic ''inconsistent label cardinality'')"

text \<open>The updates in the code: a health check that found a closed, an unhealthy or a healthy pool, an idle
  pool that was closed, and a pool that was added or replaced, removed, or measured. A new pool reports its
  maximum as its number of open connections.\<close>

definition health_updates :: "string \<Rightarrow> ConnectionState \<Rightarrow> rat \<Rightarrow> (collector \<times> string list \<times> rat) list" where
  "health_updates name state duration =
     (case state of
        StateClosed \<Rightarrow> [(PoolHealthCheckDuration, [name, ''closed''], duration), (PoolHealthCheckTotal, [name, ''closed''], 1),
          (PoolConnectionErrors, [name, ''nil_connection''], 1)]
      | StateUnhealthy \<Rightarrow> [(PoolHealthCheckDuration, [name, ''unhealthy''], duration), (PoolHealthCheckTotal, [name, ''unhealthy''], 1),
          (PoolConnectionErrors, [name, ''ping_failed''], 1)]
      | StateHealthy \<Rightarrow> [(PoolHealthCheckDuration, [name, ''healthy''], duration), (PoolHealthCheckTotal, [name, ''healthy''], 1)]
      | StateUnknown \<Rightarrow> [])"

definition idle_updates :: "string \<Rightarrow> (collector \<times> string list \<times> rat) list" where
  "idle_updates name = [(PoolIdleClosedTotal, [name], 1)]"

definition gauge_updates :: "gauges \<Rightarrow> (collector \<times> string list \<times> rat) list" where
  "gauge_updates g = (case g of (name, openConns, idle, active) \<Rightarrow>
     [(PoolOpenConnections, [name], rat_of_int openConns), (PoolIdleConnections, [name], rat_of_int idle),
      (PoolActiveConnections, [name], rat_of_int active)])"

definition evicted_updates :: "string \<Rightarrow> DBStats \<Rightarrow> (collector \<times> string list \<times> rat) list" where
  "evicted_updates name stats = [(PoolOpenConnections, [name], rat_of_int (ds_Open stats)),
     (PoolIdleConnections, [name], rat_of_int (ds_Idle stats))]"

definition new_pool_updates :: "string \<Rightarrow> DBConfig \<Rightarrow> (collector \<times> string list \<times> rat) list" where
  "new_pool_updates name config = gauge_updates (name, db_MaxOpenConnections config, 0, 0)"

definition removed_pool_updates :: "string \<Rightarrow> (collector \<times> string list \<times> rat) list" where
  "removed_pool_updates name = gauge_updates (name, 0, 0, 0)"

definition makes :: "collector \<times> string list \<times> rat \<Rightarrow> (string \<times> string list \<times> rat) res" where
  "makes u = (case u of (c, values, v) \<Rightarrow> update_metric c values v)"

lemmas collector_defs = PoolOpenConnections_def PoolIdleConnections_def PoolActiveConnections_def PoolHealthCheckDuration_def PoolHealthCheckTotal_def PoolConnectionErrors_def PoolIdleClosedTotal_def CredentialsCreated_def CredentialsCreationDuration_def CredentialsCreationErrors_def CredentialsRevoked_def CredentialsExpired_def CacheHits_def CacheMisses_def CacheEvictions_def RateLimitAllowed_def RateLimitRejected_def SQLExecutionDuration_def SQLExecutionErrors_def

lemma collectors_register: "\<exists>names. register_all collectors [] = Ret names \<and> length names = 19"
  by (simp add: collectors_def fq_name_def collector_defs)

lemma updates_fit:
  assumes "u \<in> set (health_updates name state duration) \<union> set (idle_updates name) \<union> set (evicted_updates name stats) \<union> set (gauge_updates g)
    \<union> set (new_pool_updates name config) \<union> set (removed_pool_updates name)"
  shows "\<exists>m. makes u = Ret m"
proof -
  have "length (fst (snd u)) = length (co_labels (fst u))"
    using assms
    by (auto simp: health_updates_def idle_updates_def evicted_updates_def gauge_updates_def new_pool_updates_def removed_pool_updates_def
      collector_defs split: ConnectionState.splits prod.splits)
  then show ?thesis by (cases u) (simp add: makes_def update_metric_def)
qed

end
