(* ===== verification/Tracing.thy ===== *)
theory Tracing
  imports Go_Monad
begin

text \<open>
  The package \<open>tracing\<close> (\<open>tracing/tracing.go\<close>). Its spans do nothing: every operation on one returns the
  zero value or nothing, and starting one returns the context it was given. That is why the other theories
  leave the spans out; the lemmas at the end state it.
\<close>

record trace_Config =
  tr_ServiceName :: string
  tr_Exporter :: string
  tr_Endpoint :: string
  tr_Enabled :: bool
  tr_SamplerType :: string
  tr_SamplerRatio :: rat

definition trace_DefaultConfig :: trace_Config where
  "trace_DefaultConfig = \<lparr>tr_ServiceName = [], tr_Exporter = [], tr_Endpoint = [], tr_Enabled = False,
     tr_SamplerType = [], tr_SamplerRatio = 0\<rparr>"

text \<open>The function that is returned to stop the tracing, and no error.\<close>

definition Configure :: "trace_Config \<Rightarrow> ('w, unit) act \<times> go_err option" where
  "Configure cfg = (ret (), None)"

datatype span_value = SpanString string | SpanInt int | SpanBool bool

record KeyValue =
  kv_Key :: string
  kv_Value :: span_value

definition trace_String :: "string \<Rightarrow> string \<Rightarrow> KeyValue" where
  "trace_String k v = \<lparr>kv_Key = k, kv_Value = SpanString v\<rparr>"

definition trace_Int :: "string \<Rightarrow> int \<Rightarrow> KeyValue" where
  "trace_Int k v = \<lparr>kv_Key = k, kv_Value = SpanInt v\<rparr>"

definition trace_Bool :: "string \<Rightarrow> bool \<Rightarrow> KeyValue" where
  "trace_Bool k v = \<lparr>kv_Key = k, kv_Value = SpanBool v\<rparr>"

definition trace_Int64 :: "string \<Rightarrow> int \<Rightarrow> KeyValue" where
  "trace_Int64 k v = \<lparr>kv_Key = k, kv_Value = SpanInt v\<rparr>"

datatype span_codes = Unset | CodeError | CodeOk
datatype span = noopSpan
datatype SpanContext = SpanContext
datatype TraceID = TraceID
datatype SpanID = SpanID
datatype TracerProvider = TracerProvider
datatype Tracer = Tracer

definition span_End :: "span \<Rightarrow> ('w, unit) act" where "span_End s = ret ()"
definition span_RecordError :: "span \<Rightarrow> go_err \<Rightarrow> ('w, unit) act" where "span_RecordError s err = ret ()"
definition span_SetStatus :: "span \<Rightarrow> span_codes \<Rightarrow> string \<Rightarrow> ('w, unit) act" where "span_SetStatus s code msg = ret ()"
definition span_AddEvent :: "span \<Rightarrow> string \<Rightarrow> ('w, unit) act" where "span_AddEvent s msg = ret ()"
definition span_SetName :: "span \<Rightarrow> string \<Rightarrow> ('w, unit) act" where "span_SetName s name = ret ()"
definition span_SpanContext :: "span \<Rightarrow> SpanContext" where "span_SpanContext s = SpanContext"
definition span_Parent :: "span \<Rightarrow> SpanContext" where "span_Parent s = SpanContext"
definition span_SetAttributes :: "span \<Rightarrow> KeyValue list \<Rightarrow> ('w, unit) act" where "span_SetAttributes s attrs = ret ()"
definition span_TracerProvider :: "span \<Rightarrow> TracerProvider" where "span_TracerProvider s = TracerProvider"

definition sc_HasTraceID :: "SpanContext \<Rightarrow> bool" where "sc_HasTraceID c = False"
definition sc_HasSpanID :: "SpanContext \<Rightarrow> bool" where "sc_HasSpanID c = False"
definition sc_TraceID :: "SpanContext \<Rightarrow> TraceID" where "sc_TraceID c = TraceID"
definition sc_SpanID :: "SpanContext \<Rightarrow> SpanID" where "sc_SpanID c = SpanID"
definition traceid_String :: "TraceID \<Rightarrow> string" where "traceid_String i = []"
definition spanid_String :: "SpanID \<Rightarrow> string" where "spanid_String i = []"
definition tp_Tracer :: "TracerProvider \<Rightarrow> string \<Rightarrow> Tracer" where "tp_Tracer p name = Tracer"

definition tracer_Start :: "Tracer \<Rightarrow> ctx \<Rightarrow> string \<Rightarrow> ctx \<times> span" where "tracer_Start t c name = (c, noopSpan)"
definition GetTracer :: span where "GetTracer = noopSpan"
definition StartSpan :: "ctx \<Rightarrow> string \<Rightarrow> ctx \<times> span" where "StartSpan c name = (c, noopSpan)"

definition EndSpan :: "span \<Rightarrow> go_err option \<Rightarrow> ('w, unit) act" where
  "EndSpan s err = seq (case err of
       None \<Rightarrow> ret ()
     | Some e \<Rightarrow> seq (span_RecordError s e) (span_SetStatus s CodeError (err_text e))) (span_End s)"

definition AddSpanAttributes :: "span \<Rightarrow> KeyValue list \<Rightarrow> ('w, unit) act" where
  "AddSpanAttributes s attrs = span_SetAttributes s attrs"

definition RecordSpanError :: "span \<Rightarrow> go_err option \<Rightarrow> ('w, unit) act" where
  "RecordSpanError s err = (case err of
       None \<Rightarrow> ret ()
     | Some e \<Rightarrow> seq (span_RecordError s e) (span_SetStatus s CodeError (err_text e)))"

definition SpanFromContext :: "ctx \<Rightarrow> span" where "SpanFromContext c = noopSpan"
definition ContextWithSpan :: "ctx \<Rightarrow> span \<Rightarrow> ctx" where "ContextWithSpan c s = c"
definition TraceIDFromSpan :: "span \<Rightarrow> string" where "TraceIDFromSpan s = []"
definition SpanIDFromSpan :: "span \<Rightarrow> string" where "SpanIDFromSpan s = []"

lemmas span_defs = span_End_def span_RecordError_def span_SetStatus_def span_AddEvent_def span_SetName_def
  span_SetAttributes_def

lemma seq_ret_unit: "seq (ret ()) m = m"
  by (simp add: seq_def bnd_def ret_def fun_eq_iff)

lemma spans_do_nothing:
  "fst (StartSpan c name) = c" "EndSpan s err = ret ()" "RecordSpanError s err = ret ()"
  "AddSpanAttributes s attrs = ret ()" "ContextWithSpan c s = c"
  by (simp_all add: StartSpan_def EndSpan_def RecordSpanError_def AddSpanAttributes_def ContextWithSpan_def
      span_defs seq_ret_unit split: option.splits)

end
