(* ===== verification/Logging.thy ===== *)
theory Logging
  imports Go_Monad
begin

text \<open>
  The package \<open>logging\<close> (\<open>logging/config.go\<close>, \<open>logging/logger.go\<close>): the configuration of the log, the state
  of the package and its logging functions. A \<open>*slog.Logger\<close> is its handler, nil in the zero value, and
  the attributes it carries; a record that is enabled is appended to the output, whose layout belongs to
  \<open>log/slog\<close>. The environment, the moment that \<open>time.Now\<close> reads, the caller's position and the JSON
  decoder are arguments. \<open>any\<close> arguments are the attributes that \<open>slog\<close> makes of them.

  The theorems say which configurations are accepted, that the filter the package keeps answers as the
  configuration does, which records are written, and that the package-level functions never panic while
  the logger of a disabled component always does.
\<close>

subsection \<open>The configuration\<close>

definition LogFormatJSON :: string where "LogFormatJSON = ''json''"
definition LogFormatPretty :: string where "LogFormatPretty = ''pretty''"
definition LogLevelDebug :: string where "LogLevelDebug = ''debug''"
definition LogLevelInfo :: string where "LogLevelInfo = ''info''"
definition LogLevelWarn :: string where "LogLevelWarn = ''warn''"
definition LogLevelError :: string where "LogLevelError = ''error''"
definition LogLevelTrace :: string where "LogLevelTrace = ''trace''"

lemmas log_names = LogFormatJSON_def LogFormatPretty_def LogLevelDebug_def LogLevelInfo_def LogLevelWarn_def
  LogLevelError_def LogLevelTrace_def

record LogConfig =
  log_Format :: string
  log_Level :: string
  log_Components :: "string list"

definition Config_Validate :: "LogConfig \<Rightarrow> go_err option" where
  "Config_Validate c =
     (if log_Format c \<notin> {LogFormatJSON, LogFormatPretty, []}
      then Some (Errorf (''invalid log_format: '' @ log_Format c @ '' (must be 'json' or 'pretty')''))
      else if log_Level c \<notin> {LogLevelDebug, LogLevelInfo, LogLevelWarn, LogLevelError, LogLevelTrace, []}
      then Some (Errorf (''invalid log_level: '' @ log_Level c
        @ '' (must be 'debug', 'info', 'warn', 'error', or 'trace')''))
      else None)"

text \<open>A nil list of components becomes an empty one, which is the same list here.\<close>

definition SetDefaults :: "LogConfig \<Rightarrow> LogConfig" where
  "SetDefaults c =
     (let c1 = (if log_Format c = [] then c\<lparr>log_Format := LogFormatJSON\<rparr> else c) in
      if log_Level c1 = [] then c1\<lparr>log_Level := LogLevelInfo\<rparr> else c1)"

definition Config_IsComponentEnabled :: "unicode \<Rightarrow> LogConfig \<Rightarrow> string \<Rightarrow> bool" where
  "Config_IsComponentEnabled U c component =
     (if log_Components c = [] then True
      else list_ex (\<lambda>x. ToLower U x = ToLower U component) (log_Components c))"

definition log_DefaultConfig :: LogConfig where
  "log_DefaultConfig = \<lparr>log_Format = LogFormatJSON, log_Level = LogLevelInfo, log_Components = []\<rparr>"

text \<open>\<open>getenv\<close> is \<open>os.Getenv\<close>, which is empty for a variable that is not set.\<close>

definition ConfigFromEnv :: "(string \<Rightarrow> string) \<Rightarrow> LogConfig" where
  "ConfigFromEnv getenv =
     (let cfg0 = log_DefaultConfig;
          format = getenv ''LOG_FORMAT'';
          cfg1 = (if format \<noteq> [] then cfg0\<lparr>log_Format := format\<rparr> else cfg0);
          level = getenv ''LOG_LEVEL'';
          cfg2 = (if level \<noteq> [] then cfg1\<lparr>log_Level := level\<rparr> else cfg1);
          components = getenv ''LOG_COMPONENTS'';
          cfg3 = (if components \<noteq> [] then cfg2\<lparr>log_Components := map TrimSpace (Split components CHR '','')\<rparr> else cfg2)
      in SetDefaults cfg3)"

definition ParseLogLevel :: "unicode \<Rightarrow> string \<Rightarrow> string \<times> go_err option" where
  "ParseLogLevel U level =
     (let l = ToLower U level in
      if l = ''debug'' then (LogLevelDebug, None)
      else if l = ''info'' then (LogLevelInfo, None)
      else if l = ''warn'' \<or> l = ''warning'' then (LogLevelWarn, None)
      else if l = ''error'' then (LogLevelError, None)
      else if l = ''trace'' then (LogLevelTrace, None)
      else (LogLevelInfo, Some (Errorf (''unknown log level: '' @ level))))"

definition ToSlogLevel :: "string \<Rightarrow> int" where
  "ToSlogLevel l =
     (if l = LogLevelTrace then - 8 else if l = LogLevelDebug then - 4 else if l = LogLevelInfo then 0
      else if l = LogLevelWarn then 4 else if l = LogLevelError then 8 else 0)"

subsection \<open>Loggers\<close>

datatype attr_val = AStr string | AInt int | ADur int | ATime int | AAny string

type_synonym attrs = "(string \<times> attr_val) list"

datatype slog_handler = JSONHandler int | TextHandler int bool

fun handler_level :: "slog_handler \<Rightarrow> int" where
  "handler_level (JSONHandler l) = l"
| "handler_level (TextHandler l _) = l"

record logger =
  lg_handler :: "slog_handler option"
  lg_attrs :: attrs

record log_state =
  ls_defaultLogger :: "logger option"
  ls_config :: "LogConfig option"
  ls_components :: "string set"
  ls_output :: "(slog_handler \<times> int \<times> string \<times> attrs) list"

definition no_logs :: log_state where
  "no_logs = \<lparr>ls_defaultLogger = None, ls_config = None, ls_components = {}, ls_output = []\<rparr>"

text \<open>\<open>logger.Log\<close> of \<open>log/slog\<close>: the level is compared with the handler's, and both calls go through the
  handler, so that a zero \<open>Logger\<close> panics.\<close>

definition slog_Log :: "logger \<Rightarrow> int \<Rightarrow> string \<Rightarrow> attrs \<Rightarrow> (log_state, unit) act" where
  "slog_Log lg level msg args =
     (case lg_handler lg of
        None \<Rightarrow> panic ''nil pointer dereference''
      | Some h \<Rightarrow> if level < handler_level h then ret ()
          else modify (\<lambda>s. s\<lparr>ls_output := ls_output s @ [(h, level, msg, lg_attrs lg @ args)]\<rparr>))"

text \<open>\<open>logger.With\<close>: without arguments the logger itself, otherwise its handler takes the attributes.\<close>

definition slog_With :: "logger \<Rightarrow> attrs \<Rightarrow> (log_state, logger) act" where
  "slog_With lg args =
     (if args = [] then ret lg
      else case lg_handler lg of
        None \<Rightarrow> panic ''nil pointer dereference''
      | Some h \<Rightarrow> ret (lg\<lparr>lg_attrs := lg_attrs lg @ args\<rparr>))"

definition Init :: "unicode \<Rightarrow> LogConfig option \<Rightarrow> (log_state, go_err option) act" where
  "Init U cfg0 =
     (let cfg1 = (case cfg0 of None \<Rightarrow> log_DefaultConfig | Some c \<Rightarrow> c) in
      case Config_Validate cfg1 of
        Some err \<Rightarrow> ret (Some err)
      | None \<Rightarrow>
          let cfg = SetDefaults cfg1; level = ToSlogLevel (log_Level cfg);
              handler = (if log_Format cfg = LogFormatJSON then JSONHandler level
                         else if log_Format cfg = LogFormatPretty then TextHandler level True
                         else JSONHandler level) in
          seq (modify (\<lambda>s. s\<lparr>ls_config := Some cfg\<rparr>))
         (seq (modify (\<lambda>s. s\<lparr>ls_components := set (map (ToLower U) (log_Components cfg))\<rparr>))
         (seq (modify (\<lambda>s. s\<lparr>ls_defaultLogger := Some \<lparr>lg_handler = Some handler, lg_attrs = []\<rparr>\<rparr>))
          (ret None))))"

definition InitFromEnv :: "unicode \<Rightarrow> (string \<Rightarrow> string) \<Rightarrow> (log_state, go_err option) act" where
  "InitFromEnv U getenv = Init U (Some (ConfigFromEnv getenv))"

definition UpdateConfig :: "unicode \<Rightarrow> LogConfig option \<Rightarrow> (log_state, go_err option) act" where
  "UpdateConfig U cfg = Init U cfg"

definition GetConfig :: "(log_state, LogConfig) act" where
  "GetConfig = gets (\<lambda>s. case ls_config s of None \<Rightarrow> log_DefaultConfig | Some c \<Rightarrow> c)"

text \<open>The logger may be nil only if \<open>Init\<close> failed, which it does not on a nil configuration.\<close>

definition log_Default :: "unicode \<Rightarrow> (log_state, logger option) act" where
  "log_Default U = bnd (gets ls_defaultLogger) (\<lambda>d. case d of
       None \<Rightarrow> seq (Init U None) (gets ls_defaultLogger)
     | Some _ \<Rightarrow> gets ls_defaultLogger)"

text \<open>A context is nil, or holds the logger stored under \<open>loggerKey\<close> if there is one.\<close>

definition FromContext :: "unicode \<Rightarrow> logger option option \<Rightarrow> (log_state, logger option) act" where
  "FromContext U ctx = (case ctx of Some (Some lg) \<Rightarrow> ret (Some lg) | _ \<Rightarrow> log_Default U)"

definition WithContext :: "logger option option \<Rightarrow> logger option \<Rightarrow> logger option option" where
  "WithContext ctx lg =
     (let ctx1 = (case ctx of None \<Rightarrow> Some None | Some c \<Rightarrow> Some c) in
      case lg of None \<Rightarrow> ctx1 | Some l \<Rightarrow> Some (Some l))"

definition log_IsComponentEnabled :: "unicode \<Rightarrow> string \<Rightarrow> (log_state, bool) act" where
  "log_IsComponentEnabled U component =
     gets (\<lambda>s. if ls_components s = {} then True else ToLower U component \<in> ls_components s)"

text \<open>A method of a logger that may be nil.\<close>

definition on_logger :: "logger option \<Rightarrow> (logger \<Rightarrow> (log_state, 'a) act) \<Rightarrow> (log_state, 'a) act" where
  "on_logger lg f = (case lg of None \<Rightarrow> panic ''nil pointer dereference'' | Some l \<Rightarrow> f l)"

definition WithComponent :: "unicode \<Rightarrow> logger option option \<Rightarrow> string \<Rightarrow> attrs \<Rightarrow> (log_state, logger) act" where
  "WithComponent U ctx component args =
     bnd (FromContext U ctx) (\<lambda>lg. bnd (log_IsComponentEnabled U component) (\<lambda>enabled.
       if \<not> enabled then ret \<lparr>lg_handler = None, lg_attrs = []\<rparr>
       else on_logger lg (\<lambda>l. slog_With l (args @ [(''component'', AStr component)]))))"

subsection \<open>The logging functions\<close>

definition log_at :: "unicode \<Rightarrow> int \<Rightarrow> string \<Rightarrow> attrs \<Rightarrow> (log_state, unit) act" where
  "log_at U level msg args = bnd (log_Default U) (\<lambda>lg. on_logger lg (\<lambda>l. slog_Log l level msg args))"

definition log_Debug :: "unicode \<Rightarrow> string \<Rightarrow> attrs \<Rightarrow> (log_state, unit) act" where
  "log_Debug U msg args = log_at U (- 4) msg args"

definition log_Info :: "unicode \<Rightarrow> string \<Rightarrow> attrs \<Rightarrow> (log_state, unit) act" where
  "log_Info U msg args = log_at U 0 msg args"

definition log_Warn :: "unicode \<Rightarrow> string \<Rightarrow> attrs \<Rightarrow> (log_state, unit) act" where
  "log_Warn U msg args = log_at U 4 msg args"

definition log_Error :: "unicode \<Rightarrow> string \<Rightarrow> attrs \<Rightarrow> (log_state, unit) act" where
  "log_Error U msg args = log_at U 8 msg args"

definition log_Log :: "unicode \<Rightarrow> string \<Rightarrow> string \<Rightarrow> attrs \<Rightarrow> (log_state, unit) act" where
  "log_Log U level msg args =
     (if level = LogLevelTrace then log_at U (- 8) msg args
      else if level = LogLevelDebug then log_Debug U msg args
      else if level = LogLevelInfo then log_Info U msg args
      else if level = LogLevelWarn then log_Warn U msg args
      else if level = LogLevelError then log_Error U msg args
      else ret ())"

text \<open>\<open>if logger == nil { logger = Default() }\<close>, and then one record.\<close>

definition log_with :: "unicode \<Rightarrow> logger option \<Rightarrow> int \<Rightarrow> string \<Rightarrow> attrs \<Rightarrow> (log_state, unit) act" where
  "log_with U lg level msg args =
     bnd (case lg of None \<Rightarrow> log_Default U | Some l \<Rightarrow> ret (Some l)) (\<lambda>lg'.
       on_logger lg' (\<lambda>l. slog_Log l level msg args))"

record HealthCheckResult =
  hc_Component :: string
  hc_ConnectionName :: string
  hc_State :: string
  hc_Latency :: int
  hc_Error :: string
  hc_Timestamp :: int

definition HealthCheckResult_Log :: "unicode \<Rightarrow> HealthCheckResult \<Rightarrow> logger option \<Rightarrow> (log_state, unit) act" where
  "HealthCheckResult_Log U h lg = log_with U lg 0 ''health_check_result''
     [(''component'', AStr (hc_Component h)), (''connection_name'', AStr (hc_ConnectionName h)),
      (''state'', AStr (hc_State h)), (''latency'', ADur (hc_Latency h)), (''error'', AStr (hc_Error h)),
      (''timestamp'', ATime (hc_Timestamp h))]"

definition LogHealthCheck :: "unicode \<Rightarrow> int \<Rightarrow> logger option \<Rightarrow> string \<Rightarrow> string \<Rightarrow> int \<Rightarrow> go_err option
    \<Rightarrow> (log_state, unit) act" where
  "LogHealthCheck U now lg connName state latency err =
     (let args = [(''component'', AStr ''health''), (''connection_name'', AStr connName), (''state'', AStr state),
        (''latency'', ADur latency), (''timestamp'', ATime now)] in
      case err of
        Some e \<Rightarrow> log_with U lg 8 ''health_check'' (args @ [(''error'', AStr (err_text e))])
      | None \<Rightarrow> log_with U lg 0 ''health_check'' args)"

text \<open>\<open>details\<close> in the order this run visits the map.\<close>

definition LogConnectionEvent :: "unicode \<Rightarrow> int \<Rightarrow> logger option \<Rightarrow> string \<Rightarrow> string \<Rightarrow> (string \<times> string) list
    \<Rightarrow> (log_state, unit) act" where
  "LogConnectionEvent U now lg event connName details =
     log_with U lg 0 ''connection_event''
       ([(''component'', AStr ''pool''), (''event'', AStr event), (''connection_name'', AStr connName),
         (''timestamp'', ATime now)] @ map (\<lambda>(k, v). (k, AAny v)) details)"

definition LogPoolStats :: "unicode \<Rightarrow> int \<Rightarrow> logger option \<Rightarrow> string \<Rightarrow> int \<Rightarrow> int \<Rightarrow> int \<Rightarrow> (log_state, unit) act" where
  "LogPoolStats U now lg connName openConns idleConns inUse =
     log_with U lg 0 ''pool_stats''
       [(''component'', AStr ''pool''), (''connection_name'', AStr connName), (''open_connections'', AInt openConns),
        (''idle_connections'', AInt idleConns), (''in_use_connections'', AInt inUse), (''timestamp'', ATime now)]"

definition LogOperation :: "unicode \<Rightarrow> int \<Rightarrow> logger option \<Rightarrow> string \<Rightarrow> string \<Rightarrow> attrs \<Rightarrow> (log_state, unit) act" where
  "LogOperation U now lg component oper args =
     log_with U lg 0 ''operation''
       ([(''component'', AStr component), (''operation'', AStr oper), (''timestamp'', ATime now)] @ args)"

text \<open>The text of the error is taken after the logger was found: a nil error panics.\<close>

definition LogError :: "unicode \<Rightarrow> int \<Rightarrow> logger option \<Rightarrow> string \<Rightarrow> string \<Rightarrow> go_err option \<Rightarrow> attrs
    \<Rightarrow> (log_state, unit) act" where
  "LogError U now lg component oper err args =
     bnd (case lg of None \<Rightarrow> log_Default U | Some l \<Rightarrow> ret (Some l)) (\<lambda>lg'. case err of
       None \<Rightarrow> panic ''nil pointer dereference''
     | Some e \<Rightarrow> on_logger lg' (\<lambda>l. slog_Log l 8 ''operation_error''
         ([(''component'', AStr component), (''operation'', AStr oper), (''error'', AStr (err_text e)),
           (''timestamp'', ATime now)] @ args)))"

definition LogCredentialOperation :: "unicode \<Rightarrow> int \<Rightarrow> logger option \<Rightarrow> string \<Rightarrow> string \<Rightarrow> string \<Rightarrow> attrs
    \<Rightarrow> (log_state, unit) act" where
  "LogCredentialOperation U now lg oper role username args =
     log_with U lg 0 ''credential_operation''
       ([(''component'', AStr ''credential''), (''operation'', AStr oper), (''role'', AStr role),
         (''username'', AStr username), (''timestamp'', ATime now)] @ args)"

definition LogRoleOperation :: "unicode \<Rightarrow> int \<Rightarrow> logger option \<Rightarrow> string \<Rightarrow> string \<Rightarrow> attrs \<Rightarrow> (log_state, unit) act" where
  "LogRoleOperation U now lg oper role args =
     log_with U lg 0 ''role_operation''
       ([(''component'', AStr ''role''), (''operation'', AStr oper), (''role'', AStr role),
         (''timestamp'', ATime now)] @ args)"

definition LogConfigOperation :: "unicode \<Rightarrow> int \<Rightarrow> logger option \<Rightarrow> string \<Rightarrow> attrs \<Rightarrow> (log_state, unit) act" where
  "LogConfigOperation U now lg oper args =
     log_with U lg 0 ''config_operation''
       ([(''component'', AStr ''config''), (''operation'', AStr oper), (''timestamp'', ATime now)] @ args)"

definition LogRotationEvent :: "unicode \<Rightarrow> int \<Rightarrow> logger option \<Rightarrow> string \<Rightarrow> string \<Rightarrow> attrs \<Rightarrow> (log_state, unit) act" where
  "LogRotationEvent U now lg oper username args =
     log_with U lg 0 ''rotation_event''
       ([(''component'', AStr ''rotation''), (''operation'', AStr oper), (''username'', AStr username),
         (''timestamp'', ATime now)] @ args)"

definition LogDebug :: "unicode \<Rightarrow> logger option \<Rightarrow> string \<Rightarrow> string \<Rightarrow> attrs \<Rightarrow> (log_state, unit) act" where
  "LogDebug U lg component msg args =
     log_with U lg (- 4) ''debug'' ([(''component'', AStr component), (''message'', AStr msg)] @ args)"

text \<open>\<open>caller\<close> is what \<open>runtime.Caller\<close> finds.\<close>

definition GetCallerLocation :: "(string \<times> int) option \<Rightarrow> string \<times> int" where
  "GetCallerLocation caller =
     (case caller of
        None \<Rightarrow> ([], 0)
      | Some (file, line) \<Rightarrow>
          let parts = Split file CHR ''/'' in
          (if 2 < length parts then Join (drop (length parts - 2) parts) ''/'' else file, line))"

text \<open>\<open>decode\<close> is \<open>json.Unmarshal\<close> into the type of the entry.\<close>

definition ParseJSONLogEntry :: "(string \<Rightarrow> go_err + 'entry) \<Rightarrow> string \<Rightarrow> go_err + 'entry" where
  "ParseJSONLogEntry decode data = (case decode data of Inl err \<Rightarrow> Inl err | Inr entry \<Rightarrow> Inr entry)"

definition ValidateJSONOutput :: "(string \<Rightarrow> bool) \<Rightarrow> (string \<Rightarrow> go_err option) \<Rightarrow> string \<Rightarrow> bool" where
  "ValidateJSONOutput valid unmarshal data \<longleftrightarrow> valid data \<and> unmarshal data = None"

subsection \<open>What the log does\<close>

text \<open>A configuration is accepted when both names are known or empty; what is kept is then complete.\<close>

definition known_names :: "LogConfig \<Rightarrow> bool" where
  "known_names c \<longleftrightarrow> log_Format c \<in> {LogFormatJSON, LogFormatPretty, []}
     \<and> log_Level c \<in> {LogLevelDebug, LogLevelInfo, LogLevelWarn, LogLevelError, LogLevelTrace, []}"

lemma Config_Validate_None: "Config_Validate c = None \<longleftrightarrow> known_names c"
  by (simp add: Config_Validate_def known_names_def del: insert_iff)

lemma known_DefaultConfig [simp]: "known_names log_DefaultConfig"
  by (simp add: known_names_def log_DefaultConfig_def)

lemma SetDefaults_fields [simp]:
  "log_Format (SetDefaults c) = (if log_Format c = [] then LogFormatJSON else log_Format c)"
  "log_Level (SetDefaults c) = (if log_Level c = [] then LogLevelInfo else log_Level c)"
  "log_Components (SetDefaults c) = log_Components c"
  by (simp_all add: SetDefaults_def Let_def)

lemma Validate_SetDefaults: "Config_Validate (SetDefaults c) = None \<longleftrightarrow> Config_Validate c = None"
  by (auto simp: Config_Validate_None known_names_def log_names)

text \<open>The invariant of the package: nothing was configured yet, or the logger, the configuration and the
  filter are those of one accepted configuration.\<close>

definition follows :: "unicode \<Rightarrow> LogConfig \<Rightarrow> log_state \<Rightarrow> bool" where
  "follows U cfg s \<longleftrightarrow> ls_config s = Some cfg \<and> ls_components s = set (map (ToLower U) (log_Components cfg))
     \<and> (\<exists>lg h. ls_defaultLogger s = Some lg \<and> lg_attrs lg = [] \<and> lg_handler lg = Some h
          \<and> handler_level h = ToSlogLevel (log_Level cfg))"

definition log_ok :: "unicode \<Rightarrow> log_state \<Rightarrow> bool" where
  "log_ok U s \<longleftrightarrow> (ls_config s = None \<and> ls_components s = {} \<and> ls_defaultLogger s = None) \<or> (\<exists>cfg. follows U cfg s)"

definition config_in :: "log_state \<Rightarrow> LogConfig" where
  "config_in s = (case ls_config s of None \<Rightarrow> log_DefaultConfig | Some c \<Rightarrow> c)"

lemma Init_accepts:
  assumes "known_names (case cfg of None \<Rightarrow> log_DefaultConfig | Some c \<Rightarrow> c)"
  shows "\<exists>s'. Init U cfg s = (Ret None, s')
    \<and> follows U (SetDefaults (case cfg of None \<Rightarrow> log_DefaultConfig | Some c \<Rightarrow> c)) s' \<and> ls_output s' = ls_output s"
  using assms [folded Config_Validate_None]
  by (simp add: Init_def Let_def seq_def bnd_def modify_def ret_def follows_def)

lemma Init_refuses:
  assumes "\<not> known_names (case cfg of None \<Rightarrow> log_DefaultConfig | Some c \<Rightarrow> c)"
  shows "\<exists>err. Init U cfg s = (Ret (Some err), s)"
  using assms [folded Config_Validate_None] by (auto simp: Init_def Let_def ret_def)

lemma log_ok_start [simp]: "log_ok U no_logs"
  by (simp add: log_ok_def no_logs_def)

lemma keeps_Init: "keeps (log_ok U) (Init U cfg)"
  unfolding keeps_def
proof (intro allI impI)
  fix s assume "log_ok U s"
  then show "log_ok U (snd (Init U cfg s))"
    using Init_accepts [of cfg U s] Init_refuses [of cfg U s]
    by (cases "known_names (case cfg of None \<Rightarrow> log_DefaultConfig | Some c \<Rightarrow> c)") (force simp: log_ok_def)+
qed

lemma SetDefaults_DefaultConfig [simp]: "SetDefaults log_DefaultConfig = log_DefaultConfig"
  by (simp add: SetDefaults_def log_DefaultConfig_def log_names)

text \<open>\<open>Default\<close> always has a logger, after configuring the package when nothing did.\<close>

lemma log_Default_follows:
  assumes "log_ok U s"
  shows "\<exists>lg h s'. log_Default U s = (Ret (Some lg), s') \<and> follows U (config_in s) s' \<and> ls_output s' = ls_output s
    \<and> ls_defaultLogger s' = Some lg \<and> lg_attrs lg = [] \<and> lg_handler lg = Some h
    \<and> handler_level h = ToSlogLevel (log_Level (config_in s))"
proof (cases "ls_defaultLogger s")
  case None
  with assms have "config_in s = log_DefaultConfig" by (auto simp: log_ok_def follows_def config_in_def)
  with None Init_accepts [of None U s] show ?thesis
    by (auto simp: log_Default_def bnd_def gets_def seq_def follows_def)
next
  case (Some lg)
  with assms obtain cfg where "follows U cfg s" by (auto simp: log_ok_def)
  with Some show ?thesis by (auto simp: log_Default_def bnd_def gets_def follows_def config_in_def)
qed

lemma log_at_writes:
  assumes "log_ok U s"
  shows "\<exists>h s'. log_at U level msg args s = (Ret (), s') \<and> follows U (config_in s) s'
    \<and> handler_level h = ToSlogLevel (log_Level (config_in s))
    \<and> ls_output s' = ls_output s @ (if handler_level h \<le> level then [(h, level, msg, args)] else [])"
proof -
  from log_Default_follows [OF assms] obtain lg h s' where
    d: "log_Default U s = (Ret (Some lg), s')" "follows U (config_in s) s'" "ls_output s' = ls_output s"
      "lg_attrs lg = []" "lg_handler lg = Some h" "handler_level h = ToSlogLevel (log_Level (config_in s))" by blast
  then show ?thesis
    by (intro exI [of _ h] exI [of _ "snd (log_at U level msg args s)"])
      (simp add: log_at_def bnd_def on_logger_def slog_Log_def modify_def ret_def follows_def)
qed

lemma IsComponentEnabled_agrees:
  assumes "log_ok U s"
  shows "log_IsComponentEnabled U component s = (Ret (Config_IsComponentEnabled U (config_in s) component), s)"
proof -
  have "ToLower U component \<in> ToLower U ` set cs \<longleftrightarrow> (\<exists>x \<in> set cs. ToLower U x = ToLower U component)" for cs
    by (metis imageE imageI)
  with assms show ?thesis
    by (auto simp: log_ok_def follows_def config_in_def log_IsComponentEnabled_def Config_IsComponentEnabled_def
        gets_def log_DefaultConfig_def list_ex_iff)
qed

lemma disabled_component_panics:
  assumes "log_ok U s" and "\<not> Config_IsComponentEnabled U (config_in s) component"
    and "\<forall>lg. ctx \<noteq> Some (Some lg)"
  shows "fst (bnd (WithComponent U ctx component args) (\<lambda>lg. slog_Log lg level msg rest) s)
    = Panic ''nil pointer dereference''"
proof -
  from assms(3) have ctx: "FromContext U ctx = log_Default U"
    by (auto simp: FromContext_def split: option.splits)
  from log_Default_follows [OF assms(1)] obtain lg s' where
    d: "log_Default U s = (Ret (Some lg), s')" "follows U (config_in s) s'" by blast
  then have "log_ok U s'" "config_in s' = config_in s" by (auto simp: log_ok_def follows_def config_in_def)
  with IsComponentEnabled_agrees [of U s' component] assms(2)
  show ?thesis by (simp add: WithComponent_def ctx bnd_def d slog_Log_def ret_def panic_def)
qed

lemma keeps_log_at: "keeps (log_ok U) (log_at U level msg args)"
  unfolding keeps_def using log_at_writes [of U _ level msg args] by (fastforce simp: log_ok_def)

text \<open>The states that the package reaches from its start, by configurations and records.\<close>

inductive log_reachable :: "unicode \<Rightarrow> log_state \<Rightarrow> bool" for U where
  started: "log_reachable U no_logs"
| configured: "log_reachable U s \<Longrightarrow> log_reachable U (snd (Init U cfg s))"
| recorded: "log_reachable U s \<Longrightarrow> log_reachable U (snd (log_at U level msg args s))"

lemma log_reachable_ok: "log_reachable U s \<Longrightarrow> log_ok U s"
  by (induction rule: log_reachable.induct) (simp_all add: keepsD [OF keeps_Init] keepsD [OF keeps_log_at])

text \<open>C32. Whatever configurations were set or refused and whatever was logged before: a package-level record
  never panics and is written exactly when its level reaches the configured one; the filter the package
  keeps answers as the configuration it reports; and the logger of a component that this filter disables
  panics on its first record.\<close>
theorem logging_follows_configuration:
  assumes "log_reachable U s"
  shows "(\<exists>h s'. log_at U level msg args s = (Ret (), s')
      \<and> ls_output s' = ls_output s
          @ (if ToSlogLevel (log_Level (config_in s)) \<le> level then [(h, level, msg, args)] else []))
    \<and> GetConfig s = (Ret (config_in s), s)
    \<and> log_IsComponentEnabled U component s = (Ret (Config_IsComponentEnabled U (config_in s) component), s)
    \<and> (\<not> Config_IsComponentEnabled U (config_in s) component \<longrightarrow>
        fst (bnd (WithComponent U None component args) (\<lambda>lg. slog_Log lg level msg []) s)
          = Panic ''nil pointer dereference'')"
proof -
  note ok = log_reachable_ok [OF assms]
  have "GetConfig s = (Ret (config_in s), s)" by (simp add: GetConfig_def config_in_def gets_def)
  then show ?thesis
    using log_at_writes [OF ok, of level msg args] IsComponentEnabled_agrees [OF ok, of component]
      disabled_component_panics [OF ok, of component None args level msg "[]"] by auto
qed

theorem logging_follows_configuration_witness:
  "fst (bnd (WithComponent plain_tables None ''odbc'' []) (\<lambda>lg. slog_Log lg 8 ''m'' [])
      (snd (Init plain_tables (Some \<lparr>log_Format = [], log_Level = ''warn'', log_Components = [''Pool'']\<rparr>) no_logs)))
    = Panic ''nil pointer dereference''"
proof -
  let ?s = "snd (Init plain_tables (Some \<lparr>log_Format = [], log_Level = ''warn'', log_Components = [''Pool'']\<rparr>) no_logs)"
  have r: "log_reachable plain_tables ?s" by (intro log_reachable.intros)
  have "log_Components (config_in ?s) = [''Pool'']"
    by (simp add: Init_def Config_Validate_def log_names Let_def seq_def bnd_def modify_def ret_def config_in_def)
  then have "\<not> Config_IsComponentEnabled plain_tables (config_in ?s) ''odbc''"
    by (simp add: Config_IsComponentEnabled_def go_eval)
  with logging_follows_configuration [OF r, of 8 "''m''" "[]" "''odbc''"] show ?thesis by blast
qed

text \<open>Every name of a level is read back, and the levels are ordered.\<close>

lemma ParseLogLevel_names:
  assumes "l \<in> {LogLevelTrace, LogLevelDebug, LogLevelInfo, LogLevelWarn, LogLevelError}"
  shows "ParseLogLevel U l = (l, None)"
  using assms by (auto simp: ParseLogLevel_def Let_def log_names go_eval)

lemma levels_ordered:
  "ToSlogLevel LogLevelTrace < ToSlogLevel LogLevelDebug \<and> ToSlogLevel LogLevelDebug < ToSlogLevel LogLevelInfo
   \<and> ToSlogLevel LogLevelInfo < ToSlogLevel LogLevelWarn \<and> ToSlogLevel LogLevelWarn < ToSlogLevel LogLevelError"
  by (simp add: ToSlogLevel_def log_names)

text \<open>The plugin starts with a log exactly when the two variables are known names or empty; the names are
  compared as they are, so \<open>WARN\<close> and \<open>warning\<close>, which \<open>ParseLogLevel\<close> reads, stop it.\<close>

lemma InitFromEnv_iff:
  "fst (InitFromEnv U getenv s) = Ret None \<longleftrightarrow>
     getenv ''LOG_FORMAT'' \<in> {LogFormatJSON, LogFormatPretty, []}
     \<and> getenv ''LOG_LEVEL'' \<in> {LogLevelDebug, LogLevelInfo, LogLevelWarn, LogLevelError, LogLevelTrace, []}"
proof -
  have "known_names (ConfigFromEnv getenv) \<longleftrightarrow> getenv ''LOG_FORMAT'' \<in> {LogFormatJSON, LogFormatPretty, []}
     \<and> getenv ''LOG_LEVEL'' \<in> {LogLevelDebug, LogLevelInfo, LogLevelWarn, LogLevelError, LogLevelTrace, []}"
    by (simp add: ConfigFromEnv_def Let_def known_names_def log_DefaultConfig_def)
  then show ?thesis
    using Init_accepts [of "Some (ConfigFromEnv getenv)" U s] Init_refuses [of "Some (ConfigFromEnv getenv)" U s]
    by (cases "known_names (ConfigFromEnv getenv)") (auto simp: InitFromEnv_def)
qed

end
