(* ===== verification/Main_Program.thy ===== *)
theory Main_Program
  imports Logging Operational
begin

text \<open>
  The main program (\<open>cmd/teradata/main.go\<close>): the version, or the log and then the plugin server. Serving
  is the SDK's and an argument; it ends with an error or none. The result is the exit code with what
  was printed on the standard output and the standard error.
\<close>

definition main_program :: "unicode \<Rightarrow> (string \<Rightarrow> string) \<Rightarrow> (log_state, go_err option) act \<Rightarrow> string list
    \<Rightarrow> (log_state, int \<times> string \<times> string) act" where
  "main_program U getenv serve args =
     (if 1 < length args \<and> (args ! 1 = ''--version'' \<or> args ! 1 = ''-v'')
      then ret (0, ''Teradata Secret Plugin'' @ [CHR 0x0A] @ ''Version: '' @ Version @ [CHR 0x0A], [])
      else bnd (InitFromEnv U getenv) (\<lambda>r. case r of
        Some err \<Rightarrow> ret (1, [], ''Failed to initialize logging: '' @ err_text err @ [CHR 0x0A])
      | None \<Rightarrow> bnd serve (\<lambda>r. case r of
          Some err \<Rightarrow> ret (1, [], ''Plugin serve error: '' @ err_text err @ [CHR 0x0A])
        | None \<Rightarrow> ret (0, [], []))))"

text \<open>The server is reached exactly with a log that could be configured; the names of format and level are
  compared as they are, so that \<open>LOG_LEVEL=WARN\<close> stops the plugin with exit code 1.\<close>

lemma main_refuses_environment:
  assumes "getenv ''LOG_LEVEL'' = ''WARN''"
  shows "\<exists>msg s'. main_program U getenv serve [name] s = (Ret (1, [], msg), s')"
proof -
  have "\<not> known_names (ConfigFromEnv getenv)"
    using assms by (simp add: ConfigFromEnv_def Let_def known_names_def log_names)
  then obtain err where "InitFromEnv U getenv s = (Ret (Some err), s)"
    using Init_refuses [of "Some (ConfigFromEnv getenv)" U s] by (auto simp: InitFromEnv_def)
  then show ?thesis by (simp add: main_program_def bnd_def ret_def)
qed

end
