(* ===== verification/Spec2Isabelle.thy ===== *)
theory Spec2Isabelle
  imports Keep_Alive Interface_Gaps Backup_Roundtrip Startup Overlap Query_Results Rate_Isolation Metrics_Collectors Tracing Main_Program
begin

text \<open>
  The OpenBao secrets plugin for Teradata. OpenBao sends it requests; the plugin keeps configurations, roles
  and statement templates in OpenBao's storage, creates database users over ODBC and hands out their names and
  passwords as leases. This library models the Go code of the repository and proves what the code does. It
  reads from the bottom up, in the order in which the code calls.

  \<^bold>\<open>The parts and their theories.\<close>

  \<^item> Strings and effects. \<open>Prelude\<close> and \<open>Go_Strings\<close> hold the functions of Go's \<open>strings\<close> and \<open>unicode\<close> packages
    that the code uses, on byte strings, with UTF-8 decoded as Go's \<open>range\<close> does. \<open>Go_Monad\<close> holds the effects:
    a handler takes the world and returns \<open>Ret v\<close>, \<open>Panic\<close> or \<open>Block\<close> (waiting on a channel that nothing closes),
    with the world it leaves: the clock, the random source, the database, the storage and the log of
    the statements sent.
  \<^item> \<open>security\<close>: \<open>Sql_Validation\<close> (\<open>sql_validation.go\<close>) and \<open>Connection_String\<close> (\<open>connection.go\<close>).
    \<open>Validation_Errors\<close> turns their errors into the plugin's.
  \<^item> \<open>odbc\<close>: \<open>Odbc_Strings\<close>, \<open>Odbc_Conn\<close> and, for the goroutine that pings, \<open>Keep_Alive\<close>, a step relation.
  \<^item> \<open>retry\<close>: \<open>Retry\<close>, with the contract of a retry loop in \<open>Retry_Contract\<close>.
  \<^item> \<open>models\<close>: \<open>Models\<close>. \<open>storage\<close>: \<open>Db_Registry\<close>, the pools and the registry's background jobs.
  \<^item> \<open>audit\<close>, \<open>webhook\<close>, \<open>logging\<close>, \<open>metrics\<close>, \<open>tracing\<close>: \<open>Audit_Webhook\<close>, \<open>Logging\<close>,
    \<open>Metrics_Collectors\<close>, \<open>Tracing\<close>.
  \<^item> \<open>plugin\<close>, the backend: the two caches (\<open>Cred_Cache\<close>, \<open>Query_Cache\<close>, with their interface in
    \<open>Cache_Interface\<close>), what every handler uses (\<open>Plugin_Base\<close>), the degradation (\<open>Degradation\<close>), names and
    passwords (\<open>Cred_Gen\<close>), how a statement reaches the database (\<open>Exec_Sql\<close>), and the handlers, one theory for each
    group of paths: \<open>Path_Roles\<close>, \<open>Path_Creds\<close>, \<open>Leases\<close> (with the statement templates), \<open>Revocation\<close> (with the renewals and
    the root rotation), \<open>Path_Config\<close>, \<open>Pools\<close>, \<open>Static_Roles\<close>, \<open>Config_Backup\<close>, \<open>Operational\<close>, \<open>Rate_Limit\<close>
    and \<open>Pool_Metrics\<close>.
  \<^item> The whole plugin: \<open>Routes\<close> is the table of paths with schemas and callbacks, \<open>Server\<close> is \<open>Setup\<close>, one request from
    the rate limiter to the callback, the background jobs, and the states that they reach. \<open>Main_Program\<close> is \<open>cmd/teradata\<close>.

  \<^bold>\<open>How the parts interact.\<close> A request passes the rate limiter, is routed by the table, checked against the schema and
  given to a callback. A callback reads roles and configurations from storage, asks the degradation and the registry
  whether its pool can be used, draws a name and a password, sends statements through \<open>executeSQL\<close>, which connects with retries
  and sends what \<open>parseSQLStatements\<close> makes of the text, writes the credential to storage and to the credential cache,
  and logs the event to the audit log and the webhook. Definitions keep the names of the Go functions;
  where a name is taken, a prefix names the package or the type (\<open>cred_Get\<close>, \<open>query_Set\<close>, \<open>odbc_ValidateUsername\<close>).

  \<^bold>\<open>What the lemmas show.\<close> Each theory proves what its operations do on every branch. Above them stand:

  \<^item> \<open>Visible\<close>, \<open>Handler_Rules\<close>: the rules by which a handler is walked through. \<open>out view s m Q Z\<close> says what a run
    may leave in storage, in the log of statements and in the backend, whatever the clock, the random source,
    the database and the storage do.
  \<^item> \<open>Issuing\<close>: what a request for credentials stores and sends, who may have it, the quota, the clean-up.
    \<open>Static_Rotation\<close>, \<open>Config_Write\<close>, \<open>Role_Write\<close> and \<open>Backup_Roundtrip\<close> do the same for static roles, configurations,
    roles and backups.
  \<^item> \<open>Cache_Coherence\<close>, \<open>Cache_Invariants\<close>: the credential cache agrees with storage after every handler.
    \<open>Backend_Invariant\<close>, \<open>Handler_Invariants\<close>, \<open>Running\<close>: after \<open>Setup\<close>, in every state that requests and jobs
    reach, storage holds only checked entries, the registry is well formed and the caches agree.
  \<^item> \<open>Interface_Gaps\<close>: fields, paths and results that the interface offers and the code does not honour.
  \<^item> \<open>Default_Config\<close>: the default configuration can never be written, and what follows. \<open>Startup\<close>: when \<open>Setup\<close>
    returns and when it waits for ever. \<open>Service\<close>: with a database and a
    storage that answer, what is granted is issued. \<open>Rate_Isolation\<close>: clients do not share a budget.

  The interfaces are locales: \<open>forgetful_cache\<close>, which both caches satisfy, its extension \<open>expiring_cache\<close> (in
  \<open>Query_Results\<close>, with the cached results of queries), and \<open>retry_runner\<close>, which
  the loops of \<open>retry\<close> and \<open>odbc\<close> satisfy.

  \<^bold>\<open>Numbers, loops and bounds.\<close> A Go \<open>int\<close> is an integer, wrapped to 64 bits where the code can
  overflow it (\<open>i64\<close>); durations and times are nanoseconds; \<open>float64\<close> is a rational number, without
  rounding. Every loop of the model is a total function, by recursion on the list it walks, on the attempts it has
  left or on a measure; no fuel is used. The one loop of the code that may not end, in \<open>replaceVariable\<close>, is a
  \<open>partial_function\<close> whose value is \<open>None\<close> when it does not, and a theorem says exactly when it ends. Requests and jobs are taken one
  after the other, but for the keep-alive goroutine, which is modelled with its interleavings, and for two overlapping requests
  for credentials, which \<open>Overlap\<close> takes in phases to show that the quota is not kept then.

  \<^bold>\<open>Parameters.\<close> Code that is not in the repository is an argument: the ODBC driver behind \<open>database/sql\<close>
  (\<open>driver\<close>), OpenBao's storage (\<open>storage\<close>), its router, schema check and field reading (\<open>framework\<close>), the HTTP client, the
  JSON encoding of a backup (\<open>codec\<close>), the limiter of \<open>golang.org/x/time/rate\<close> (\<open>limiter_lib\<close>), the Unicode tables (\<open>unicode\<close>), the order in
  which a run visits a map and the rendering of local time. Two hypotheses on them recur: \<open>lawful_storage\<close>, that
  storage answers what was written or an error, and \<open>first_match\<close>, that the router takes the first pattern that
  matches. \<open>reliable\<close> and \<open>ready\<close>, that storage and database do not fail, are used only to show that something
  succeeds. Witnesses instantiate them with a map and a driver that answers.

  \<^bold>\<open>Not modelled.\<close> The layout of log lines (\<open>log/slog\<close>), the text of the metrics and the values that the
  Prometheus client keeps, help texts of the paths, the spans of \<open>tracing\<close> (they do nothing, as \<open>Tracing\<close>
  shows), locks and the interleaving of requests, and the pool inside \<open>sql.DB\<close>, of which only the statistics it reports are seen.
  The log lines of the registry and the handlers are left out, because nothing reads them.
\<close>

end
